(* ===== verification/Rvp_Prelude.thy ===== *)
theory Rvp_Prelude
  imports Complex_Main
begin

text \<open>
  Shared vocabulary of the development: the Python values that the services exchange as JSON,
  exceptions as values of an error sum, the string operations of the standard library that the
  code calls, and the lemmas about them that the component theories share.

  Conventions.  A Python \<open>str\<close> is a \<open>string\<close> holding its UTF-8 bytes; the few non-ASCII signs in
  messages are the constants \<open>u_arrow\<close> etc.  JSON numbers are integers: no API or test definition
  of the repository exchanges a fractional number that a decision depends on.  Durations and
  clocks are integers in milliseconds.  A Python dict is an association list in insertion order,
  whose first entry for a key counts.
\<close>

section \<open>Collections used by the automation\<close>

named_theorems res_inv \<open>inversion rules of the error sum\<close>
named_theorems py_eval \<open>evaluation rules of Python helpers\<close>

section \<open>Exceptions\<close>

datatype exc_kind =
    KAttributeError | KTypeError | KKeyError | KIndexError | KValueError | KRuntimeError
  | KHTTPStatusError | KTimeoutExpired | KOtherError

text \<open>An exception is its class and its \<open>str(exc)\<close>.\<close>

datatype exc = Exc (exc_kind: exc_kind) (exc_str: string)

type_synonym 'a res = "exc + 'a"

text \<open>
  Errors that the interpreter itself raises; their message text (which CPython words per case)
  is represented by the class name.
\<close>

definition AttributeError :: exc where "AttributeError = Exc KAttributeError ''AttributeError''"
definition TypeError :: exc where "TypeError = Exc KTypeError ''TypeError''"
definition KeyError :: exc where "KeyError = Exc KKeyError ''KeyError''"
definition IndexError :: exc where "IndexError = Exc KIndexError ''IndexError''"
definition ValueError :: exc where "ValueError = Exc KValueError ''ValueError''"

definition res_bind :: "'a res \<Rightarrow> ('a \<Rightarrow> 'b res) \<Rightarrow> 'b res" where
  "res_bind r f = (case r of Inl e \<Rightarrow> Inl e | Inr x \<Rightarrow> f x)"

lemma res_bind_simps [simp]:
  "res_bind (Inl e) f = Inl e"
  "res_bind (Inr x) f = f x"
  by (simp_all add: res_bind_def)

lemma res_bind_Inr [res_inv]: "res_bind r f = Inr y \<longleftrightarrow> (\<exists>x. r = Inr x \<and> f x = Inr y)"
  by (cases r) auto

lemma res_bind_Inl [res_inv]:
  "res_bind r f = Inl e \<longleftrightarrow> r = Inl e \<or> (\<exists>x. r = Inr x \<and> f x = Inl e)"
  by (cases r) auto

section \<open>JSON values\<close>

datatype json =
    JNull
  | JBool bool
  | JInt int
  | JStr string
  | JArr "json list"
  | JObj "(string \<times> json) list"

type_synonym dict = "(string \<times> json) list"

text \<open>Python truth value testing.\<close>

fun truthy :: "json \<Rightarrow> bool" where
  "truthy JNull = False"
| "truthy (JBool b) = b"
| "truthy (JInt n) = (n \<noteq> 0)"
| "truthy (JStr s) = (s \<noteq> [])"
| "truthy (JArr xs) = (xs \<noteq> [])"
| "truthy (JObj kvs) = (kvs \<noteq> [])"

text \<open>\<open>a or b\<close>, \<open>d.get(k)\<close> and \<open>d.get(k, default)\<close>.\<close>

definition py_or :: "json \<Rightarrow> json \<Rightarrow> json" where
  "py_or a b = (if truthy a then a else b)"

definition get_or :: "dict \<Rightarrow> string \<Rightarrow> json \<Rightarrow> json" where
  "get_or d k v = (case map_of d k of None \<Rightarrow> v | Some x \<Rightarrow> x)"

definition get :: "dict \<Rightarrow> string \<Rightarrow> json" where
  "get d k = get_or d k JNull"

definition has_key :: "dict \<Rightarrow> string \<Rightarrow> bool" where
  "has_key d k = (map_of d k \<noteq> None)"

text \<open>\<open>d[k] = v\<close> keeps the position of an existing key and appends a new one.\<close>

fun set_key :: "dict \<Rightarrow> string \<Rightarrow> json \<Rightarrow> dict" where
  "set_key [] k v = [(k, v)]"
| "set_key ((k', v') # d) k v = (if k' = k then (k, v) # d else (k', v') # set_key d k v)"

definition setdefault :: "dict \<Rightarrow> string \<Rightarrow> json \<Rightarrow> dict" where
  "setdefault d k v = (if has_key d k then d else set_key d k v)"

lemma map_of_set_key [simp]: "map_of (set_key d k v) = (map_of d)(k \<mapsto> v)"
  by (induction d k v rule: set_key.induct) (auto simp: fun_eq_iff)

lemma get_set_key [py_eval]: "get (set_key d k v) k' = (if k' = k then v else get d k')"
  by (simp add: get_def get_or_def)

lemma has_key_set_key [py_eval]: "has_key (set_key d k v) k' = (k' = k \<or> has_key d k')"
  by (simp add: has_key_def)

lemma has_key_setdefault [py_eval]: "has_key (setdefault d k v) k' = (k' = k \<or> has_key d k')"
  by (auto simp: setdefault_def has_key_set_key)

lemma get_setdefault [py_eval]:
  "get (setdefault d k v) k' = (if k' = k \<and> \<not> has_key d k then v else get d k')"
  by (auto simp: setdefault_def get_set_key)

lemma truthy_py_or [simp]: "truthy (py_or a b) = (truthy a \<or> truthy b)"
  by (simp add: py_or_def)

text \<open>
  \<open>x.get(k, default)\<close> and \<open>k in x\<close> on a value that need not be a dict: Python raises
  \<open>AttributeError\<close> or \<open>TypeError\<close>.  \<open>k in x\<close> is defined on strings and lists too.
\<close>

fun jget_or :: "json \<Rightarrow> string \<Rightarrow> json \<Rightarrow> json res" where
  "jget_or (JObj d) k v = Inr (get_or d k v)"
| "jget_or _ k v = Inl AttributeError"

fun contains :: "string \<Rightarrow> string \<Rightarrow> bool" where
  "contains pat [] = (pat = [])"
| "contains pat (c # cs) = (take (length pat) (c # cs) = pat \<or> contains pat cs)"

fun jin :: "string \<Rightarrow> json \<Rightarrow> bool res" where
  "jin k (JObj d) = Inr (has_key d k)"
| "jin k (JArr xs) = Inr (JStr k \<in> set xs)"
| "jin k (JStr s) = Inr (contains k s)"
| "jin k _ = Inl TypeError"

text \<open>Uses of a value that need a \<open>str\<close>, a \<open>list\<close> or a \<open>dict\<close>, with the error raised otherwise.\<close>

definition as_str :: "exc \<Rightarrow> json \<Rightarrow> string res" where
  "as_str e j = (case j of JStr s \<Rightarrow> Inr s | _ \<Rightarrow> Inl e)"

definition as_arr :: "exc \<Rightarrow> json \<Rightarrow> json list res" where
  "as_arr e j = (case j of JArr xs \<Rightarrow> Inr xs | _ \<Rightarrow> Inl e)"

definition as_obj :: "exc \<Rightarrow> json \<Rightarrow> dict res" where
  "as_obj e j = (case j of JObj d \<Rightarrow> Inr d | _ \<Rightarrow> Inl e)"

lemma as_conv [res_inv]:
  "as_str e j = Inr s \<longleftrightarrow> j = JStr s"
  "as_arr e j = Inr xs \<longleftrightarrow> j = JArr xs"
  "as_obj e j = Inr d \<longleftrightarrow> j = JObj d"
  by (auto simp: as_str_def as_arr_def as_obj_def split: json.splits)

lemma as_simps [simp]:
  "as_str e (JStr s) = Inr s" "as_arr e (JArr xs) = Inr xs" "as_obj e (JObj d) = Inr d"
  by (simp_all add: as_str_def as_arr_def as_obj_def)

text \<open>Python \<open>==\<close> on JSON values: booleans are the integers 0 and 1, dicts ignore the key order.\<close>

fun py_eq :: "json \<Rightarrow> json \<Rightarrow> bool" where
  "py_eq JNull JNull = True"
| "py_eq (JBool a) (JBool b) = (a = b)"
| "py_eq (JBool a) (JInt n) = (of_bool a = n)"
| "py_eq (JInt n) (JBool a) = (n = of_bool a)"
| "py_eq (JInt a) (JInt b) = (a = b)"
| "py_eq (JStr a) (JStr b) = (a = b)"
| "py_eq (JArr []) (JArr []) = True"
| "py_eq (JArr (x # xs)) (JArr (y # ys)) = (py_eq x y \<and> py_eq (JArr xs) (JArr ys))"
| "py_eq (JObj []) (JObj ys) = (ys = [])"
| "py_eq (JObj ((k, x) # xs)) (JObj ys) =
     (case map_of ys k of None \<Rightarrow> False
      | Some y \<Rightarrow> py_eq x y \<and> py_eq (JObj xs) (JObj (filter (\<lambda>p. fst p \<noteq> k) ys)))"
| "py_eq _ _ = False"

end
