(* ===== verification/Rvp_Strings.thy ===== *)
theory Rvp_Strings
  imports Rvp_Prelude
begin

text \<open>
  The string operations of the Python standard library that the services call, on strings that
  hold the UTF-8 bytes of the Python \<open>str\<close>: prefixes, stripping, splitting, replacing, decimal and
  hexadecimal numerals, \<open>str()\<close> and \<open>repr()\<close> of JSON values, UTF-8 decoding with replacement.
\<close>

section \<open>Non-ASCII signs in messages (UTF-8)\<close>

definition u_arrow :: string where "u_arrow = [CHR 0xE2, CHR 0x86, CHR 0x92]"
definition u_times :: string where "u_times = [CHR 0xC3, CHR 0x97]"
definition u_ellipsis :: string where "u_ellipsis = [CHR 0xE2, CHR 0x80, CHR 0xA6]"
definition u_emdash :: string where "u_emdash = [CHR 0xE2, CHR 0x80, CHR 0x94]"
definition u_check :: string where "u_check = [CHR 0xE2, CHR 0x9C, CHR 0x93]"
definition u_cross :: string where "u_cross = [CHR 0xE2, CHR 0x9C, CHR 0x97]"
definition squote :: string where "squote = [CHR 0x27]"
definition nl :: string where "nl = [CHR 0x0A]"

section \<open>Characters\<close>

definition ord :: "char \<Rightarrow> nat" where "ord c = of_char c"

definition is_digit :: "char \<Rightarrow> bool" where
  "is_digit c = (48 \<le> ord c \<and> ord c \<le> 57)"

definition is_space :: "char \<Rightarrow> bool" where
  "is_space c = (ord c = 32 \<or> (9 \<le> ord c \<and> ord c \<le> 13) \<or> (28 \<le> ord c \<and> ord c \<le> 31))"

definition is_word :: "char \<Rightarrow> bool" where
  "is_word c = (is_digit c \<or> (65 \<le> ord c \<and> ord c \<le> 90) \<or> (97 \<le> ord c \<and> ord c \<le> 122) \<or> ord c = 95)"

definition lower_char :: "char \<Rightarrow> char" where
  "lower_char c = (if 65 \<le> ord c \<and> ord c \<le> 90 then char_of (ord c + 32) else c)"

definition upper_char :: "char \<Rightarrow> char" where
  "upper_char c = (if 97 \<le> ord c \<and> ord c \<le> 122 then char_of (ord c - 32) else c)"

definition lower :: "string \<Rightarrow> string" where "lower = map lower_char"
definition upper :: "string \<Rightarrow> string" where "upper = map upper_char"

section \<open>Prefixes, stripping, splitting\<close>

definition startswith :: "string \<Rightarrow> string \<Rightarrow> bool" where
  "startswith s p = (take (length p) s = p)"

definition removeprefix :: "string \<Rightarrow> string \<Rightarrow> string" where
  "removeprefix s p = (if startswith s p then drop (length p) s else s)"

definition lstrip_v :: "string \<Rightarrow> string" where
  \<comment> \<open>\<open>s.lstrip("v")\<close>\<close>
  "lstrip_v s = dropWhile (\<lambda>c. c = CHR ''v'') s"

definition rstrip_slash :: "string \<Rightarrow> string" where
  \<comment> \<open>\<open>s.rstrip("/")\<close>\<close>
  "rstrip_slash s = rev (dropWhile (\<lambda>c. c = CHR ''/'') (rev s))"

definition strip :: "string \<Rightarrow> string" where
  "strip s = rev (dropWhile is_space (rev (dropWhile is_space s)))"

fun split_on :: "char \<Rightarrow> string \<Rightarrow> string list" where
  \<comment> \<open>\<open>s.split(sep)\<close> for a one-character separator\<close>
  "split_on sep [] = [[]]"
| "split_on sep (c # cs) =
     (if c = sep then [] # split_on sep cs
      else (case split_on sep cs of [] \<Rightarrow> [[c]] | w # ws \<Rightarrow> (c # w) # ws))"

definition split_ws :: "string \<Rightarrow> string list" where
  \<comment> \<open>\<open>s.split()\<close>\<close>
  "split_ws s = filter (\<lambda>w. w \<noteq> []) (split_on CHR '' '' (map (\<lambda>c. if is_space c then CHR '' '' else c) s))"

fun join :: "string \<Rightarrow> string list \<Rightarrow> string" where
  "join sep [] = []"
| "join sep [w] = w"
| "join sep (w # ws) = w @ sep @ join sep ws"

function replace_all :: "string \<Rightarrow> string \<Rightarrow> string \<Rightarrow> string" where
  \<comment> \<open>\<open>s.replace(old, new)\<close>, \<open>old\<close> not empty\<close>
  "replace_all old new s =
     (if s = [] \<or> old = [] then s
      else if startswith s old then new @ replace_all old new (drop (length old) s)
      else hd s # replace_all old new (tl s))"
  by pat_completeness auto
termination by (relation "measure (\<lambda>(old, new, s). length s)") (auto simp: startswith_def)

declare replace_all.simps [simp del]

section \<open>Numerals\<close>

definition digit_char :: "nat \<Rightarrow> char" where
  "digit_char d = (if d < 10 then char_of (48 + d) else char_of (87 + d))"

fun nat_str :: "nat \<Rightarrow> string" where
  "nat_str n = (if n < 10 then [digit_char n] else nat_str (n div 10) @ [digit_char (n mod 10)])"

declare nat_str.simps [simp del]

definition int_str :: "int \<Rightarrow> string" where
  "int_str n = (if n < 0 then CHR ''-'' # nat_str (nat (- n)) else nat_str (nat n))"

fun hex_digits :: "nat \<Rightarrow> string" where
  \<comment> \<open>\<open>hex(n)[2:]\<close> for a natural \<open>n\<close>\<close>
  "hex_digits n = (if n < 16 then [digit_char n] else hex_digits (n div 16) @ [digit_char (n mod 16)])"

declare hex_digits.simps [simp del]

definition py_hex :: "int \<Rightarrow> string" where
  "py_hex n = (if n < 0 then ''-0x'' @ hex_digits (nat (- n)) else ''0x'' @ hex_digits (nat n))"

definition zfill :: "nat \<Rightarrow> string \<Rightarrow> string" where
  \<comment> \<open>\<open>s.zfill(n)\<close> for a string without a sign\<close>
  "zfill n s = replicate (n - length s) CHR ''0'' @ s"

definition ljust0 :: "nat \<Rightarrow> string \<Rightarrow> string" where
  \<comment> \<open>\<open>s.ljust(n, "0")\<close>\<close>
  "ljust0 n s = s @ replicate (n - length s) CHR ''0''"

fun digits_val :: "nat \<Rightarrow> bool \<Rightarrow> string \<Rightarrow> nat option" where
  "digits_val acc prev [] = (if prev then Some acc else None)"
| "digits_val acc prev (c # cs) =
     (if is_digit c then digits_val (10 * acc + (ord c - 48)) True cs
      else if c = CHR ''_'' \<and> prev then digits_val acc False cs
      else None)"

text \<open>\<open>int(s)\<close> of a string: surrounding white space, a sign, digits with single underscores.\<close>

definition str_int :: "string \<Rightarrow> int option" where
  "str_int s =
     (case strip s of
        [] \<Rightarrow> None
      | c # cs \<Rightarrow>
          if c = CHR ''-'' then map_option (\<lambda>n. - int n) (digits_val 0 False cs)
          else if c = CHR ''+'' then map_option int (digits_val 0 False cs)
          else map_option int (digits_val 0 False (c # cs)))"

definition hex_val :: "char \<Rightarrow> nat option" where
  "hex_val c =
     (if is_digit c then Some (ord c - 48)
      else if 97 \<le> ord c \<and> ord c \<le> 102 then Some (ord c - 87)
      else if 65 \<le> ord c \<and> ord c \<le> 70 then Some (ord c - 55)
      else None)"

fun hex_nat :: "nat \<Rightarrow> string \<Rightarrow> nat option" where
  "hex_nat acc [] = Some acc"
| "hex_nat acc (c # cs) = (case hex_val c of None \<Rightarrow> None | Some d \<Rightarrow> hex_nat (16 * acc + d) cs)"

text \<open>\<open>int(s, 16)\<close> for an unsigned numeral with an optional \<open>0x\<close>.\<close>

definition str_int16 :: "string \<Rightarrow> int option" where
  "str_int16 s =
     (let d = removeprefix (lower (strip s)) ''0x''
      in if d = [] then None else map_option int (hex_nat 0 d))"

text \<open>\<open>bytes.fromhex\<close> skips white space between bytes.\<close>

fun fromhex :: "string \<Rightarrow> string option" where
  "fromhex [] = Some []"
| "fromhex [c] = (if is_space c then Some [] else None)"
| "fromhex (c # d # cs) =
     (if is_space c then fromhex (d # cs)
      else (case (hex_val c, hex_val d) of
              (Some a, Some b) \<Rightarrow> map_option (\<lambda>r. char_of (16 * a + b) # r) (fromhex cs)
            | _ \<Rightarrow> None))"

definition to_hex :: "string \<Rightarrow> string" where
  \<comment> \<open>\<open>s.encode("utf-8").hex()\<close>\<close>
  "to_hex s = concat (map (\<lambda>c. [digit_char (ord c div 16), digit_char (ord c mod 16)]) s)"

section \<open>\<open>str()\<close>, \<open>repr()\<close>, \<open>int()\<close> and \<open>float()\<close> of JSON values\<close>

definition repr_char :: "char \<Rightarrow> char \<Rightarrow> string" where
  "repr_char q c =
     (if c = q \<or> c = CHR 0x5C then [CHR 0x5C, c]
      else if ord c = 9 then [CHR 0x5C, CHR ''t'']
      else if ord c = 10 then [CHR 0x5C, CHR ''n'']
      else if ord c = 13 then [CHR 0x5C, CHR ''r'']
      else if ord c < 32 \<or> ord c = 127 then [CHR 0x5C, CHR ''x''] @ zfill 2 (hex_digits (ord c))
      else [c])"

definition str_repr :: "string \<Rightarrow> string" where
  "str_repr s =
     (let q = (if CHR 0x27 \<in> set s \<and> CHR 0x22 \<notin> set s then CHR 0x22 else CHR 0x27)
      in [q] @ concat (map (repr_char q) s) @ [q])"

fun py_repr :: "json \<Rightarrow> string" where
  "py_repr JNull = ''None''"
| "py_repr (JBool b) = (if b then ''True'' else ''False'')"
| "py_repr (JInt n) = int_str n"
| "py_repr (JStr s) = str_repr s"
| "py_repr (JArr xs) = ''['' @ join '', '' (map py_repr xs) @ '']''"
| "py_repr (JObj d) = ''{'' @ join '', '' (map (\<lambda>(k, v). str_repr k @ '': '' @ py_repr v) d) @ ''}''"

definition py_str :: "json \<Rightarrow> string" where
  "py_str j = (case j of JStr s \<Rightarrow> s | _ \<Rightarrow> py_repr j)"

definition py_int :: "json \<Rightarrow> int res" where
  "py_int j =
     (case j of
        JInt n \<Rightarrow> Inr n
      | JBool b \<Rightarrow> Inr (of_bool b)
      | JStr s \<Rightarrow> (case str_int s of None \<Rightarrow> Inl ValueError | Some n \<Rightarrow> Inr n)
      | _ \<Rightarrow> Inl TypeError)"

text \<open>
  \<open>float(x)\<close> on the integral numbers of the model (a fractional numeral in a string is outside
  the model), and the way Python prints such a float.
\<close>

definition py_float :: "json \<Rightarrow> int res" where
  "py_float = py_int"

definition float_str :: "int \<Rightarrow> string" where
  "float_str n = int_str n @ ''.0''"

lemma py_str_JStr [simp]: "py_str (JStr s) = s"
  by (simp add: py_str_def)

lemma py_int_JInt [simp]: "py_int (JInt n) = Inr n"
  by (simp add: py_int_def)

lemma py_float_JInt [simp]: "py_float (JInt n) = Inr n"
  by (simp add: py_float_def)

section \<open>UTF-8 decoding with replacement\<close>

text \<open>
  \<open>b.decode("utf-8", errors="replace")\<close>, again as UTF-8: a maximal invalid prefix of a sequence
  becomes one U+FFFD.
\<close>

definition u_fffd :: string where "u_fffd = [CHR 0xEF, CHR 0xBF, CHR 0xBD]"

definition is_cont :: "nat \<Rightarrow> nat \<Rightarrow> char list \<Rightarrow> bool" where
  "is_cont lo hi cs = (case cs of [] \<Rightarrow> False | c # _ \<Rightarrow> lo \<le> ord c \<and> ord c \<le> hi)"

text \<open>How many bytes the sequence at the head takes, and whether it is a valid character.\<close>

definition utf8_head :: "char \<Rightarrow> char list \<Rightarrow> nat \<times> bool" where
  "utf8_head b cs =
     (let n = ord b in
      if n < 128 then (1, True)
      else if 194 \<le> n \<and> n \<le> 223 then (if is_cont 128 191 cs then (2, True) else (1, False))
      else if 224 \<le> n \<and> n \<le> 239 then
        (if \<not> is_cont (if n = 224 then 160 else 128) (if n = 237 then 159 else 191) cs then (1, False)
         else if \<not> is_cont 128 191 (drop 1 cs) then (2, False) else (3, True))
      else if 240 \<le> n \<and> n \<le> 244 then
        (if \<not> is_cont (if n = 240 then 144 else 128) (if n = 244 then 143 else 191) cs then (1, False)
         else if \<not> is_cont 128 191 (drop 1 cs) then (2, False)
         else if \<not> is_cont 128 191 (drop 2 cs) then (3, False) else (4, True))
      else (1, False))"

lemma utf8_head_pos: "0 < fst (utf8_head b cs)"
  by (simp add: utf8_head_def Let_def)

function decode_replace :: "string \<Rightarrow> string" where
  "decode_replace [] = []"
| "decode_replace (b # cs) =
     (let (n, ok) = utf8_head b cs
      in (if ok then take n (b # cs) else u_fffd) @ decode_replace (drop (n - 1) cs))"
  by pat_completeness auto
termination
  by (relation "measure length") (auto simp: less_Suc_eq_le)

section \<open>The characters of a string\<close>

text \<open>A Python \<open>str\<close> counts characters, our strings hold their UTF-8 bytes.\<close>

function chars_of :: "string \<Rightarrow> string list" where
  "chars_of [] = []"
| "chars_of (b # cs) =
     (let n = fst (utf8_head b cs) in take n (b # cs) # chars_of (drop (n - 1) cs))"
  by pat_completeness auto
termination
  by (relation "measure length") (auto simp: less_Suc_eq_le)

definition str_len :: "string \<Rightarrow> nat" where "str_len s = length (chars_of s)"

definition str_take :: "nat \<Rightarrow> string \<Rightarrow> string" where
  \<comment> \<open>\<open>s[:n]\<close>\<close>
  "str_take n s = concat (take n (chars_of s))"

definition str_drop :: "nat \<Rightarrow> string \<Rightarrow> string" where
  \<comment> \<open>\<open>s[n:]\<close>\<close>
  "str_drop n s = concat (drop n (chars_of s))"

definition str_last :: "nat \<Rightarrow> string \<Rightarrow> string" where
  \<comment> \<open>\<open>s[-n:]\<close> for a positive \<open>n\<close>\<close>
  "str_last n s = str_drop (str_len s - n) s"

lemma concat_chars_of [simp]: "concat (chars_of s) = s"
  by (induction s rule: chars_of.induct)
     (auto simp: Let_def utf8_head_pos take_Cons' drop_Cons')

lemma str_take_prefix: "\<exists>r. s = str_take n s @ r"
  by (metis append_take_drop_id concat_append concat_chars_of str_take_def)

lemma is_cont_Nil [simp]: "is_cont lo hi [] = False" by (simp add: is_cont_def)

lemma utf8_head_le: "fst (utf8_head b cs) \<le> Suc (length cs)"
  by (cases cs; cases "tl cs"; cases "tl (tl cs)") (simp_all add: utf8_head_def Let_def)

text \<open>The length of the head: one byte and the continuation bytes that pass their tests.\<close>

fun cont_len :: "(nat \<times> nat) list \<Rightarrow> string \<Rightarrow> nat" where
  "cont_len [] cs = 0"
| "cont_len ((lo, hi) # bs) cs = (if is_cont lo hi cs then Suc (cont_len bs (tl cs)) else 0)"

definition head_bounds :: "char \<Rightarrow> (nat \<times> nat) list" where
  "head_bounds b =
     (let n = ord b in
      if n < 128 then []
      else if 194 \<le> n \<and> n \<le> 223 then [(128, 191)]
      else if 224 \<le> n \<and> n \<le> 239 then [(if n = 224 then 160 else 128, if n = 237 then 159 else 191), (128, 191)]
      else if 240 \<le> n \<and> n \<le> 244 then [(if n = 240 then 144 else 128, if n = 244 then 143 else 191), (128, 191), (128, 191)]
      else [])"

lemma utf8_head_len: "fst (utf8_head b cs) = Suc (cont_len (head_bounds b) cs)"
  by (simp add: utf8_head_def head_bounds_def Let_def drop_Suc numeral_2_eq_2)

lemma cont_len_prefix: "cont_len bs (p @ q) \<le> length p \<Longrightarrow> cont_len bs p = cont_len bs (p @ q)"
proof (induction bs p rule: cont_len.induct)
  case (2 lo hi bs cs)
  then show ?case by (cases cs) (auto simp: is_cont_def split: if_splits)
qed simp

lemma utf8_head_prefix:
  "fst (utf8_head b (p @ q)) - 1 \<le> length p \<Longrightarrow> fst (utf8_head b p) = fst (utf8_head b (p @ q))"
  by (simp add: utf8_head_len cont_len_prefix)

lemma chars_of_str_take: "chars_of (str_take n s) = take n (chars_of s)"
proof (induction s arbitrary: n rule: chars_of.induct)
  case 1
  then show ?case by (simp add: str_take_def)
next
  case (2 b cs)
  define k where "k = fst (utf8_head b cs)"
  have k: "0 < k" by (simp add: k_def utf8_head_pos)
  show ?case
  proof (cases n)
    case 0
    then show ?thesis by (simp add: str_take_def)
  next
    case (Suc m)
    let ?t = "str_take m (drop (k - 1) cs)"
    let ?p = "take (k - 1) cs @ ?t"
    have st: "str_take n (b # cs) = b # ?p"
      using k by (simp add: Suc str_take_def Let_def k_def[symmetric] take_Cons')
    obtain q where q: "drop (k - 1) cs = ?t @ q" using str_take_prefix by blast
    have cs: "cs = ?p @ q" by (metis q append_assoc append_take_drop_id)
    show ?thesis
    proof (cases "k - 1 \<le> length cs")
      case True
      then have "fst (utf8_head b ?p) = k"
        using utf8_head_prefix [of b ?p q] cs k_def by simp
      then show ?thesis using True k "2.IH" [of k m]
        by (subst st) (simp add: Suc Let_def k_def[symmetric] take_Cons')
    next
      case False
      then show ?thesis using utf8_head_le [of b cs] k_def by simp
    qed
  qed
qed
lemma str_len_str_take [simp]: "str_len (str_take n s) \<le> n"
  by (simp add: str_len_def chars_of_str_take)

lemma str_take_all: "str_len s \<le> n \<Longrightarrow> str_take n s = s"
  by (simp add: str_take_def str_len_def)

lemma str_len_le: "str_len s \<le> length s"
proof (induction s rule: chars_of.induct)
  case (2 b cs)
  have "length (chars_of (drop (fst (utf8_head b cs) - 1) cs)) \<le> length (drop (fst (utf8_head b cs) - 1) cs)"
    using "2.IH" [OF refl] by (simp only: str_len_def)
  also have "\<dots> \<le> length cs" by simp
  finally show ?case by (simp add: str_len_def Let_def)
qed (simp add: str_len_def)

lemma chars_of_ascii: "(\<And>c. c \<in> set s \<Longrightarrow> ord c < 128) \<Longrightarrow> chars_of s = map (\<lambda>c. [c]) s"
  by (induction s) (simp_all add: utf8_head_def Let_def)

lemma str_take_ascii: "(\<And>c. c \<in> set s \<Longrightarrow> ord c < 128) \<Longrightarrow> str_take n s = take n s"
  by (simp add: str_take_def chars_of_ascii take_map concat_map_singleton)
section \<open>Facts about the string operations\<close>

lemma startswith_append [simp]: "startswith (p @ s) p"
  by (simp add: startswith_def)

lemma startswith_iff: "startswith s p \<longleftrightarrow> (\<exists>r. s = p @ r)"
  unfolding startswith_def by (metis append_eq_conv_conj append_take_drop_id)

lemma removeprefix_append [simp]: "removeprefix (p @ s) p = s"
  by (simp add: removeprefix_def)

lemma lstrip_v_no_v: "lstrip_v s = [] \<or> hd (lstrip_v s) \<noteq> CHR ''v''"
  by (induction s) (auto simp: lstrip_v_def)

lemma lstrip_v_idem [simp]: "lstrip_v (lstrip_v s) = lstrip_v s"
  by (simp add: lstrip_v_def dropWhile_idem)

lemma lstrip_v_Cons_v [simp]: "lstrip_v (CHR ''v'' # s) = lstrip_v s"
  by (simp add: lstrip_v_def)

lemma split_on_not_Nil [simp]: "split_on sep s \<noteq> []"
  by (induction s) (auto split: list.splits)

lemma length_zfill: "length s \<le> n \<Longrightarrow> length (zfill n s) = n"
  by (simp add: zfill_def)

lemma length_ljust0: "length s \<le> n \<Longrightarrow> length (ljust0 n s) = n"
  by (simp add: ljust0_def)

lemma contains_iff: "contains pat s \<longleftrightarrow> (\<exists>pre post. s = pre @ pat @ post)"
proof (induction s)
  case Nil
  then show ?case by simp
next
  case (Cons c cs)
  show ?case
  proof
    assume "contains pat (c # cs)"
    then consider "take (length pat) (c # cs) = pat" | "contains pat cs" by auto
    then show "\<exists>pre post. c # cs = pre @ pat @ post"
    proof cases
      case 1
      then have "c # cs = [] @ pat @ drop (length pat) (c # cs)"
        by (metis append_Nil append_take_drop_id)
      then show ?thesis by blast
    next
      case 2
      then obtain pre post where "cs = pre @ pat @ post" using Cons.IH by blast
      then have "c # cs = (c # pre) @ pat @ post" by simp
      then show ?thesis by blast
    qed
  next
    assume "\<exists>pre post. c # cs = pre @ pat @ post"
    then obtain pre post where eq: "c # cs = pre @ pat @ post" by blast
    show "contains pat (c # cs)"
    proof (cases pre)
      case Nil
      with eq have "take (length pat) (c # cs) = pat" by (metis append_Nil append_eq_conv_conj)
      then show ?thesis by (simp only: contains.simps simp_thms)
    next
      case (Cons x xs)
      with eq have "contains pat cs" using Cons.IH by auto
      then show ?thesis by simp
    qed
  qed
qed

end
