(* ===== verification/Rvp_Regex.thy ===== *)
theory Rvp_Regex
  imports Rvp_Strings
begin

text \<open>
  The part of Python's \<open>re\<close> module that the services use: literal and class characters, sequences,
  ordered alternatives, greedy and lazy repetition, one capturing group, the anchors, and the flag
  \<open>IGNORECASE\<close>.  The matcher returns all matches of a pattern at a position in the order in which a
  backtracking matcher tries them, so the head of the list is the match that \<open>re\<close> returns.
\<close>

datatype rx =
    Eps
  | Cls "char \<Rightarrow> bool"
  | Seq rx rx
  | Alt rx rx
  | Star rx          \<comment> \<open>greedy \<open>*\<close>\<close>
  | LazyStar rx      \<comment> \<open>\<open>*?\<close>\<close>
  | Grp rx           \<comment> \<open>the capturing group 1\<close>
  | Bol              \<comment> \<open>\<open>^\<close> with \<open>MULTILINE\<close>\<close>
  | Eos              \<comment> \<open>\<open>$\<close> without \<open>MULTILINE\<close>\<close>
  | Wordb            \<comment> \<open>\<open>\b\<close>, among ASCII characters\<close>

text \<open>A matcher state: the character before the position, the rest of the text, group 1.\<close>

type_synonym rst = "char option \<times> string \<times> string option"

definition st_rest :: "rst \<Rightarrow> string" where "st_rest st = fst (snd st)"
definition st_cap :: "rst \<Rightarrow> string option" where "st_cap st = snd (snd st)"

function matches :: "rx \<Rightarrow> rst \<Rightarrow> rst list" where
  "matches Eps st = [st]"
| "matches (Cls p) (prev, s, cap) =
     (case s of [] \<Rightarrow> [] | c # cs \<Rightarrow> if p c then [(Some c, cs, cap)] else [])"
| "matches (Seq a b) st = concat (map (matches b) (matches a st))"
| "matches (Alt a b) st = matches a st @ matches b st"
| "matches (Star r) st =
     concat (map (\<lambda>st'. if length (st_rest st') < length (st_rest st) then matches (Star r) st' else [])
                 (matches r st)) @ [st]"
| "matches (LazyStar r) st =
     st # concat (map (\<lambda>st'. if length (st_rest st') < length (st_rest st)
                              then matches (LazyStar r) st' else [])
                      (matches r st))"
| "matches (Grp r) st =
     map (\<lambda>(prev, s, cap). (prev, s, Some (take (length (st_rest st) - length s) (st_rest st))))
         (matches r st)"
| "matches Bol (prev, s, cap) =
     (if prev = None \<or> prev = Some (CHR 0x0A) then [(prev, s, cap)] else [])"
| "matches Eos (prev, s, cap) = (if s = [] \<or> s = nl then [(prev, s, cap)] else [])"
| "matches Wordb (prev, s, cap) =
     (if (case prev of None \<Rightarrow> False | Some c \<Rightarrow> is_word c) \<noteq> (case s of [] \<Rightarrow> False | c # _ \<Rightarrow> is_word c)
      then [(prev, s, cap)] else [])"
  by pat_completeness auto
termination
  by (relation "measures [size \<circ> fst, \<lambda>(r, st). length (st_rest st)]") auto

text \<open>The equations of the repetitions rewrite their own right sides; use them one step at a time.\<close>

declare matches.simps(5) [simp del]
declare matches.simps(6) [simp del]

lemma matches_StarE:
  assumes "st' \<in> set (matches (Star r) st)" and "st' \<noteq> st"
  obtains m where "m \<in> set (matches r st)" "length (st_rest m) < length (st_rest st)"
    "st' \<in> set (matches (Star r) m)"
  using assms by (subst (asm) matches.simps(5)) (auto split: if_splits)

lemma matches_LazyStarE:
  assumes "st' \<in> set (matches (LazyStar r) st)" and "st' \<noteq> st"
  obtains m where "m \<in> set (matches r st)" "length (st_rest m) < length (st_rest st)"
    "st' \<in> set (matches (LazyStar r) m)"
  using assms by (subst (asm) matches.simps(6)) (auto split: if_splits)

text \<open>\<open>pattern.match(text)\<close> and \<open>pattern.search(text)\<close>.\<close>

definition re_match :: "rx \<Rightarrow> string \<Rightarrow> rst option" where
  "re_match r s = (case matches r (None, s, None) of [] \<Rightarrow> None | st # _ \<Rightarrow> Some st)"

fun search_from :: "rx \<Rightarrow> char option \<Rightarrow> string \<Rightarrow> rst option" where
  "search_from r prev [] = (case matches r (prev, [], None) of [] \<Rightarrow> None | st # _ \<Rightarrow> Some st)"
| "search_from r prev (c # cs) =
     (case matches r (prev, c # cs, None) of
        [] \<Rightarrow> search_from r (Some c) cs
      | st # _ \<Rightarrow> Some st)"

definition re_search :: "rx \<Rightarrow> string \<Rightarrow> rst option" where
  "re_search r s = search_from r None s"

text \<open>\<open>m.group(1) if m else None\<close>.\<close>

definition group1 :: "rst option \<Rightarrow> string option" where
  "group1 m = (case m of None \<Rightarrow> None | Some st \<Rightarrow> st_cap st)"

section \<open>Pattern pieces\<close>

definition Chr :: "char \<Rightarrow> rx" where "Chr c = Cls (\<lambda>x. x = c)"
definition Plus :: "rx \<Rightarrow> rx" where "Plus r = Seq r (Star r)"
definition Opt :: "rx \<Rightarrow> rx" where "Opt r = Alt r Eps"
definition Digit :: rx where "Digit = Cls is_digit"
definition Word :: rx where "Word = Cls is_word"
definition Space :: rx where "Space = Cls is_space"
definition NonSpace :: rx where "NonSpace = Cls (\<lambda>c. \<not> is_space c)"
definition AnyDotAll :: rx where "AnyDotAll = Cls (\<lambda>c. True)"
definition OneOf :: "string \<Rightarrow> rx" where "OneOf s = Cls (\<lambda>c. c \<in> set s)"
definition NoneOf :: "string \<Rightarrow> rx" where "NoneOf s = Cls (\<lambda>c. c \<notin> set s)"

fun Lit :: "string \<Rightarrow> rx" where
  "Lit [] = Eps"
| "Lit (c # cs) = Seq (Chr c) (Lit cs)"

text \<open>A literal under \<open>re.IGNORECASE\<close>.\<close>

fun ILit :: "string \<Rightarrow> rx" where
  "ILit [] = Eps"
| "ILit (c # cs) = Seq (Cls (\<lambda>x. lower_char x = lower_char c)) (ILit cs)"

lemmas rx_defs = Chr_def Plus_def Opt_def Digit_def Word_def Space_def NonSpace_def
  AnyDotAll_def OneOf_def NoneOf_def

section \<open>The language of a pattern without groups and anchors\<close>

text \<open>
  A declarative reading of such a pattern as a set of strings, against which the matcher is
  sound: whatever it consumes is a word of the language.
\<close>

inductive in_lang :: "rx \<Rightarrow> string \<Rightarrow> bool" where
  eps: "in_lang Eps []"
| cls: "p c \<Longrightarrow> in_lang (Cls p) [c]"
| seq: "in_lang a u \<Longrightarrow> in_lang b v \<Longrightarrow> in_lang (Seq a b) (u @ v)"
| altL: "in_lang a u \<Longrightarrow> in_lang (Alt a b) u"
| altR: "in_lang b u \<Longrightarrow> in_lang (Alt a b) u"
| star0: "in_lang (Star r) []"
| star1: "in_lang r u \<Longrightarrow> in_lang (Star r) v \<Longrightarrow> in_lang (Star r) (u @ v)"
| lazy0: "in_lang (LazyStar r) []"
| lazy1: "in_lang r u \<Longrightarrow> in_lang (LazyStar r) v \<Longrightarrow> in_lang (LazyStar r) (u @ v)"
| grp: "in_lang r u \<Longrightarrow> in_lang (Grp r) u"
| bol: "in_lang Bol []"
| eos: "in_lang Eos []"
| wordb: "in_lang Wordb []"

inductive_cases in_lang_SeqE: "in_lang (Seq a b) u"
inductive_cases in_lang_ClsE: "in_lang (Cls p) u"
inductive_cases in_lang_AltE: "in_lang (Alt a b) u"
inductive_cases in_lang_EpsE: "in_lang Eps u"

lemma matches_sound:
  "st' \<in> set (matches r st) \<Longrightarrow> \<exists>u. st_rest st = u @ st_rest st' \<and> in_lang r u"
proof (induction r st arbitrary: st' rule: matches.induct)
  case (1 st)
  then show ?case by (auto intro: in_lang.eps)
next
  case (2 p prev s cap)
  then show ?case by (auto simp: st_rest_def intro: in_lang.cls split: list.splits if_splits)
next
  case (3 a b st)
  from "3.prems" obtain m where m: "m \<in> set (matches a st)" "st' \<in> set (matches b m)" by auto
  from "3.IH"(1) [OF m(1)] obtain u where "st_rest st = u @ st_rest m" "in_lang a u" by blast
  moreover from "3.IH"(2) [OF m] obtain v where "st_rest m = v @ st_rest st'" "in_lang b v" by blast
  ultimately show ?case by (intro exI [of _ "u @ v"]) (auto intro: in_lang.seq)
next
  case (4 a b st)
  from "4.prems" consider "st' \<in> set (matches a st)" | "st' \<in> set (matches b st)" by auto
  then show ?case
  proof cases
    case 1
    from "4.IH"(1) [OF this] show ?thesis by (blast intro: in_lang.altL)
  next
    case 2
    from "4.IH"(2) [OF this] show ?thesis by (blast intro: in_lang.altR)
  qed
next
  case (5 r st)
  show ?case
  proof (cases "st' = st")
    case True
    then show ?thesis by (auto intro: in_lang.star0)
  next
    case False
    from "5.prems" False obtain m where m: "m \<in> set (matches r st)"
      "length (st_rest m) < length (st_rest st)" "st' \<in> set (matches (Star r) m)"
      by (rule matches_StarE)
    from "5.IH"(1) [OF m(1)] obtain u where "st_rest st = u @ st_rest m" "in_lang r u" by blast
    moreover from "5.IH"(2) [OF m(1,2,3)] obtain v
      where "st_rest m = v @ st_rest st'" "in_lang (Star r) v" by blast
    ultimately show ?thesis by (intro exI [of _ "u @ v"]) (simp add: in_lang.star1)
  qed
next
  case (6 r st)
  show ?case
  proof (cases "st' = st")
    case True
    then show ?thesis by (auto intro: in_lang.lazy0)
  next
    case False
    from "6.prems" False obtain m where m: "m \<in> set (matches r st)"
      "length (st_rest m) < length (st_rest st)" "st' \<in> set (matches (LazyStar r) m)"
      by (rule matches_LazyStarE)
    from "6.IH"(1) [OF m(1)] obtain u where "st_rest st = u @ st_rest m" "in_lang r u" by blast
    moreover from "6.IH"(2) [OF m(1,2,3)] obtain v
      where "st_rest m = v @ st_rest st'" "in_lang (LazyStar r) v" by blast
    ultimately show ?thesis by (intro exI [of _ "u @ v"]) (simp add: in_lang.lazy1)
  qed
next
  case (7 r st)
  then obtain m where m: "m \<in> set (matches r st)" "st_rest st' = st_rest m"
    by (auto simp: st_rest_def)
  from "7.IH" [OF m(1)] show ?case using m(2) by (auto intro: in_lang.grp)
next
  case (8 prev s cap)
  then show ?case by (auto intro: in_lang.bol split: if_splits)
next
  case (9 prev s cap)
  then show ?case by (auto intro: in_lang.eos split: if_splits)
next
  case (10 prev s cap)
  then show ?case by (auto intro: in_lang.wordb split: if_splits)
qed

section \<open>What a search returns\<close>

lemma search_from_matches:
  "search_from r prev s = Some st \<Longrightarrow>
     \<exists>pre suf prev'. s = pre @ suf \<and> st \<in> set (matches r (prev', suf, None))"
proof (induction r prev s rule: search_from.induct)
  case (1 r prev)
  then have "st \<in> set (matches r (prev, [], None))" by (simp split: list.splits)
  then show ?case by blast
next
  case (2 r prev c cs)
  show ?case
  proof (cases "matches r (prev, c # cs, None)")
    case Nil
    with "2.IH" "2.prems" obtain pre suf prev'
      where "cs = pre @ suf" "st \<in> set (matches r (prev', suf, None))" by auto
    then show ?thesis by (metis append_Cons)
  next
    case (Cons m ms)
    with "2.prems" have "st \<in> set (matches r (prev, c # cs, None))" by auto
    then show ?thesis by (metis append_Nil)
  qed
qed

text \<open>Where a pattern ends in its group, the group is a word of the group's language.\<close>

lemma matches_Grp_cap:
  assumes "st' \<in> set (matches (Grp r) st)"
  shows "\<exists>u. st_cap st' = Some u \<and> in_lang r u \<and> st_rest st = u @ st_rest st'"
proof -
  from assms obtain m where m: "m \<in> set (matches r st)" "st_rest st' = st_rest m"
    "st_cap st' = Some (take (length (st_rest st) - length (st_rest m)) (st_rest st))"
    by (auto simp: st_rest_def st_cap_def)
  from matches_sound [OF m(1)] obtain u where "st_rest st = u @ st_rest m" "in_lang r u" by blast
  with m show ?thesis by auto
qed

lemma search_group_lang:
  assumes "group1 (re_search (Seq a (Grp r)) s) = Some v"
  shows "in_lang r v \<and> contains v s"
proof -
  from assms obtain st where st: "search_from (Seq a (Grp r)) None s = Some st" "st_cap st = Some v"
    by (auto simp: group1_def re_search_def split: option.splits)
  from search_from_matches [OF st(1)] obtain pre suf prev where
    s: "s = pre @ suf" and st_in: "st \<in> set (matches (Seq a (Grp r)) (prev, suf, None))" by blast
  from st_in obtain m where
    m: "m \<in> set (matches a (prev, suf, None))" "st \<in> set (matches (Grp r) m)"
    by (auto simp del: matches.simps(7))
  from matches_sound [OF m(1)] obtain u where "suf = u @ st_rest m" by (auto simp: st_rest_def)
  moreover from matches_Grp_cap [OF m(2)] st(2) have "in_lang r v" "st_rest m = v @ st_rest st" by auto
  ultimately show ?thesis using s by (auto simp: contains_iff) (metis append.assoc)
qed

section \<open>\<open>re.split\<close>\<close>

text \<open>
  \<open>re.split(p, s)\<close> for a pattern that never matches the empty string, with one optional group:
  the pieces, and between them the group of each separator (None when it took no part).
\<close>

fun next_sep :: "rx \<Rightarrow> char option \<Rightarrow> string \<Rightarrow> (string \<times> rst) option" where
  "next_sep r prev [] = None"
| "next_sep r prev (c # cs) =
     (case matches r (prev, c # cs, None) of
        [] \<Rightarrow> map_option (\<lambda>(w, st). (c # w, st)) (next_sep r (Some c) cs)
      | st # _ \<Rightarrow> Some ([], st))"

function re_split :: "rx \<Rightarrow> char option \<Rightarrow> string \<Rightarrow> string option list" where
  "re_split r prev s =
     (case next_sep r prev s of
        None \<Rightarrow> [Some s]
      | Some (w, st) \<Rightarrow>
          if length (st_rest st) < length s
          then Some w # st_cap st # re_split r (fst st) (st_rest st) else [Some s])"
  by pat_completeness auto
termination by (relation "measure (\<lambda>(r, prev, s). length s)") auto

declare re_split.simps [simp del]

section \<open>\<open>re.findall\<close>\<close>

text \<open>
  \<open>re.findall(p, s)\<close> for a pattern without a group that never matches the empty string: the words of
  the matches, leftmost first and not overlapping.
\<close>

function find_all :: "rx \<Rightarrow> char option \<Rightarrow> string \<Rightarrow> string list" where
  "find_all r prev [] = []"
| "find_all r prev (c # cs) =
     (case matches r (prev, c # cs, None) of
        [] \<Rightarrow> find_all r (Some c) cs
      | st # _ \<Rightarrow>
          if length (st_rest st) \<le> length cs
          then take (Suc (length cs) - length (st_rest st)) (c # cs) # find_all r (fst st) (st_rest st)
          else find_all r (Some c) cs)"
  by pat_completeness auto
termination by (relation "measure (\<lambda>(r, prev, s). length s)") auto

declare find_all.simps [simp del]

lemma find_all_lang: "w \<in> set (find_all r prev s) \<Longrightarrow> in_lang r w \<and> contains w s"
proof (induction r prev s rule: find_all.induct)
  case (1 r prev)
  then show ?case by (simp add: find_all.simps)
next
  case (2 r prev c cs)
  show ?case
  proof (cases "matches r (prev, c # cs, None)")
    case Nil
    with "2.prems" "2.IH"(1) show ?thesis by (simp add: find_all.simps)
  next
    case (Cons st sts)
    then have "st \<in> set (matches r (prev, c # cs, None))" by simp
    from matches_sound [OF this] obtain u where u: "c # cs = u @ st_rest st" "in_lang r u"
      by (auto simp: st_rest_def)
    show ?thesis
    proof (cases "length (st_rest st) \<le> length cs")
      case True
      have "Suc (length cs) = length u + length (st_rest st)"
        using arg_cong [OF u(1), of length] by simp
      then have "take (Suc (length cs) - length (st_rest st)) (c # cs) = u" by (simp add: u(1))
      with "2.prems" Cons True have "w = u \<or> w \<in> set (find_all r (fst st) (st_rest st))"
        by (simp add: find_all.simps)
      moreover have "contains u (c # cs)" using u(1) by (metis append_Nil contains_iff)
      moreover have "contains w (c # cs)" if "contains w (st_rest st)"
        using that u(1) by (metis append.assoc contains_iff)
      ultimately show ?thesis using "2.IH"(2) [OF Cons True] u(2) by blast
    next
      case False
      with "2.prems" Cons "2.IH"(3) [OF Cons False] show ?thesis by (simp add: find_all.simps)
    qed
  qed
qed

end
