(* ===== verification/Sdk_Resolver.thy ===== *)
theory Sdk_Resolver
  imports Rvp_Regex
begin

text \<open>
  \<open>shared/sdk_resolver.py\<close>: the version of the SDK, the CLI, the devnet and the contracts that
  belong to a rollups-node release tag.  The in-process caches are the state \<open>resolver\<close>; the GitHub
  API is the parameter \<open>gh\<close> of the operations, which gives the reply to the n-th call.
\<close>

section \<open>Static tables and patterns\<close>

definition KNOWN :: "string \<rightharpoonup> string" where
  "KNOWN = [''2.0.0-alpha.11'' \<mapsto> ''0.12.0-alpha.39'',
            ''2.0.0-alpha.9'' \<mapsto> ''0.12.0-alpha.27'',
            ''2.0.0-alpha.8'' \<mapsto> ''0.12.0-alpha.23'',
            ''2.0.0-alpha.7'' \<mapsto> ''0.12.0-alpha.22'']"

definition KNOWN_CLI :: "string \<rightharpoonup> string" where
  "KNOWN_CLI = [''2.0.0-alpha.11'' \<mapsto> ''2.0.0-alpha.34'',
                ''2.0.0-alpha.9'' \<mapsto> ''2.0.0-alpha.22'',
                ''2.0.0-alpha.8'' \<mapsto> ''2.0.0-alpha.19'',
                ''2.0.0-alpha.7'' \<mapsto> ''2.0.0-alpha.13'']"

definition version_rx :: rx where
  \<comment> \<open>\<open>\d+\.\d+\.\d+(?:-\w+\.\d+)?\<close>\<close>
  "version_rx =
     Seq (Plus Digit) (Seq (Chr CHR ''.'') (Seq (Plus Digit) (Seq (Chr CHR ''.'') (Seq (Plus Digit)
       (Opt (Seq (Chr CHR ''-'') (Seq (Plus Word) (Seq (Chr CHR ''.'') (Plus Digit)))))))))"

definition SDK_PATTERNS :: "rx list" where
  "SDK_PATTERNS =
     [Seq (Seq (ILit ''@cartesi/sdk'') (Plus (OneOf ''@: ''))) (Grp version_rx),
      Seq (ILit ''cartesi/rollups-runtime:'') (Grp version_rx),
      Seq (ILit ''cartesi/rollups-database:'') (Grp version_rx)]"

definition NODE_BUMP_RE :: rx where
  "NODE_BUMP_RE =
     Seq (Seq (ILit ''rollups'') (Seq (OneOf ''- '') (Seq (ILit ''node'')
            (Seq (Star (NoneOf ''0123456789'')) (Opt (ILit ''v''))))))
         (Grp version_rx)"

definition DEVNET_IN_BODY_RE :: rx where
  "DEVNET_IN_BODY_RE =
     Seq (Seq (ILit ''@cartesi/devnet'') (Seq (Plus (OneOf ''@: '')) (Opt (ILit ''v''))))
         (Grp version_rx)"

definition CONTRACTS_IN_BODY_RE :: rx where
  "CONTRACTS_IN_BODY_RE =
     Seq (Seq (Alt (ILit ''@cartesi/rollups-contracts'') (ILit ''rollups-contracts''))
            (Seq (Plus (OneOf ''@: '')) (Opt (ILit ''v''))))
         (Grp version_rx)"

section \<open>Parsing of a release body\<close>

fun first_match :: "rx list \<Rightarrow> string \<Rightarrow> string option" where
  "first_match [] body = None"
| "first_match (pat # pats) body =
     (case re_search pat body of None \<Rightarrow> first_match pats body | Some st \<Rightarrow> st_cap st)"

definition extract_sdk_from_body :: "string \<Rightarrow> string option" where
  "extract_sdk_from_body body = first_match SDK_PATTERNS body"

text \<open>Result: (sdk_version, devnet_version, contracts_version, node_version_targeted).\<close>

definition extract_versions_from_cli_body ::
  "string \<Rightarrow> string option \<times> string option \<times> string option \<times> string option" where
  "extract_versions_from_cli_body body =
     (let sdk_version = extract_sdk_from_body body;
          devnet_version = group1 (re_search DEVNET_IN_BODY_RE body);
          contracts_version = group1 (re_search CONTRACTS_IN_BODY_RE body);
          node_version = group1 (re_search NODE_BUMP_RE body)
      in (sdk_version, devnet_version, contracts_version, node_version))"

section \<open>Scanning the CLI releases\<close>

datatype gh_reply = GhRaises exc | GhStatus int "json res"

record resolver =
  known :: "string \<rightharpoonup> string"
  known_cli :: "string \<rightharpoonup> string"
  known_devnet :: "string \<rightharpoonup> string"
  known_contracts :: "string \<rightharpoonup> string"
  api_calls :: nat

definition initial_resolver :: resolver where
  "initial_resolver = \<lparr>known = KNOWN, known_cli = KNOWN_CLI, known_devnet = Map.empty,
     known_contracts = Map.empty, api_calls = 0\<rparr>"

record found =
  f_sdk :: "string option"
  f_cli :: "string option"
  f_devnet :: "string option"
  f_contracts :: "string option"

definition nothing_found :: found where
  "nothing_found = \<lparr>f_sdk = None, f_cli = None, f_devnet = None, f_contracts = None\<rparr>"

text \<open>\<open>if v and not found: found = v\<close>.\<close>

definition keep_first :: "string option \<Rightarrow> string option \<Rightarrow> string option" where
  "keep_first old new =
     (case new of None \<Rightarrow> old | Some v \<Rightarrow> if v \<noteq> [] \<and> (old = None \<or> old = Some []) then Some v else old)"

definition opt_truthy :: "string option \<Rightarrow> bool" where
  "opt_truthy x = (x \<noteq> None \<and> x \<noteq> Some [])"

text \<open>What one matching release contributes.\<close>

definition collect_release :: "string \<Rightarrow> string \<Rightarrow> found \<Rightarrow> found" where
  "collect_release tag body f =
     \<lparr>f_sdk = keep_first (f_sdk f) (extract_sdk_from_body body),
      f_cli = keep_first (f_cli f) (Some (lstrip_v tag)),
      f_devnet = keep_first (f_devnet f) (group1 (re_search DEVNET_IN_BODY_RE body)),
      f_contracts = keep_first (f_contracts f) (group1 (re_search CONTRACTS_IN_BODY_RE body))\<rparr>"

text \<open>One round of the scan loop; the flag says whether the loop breaks.\<close>

definition scan_release :: "string \<Rightarrow> json \<Rightarrow> found \<Rightarrow> (found \<times> bool) res" where
  "scan_release node_ver rel f =
     res_bind (jget_or rel ''body'' JNull) (\<lambda>b.
     res_bind (as_str TypeError (py_or b (JStr []))) (\<lambda>body.
     if group1 (re_search NODE_BUMP_RE body) \<noteq> Some node_ver then Inr (f, False)
     else
       res_bind (jget_or rel ''tag_name'' (JStr [])) (\<lambda>t.
       res_bind (as_str AttributeError t) (\<lambda>tag.
       let f' = collect_release tag body f
       in Inr (f', opt_truthy (f_cli f') \<and> opt_truthy (f_sdk f'))))))"

fun scan_loop :: "string \<Rightarrow> json list \<Rightarrow> found \<Rightarrow> found res" where
  "scan_loop node_ver [] f = Inr f"
| "scan_loop node_ver (rel # rels) f =
     res_bind (scan_release node_ver rel f)
       (\<lambda>(f', brk). if brk then Inr f' else scan_loop node_ver rels f')"

text \<open>\<open>for rel in cli_releases\<close> over whatever \<open>resp.json()\<close> returned.\<close>

definition iterate_releases :: "json \<Rightarrow> json list res" where
  "iterate_releases j =
     (case j of
        JArr xs \<Rightarrow> Inr xs
      | JObj d \<Rightarrow> Inr (map (JStr \<circ> fst) d)
      | JStr s \<Rightarrow> Inr (map (\<lambda>c. JStr [c]) s)
      | _ \<Rightarrow> Inl TypeError)"

text \<open>Updates of the in-process caches after the scan.\<close>

definition store_found :: "string \<Rightarrow> found \<Rightarrow> resolver \<Rightarrow> resolver" where
  "store_found node_ver f s =
     (if opt_truthy (f_cli f) \<or> opt_truthy (f_sdk f)
      then s\<lparr>known := (if opt_truthy (f_sdk f) then (known s)(node_ver := f_sdk f) else known s),
             known_cli := (if opt_truthy (f_cli f) then (known_cli s)(node_ver := f_cli f) else known_cli s),
             known_devnet := (if opt_truthy (f_devnet f) then (known_devnet s)(node_ver := f_devnet f)
                              else known_devnet s),
             known_contracts := (if opt_truthy (f_contracts f)
                                 then (known_contracts s)(node_ver := f_contracts f)
                                 else known_contracts s)\<rparr>
      else s)"

text \<open>
  \<open>_scan_cli_releases\<close>: exactly one API call; \<open>gh n token\<close> is the reply to call number n.  The
  result is (sdk, cli, devnet, contracts) as a \<open>found\<close> record.
\<close>

type_synonym gh = "nat \<Rightarrow> string \<Rightarrow> gh_reply"

definition scan_cli_releases :: "gh \<Rightarrow> resolver \<Rightarrow> string \<Rightarrow> string \<Rightarrow> found res \<times> resolver" where
  "scan_cli_releases gh s node_ver github_token =
     (let reply = gh (api_calls s) github_token; s1 = s\<lparr>api_calls := Suc (api_calls s)\<rparr>
      in case reply of
           GhRaises _ \<Rightarrow> (Inr nothing_found, s1)
         | GhStatus status body \<Rightarrow>
             if status \<noteq> 200 then (Inr nothing_found, s1)
             else (case body of
                     Inl _ \<Rightarrow> (Inr nothing_found, s1)
                   | Inr j \<Rightarrow>
                       (case res_bind (iterate_releases j) (\<lambda>rels. scan_loop node_ver rels nothing_found) of
                          Inl e \<Rightarrow> (Inl e, s1)
                        | Inr f \<Rightarrow> (Inr f, store_found node_ver f s1))))"

section \<open>The resolvers\<close>

definition resolve_sdk_version :: "gh \<Rightarrow> resolver \<Rightarrow> string \<Rightarrow> string \<Rightarrow> string option res \<times> resolver" where
  "resolve_sdk_version gh s node_tag github_token =
     (let node_ver = lstrip_v node_tag
      in case known s node_ver of
           Some v \<Rightarrow> (Inr (Some v), s)
         | None \<Rightarrow>
             (let (r, s') = scan_cli_releases gh s node_ver github_token
              in (res_bind r (\<lambda>f. Inr (f_sdk f)), s')))"

definition resolve_cli_version :: "gh \<Rightarrow> resolver \<Rightarrow> string \<Rightarrow> string \<Rightarrow> string option res \<times> resolver" where
  "resolve_cli_version gh s node_tag github_token =
     (let node_ver = lstrip_v node_tag
      in case known_cli s node_ver of
           Some v \<Rightarrow> (Inr (Some v), s)
         | None \<Rightarrow>
             (let (r, s') = scan_cli_releases gh s node_ver github_token
              in (res_bind r (\<lambda>f. Inr (f_cli f)), s')))"

text \<open>\<open>a or b\<close> on optional strings.\<close>

definition opt_or :: "string option \<Rightarrow> string option \<Rightarrow> string option" where
  "opt_or a b = (if opt_truthy a then a else b)"

definition resolve_versions ::
  "gh \<Rightarrow> resolver \<Rightarrow> string \<Rightarrow> string \<Rightarrow> (string option \<times> string option) res \<times> resolver" where
  "resolve_versions gh s node_tag github_token =
     (let node_ver = lstrip_v node_tag;
          sdk = known s node_ver;
          cli = known_cli s node_ver
      in if opt_truthy sdk \<and> opt_truthy cli then (Inr (sdk, cli), s)
         else (let (r, s') = scan_cli_releases gh s node_ver github_token
               in (res_bind r (\<lambda>f. Inr (opt_or sdk (f_sdk f), opt_or cli (f_cli f))), s')))"

definition resolve_all_versions :: "gh \<Rightarrow> resolver \<Rightarrow> string \<Rightarrow> string \<Rightarrow>
    (string option \<times> string option \<times> string option \<times> string option) res \<times> resolver" where
  "resolve_all_versions gh s node_tag github_token =
     (let node_ver = lstrip_v node_tag;
          sdk = known s node_ver;
          cli = known_cli s node_ver;
          devnet = known_devnet s node_ver;
          contracts = known_contracts s node_ver
      in if opt_truthy sdk \<and> opt_truthy cli then (Inr (sdk, cli, devnet, contracts), s)
         else (let (r, s') = scan_cli_releases gh s node_ver github_token
               in (res_bind r (\<lambda>f. Inr (opt_or sdk (f_sdk f), opt_or cli (f_cli f),
                                        opt_or devnet (f_devnet f),
                                        opt_or contracts (f_contracts f))), s')))"

section \<open>Image tags\<close>

definition node_major_version :: "string \<Rightarrow> int" where
  "node_major_version node_tag =
     (let ver = lstrip_v node_tag
      in case split_on CHR ''.'' ver of
           [] \<Rightarrow> 1
         | w # _ \<Rightarrow> (case str_int w of None \<Rightarrow> 1 | Some n \<Rightarrow> n))"

definition derive_image_tag :: "string \<Rightarrow> string option \<Rightarrow> string" where
  "derive_image_tag node_tag sdk_version =
     (let ver = lstrip_v node_tag;
          major = (case split_on CHR ''.'' ver of
                     [] \<Rightarrow> 1
                   | w # _ \<Rightarrow> (case str_int w of None \<Rightarrow> 1 | Some n \<Rightarrow> n))
      in if major \<ge> 2 \<and> opt_truthy sdk_version
         then ''cartesi/rollups-runtime:'' @ (case sdk_version of Some v \<Rightarrow> v | None \<Rightarrow> [])
         else ''cartesi/rollups-node:'' @ ver)"

section \<open>Facts\<close>

lemma scan_calls [simp]: "api_calls (snd (scan_cli_releases gh s v t)) = Suc (api_calls s)"
  by (auto simp: scan_cli_releases_def store_found_def Let_def split: gh_reply.splits sum.splits)

lemma keep_first_truthy [simp]:
  "opt_truthy (keep_first old new) = (opt_truthy old \<or> opt_truthy new)"
  by (auto simp: keep_first_def opt_truthy_def split: option.splits)

lemma opt_truthy_or [simp]: "opt_truthy (opt_or a b) = (opt_truthy a \<or> opt_truthy b)"
  by (auto simp: opt_or_def)

lemma store_found_known [simp]:
  "known (store_found v f s) = (if opt_truthy (f_sdk f) then (known s)(v := f_sdk f) else known s)"
  "known_cli (store_found v f s) = (if opt_truthy (f_cli f) then (known_cli s)(v := f_cli f) else known_cli s)"
  by (auto simp: store_found_def)

text \<open>The scan only ever records what the loop found: an entry it reports is cached.\<close>

lemma scan_stores_sdk:
  assumes "fst (scan_cli_releases gh s v t) = Inr f" and "opt_truthy (f_sdk f)"
  shows "known (snd (scan_cli_releases gh s v t)) v = f_sdk f"
  using assms
  by (auto simp: scan_cli_releases_def Let_def nothing_found_def opt_truthy_def
           split: gh_reply.splits sum.splits if_splits)

lemma scan_stores_cli:
  assumes "fst (scan_cli_releases gh s v t) = Inr f" and "opt_truthy (f_cli f)"
  shows "known_cli (snd (scan_cli_releases gh s v t)) v = f_cli f"
  using assms
  by (auto simp: scan_cli_releases_def Let_def nothing_found_def opt_truthy_def
           split: gh_reply.splits sum.splits if_splits)

section \<open>Versions found in a body\<close>

lemma in_lang_PlusDigit: "in_lang (Seq (Plus Digit) r) u \<Longrightarrow> \<exists>c w. u = c # w \<and> is_digit c"
  by (auto simp: Plus_def Digit_def elim!: in_lang_SeqE in_lang_ClsE)

lemma in_lang_version: "in_lang version_rx u \<Longrightarrow> \<exists>c w. u = c # w \<and> is_digit c"
  unfolding version_rx_def by (rule in_lang_PlusDigit)

lemma version_no_v: "in_lang version_rx u \<Longrightarrow> lstrip_v u = u \<and> u \<noteq> []"
  by (auto dest!: in_lang_version simp: lstrip_v_def is_digit_def ord_def)

lemma first_match_lang:
  "first_match (map (\<lambda>a. Seq a (Grp r)) as) body = Some v \<Longrightarrow> in_lang r v \<and> contains v body"
proof (induction as)
  case Nil
  then show ?case by simp
next
  case (Cons a as)
  show ?case
  proof (cases "re_search (Seq a (Grp r)) body")
    case None
    with Cons show ?thesis by simp
  next
    case (Some st)
    with Cons.prems have "group1 (re_search (Seq a (Grp r)) body) = Some v" by (simp add: group1_def)
    then show ?thesis by (rule search_group_lang)
  qed
qed

lemma SDK_PATTERNS_shape:
  "SDK_PATTERNS = map (\<lambda>a. Seq a (Grp version_rx))
     [Seq (ILit ''@cartesi/sdk'') (Plus (OneOf ''@: '')),
      ILit ''cartesi/rollups-runtime:'', ILit ''cartesi/rollups-database:'']"
  by (simp only: SDK_PATTERNS_def list.map)

lemma first_match_sdk:
  "extract_sdk_from_body body = Some v \<Longrightarrow> in_lang version_rx v \<and> contains v body"
  unfolding extract_sdk_from_body_def SDK_PATTERNS_shape by (rule first_match_lang)

lemma group_search_lang:
  "group1 (re_search NODE_BUMP_RE body) = Some v \<Longrightarrow> in_lang version_rx v \<and> contains v body"
  "group1 (re_search DEVNET_IN_BODY_RE body) = Some v \<Longrightarrow> in_lang version_rx v \<and> contains v body"
  "group1 (re_search CONTRACTS_IN_BODY_RE body) = Some v \<Longrightarrow> in_lang version_rx v \<and> contains v body"
  unfolding NODE_BUMP_RE_def DEVNET_IN_BODY_RE_def CONTRACTS_IN_BODY_RE_def
  by (rule search_group_lang, assumption)+

text \<open>Every version that the parser of a CLI release body returns, whichever of the four, is a
  word of the version pattern that occurs in the body; in particular it is not empty and carries no
  leading v, as the documentation of the parser promises.\<close>

theorem extracted_versions_well_formed:
  assumes "extract_versions_from_cli_body body = (sdk, devnet, contracts, node)"
    and "v \<in> set_option sdk \<union> set_option devnet \<union> set_option contracts \<union> set_option node"
  shows "in_lang version_rx v \<and> contains v body \<and> lstrip_v v = v \<and> v \<noteq> []"
proof -
  from assms(1) have eqs: "extract_sdk_from_body body = sdk"
    "group1 (re_search DEVNET_IN_BODY_RE body) = devnet"
    "group1 (re_search CONTRACTS_IN_BODY_RE body) = contracts"
    "group1 (re_search NODE_BUMP_RE body) = node"
    by (simp_all add: extract_versions_from_cli_body_def Let_def)
  from assms(2) consider "sdk = Some v" | "devnet = Some v" | "contracts = Some v" | "node = Some v"
    by (auto simp: elem_set)
  then have "in_lang version_rx v \<and> contains v body"
    by cases (use eqs first_match_sdk group_search_lang in blast)+
  then show ?thesis using version_no_v by blast
qed


theorem extracted_versions_well_formed_witness:
  "in_lang version_rx ''1.5.1'' \<and> contains ''1.5.1'' ''rollups-node 1.5.1''
     \<and> lstrip_v ''1.5.1'' = ''1.5.1'' \<and> (''1.5.1'' :: string) \<noteq> []"
proof -
  have "extract_versions_from_cli_body ''rollups-node 1.5.1'' = (None, None, None, Some ''1.5.1'')"
    by code_simp
  from extracted_versions_well_formed [OF this, of "''1.5.1''"] show ?thesis by simp
qed

section \<open>The scan against its reference\<close>

text \<open>Reference reading of the scan: the releases as (tag, body) pairs that target the node version.\<close>

definition rel_json :: "string \<times> string \<Rightarrow> json" where
  "rel_json r = JObj [(''tag_name'', JStr (fst r)), (''body'', JStr (snd r))]"

definition targets :: "string \<Rightarrow> string \<times> string \<Rightarrow> bool" where
  "targets node_ver r = (group1 (re_search NODE_BUMP_RE (snd r)) = Some node_ver)"

fun first_some :: "('a \<Rightarrow> string option) \<Rightarrow> 'a list \<Rightarrow> string option" where
  "first_some f [] = None"
| "first_some f (x # xs) = (if opt_truthy (f x) then f x else first_some f xs)"

definition ref_sdk :: "string \<Rightarrow> (string \<times> string) list \<Rightarrow> string option" where
  "ref_sdk node_ver rels = first_some (\<lambda>r. extract_sdk_from_body (snd r)) (filter (targets node_ver) rels)"

definition ref_cli :: "string \<Rightarrow> (string \<times> string) list \<Rightarrow> string option" where
  "ref_cli node_ver rels = first_some (\<lambda>r. Some (lstrip_v (fst r))) (filter (targets node_ver) rels)"

lemma ref_sdk_simps:
  "ref_sdk v [] = None"
  "ref_sdk v (r # rels) = (if targets v r \<and> opt_truthy (extract_sdk_from_body (snd r))
                           then extract_sdk_from_body (snd r) else ref_sdk v rels)"
  by (simp_all add: ref_sdk_def)

lemma ref_cli_simps:
  "ref_cli v [] = None"
  "ref_cli v (r # rels) = (if targets v r \<and> lstrip_v (fst r) \<noteq> []
                           then Some (lstrip_v (fst r)) else ref_cli v rels)"
  by (simp_all add: ref_cli_def opt_truthy_def)

definition found_ok :: "found \<Rightarrow> bool" where
  "found_ok f = (f_sdk f \<noteq> Some [] \<and> f_cli f \<noteq> Some [])"

lemma keep_first_eq:
  "old \<noteq> Some [] \<Longrightarrow> keep_first old new = (if opt_truthy old then old else if opt_truthy new then new else None)"
  by (auto simp: keep_first_def opt_truthy_def split: option.splits)

lemma scan_release_skip:
  "\<not> targets node_ver r \<Longrightarrow> scan_release node_ver (rel_json r) f = Inr (f, False)"
  by (cases "snd r") (auto simp: scan_release_def rel_json_def targets_def get_or_def py_or_def)

lemma scan_release_take:
  assumes "targets node_ver r"
  shows "\<exists>f'. scan_release node_ver (rel_json r) f = Inr (f', opt_truthy (f_cli f') \<and> opt_truthy (f_sdk f'))
     \<and> f_sdk f' = keep_first (f_sdk f) (extract_sdk_from_body (snd r))
     \<and> f_cli f' = keep_first (f_cli f) (Some (lstrip_v (fst r)))"
  using assms
  by (cases "snd r") (auto simp: scan_release_def rel_json_def targets_def get_or_def py_or_def Let_def collect_release_def)

lemma scan_loop_ref:
  assumes "found_ok f" and "\<not> (opt_truthy (f_cli f) \<and> opt_truthy (f_sdk f))"
  shows "\<exists>g. scan_loop node_ver (map rel_json rels) f = Inr g
     \<and> f_sdk g = (if opt_truthy (f_sdk f) then f_sdk f else ref_sdk node_ver rels)
     \<and> f_cli g = (if opt_truthy (f_cli f) then f_cli f else ref_cli node_ver rels)"
  using assms
proof (induction rels arbitrary: f)
  case Nil
  then show ?case by (auto simp: ref_sdk_simps ref_cli_simps found_ok_def opt_truthy_def)
next
  case (Cons r rels)
  show ?case
  proof (cases "targets node_ver r")
    case False
    from Cons.IH [OF Cons.prems] obtain g where "scan_loop node_ver (map rel_json rels) f = Inr g"
      "f_sdk g = (if opt_truthy (f_sdk f) then f_sdk f else ref_sdk node_ver rels)"
      "f_cli g = (if opt_truthy (f_cli f) then f_cli f else ref_cli node_ver rels)" by blast
    with False show ?thesis by (simp add: scan_release_skip ref_sdk_simps ref_cli_simps)
  next
    case True
    from scan_release_take [OF True, of f] obtain f' where f':
      "scan_release node_ver (rel_json r) f = Inr (f', opt_truthy (f_cli f') \<and> opt_truthy (f_sdk f'))"
      "f_sdk f' = keep_first (f_sdk f) (extract_sdk_from_body (snd r))"
      "f_cli f' = keep_first (f_cli f) (Some (lstrip_v (fst r)))" by blast
    have ok: "found_ok f'" using Cons.prems(1) f'(2,3)
      by (auto simp: found_ok_def keep_first_eq opt_truthy_def)
    show ?thesis
    proof (cases "opt_truthy (f_cli f') \<and> opt_truthy (f_sdk f')")
      case True': True
      with f' Cons.prems True show ?thesis
        by (auto simp: ref_sdk_simps ref_cli_simps found_ok_def keep_first_eq opt_truthy_def split: if_splits)
    next
      case False
      from Cons.IH [OF ok False] obtain g where
        "scan_loop node_ver (map rel_json rels) f' = Inr g"
        "f_sdk g = (if opt_truthy (f_sdk f') then f_sdk f' else ref_sdk node_ver rels)"
        "f_cli g = (if opt_truthy (f_cli f') then f_cli f' else ref_cli node_ver rels)" by blast
      with f' False Cons.prems True show ?thesis
        by (auto simp: ref_sdk_simps ref_cli_simps found_ok_def keep_first_eq opt_truthy_def split: if_splits)
    qed
  qed
qed


text \<open>C31: The scan of the CLI releases page collects the SDK version and the CLI version
  independently of each other: on a page of well-formed releases it returns, for each of the two,
  the first non-empty value among the releases whose body targets the wanted node version, whatever
  the order in which the two appear; it never fails and never takes a value of another release.\<close>

theorem scan_finds_first_matching_release:
  "\<exists>g. scan_loop node_ver (map rel_json rels) nothing_found = Inr g
     \<and> f_sdk g = ref_sdk node_ver rels \<and> f_cli g = ref_cli node_ver rels"
  using scan_loop_ref [of nothing_found node_ver rels]
  by (simp add: found_ok_def nothing_found_def opt_truthy_def)

section \<open>Read-through caching\<close>

text \<open>
  The resolvers read a cache and scan when it misses.  The interface \<open>cached_scan\<close> states what they
  rely on: a scan costs one call, and what it reports is cached afterwards.
\<close>

definition read_through ::
  "('s \<Rightarrow> string \<Rightarrow> string option) \<Rightarrow> ('s \<Rightarrow> string \<Rightarrow> 'f res \<times> 's) \<Rightarrow> ('f \<Rightarrow> string option)
     \<Rightarrow> 's \<Rightarrow> string \<Rightarrow> string option res \<times> 's" where
  "read_through lookup scan pick s k =
     (case lookup s k of
        Some v \<Rightarrow> (Inr (Some v), s)
      | None \<Rightarrow> (let (r, s') = scan s k in (res_bind r (\<lambda>f. Inr (pick f)), s')))"

locale cached_scan =
  fixes lookup :: "'s \<Rightarrow> string \<Rightarrow> string option"
    and scan :: "'s \<Rightarrow> string \<Rightarrow> 'f res \<times> 's"
    and pick :: "'f \<Rightarrow> string option"
    and cost :: "'s \<Rightarrow> nat"
  assumes scan_cost: "cost (snd (scan s k)) = Suc (cost s)"
    and scan_stores: "fst (scan s k) = Inr f \<Longrightarrow> pick f = Some v \<Longrightarrow> lookup (snd (scan s k)) k = Some v"
begin

lemma read_cost:
  "cost (snd (read_through lookup scan pick s k)) = (if lookup s k = None then Suc (cost s) else cost s)"
  by (auto simp: read_through_def scan_cost split: option.splits prod.splits) (metis scan_cost snd_conv)

lemma read_stores:
  assumes "fst (read_through lookup scan pick s k) = Inr (Some v)"
  shows "lookup (snd (read_through lookup scan pick s k)) k = Some v"
proof (cases "lookup s k")
  case (Some w)
  with assms show ?thesis by (simp add: read_through_def)
next
  case None
  obtain r s' where rs: "scan s k = (r, s')" by (cases "scan s k") auto
  with None assms obtain f where "r = Inr f" "pick f = Some v"
    by (auto simp: read_through_def res_bind_Inr)
  with scan_stores [of s k f v] rs have "lookup s' k = Some v" by simp
  with None rs show ?thesis by (simp add: read_through_def)
qed

end

text \<open>The loop never reports an empty version.\<close>

lemma keep_first_ok: "old \<noteq> Some [] \<Longrightarrow> keep_first old new \<noteq> Some []"
  by (auto simp: keep_first_def split: option.splits)

lemma collect_release_ok: "found_ok f \<Longrightarrow> found_ok (collect_release tag body f)"
  by (simp add: found_ok_def collect_release_def keep_first_ok)

lemma scan_release_ok:
  assumes "scan_release node_ver rel f = Inr (f', brk)" and "found_ok f"
  shows "found_ok f'"
proof -
  from assms(1) have "f' = f \<or> (\<exists>tag body. f' = collect_release tag body f)"
    by (auto simp: scan_release_def res_inv Let_def split: if_splits)
  with assms(2) show ?thesis by (auto simp: collect_release_ok)
qed

lemma scan_loop_ok: "scan_loop node_ver rels f = Inr g \<Longrightarrow> found_ok f \<Longrightarrow> found_ok g"
  by (induction node_ver rels f rule: scan_loop.induct)
     (auto simp: res_bind_Inr dest: scan_release_ok split: if_splits)

lemma scan_ok: "fst (scan_cli_releases gh s v t) = Inr f \<Longrightarrow> found_ok f"
  by (auto simp: scan_cli_releases_def Let_def found_ok_def nothing_found_def res_bind_Inr
           dest!: scan_loop_ok split: gh_reply.splits sum.splits if_splits)

interpretation sdk_cache: cached_scan known "\<lambda>s v. scan_cli_releases gh s v t" f_sdk api_calls
  for gh t
  using scan_ok scan_stores_sdk
  by unfold_locales (auto simp: found_ok_def opt_truthy_def)

interpretation cli_cache: cached_scan known_cli "\<lambda>s v. scan_cli_releases gh s v t" f_cli api_calls
  for gh t
  using scan_ok scan_stores_cli
  by unfold_locales (auto simp: found_ok_def opt_truthy_def)


lemma resolve_sdk_read_through:
  "resolve_sdk_version gh s tag t = read_through known (\<lambda>s v. scan_cli_releases gh s v t) f_sdk s (lstrip_v tag)"
  by (simp add: resolve_sdk_version_def read_through_def Let_def)

lemma resolve_cli_read_through:
  "resolve_cli_version gh s tag t = read_through known_cli (\<lambda>s v. scan_cli_releases gh s v t) f_cli s (lstrip_v tag)"
  by (simp add: resolve_cli_version_def read_through_def Let_def)

text \<open>A version that a resolver has reported is served from the cache afterwards: asking again
  for the same tag, with any behaviour of the GitHub API, gives the same version, leaves the state
  alone and makes no API call.  Proved for the SDK and the CLI resolver.\<close>

theorem resolvers_answer_again_from_cache:
  "(fst (resolve_sdk_version gh s tag t) = Inr (Some v) \<longrightarrow>
      resolve_sdk_version gh' (snd (resolve_sdk_version gh s tag t)) tag t'
        = (Inr (Some v), snd (resolve_sdk_version gh s tag t)))
   \<and> (fst (resolve_cli_version gh s tag t) = Inr (Some v) \<longrightarrow>
      resolve_cli_version gh' (snd (resolve_cli_version gh s tag t)) tag t'
        = (Inr (Some v), snd (resolve_cli_version gh s tag t)))"
  by (auto simp: resolve_sdk_read_through resolve_cli_read_through
           dest!: sdk_cache.read_stores cli_cache.read_stores)
     (simp_all add: read_through_def)

theorem resolvers_answer_again_from_cache_witness:
  "resolve_sdk_version (\<lambda>_ _. GhStatus 500 (Inr JNull)) initial_resolver ''v2.0.0-alpha.9'' []
     = (Inr (Some ''0.12.0-alpha.27''), initial_resolver)"
proof -
  have "fst (resolve_sdk_version (\<lambda>_ _. GhRaises TypeError) initial_resolver ''v2.0.0-alpha.9'' [])
          = Inr (Some ''0.12.0-alpha.27'')"
    and st: "snd (resolve_sdk_version (\<lambda>_ _. GhRaises TypeError) initial_resolver ''v2.0.0-alpha.9'' [])
          = initial_resolver"
    by (simp_all add: resolve_sdk_version_def initial_resolver_def KNOWN_def lstrip_v_def)
  with resolvers_answer_again_from_cache
    [of "\<lambda>_ _. GhRaises TypeError" initial_resolver "''v2.0.0-alpha.9''" "[]" "''0.12.0-alpha.27''"
        "\<lambda>_ _. GhStatus 500 (Inr JNull)" "[]"]
  show ?thesis by simp
qed

text \<open>Each of the four resolvers makes at most one GitHub API call, and the two combined ones
  make none when the SDK and the CLI version of the tag are both cached.\<close>

theorem resolvers_make_at_most_one_call:
  "api_calls (snd (resolve_sdk_version gh s tag t)) \<le> Suc (api_calls s)
   \<and> api_calls (snd (resolve_cli_version gh s tag t)) \<le> Suc (api_calls s)
   \<and> api_calls (snd (resolve_versions gh s tag t))
       = api_calls s + of_bool (\<not> (opt_truthy (known s (lstrip_v tag)) \<and> opt_truthy (known_cli s (lstrip_v tag))))
   \<and> api_calls (snd (resolve_all_versions gh s tag t))
       = api_calls s + of_bool (\<not> (opt_truthy (known s (lstrip_v tag)) \<and> opt_truthy (known_cli s (lstrip_v tag))))"
  by (auto simp: resolve_sdk_read_through resolve_cli_read_through sdk_cache.read_cost cli_cache.read_cost
        resolve_versions_def resolve_all_versions_def Let_def split: prod.splits)
     (metis scan_calls snd_conv)+

text \<open>The combined resolver is stable once it has succeeded, when neither or both of the two
  versions were cached before: a second call gives the same pair without an API call.\<close>

theorem resolve_versions_stable:
  assumes "fst (resolve_versions gh s tag t) = Inr (Some sdk, Some cli)"
    and "sdk \<noteq> []" and "cli \<noteq> []"
    and "opt_truthy (known s (lstrip_v tag)) = opt_truthy (known_cli s (lstrip_v tag))"
  shows "resolve_versions gh' (snd (resolve_versions gh s tag t)) tag t'
           = (Inr (Some sdk, Some cli), snd (resolve_versions gh s tag t))"
proof (cases "opt_truthy (known s (lstrip_v tag))")
  case True
  with assms show ?thesis by (simp add: resolve_versions_def Let_def)
next
  case False
  obtain r s' where rs: "scan_cli_releases gh s (lstrip_v tag) t = (r, s')"
    by (cases "scan_cli_releases gh s (lstrip_v tag) t") auto
  with False assms obtain f where f: "r = Inr f" "f_sdk f = Some sdk" "f_cli f = Some cli"
    by (auto simp: resolve_versions_def opt_or_def res_inv)
  then have "opt_truthy (f_sdk f)" "opt_truthy (f_cli f)" using assms(2,3) by (simp_all add: opt_truthy_def)
  then have "known s' (lstrip_v tag) = Some sdk" "known_cli s' (lstrip_v tag) = Some cli"
    using scan_stores_sdk [of gh s "lstrip_v tag" t f] scan_stores_cli [of gh s "lstrip_v tag" t f] rs f
    by simp_all
  moreover have "resolve_versions gh s tag t = (Inr (Some sdk, Some cli), s')"
    using False assms(1,4) rs by (simp add: resolve_versions_def Let_def)
  ultimately show ?thesis using assms(2,3) by (simp add: resolve_versions_def Let_def opt_truthy_def)
qed

theorem resolve_versions_stable_witness:
  "resolve_versions (\<lambda>_ _. GhRaises TypeError) initial_resolver ''v2.0.0-alpha.7'' []
     = (Inr (Some ''0.12.0-alpha.22'', Some ''2.0.0-alpha.13''), initial_resolver)"
proof -
  have eq: "resolve_versions (\<lambda>_ _. GhRaises TypeError) initial_resolver ''v2.0.0-alpha.7'' []
     = (Inr (Some ''0.12.0-alpha.22'', Some ''2.0.0-alpha.13''), initial_resolver)"
    by (simp add: resolve_versions_def initial_resolver_def KNOWN_def KNOWN_CLI_def lstrip_v_def opt_truthy_def Let_def)
  show ?thesis
    using resolve_versions_stable [of "\<lambda>_ _. GhRaises TypeError" initial_resolver "''v2.0.0-alpha.7''" "[]"
        "''0.12.0-alpha.22''" "''2.0.0-alpha.13''" "\<lambda>_ _. GhRaises TypeError" "[]"] eq
    by (simp add: initial_resolver_def KNOWN_def KNOWN_CLI_def lstrip_v_def opt_truthy_def)
qed

text \<open>For the tags of the static tables the full resolver never learns a devnet or contracts
  version: from a freshly loaded module it answers None for both without asking GitHub, whatever
  GitHub would say.\<close>

theorem static_tags_have_no_devnet:
  assumes "lstrip_v tag \<in> dom KNOWN"
  shows "resolve_all_versions gh initial_resolver tag t
           = (Inr (KNOWN (lstrip_v tag), KNOWN_CLI (lstrip_v tag), None, None), initial_resolver)"
  using assms
  by (auto simp: resolve_all_versions_def initial_resolver_def KNOWN_def KNOWN_CLI_def opt_truthy_def Let_def
           split: if_splits)

theorem static_tags_have_no_devnet_witness:
  "resolve_all_versions (\<lambda>_ _. GhRaises TypeError) initial_resolver ''v2.0.0-alpha.8'' []
     = (Inr (KNOWN ''2.0.0-alpha.8'', KNOWN_CLI ''2.0.0-alpha.8'', None, None), initial_resolver)"
  using static_tags_have_no_devnet [of "''v2.0.0-alpha.8''" "\<lambda>_ _. GhRaises TypeError" "[]"]
  by (simp add: lstrip_v_def KNOWN_def)

lemma node_major_alt:
  "(case split_on CHR ''.'' (lstrip_v tag) of
      [] \<Rightarrow> 1 | w # _ \<Rightarrow> (case str_int w of None \<Rightarrow> 1 | Some n \<Rightarrow> n)) = node_major_version tag"
  by (simp add: node_major_version_def)

lemma derive_image_tag_alt:
  "derive_image_tag tag sdk =
     (if node_major_version tag \<ge> 2 \<and> opt_truthy sdk
      then ''cartesi/rollups-runtime:'' @ (case sdk of Some v \<Rightarrow> v | None \<Rightarrow> [])
      else ''cartesi/rollups-node:'' @ lstrip_v tag)"
  by (simp add: derive_image_tag_def Let_def node_major_alt)

text \<open>The image tag does not depend on a v prefix of the release tag, names the runtime image
  exactly for a v2 or later tag with a known SDK version, and its part behind the colon never starts
  with a v when the SDK version does not.\<close>

theorem derive_image_tag_spec:
  assumes "\<forall>v. sdk = Some v \<longrightarrow> lstrip_v v = v"
  shows "derive_image_tag (CHR ''v'' # tag) sdk = derive_image_tag tag sdk
    \<and> (startswith (derive_image_tag tag sdk) ''cartesi/rollups-runtime:''
         \<longleftrightarrow> node_major_version tag \<ge> 2 \<and> opt_truthy sdk)
    \<and> (\<exists>repo ver. repo \<in> {''cartesi/rollups-runtime'', ''cartesi/rollups-node''}
         \<and> derive_image_tag tag sdk = repo @ '':'' @ ver \<and> lstrip_v ver = ver)"
proof -
  have a: "derive_image_tag (CHR ''v'' # tag) sdk = derive_image_tag tag sdk"
    by (simp add: derive_image_tag_def)
  have b: "startswith (derive_image_tag tag sdk) ''cartesi/rollups-runtime:''
         \<longleftrightarrow> node_major_version tag \<ge> 2 \<and> opt_truthy sdk"
    by (simp add: derive_image_tag_alt startswith_def)
  have c: "\<exists>repo ver. repo \<in> {''cartesi/rollups-runtime'', ''cartesi/rollups-node''}
         \<and> derive_image_tag tag sdk = repo @ '':'' @ ver \<and> lstrip_v ver = ver"
  proof (cases "node_major_version tag \<ge> 2 \<and> opt_truthy sdk")
    case True
    then obtain v where "sdk = Some v" by (auto simp: opt_truthy_def)
    with True assms show ?thesis
      by (intro exI [of _ "''cartesi/rollups-runtime''"] exI [of _ v]) (simp add: derive_image_tag_alt)
  next
    case False
    then show ?thesis
      by (intro exI [of _ "''cartesi/rollups-node''"] exI [of _ "lstrip_v tag"])
         (simp add: derive_image_tag_alt)
  qed
  from a b c show ?thesis by blast
qed

theorem derive_image_tag_spec_witness:
  "derive_image_tag ''vv1.5'' None = derive_image_tag ''v1.5'' None"
  using derive_image_tag_spec [of None "''v1.5''"] by simp

end
