(* ===== verification/Sandbox_Pool.thy ===== *)
theory Sandbox_Pool
  imports Rvp_Prelude
begin

text \<open>
  \<open>services/sandbox-manager/pool.py\<close>: the slot tracker.  The state is the dict \<open>_active\<close> (in insertion
  order) and the flag of the \<open>asyncio.Event\<close>; \<open>MAX_SANDBOXES\<close> is a parameter.  The methods hold
  \<open>_lock\<close> over a body without awaits, so each is one atomic step; \<open>wait_for_slot\<close> is modelled by one
  round of its loop, which either returns or suspends the caller until the event is set.
\<close>

record pool_entry =
  pe_run_id :: string
  pe_sandbox_id :: string

record pool =
  active :: "(string \<times> pool_entry) list"
  slot_available :: bool

definition init_pool :: pool where
  "init_pool = \<lparr>active = [], slot_available = True\<rparr>"

definition active_count :: "pool \<Rightarrow> int" where
  "active_count p = int (length (active p))"

definition has_capacity :: "int \<Rightarrow> pool \<Rightarrow> bool" where
  "has_capacity max_sandboxes p = (active_count p < max_sandboxes)"

text \<open>\<open>d[k] = v\<close> and \<open>d.pop(k, None)\<close> on the dict of active sandboxes.\<close>

definition put_entry :: "string \<Rightarrow> pool_entry \<Rightarrow> (string \<times> pool_entry) list \<Rightarrow> (string \<times> pool_entry) list" where
  "put_entry k v d =
     (if k \<in> fst ` set d then map (\<lambda>(k', v'). (k', if k' = k then v else v')) d else d @ [(k, v)])"

definition acquire :: "int \<Rightarrow> pool \<Rightarrow> string \<Rightarrow> string \<Rightarrow> bool \<times> pool" where
  "acquire max_sandboxes p sandbox_id run_id =
     (if \<not> has_capacity max_sandboxes p then (False, p)
      else
        (let p1 = p\<lparr>active := put_entry sandbox_id
                        \<lparr>pe_run_id = run_id, pe_sandbox_id = sandbox_id\<rparr> (active p)\<rparr>;
             p2 = (if \<not> has_capacity max_sandboxes p1 then p1\<lparr>slot_available := False\<rparr> else p1)
         in (True, p2)))"

definition release :: "pool \<Rightarrow> string \<Rightarrow> pool" where
  "release p sandbox_id =
     p\<lparr>active := filter (\<lambda>kv. fst kv \<noteq> sandbox_id) (active p), slot_available := True\<rparr>"

text \<open>
  One test of the loop guard of \<open>wait_for_slot\<close>: None when the call returns, otherwise the pool in
  which the caller is suspended on \<open>_slot_available.wait()\<close>.
\<close>

definition wait_round :: "int \<Rightarrow> pool \<Rightarrow> pool option" where
  "wait_round max_sandboxes p =
     (if has_capacity max_sandboxes p then None else Some (p\<lparr>slot_available := False\<rparr>))"

section \<open>Invariant\<close>

definition held :: "pool \<Rightarrow> string set" where
  "held p = fst ` set (active p)"

definition pool_ok :: "int \<Rightarrow> pool \<Rightarrow> bool" where
  "pool_ok m p \<longleftrightarrow> distinct (map fst (active p)) \<and> active_count p \<le> max 0 m
     \<and> (has_capacity m p \<longrightarrow> slot_available p)"

lemma put_entry_keys [simp]: "fst ` set (put_entry k v d) = insert k (fst ` set d)"
  by (force simp: put_entry_def)

lemma put_entry_distinct [simp]: "distinct (map fst (put_entry k v d)) = distinct (map fst d)"
proof -
  have "map fst (map (\<lambda>(k', v'). (k', if k' = k then v else v')) d) = map fst d" by auto
  then show ?thesis by (auto simp: put_entry_def simp del: map_map)
qed

lemma put_entry_length [simp]:
  "length (put_entry k v d) = (if k \<in> fst ` set d then length d else Suc (length d))"
  by (simp add: put_entry_def)

lemma pool_ok_init: "pool_ok m init_pool"
  by (simp add: pool_ok_def init_pool_def active_count_def)

lemma pool_ok_acquire: "pool_ok m p \<Longrightarrow> pool_ok m (snd (acquire m p sid rid))"
  by (auto simp: pool_ok_def acquire_def has_capacity_def active_count_def Let_def)

lemma filter_fst_absent: "k \<notin> fst ` set d \<Longrightarrow> filter (\<lambda>kv. fst kv \<noteq> k) d = d"
  by (induction d) auto

lemma distinct_map_fst_filter: "distinct (map fst d) \<Longrightarrow> distinct (map fst (filter P d))"
  by (induction d) (auto simp: image_iff)

lemma pool_ok_release:
  assumes "pool_ok m p"
  shows "pool_ok m (release p sid)"
proof -
  have "int (length (filter (\<lambda>kv. fst kv \<noteq> sid) (active p))) \<le> int (length (active p))" by simp
  also have "\<dots> \<le> max 0 m" using assms by (simp add: pool_ok_def active_count_def)
  finally show ?thesis using assms
    by (simp add: pool_ok_def release_def active_count_def distinct_map_fst_filter)
qed

lemma pool_ok_wait: "pool_ok m p \<Longrightarrow> wait_round m p = Some p' \<Longrightarrow> pool_ok m p'"
  by (auto simp: pool_ok_def wait_round_def has_capacity_def active_count_def split: if_splits)

lemma held_acquire:
  "held (snd (acquire m p sid rid)) = (if has_capacity m p then insert sid (held p) else held p)"
  by (simp add: held_def acquire_def Let_def)

lemma held_release: "held (release p sid) = held p - {sid}"
  by (auto simp: held_def release_def)

lemma finite_held [simp]: "finite (held p)"
  by (simp add: held_def)

lemma held_init [simp]: "held init_pool = {}"
  by (simp add: held_def init_pool_def)

lemma acquire_result: "fst (acquire m p sid rid) = has_capacity m p"
  by (simp add: acquire_def Let_def)

lemma card_held: "pool_ok m p \<Longrightarrow> int (card (held p)) = active_count p"
  by (simp add: pool_ok_def held_def active_count_def distinct_card flip: set_map)

section \<open>The pool as a counting semaphore over identifiers\<close>

text \<open>
  What the sandbox consumer relies on: a bounded set of held identifiers, a claim that succeeds
  exactly below the bound, and a release that always frees.
\<close>

locale slot_pool =
  fixes init :: "'p"
    and claim :: "'p \<Rightarrow> string \<Rightarrow> string \<Rightarrow> bool \<times> 'p"
    and free :: "'p \<Rightarrow> string \<Rightarrow> 'p"
    and owners :: "'p \<Rightarrow> string set"
    and ok :: "'p \<Rightarrow> bool"
    and bound :: nat
  assumes ok_init: "ok init"
    and owners_init: "owners init = {}"
    and ok_claim: "ok p \<Longrightarrow> ok (snd (claim p k r))"
    and ok_free: "ok p \<Longrightarrow> ok (free p k)"
    and claim_iff: "ok p \<Longrightarrow> fst (claim p k r) \<longleftrightarrow> card (owners p) < bound"
    and claim_owners: "ok p \<Longrightarrow> owners (snd (claim p k r))
                         = (if card (owners p) < bound then insert k (owners p) else owners p)"
    and free_owners: "owners (free p k) = owners p - {k}"
    and ok_finite: "ok p \<Longrightarrow> finite (owners p)"
begin

text \<open>A history of claims and releases.\<close>

fun run_ops :: "'p \<Rightarrow> (string \<times> string option) list \<Rightarrow> 'p" where
  "run_ops p [] = p"
| "run_ops p ((k, Some r) # ops) = run_ops (snd (claim p k r)) ops"
| "run_ops p ((k, None) # ops) = run_ops (free p k) ops"

lemma run_ops_ok: "ok p \<Longrightarrow> ok (run_ops p ops)"
  by (induction p ops rule: run_ops.induct) (auto simp: ok_claim ok_free)

lemma owners_bounded: "ok p \<Longrightarrow> card (owners p) \<le> bound \<Longrightarrow> card (owners (run_ops p ops)) \<le> bound"
proof (induction p ops rule: run_ops.induct)
  case (1 p)
  then show ?case by simp
next
  case (2 p k r ops)
  then have "card (owners (snd (claim p k r))) \<le> bound"
    by (auto simp: claim_owners ok_finite card_insert_if)
  with 2 show ?case by (simp add: ok_claim)
next
  case (3 p k ops)
  have "card (owners p - {k}) \<le> card (owners p)" by (rule card_mono) (auto simp: ok_finite "3.prems")
  with 3 show ?case by (simp add: ok_free free_owners)
qed

lemma free_makes_room:
  assumes "ok p" and "k \<in> owners p" and "card (owners p) \<le> bound"
  shows "fst (claim (free p k) k' r)"
proof -
  from assms have "card (owners p - {k}) < card (owners p)"
    by (meson card_Diff1_less ok_finite)
  with assms show ?thesis by (simp add: claim_iff ok_free free_owners)
qed

end

lemma has_capacity_card: "pool_ok (int m) p \<Longrightarrow> has_capacity (int m) p \<longleftrightarrow> card (held p) < m"
  using card_held [of "int m" p] by (auto simp: has_capacity_def)

interpretation pool_slots: slot_pool init_pool "acquire (int m)" release held "pool_ok (int m)" m
  for m
  by unfold_locales
     (auto simp: pool_ok_init pool_ok_acquire pool_ok_release acquire_result has_capacity_card
                 held_acquire held_release)

text \<open>A history of calls on the pool: Some run id for an acquire, None for a release.\<close>

fun pool_run :: "int \<Rightarrow> pool \<Rightarrow> (string \<times> string option) list \<Rightarrow> pool" where
  "pool_run m p [] = p"
| "pool_run m p ((sid, Some rid) # ops) = pool_run m (snd (acquire m p sid rid)) ops"
| "pool_run m p ((sid, None) # ops) = pool_run m (release p sid) ops"

lemma pool_run_slots: "pool_run (int m) p ops = pool_slots.run_ops m p ops"
  by (induction "int m" p ops rule: pool_run.induct) simp_all

text \<open>C25: Whatever sequence of acquire and release calls runs on a fresh pool, the number of active
  sandboxes never exceeds MAX_SANDBOXES, no sandbox is counted twice, and the slot event is set
  whenever there is capacity, so that no waiter sleeps while a slot is free.\<close>

theorem pool_never_over_capacity:
  "active_count (pool_run (int m) init_pool ops) \<le> int m
   \<and> distinct (map fst (active (pool_run (int m) init_pool ops)))
   \<and> (has_capacity (int m) (pool_run (int m) init_pool ops)
        \<longrightarrow> slot_available (pool_run (int m) init_pool ops))"
  using pool_slots.run_ops_ok [of m init_pool ops, OF pool_ok_init]
  by (simp add: pool_ok_def pool_run_slots)

theorem pool_never_over_capacity_witness:
  "has_capacity 1 (pool_run 1 init_pool [(''a'', Some ''r''), (''b'', Some ''s''), (''a'', None)])
   \<and> slot_available (pool_run 1 init_pool [(''a'', Some ''r''), (''b'', Some ''s''), (''a'', None)])"
proof -
  have "has_capacity 1 (pool_run 1 init_pool [(''a'', Some ''r''), (''b'', Some ''s''), (''a'', None)])"
    by (simp add: init_pool_def acquire_def release_def has_capacity_def active_count_def put_entry_def)
  with pool_never_over_capacity [of 1 "[(''a'', Some ''r''), (''b'', Some ''s''), (''a'', None)]"]
  show ?thesis by simp
qed

text \<open>Acquire answers True exactly when there is capacity and then holds the sandbox; after the
  release of a held sandbox the next acquire, of any sandbox, succeeds.\<close>

theorem acquire_release_contract:
  assumes "pool_ok (int m) p"
  shows "(fst (acquire (int m) p sid rid) \<longleftrightarrow> has_capacity (int m) p)
    \<and> (fst (acquire (int m) p sid rid) \<longrightarrow> sid \<in> held (snd (acquire (int m) p sid rid)))
    \<and> (sid \<in> held p \<longrightarrow> fst (acquire (int m) (release p sid) sid' rid'))"
proof -
  have "card (held p) \<le> m"
    using card_held [OF assms] assms by (simp add: pool_ok_def)
  then show ?thesis
    using pool_slots.free_makes_room [OF assms] by (simp add: acquire_result held_acquire)
qed

theorem acquire_release_contract_witness:
  "fst (acquire (int 1) (release (snd (acquire 1 init_pool ''a'' ''r'')) ''a'') ''b'' ''s'')"
proof -
  have "pool_ok (int 1) (snd (acquire 1 init_pool ''a'' ''r''))"
    using pool_ok_acquire [OF pool_ok_init, of 1 "''a''" "''r''"] by simp
  moreover have "''a'' \<in> held (snd (acquire 1 init_pool ''a'' ''r''))"
    by (simp add: held_acquire has_capacity_def active_count_def init_pool_def)
  ultimately show ?thesis
    using acquire_release_contract [of 1 "snd (acquire 1 init_pool ''a'' ''r'')" "''a''" "''r''" "''b''" "''s''"]
    by simp
qed

end
