(* ===== verification/Log_Buffer.thy ===== *)
theory Log_Buffer
  imports Rvp_Strings "HOL-Library.Multiset"
begin

text \<open>
  \<open>services/sandbox-manager/log_buffer.py\<close>: the thread-safe accumulator of log lines.  The bodies
  under \<open>_lock\<close> are the atomic operations \<open>append_locked\<close> and \<open>take_batch\<close>; the flush callback runs
  outside the lock, so between taking a batch and delivering it other threads may act.  The calls of
  one thread on its own are \<open>append_line\<close>, \<open>flush\<close>, \<open>stop\<close> and \<open>timer_tick\<close>; the interleavings of many
  threads are the step relation \<open>buf_step\<close>.  Times are in milliseconds.
\<close>

record log_entry =
  le_source :: string
  le_level :: string
  le_message :: string
  le_ts :: int

type_synonym batch = "log_entry list"

record log_buffer =
  lines :: batch
  last_flush :: int
  stop_event :: bool
  max_lines :: nat
  max_age :: int

definition new_buffer :: "nat \<Rightarrow> int \<Rightarrow> int \<Rightarrow> log_buffer" where
  "new_buffer n age now =
     \<lparr>lines = [], last_flush = now, stop_event = False, max_lines = n, max_age = age\<rparr>"

definition make_entry :: "string \<Rightarrow> string \<Rightarrow> string \<Rightarrow> int \<Rightarrow> log_entry" where
  "make_entry source level message ts =
     \<lparr>le_source = str_take 64 source, le_level = level, le_message = str_take 4096 message, le_ts = ts\<rparr>"

section \<open>The two critical sections\<close>

text \<open>Result: whether the caller has to flush.\<close>

definition append_locked :: "log_buffer \<Rightarrow> log_entry \<Rightarrow> bool \<times> log_buffer" where
  "append_locked b entry =
     (let b' = b\<lparr>lines := lines b @ [entry]\<rparr>
      in (length (lines b') \<ge> max_lines b', b'))"

text \<open>Result: the batch to hand to the callback, None when the buffer is empty.\<close>

definition take_batch :: "log_buffer \<Rightarrow> int \<Rightarrow> batch option \<times> log_buffer" where
  "take_batch b now =
     (if lines b = [] then (None, b)
      else (Some (lines b), b\<lparr>lines := [], last_flush := now\<rparr>))"

section \<open>The public operations, run by one thread\<close>

text \<open>
  \<open>_do_flush\<close>: the second component is what was handed to the callback.  A callback that raises is
  swallowed and leaves the buffer as it is, so its outcome does not show in the state.
\<close>

definition do_flush :: "log_buffer \<Rightarrow> int \<Rightarrow> log_buffer \<times> batch list" where
  "do_flush b now =
     (case take_batch b now of
        (None, b') \<Rightarrow> (b', [])
      | (Some batch, b') \<Rightarrow> (b', [batch]))"

definition append_line :: "log_buffer \<Rightarrow> int \<Rightarrow> string \<Rightarrow> string \<Rightarrow> string \<Rightarrow> log_buffer \<times> batch list" where
  "append_line b now source level message =
     (let entry = make_entry source level message now;
          (flush_now, b') = append_locked b entry
      in if flush_now then do_flush b' now else (b', []))"

definition flush :: "log_buffer \<Rightarrow> int \<Rightarrow> log_buffer \<times> batch list" where
  "flush b now = do_flush b now"

definition stop :: "log_buffer \<Rightarrow> int \<Rightarrow> log_buffer \<times> batch list" where
  "stop b now = do_flush (b\<lparr>stop_event := True\<rparr>) now"

text \<open>One wake-up of the timer thread; None when the stop event ends its loop.\<close>

definition timer_tick :: "log_buffer \<Rightarrow> int \<Rightarrow> (log_buffer \<times> batch list) option" where
  "timer_tick b now =
     (if stop_event b then None
      else if now - last_flush b \<ge> max_age b then Some (do_flush b now)
      else Some (b, []))"

section \<open>Interleavings\<close>

text \<open>
  \<open>wants\<close> counts the threads that found the buffer full and have not entered \<open>_do_flush\<close> yet;
  \<open>in_flight\<close> are batches taken but not yet handed over; \<open>appended\<close> and \<open>taken\<close> record the history.
\<close>

record buf_sys =
  buf :: log_buffer
  wants :: nat
  in_flight :: "batch list"
  delivered :: "batch list"
  appended :: batch
  taken :: "batch list"

definition init_sys :: "nat \<Rightarrow> int \<Rightarrow> int \<Rightarrow> buf_sys" where
  "init_sys n age now =
     \<lparr>buf = new_buffer n age now, wants = 0, in_flight = [], delivered = [], appended = [], taken = []\<rparr>"

text \<open>A thread runs the critical section of \<open>_do_flush\<close>.\<close>

definition sys_take :: "buf_sys \<Rightarrow> int \<Rightarrow> buf_sys" where
  "sys_take s now =
     (case take_batch (buf s) now of
        (None, b) \<Rightarrow> s\<lparr>buf := b\<rparr>
      | (Some batch, b) \<Rightarrow> s\<lparr>buf := b, in_flight := in_flight s @ [batch], taken := taken s @ [batch]\<rparr>)"

inductive buf_step :: "buf_sys \<Rightarrow> buf_sys \<Rightarrow> bool" where
  st_append: "append_locked (buf s) e = (w, b) \<Longrightarrow>
     buf_step s (s\<lparr>buf := b, appended := appended s @ [e], wants := wants s + of_bool w\<rparr>)"
| st_full_flush: "wants s > 0 \<Longrightarrow> buf_step s ((sys_take s now)\<lparr>wants := wants s - 1\<rparr>)"
| st_flush: "buf_step s (sys_take s now)"
| st_timer: "\<not> stop_event (buf s) \<Longrightarrow> now - last_flush (buf s) \<ge> max_age (buf s) \<Longrightarrow>
     buf_step s (sys_take s now)"
| st_stop: "buf_step s (s\<lparr>buf := (buf s)\<lparr>stop_event := True\<rparr>\<rparr>)"
| st_deliver: "in_flight s = xs @ batch # ys \<Longrightarrow>
     buf_step s (s\<lparr>in_flight := xs @ ys, delivered := delivered s @ [batch]\<rparr>)"

inductive buf_reach :: "nat \<Rightarrow> int \<Rightarrow> int \<Rightarrow> buf_sys \<Rightarrow> bool" for n age now where
  start: "buf_reach n age now (init_sys n age now)"
| step: "buf_reach n age now s \<Longrightarrow> buf_step s t \<Longrightarrow> buf_reach n age now t"

definition buf_inv :: "nat \<Rightarrow> buf_sys \<Rightarrow> bool" where
  "buf_inv n s \<longleftrightarrow>
     concat (taken s) @ lines (buf s) = appended s
   \<and> mset (taken s) = mset (in_flight s) + mset (delivered s)
   \<and> max_lines (buf s) = n
   \<and> (length (lines (buf s)) < n \<or> wants s > 0 \<or> lines (buf s) = [])
   \<and> [] \<notin> set (taken s)"

lemma take_batch_cases:
  "take_batch b now = (if lines b = [] then (None, b)
     else (Some (lines b), b\<lparr>lines := [], last_flush := now\<rparr>))"
  by (simp add: take_batch_def)

lemma sys_take_inv: "buf_inv n s \<Longrightarrow> buf_inv n (sys_take s now)"
  by (auto simp: buf_inv_def sys_take_def take_batch_def)

lemma sys_take_empties: "lines (buf (sys_take s now)) = []"
  by (simp add: sys_take_def take_batch_def)

lemma sys_take_inv_dec: "buf_inv n s \<Longrightarrow> buf_inv n ((sys_take s now)\<lparr>wants := k\<rparr>)"
  using sys_take_inv [of n s now] sys_take_empties [of s now] by (auto simp: buf_inv_def)

lemma buf_step_inv: "buf_step s t \<Longrightarrow> buf_inv n s \<Longrightarrow> buf_inv n t"
proof (induction rule: buf_step.induct)
  case (st_append s e w b)
  then show ?case by (auto simp: buf_inv_def append_locked_def Let_def)
next
  case (st_full_flush s now)
  then show ?case by (simp add: sys_take_inv_dec)
next
  case (st_flush s now)
  then show ?case by (rule sys_take_inv)
next
  case (st_timer s now)
  then show ?case by (simp add: sys_take_inv)
next
  case (st_stop s)
  then show ?case by (auto simp: buf_inv_def)
next
  case (st_deliver s xs batch ys)
  then show ?case by (auto simp: buf_inv_def)
qed

lemma buf_reach_inv: "buf_reach n age now s \<Longrightarrow> buf_inv n s"
proof (induction rule: buf_reach.induct)
  case start
  show ?case by (simp add: buf_inv_def init_sys_def new_buffer_def)
next
  case (step s t)
  then show ?case by (blast intro: buf_step_inv)
qed

text \<open>C24: However the threads interleave, no log line is lost, duplicated or reordered between append
  and the batches that are taken: the taken batches followed by the buffer are the appended lines
  in order, every taken batch is either in flight or was handed to the callback exactly once, none
  is empty, and when nothing is buffered or in flight the callback has received all lines.\<close>

theorem log_lines_conserved:
  assumes "buf_reach n age now s"
  shows "concat (taken s) @ lines (buf s) = appended s
    \<and> mset (taken s) = mset (in_flight s) + mset (delivered s)
    \<and> [] \<notin> set (taken s)
    \<and> (lines (buf s) = [] \<and> in_flight s = [] \<longrightarrow> mset (concat (delivered s)) = mset (appended s))"
proof -
  have inv: "buf_inv n s" using assms by (rule buf_reach_inv)
  moreover have "mset (concat (delivered s)) = mset (appended s)"
    if "lines (buf s) = []" "in_flight s = []"
  proof -
    from inv that have "mset (delivered s) = mset (taken s)" "concat (taken s) = appended s"
      by (simp_all add: buf_inv_def)
    then show ?thesis by (metis mset_concat mset_map sum_mset_sum_list)
  qed
  ultimately show ?thesis by (simp add: buf_inv_def)
qed

lemmas buf_defs = init_sys_def new_buffer_def append_locked_def sys_take_def take_batch_def make_entry_def Let_def

lemma reach_append:
  "buf_reach n age now s \<Longrightarrow> append_locked (buf s) e = (w, b) \<Longrightarrow>
     buf_reach n age now (s\<lparr>buf := b, appended := appended s @ [e], wants := wants s + of_bool w\<rparr>)"
  by (blast intro: buf_reach.step st_append)

lemma reach_take: "buf_reach n age now s \<Longrightarrow> buf_reach n age now (sys_take s t)"
  by (blast intro: buf_reach.step st_flush)

lemma reach_deliver:
  "buf_reach n age now s \<Longrightarrow> in_flight s = xs @ batch # ys \<Longrightarrow>
     buf_reach n age now (s\<lparr>in_flight := xs @ ys, delivered := delivered s @ [batch]\<rparr>)"
  by (blast intro: buf_reach.step st_deliver)

definition overtaking_sys :: buf_sys where
  "overtaking_sys =
     (let a = make_entry ''anvil'' ''info'' ''first'' 0; b = make_entry ''anvil'' ''info'' ''second'' 1
      in \<lparr>buf = \<lparr>lines = [], last_flush = 2, stop_event = False, max_lines = 50, max_age = 2000\<rparr>,
          wants = 0, in_flight = [], delivered = [[b], [a]], appended = [a, b], taken = [[a], [b]]\<rparr>)"

lemma overtaking_reachable: "buf_reach 50 2000 0 overtaking_sys"
proof -
  let ?a = "make_entry ''anvil'' ''info'' ''first'' 0"
  let ?b = "make_entry ''anvil'' ''info'' ''second'' 1"
  let ?B = "\<lambda>ls t. \<lparr>lines = ls, last_flush = t, stop_event = False, max_lines = 50, max_age = 2000\<rparr>"
  let ?S = "\<lambda>ls t fl dl ap tk. \<lparr>buf = ?B ls t, wants = 0, in_flight = fl, delivered = dl, appended = ap, taken = tk\<rparr>"
  have 0: "buf_reach 50 2000 0 (?S [] 0 [] [] [] [])"
    using buf_reach.start [of 50 2000 0] by (simp add: init_sys_def new_buffer_def)
  from reach_append [OF 0, of ?a False "?B [?a] 0"]
  have 1: "buf_reach 50 2000 0 (?S [?a] 0 [] [] [?a] [])" by (simp add: append_locked_def)
  from reach_take [OF 1, of 1]
  have 2: "buf_reach 50 2000 0 (?S [] 1 [[?a]] [] [?a] [[?a]])" by (simp add: sys_take_def take_batch_def)
  from reach_append [OF 2, of ?b False "?B [?b] 1"]
  have 3: "buf_reach 50 2000 0 (?S [?b] 1 [[?a]] [] [?a, ?b] [[?a]])" by (simp add: append_locked_def)
  from reach_take [OF 3, of 2]
  have 4: "buf_reach 50 2000 0 (?S [] 2 [[?a], [?b]] [] [?a, ?b] [[?a], [?b]])"
    by (simp add: sys_take_def take_batch_def)
  from reach_deliver [OF 4, of "[[?a]]" "[?b]" "[]"]
  have 5: "buf_reach 50 2000 0 (?S [] 2 [[?a]] [[?b]] [?a, ?b] [[?a], [?b]])" by simp
  from reach_deliver [OF 5, of "[]" "[?a]" "[]"]
  show ?thesis by (simp add: overtaking_sys_def Let_def)
qed

theorem log_lines_conserved_witness:
  "mset (concat (delivered overtaking_sys)) = mset (appended overtaking_sys)"
  using log_lines_conserved [OF overtaking_reachable] by (simp add: overtaking_sys_def Let_def)

text \<open>The callback runs outside the lock, so two threads can hand over their batches in the
  opposite order to the one in which the lines were appended: such a state is reachable with the
  default sizes.  The order of the persisted rows is therefore not the order of the lines.\<close>

theorem batches_can_overtake:
  "\<exists>s. buf_reach 50 2000 0 s \<and> lines (buf s) = [] \<and> in_flight s = []
     \<and> concat (delivered s) \<noteq> appended s"
proof (intro exI [of _ overtaking_sys] conjI overtaking_reachable)
  show "concat (delivered overtaking_sys) \<noteq> appended overtaking_sys"
    by (simp add: overtaking_sys_def make_entry_def Let_def)
qed (simp_all add: overtaking_sys_def Let_def)

text \<open>A run of the operations of one thread; the second component collects the delivered batches.\<close>

datatype buf_call = CAppend string string string | CFlush | CTick | CStop

fun exec_call :: "log_buffer \<Rightarrow> int \<Rightarrow> buf_call \<Rightarrow> log_buffer \<times> batch list" where
  "exec_call b now (CAppend src lvl msg) = append_line b now src lvl msg"
| "exec_call b now CFlush = flush b now"
| "exec_call b now CTick = (case timer_tick b now of None \<Rightarrow> (b, []) | Some r \<Rightarrow> r)"
| "exec_call b now CStop = stop b now"

fun buf_run :: "log_buffer \<Rightarrow> (int \<times> buf_call) list \<Rightarrow> log_buffer \<times> batch list" where
  "buf_run b [] = (b, [])"
| "buf_run b ((now, c) # cs) =
     (let (b1, out1) = exec_call b now c; (b2, out2) = buf_run b1 cs in (b2, out1 @ out2))"

fun call_lines :: "(int \<times> buf_call) list \<Rightarrow> batch" where
  "call_lines [] = []"
| "call_lines ((now, CAppend src lvl msg) # cs) = make_entry src lvl msg now # call_lines cs"
| "call_lines ((now, _) # cs) = call_lines cs"

lemma do_flush_spec: "concat (snd (do_flush b now)) = lines b \<and> lines (fst (do_flush b now)) = []
    \<and> max_lines (fst (do_flush b now)) = max_lines b"
  by (simp add: do_flush_def take_batch_def)

lemma exec_call_spec:
  "concat (snd (exec_call b now c)) @ lines (fst (exec_call b now c)) = lines b @ call_lines [(now, c)]
   \<and> max_lines (fst (exec_call b now c)) = max_lines b
   \<and> (length (lines b) < max_lines b \<longrightarrow> length (lines (fst (exec_call b now c))) < max_lines b)"
  by (cases c)
     (auto simp: append_line_def append_locked_def flush_def stop_def timer_tick_def do_flush_def
                 take_batch_def Let_def)

lemma buf_run_spec:
  "concat (snd (buf_run b cs)) @ lines (fst (buf_run b cs)) = lines b @ call_lines cs
   \<and> (length (lines b) < max_lines b \<longrightarrow> length (lines (fst (buf_run b cs))) < max_lines b)"
proof (induction cs arbitrary: b)
  case Nil
  then show ?case by simp
next
  case (Cons p cs)
  obtain now c where p: "p = (now, c)" by (cases p)
  obtain b1 o1 where 1: "exec_call b now c = (b1, o1)" by (cases "exec_call b now c") auto
  obtain b2 o2 where 2: "buf_run b1 cs = (b2, o2)" by (cases "buf_run b1 cs") auto
  have "call_lines ((now, c) # cs) = call_lines [(now, c)] @ call_lines cs" by (cases c) simp_all
  with exec_call_spec [of b now c] Cons.IH [of b1] 1 2 show ?case
    by (simp add: p)
qed

text \<open>Used by one thread, the buffer hands over the lines in order: the concatenation of the
  delivered batches followed by the buffered lines is the sequence of appended lines, fewer than
  max_lines lines stay buffered after every call, and a final stop delivers everything.\<close>

theorem single_thread_in_order:
  assumes "0 < n"
  shows "concat (snd (buf_run (new_buffer n age t0) cs)) @ lines (fst (buf_run (new_buffer n age t0) cs))
           = call_lines cs
    \<and> length (lines (fst (buf_run (new_buffer n age t0) cs))) < n
    \<and> concat (snd (buf_run (new_buffer n age t0) cs)
              @ snd (stop (fst (buf_run (new_buffer n age t0) cs)) t1)) = call_lines cs"
  using buf_run_spec [of "new_buffer n age t0" cs] assms
  by (simp add: new_buffer_def stop_def do_flush_spec)

theorem single_thread_in_order_witness:
  "length (lines (fst (buf_run (new_buffer 2 2000 0)
     [(0, CAppend ''a'' ''info'' ''x''), (1, CAppend ''a'' ''info'' ''y''), (2, CAppend ''a'' ''info'' ''z'')]))) < 2"
  by (rule single_thread_in_order [THEN conjunct2, THEN conjunct1]) simp

end
