(* ===== verification/Rvp_Db.thy ===== *)
theory Rvp_Db
  imports Rvp_Strings
begin

text \<open>
  The shared state of the services: the PostgreSQL tables that their SQL statements read and write,
  one record per table with the columns that are used, and the message queues as lists of published
  messages.  Tables are lists of rows in insertion order; an UPDATE maps over the rows, a SELECT
  filters them.  SQL NULL is None, or JNull in a JSON column.  Database and broker calls succeed,
  except where a component theory says otherwise.
\<close>

section \<open>Enumerations\<close>

datatype run_status =
  RQueued | RProvisioning | RRunning | RCompleted | RFailed | RWarning | RCancelled

datatype sandbox_status =
  SRequested | SQueued | SProvisioning | SReady | SRunning | STeardown | SClosed | SFailed

datatype test_status =
  TPending | TRunning | TPassed | TFailed | TError | TSkipped | TTimeout

fun run_status_str :: "run_status \<Rightarrow> string" where
  "run_status_str RQueued = ''queued''"
| "run_status_str RProvisioning = ''provisioning''"
| "run_status_str RRunning = ''running''"
| "run_status_str RCompleted = ''completed''"
| "run_status_str RFailed = ''failed''"
| "run_status_str RWarning = ''warning''"
| "run_status_str RCancelled = ''cancelled''"

fun test_status_str :: "test_status \<Rightarrow> string" where
  "test_status_str TPending = ''pending''"
| "test_status_str TRunning = ''running''"
| "test_status_str TPassed = ''passed''"
| "test_status_str TFailed = ''failed''"
| "test_status_str TError = ''error''"
| "test_status_str TSkipped = ''skipped''"
| "test_status_str TTimeout = ''timeout''"

section \<open>Rows\<close>

record run_row =
  r_id :: string
  r_release_tag :: string
  r_image_tag :: string
  r_suite_ids :: "string list"
  r_status :: run_status
  r_priority :: int
  r_triggered_by :: string
  r_triggered_by_user :: "string option"
  r_queued_at :: int
  r_started_at :: "int option"
  r_completed_at :: "int option"
  r_pass_rate :: "rat option"
  r_metadata :: json
  r_app_id :: "string option"
  r_app_address :: json

record event_row =
  ev_run_id :: string
  ev_type :: string
  ev_payload :: json
  ev_ts :: int

record log_row =
  lg_id :: int
  lg_run_id :: string
  lg_source :: string
  lg_level :: string
  lg_message :: string
  lg_ts :: json

record def_row =
  d_id :: string
  d_slug :: string
  d_name :: string
  d_version :: int
  d_tags :: "string list option"
  d_category :: "string option"
  d_phase :: "string option"
  d_active :: bool
  d_min_node_major :: int
  d_timeout_seconds :: int
  d_parsed :: json

record result_row =
  t_id :: string
  t_run_id :: string
  t_sandbox_id :: string
  t_def_id :: string
  t_def_version :: int
  t_status :: test_status
  t_duration_ms :: "int option"
  t_assertion_results :: json
  t_error_message :: "string option"
  t_started_at :: "int option"
  t_completed_at :: "int option"

text \<open>Columns that are written from the provisioner's answer keep its JSON values.\<close>

record sandbox_row =
  s_id :: string
  s_run_id :: string
  s_status :: sandbox_status
  s_docker_network :: json
  s_container_ids :: json
  s_anvil_port :: json
  s_node_port :: json
  s_graphql_port :: json
  s_snapshot_volume :: json
  s_metadata :: json
  s_failure_reason :: "string option"
  s_provisioned_at :: "int option"
  s_ready_at :: "int option"
  s_closed_at :: "int option"

record app_row =
  a_id :: string
  a_name :: string
  a_github_url :: string
  a_is_active :: bool

record session_row =
  ss_run_id :: string
  ss_status :: string

text \<open>The version chain: release \<open>\<rightarrow>\<close> CLI \<open>\<rightarrow>\<close> devnet \<open>\<rightarrow>\<close> contracts.\<close>

record release_row =
  rc_tag :: string
  rc_cli_tag :: "string option"
  rc_node_major :: "int option"

record cli_row =
  cc_tag :: string
  cc_sdk_tag :: "string option"
  cc_devnet_tag :: "string option"

record devnet_row =
  dc_tag :: string
  dc_contracts_tag :: "string option"

record db =
  runs :: "run_row list"
  run_events :: "event_row list"
  run_logs :: "log_row list"
  log_seq :: int
  definitions :: "def_row list"
  results :: "result_row list"
  sandboxes :: "sandbox_row list"
  applications :: "app_row list"
  sessions :: "session_row list"
  release_catalog :: "release_row list"
  cli_catalog :: "cli_row list"
  devnet_catalog :: "devnet_row list"

section \<open>Reading and updating by key\<close>

definition find_run :: "db \<Rightarrow> string \<Rightarrow> run_row option" where
  "find_run db rid = find (\<lambda>r. r_id r = rid) (runs db)"

definition find_sandbox :: "db \<Rightarrow> string \<Rightarrow> sandbox_row option" where
  "find_sandbox db sid = find (\<lambda>s. s_id s = sid) (sandboxes db)"

definition update_run :: "string \<Rightarrow> (run_row \<Rightarrow> run_row) \<Rightarrow> db \<Rightarrow> db" where
  \<comment> \<open>\<open>UPDATE orchestrator.runs SET \<dots> WHERE id = :id\<close>\<close>
  "update_run rid f db = db\<lparr>runs := map (\<lambda>r. if r_id r = rid then f r else r) (runs db)\<rparr>"

definition update_result :: "string \<Rightarrow> (result_row \<Rightarrow> result_row) \<Rightarrow> db \<Rightarrow> db" where
  "update_result tid f db = db\<lparr>results := map (\<lambda>t. if t_id t = tid then f t else t) (results db)\<rparr>"

definition update_sandbox :: "string \<Rightarrow> (sandbox_row \<Rightarrow> sandbox_row) \<Rightarrow> db \<Rightarrow> db" where
  "update_sandbox sid f db = db\<lparr>sandboxes := map (\<lambda>s. if s_id s = sid then f s else s) (sandboxes db)\<rparr>"

definition run_results :: "db \<Rightarrow> string \<Rightarrow> result_row list" where
  "run_results db rid = filter (\<lambda>t. t_run_id t = rid) (results db)"

definition find_def :: "db \<Rightarrow> string \<Rightarrow> def_row option" where
  "find_def db did = find (\<lambda>d. d_id d = did) (definitions db)"

text \<open>
  A JSONB column of run metadata: the value under a key when it is an object, and the merge
  \<open>(CASE WHEN metadata IS NULL OR jsonb_typeof(metadata) <> 'object' THEN '{}' ELSE metadata END) || {k: v}\<close>.
\<close>

definition meta_get :: "json \<Rightarrow> string \<Rightarrow> json" where
  "meta_get m k = (case m of JObj d \<Rightarrow> get d k | _ \<Rightarrow> JNull)"

definition meta_merge :: "json \<Rightarrow> string \<Rightarrow> json \<Rightarrow> json" where
  "meta_merge m k v = (case m of JObj d \<Rightarrow> JObj (set_key d k v) | _ \<Rightarrow> JObj [(k, v)])"

text \<open>\<open>COALESCE((metadata->>'dispatched_count')::int, 0)\<close>; the column only ever holds integers.\<close>

definition dispatched_count :: "json \<Rightarrow> int" where
  "dispatched_count m = (case meta_get m ''dispatched_count'' of JInt n \<Rightarrow> n | _ \<Rightarrow> 0)"

section \<open>The table interface\<close>

text \<open>
  A keyed table with lookup and in-place update, as the clients of \<open>UPDATE \<dots> WHERE id = k\<close> use it.
\<close>

locale keyed_table =
  fixes look :: "'t \<Rightarrow> string \<Rightarrow> 'r option"
    and upd :: "string \<Rightarrow> ('r \<Rightarrow> 'r) \<Rightarrow> 't \<Rightarrow> 't"
    and key :: "'r \<Rightarrow> string"
  assumes look_key: "look t k = Some r \<Longrightarrow> key r = k"
    and look_upd: "(\<And>r. key (f r) = key r) \<Longrightarrow>
                    look (upd k f t) k' = (if k' = k then map_option f (look t k) else look t k')"
begin

lemma upd_keeps_dom:
  assumes "\<And>r. key (f r) = key r"
  shows "look (upd k f t) k' = None \<longleftrightarrow> look t k' = None"
  using assms by (simp add: look_upd)

lemma upd_keeps:
  assumes "\<And>r. key (f r) = key r" and "look t k' = Some r" and "P r" and "\<And>r. P r \<Longrightarrow> P (f r)"
  shows "\<exists>r'. look (upd k f t) k' = Some r' \<and> P r'"
  using assms by (auto simp: look_upd)

lemma upd_other:
  assumes "\<And>r. key (f r) = key r" and "k' \<noteq> k"
  shows "look (upd k f t) k' = look t k'"
  using assms by (simp add: look_upd)

end

lemma find_map_upd:
  assumes "\<And>r. key (f r) = key r"
  shows "find (\<lambda>r. key r = k') (map (\<lambda>r. if key r = k then f r else r) rs)
           = (if k' = k then map_option f (find (\<lambda>r. key r = k) rs) else find (\<lambda>r. key r = k') rs)"
  by (induction rs) (auto simp: assms)

lemma find_append: "find P (xs @ ys) = (case find P xs of None \<Rightarrow> find P ys | Some x \<Rightarrow> Some x)"
  by (induction xs) auto

lemma find_pred: "find P xs = Some x \<Longrightarrow> P x \<and> x \<in> set xs"
  by (induction xs) (auto split: if_splits)

interpretation run_table: keyed_table find_run update_run r_id
  by unfold_locales (auto simp: find_run_def update_run_def find_map_upd dest: find_pred)

interpretation sandbox_table: keyed_table find_sandbox update_sandbox s_id
  by unfold_locales (auto simp: find_sandbox_def update_sandbox_def find_map_upd dest: find_pred)

lemma update_run_other [simp]:
  "results (update_run rid f db) = results db"
  "definitions (update_run rid f db) = definitions db"
  "sandboxes (update_run rid f db) = sandboxes db"
  "run_events (update_run rid f db) = run_events db"
  "release_catalog (update_run rid f db) = release_catalog db"
  by (simp_all add: update_run_def)

lemma run_results_update_run [simp]: "run_results (update_run rid f db) = run_results db"
  by (simp add: run_results_def fun_eq_iff)

lemma find_run_id: "find_run db rid = Some r \<Longrightarrow> r_id r = rid"
  by (rule run_table.look_key)

lemma dispatched_count_merge [simp]:
  "dispatched_count (meta_merge m ''dispatched_count'' (JInt n)) = n"
  by (auto simp: dispatched_count_def meta_merge_def meta_get_def get_set_key get_def get_or_def
           split: json.splits)

lemma meta_get_merge_other [simp]: "k \<noteq> k' \<Longrightarrow> meta_get (meta_merge m k v) k' = meta_get m k'"
  by (auto simp: meta_merge_def meta_get_def get_set_key get_def get_or_def split: json.splits)

end
