(* ===== verification/Sandbox_Events.thy ===== *)
theory Sandbox_Events
  imports Rvp_Db
begin

text \<open>
  \<open>services/orchestrator/consumers/sandbox_events.py\<close> with the publishers it uses
  (\<open>publishers/notifications.py\<close>): how the orchestrator reacts to the events of the sandbox manager
  and turns a ready sandbox into test commands.

  The state \<open>orch\<close> is the database and what has been published.  Wall-clock times are integers, a
  fresh UUID is the argument \<open>eid\<close> (numbered where a handler draws several), run ids are UUID
  strings.  \<open>row_ok\<close> says which log rows PostgreSQL accepts (casts, column types).
\<close>

record orch =
  o_db :: db
  o_notify :: "json list"      \<comment> \<open>exchange rvp.notify\<close>
  o_live :: "json list"        \<comment> \<open>Redis channel rvp:live\<close>
  o_test_cmds :: "json list"   \<comment> \<open>queue tests.commands\<close>
  o_sandbox_reqs :: "(int \<times> json) list"  \<comment> \<open>priority queue sandbox.queue\<close>

definition opt_json :: "string option \<Rightarrow> json" where
  "opt_json x = (case x of None \<Rightarrow> JNull | Some s \<Rightarrow> JStr s)"

definition key_of :: "json \<Rightarrow> string" where
  \<comment> \<open>a run id as a key of the runs table; a missing id matches no row\<close>
  "key_of j = (case j of JStr s \<Rightarrow> s | _ \<Rightarrow> [])"

section \<open>Publishers\<close>

definition publish_notification ::
  "string \<Rightarrow> int \<Rightarrow> string \<Rightarrow> json \<Rightarrow> json \<Rightarrow> dict \<Rightarrow> orch \<Rightarrow> orch" where
  "publish_notification eid now event_type title run_id flds s =
     (let payload = JObj
            [(''event_id'', JStr eid), (''run_id'', run_id), (''service'', JStr ''orchestrator''),
             (''ts'', JInt now), (''event_type'', JStr event_type), (''title'', title),
             (''fields'', JObj flds)]
      in s\<lparr>o_notify := o_notify s @ [payload], o_live := o_live s @ [payload]\<rparr>)"

definition publish_live :: "json \<Rightarrow> orch \<Rightarrow> orch" where
  "publish_live payload s = s\<lparr>o_live := o_live s @ [payload]\<rparr>"

section \<open>Cancellation, log batches, audit rows\<close>

definition is_run_cancelled :: "db \<Rightarrow> string \<Rightarrow> bool" where
  "is_run_cancelled db run_id =
     (case find_run db run_id of None \<Rightarrow> False | Some r \<Rightarrow> r_status r = RCancelled)"

text \<open>One element of a log batch as source, level, message and time; other elements are dropped.\<close>

type_synonym log_fields = "string \<times> string \<times> string \<times> json"

fun log_fields :: "int \<Rightarrow> json \<Rightarrow> log_fields option" where
  "log_fields now (JObj entry) =
     Some (str_take 64 (py_str (get_or entry ''source'' (JStr ''unknown''))),
           py_str (get_or entry ''level'' (JStr ''info'')),
           str_take 4096 (py_str (get_or entry ''message'' (JStr []))),
           py_or (get entry ''ts'') (JInt now))"
| "log_fields now _ = None"

text \<open>The inserted rows, numbered by the table's sequence.\<close>

fun log_rows :: "int \<Rightarrow> string \<Rightarrow> log_fields list \<Rightarrow> log_row list" where
  "log_rows q rid [] = []"
| "log_rows q rid ((src, lvl, m, ts) # rows) =
     \<lparr>lg_id = q + 1, lg_run_id = rid, lg_source = src, lg_level = lvl, lg_message = m, lg_ts = ts\<rparr>
       # log_rows (q + 1) rid rows"

definition store_log_batch :: "(log_fields \<Rightarrow> bool) \<Rightarrow> int \<Rightarrow> json \<Rightarrow> json list \<Rightarrow> orch \<Rightarrow> orch" where
  "store_log_batch row_ok now run_id lines s =
     (if lines = [] then s
      else
        (let rows = List.map_filter (log_fields now) lines; db = o_db s
         in if rows = [] then s
            else if find_run db (key_of run_id) = None \<or> (\<exists>row \<in> set rows. \<not> row_ok row)
            then s  \<comment> \<open>the INSERT fails as a whole and the exception is swallowed\<close>
            else
              s\<lparr>o_db := db\<lparr>run_logs := run_logs db @ log_rows (log_seq db) (key_of run_id) rows,
                            log_seq := log_seq db + int (length rows)\<rparr>\<rparr>))"

definition store_run_event :: "int \<Rightarrow> json \<Rightarrow> string \<Rightarrow> dict \<Rightarrow> orch \<Rightarrow> orch" where
  "store_run_event now run_id event_type payload s =
     (if find_run (o_db s) (key_of run_id) = None then s  \<comment> \<open>foreign key violation, swallowed\<close>
      else s\<lparr>o_db := (o_db s)\<lparr>run_events := run_events (o_db s) @
               [\<lparr>ev_run_id = key_of run_id, ev_type = event_type, ev_payload = JObj payload, ev_ts = now\<rparr>]\<rparr>\<rparr>)"

section \<open>Dispatching the tests\<close>

text \<open>A bound list parameter \<open>CAST(:xs AS text[])\<close>.\<close>

fun text_array :: "json list \<Rightarrow> string list res" where
  "text_array [] = Inr []"
| "text_array (JStr x # xs) = res_bind (text_array xs) (\<lambda>ys. Inr (x # ys))"
| "text_array (_ # xs) = Inl TypeError"

definition bind_array :: "json \<Rightarrow> string list res" where
  "bind_array j = res_bind (as_arr TypeError j) text_array"

text \<open>\<open>COALESCE(rc.node_major_version, 1)\<close> of the release row joined by tag.\<close>

definition catalog_major :: "db \<Rightarrow> string \<Rightarrow> int" where
  "catalog_major db tag =
     (case find (\<lambda>rc. rc_tag rc = tag) (release_catalog db) of
        None \<Rightarrow> 1
      | Some rc \<Rightarrow> (case rc_node_major rc of None \<Rightarrow> 1 | Some n \<Rightarrow> n))"

definition active_definitions :: "db \<Rightarrow> int \<Rightarrow> (def_row \<Rightarrow> bool) \<Rightarrow> def_row list" where
  "active_definitions db node_version extra =
     filter (\<lambda>d. d_active d \<and> d_min_node_major d = node_version \<and> extra d) (definitions db)"

text \<open>
  Conditions of SQL have three values: \<open>tags && \<dots>\<close> and its negation are NULL where the tags are NULL, and a
  WHERE clause takes the rows whose condition is true.
\<close>

definition overlaps :: "string list option \<Rightarrow> string list \<Rightarrow> bool option" where
  "overlaps tags ys = map_option (\<lambda>xs. \<exists>x \<in> set xs. x \<in> set ys) tags"

definition sql_not :: "bool option \<Rightarrow> bool option" where
  "sql_not b = map_option Not b"

definition sql_true :: "bool option \<Rightarrow> bool" where
  "sql_true b = (b = Some True)"

text \<open>The three SELECT statements, by the filters of the run's metadata.\<close>

definition query_definitions :: "db \<Rightarrow> int \<Rightarrow> json \<Rightarrow> json \<Rightarrow> def_row list res" where
  "query_definitions db node_version tags_filter category_filter =
     (if truthy tags_filter then
        res_bind (bind_array tags_filter) (\<lambda>tags.
          Inr (active_definitions db node_version (\<lambda>d. sql_true (overlaps (d_tags d) tags))))
      else if truthy category_filter then
        res_bind (bind_array category_filter) (\<lambda>cats.
          Inr (active_definitions db node_version
                 (\<lambda>d. case d_category d of None \<Rightarrow> False | Some c \<Rightarrow> c \<in> set cats)))
      else Inr (active_definitions db node_version (\<lambda>d. sql_true (sql_not (overlaps (d_tags d) [''standalone''])))))"

definition forwarded_keys :: "string list" where
  "forwarded_keys =
     [''inputbox_address'', ''ether_portal_address'', ''erc20_portal_address'', ''erc721_portal_address'',
      ''erc1155_portal_address'', ''erc20_token_address'', ''erc721_token_address'',
      ''erc1155_token_address'']"

text \<open>The body of one test command.\<close>

definition test_command ::
  "string \<Rightarrow> int \<Rightarrow> json \<Rightarrow> json \<Rightarrow> dict \<Rightarrow> int \<Rightarrow> json \<Rightarrow> def_row \<Rightarrow> json" where
  "test_command eid now run_id sandbox_id sandbox_msg node_major_version app_address defn = JObj
     ([(''event_id'', JStr eid), (''run_id'', run_id), (''sandbox_id'', sandbox_id),
       (''service'', JStr ''orchestrator''), (''ts'', JInt now),
       (''definition_id'', JStr (d_id defn)), (''definition_version'', JInt (d_version defn)),
       (''definition_slug'', JStr (d_slug defn)),
       (''anvil_port'', get sandbox_msg ''anvil_port''), (''node_port'', get sandbox_msg ''node_port''),
       (''graphql_port'', get sandbox_msg ''graphql_port''),
       (''docker_network'', get sandbox_msg ''docker_network''),
       (''node_major_version'', JInt node_major_version),
       (''cli_container_name'', get sandbox_msg ''cli_container_name''),
       (''app_address'', app_address)]
      @ map (\<lambda>k. (k, get sandbox_msg k)) forwarded_keys)"

definition set_dispatched :: "json \<Rightarrow> int \<Rightarrow> db \<Rightarrow> db" where
  "set_dispatched run_id n db =
     update_run (key_of run_id)
       (\<lambda>r. r\<lparr>r_metadata := meta_merge (r_metadata r) ''dispatched_count'' (JInt n)\<rparr>) db"

text \<open>The part of \<open>_dispatch_tests\<close> up to the publishing: the run's data and the selected definitions.\<close>

record selection =
  sel_major :: int
  sel_app_address :: json
  sel_definitions :: "def_row list"
  sel_bootstrap :: bool

definition select_tests :: "db \<Rightarrow> json \<Rightarrow> dict \<Rightarrow> selection res" where
  "select_tests db run_id sandbox_msg =
     (let run = find_run db (key_of run_id);
          suite_ids = (case run of None \<Rightarrow> [] | Some r \<Rightarrow> r_suite_ids r);
          major = (case run of None \<Rightarrow> 1 | Some r \<Rightarrow> catalog_major db (r_release_tag r));
          run_metadata = (case run of None \<Rightarrow> JNull | Some r \<Rightarrow> r_metadata r);
          tags_filter = meta_get run_metadata ''tags_filter'';
          category_filter = meta_get run_metadata ''category_filter''
      in if truthy (meta_get run_metadata ''ai_session'')
         then Inr \<lparr>sel_major = major, sel_app_address = JNull, sel_definitions = [], sel_bootstrap = True\<rparr>
         else
           (let app_address = py_or (get sandbox_msg ''app_address'')
                                (case run of None \<Rightarrow> JNull | Some r \<Rightarrow> r_app_address r)
            in res_bind (query_definitions db major tags_filter category_filter) (\<lambda>all_definitions.
                 Inr \<lparr>sel_major = major, sel_app_address = app_address,
                      sel_definitions = (if suite_ids \<noteq> []
                                         then filter (\<lambda>d. d_id d \<in> set suite_ids) all_definitions
                                         else all_definitions),
                      sel_bootstrap = False\<rparr>)))"

text \<open>
  The loop that publishes one command per definition, and the separate transaction that records the
  count after it.  \<open>dispatch_tests\<close> is the two without anything in between; what other services
  do between the single publications and the commit is the business of \<open>event_step\<close> below.
\<close>

definition publish_commands ::
  "(nat \<Rightarrow> string) \<Rightarrow> int \<Rightarrow> json \<Rightarrow> json \<Rightarrow> dict \<Rightarrow> selection \<Rightarrow> orch \<Rightarrow> orch" where
  "publish_commands eid now run_id sandbox_id sandbox_msg sel s =
     s\<lparr>o_test_cmds := o_test_cmds s @
         map (\<lambda>(i, defn). test_command (eid i) now run_id sandbox_id sandbox_msg
                (sel_major sel) (sel_app_address sel) defn)
           (enumerate 1 (sel_definitions sel))\<rparr>"

definition record_dispatched :: "json \<Rightarrow> selection \<Rightarrow> orch \<Rightarrow> orch" where
  "record_dispatched run_id sel s =
     s\<lparr>o_db := set_dispatched run_id (int (length (sel_definitions sel))) (o_db s)\<rparr>"

definition dispatch_tests ::
  "(nat \<Rightarrow> string) \<Rightarrow> int \<Rightarrow> json \<Rightarrow> json \<Rightarrow> dict \<Rightarrow> orch \<Rightarrow> unit res \<times> orch" where
  "dispatch_tests eid now run_id sandbox_id sandbox_msg s =
     (case select_tests (o_db s) run_id sandbox_msg of
        Inl e \<Rightarrow> (Inl e, s)
      | Inr sel \<Rightarrow>
          if sel_bootstrap sel then (Inr (), record_dispatched run_id sel s)
          else (Inr (), record_dispatched run_id sel
                          (publish_commands eid now run_id sandbox_id sandbox_msg sel s)))"

section \<open>The handler\<close>

text \<open>
  \<open>publish_notification(..., **{k: v for k, v in detail.items() if v is not None})\<close>: a key that
  repeats a named argument is a \<open>TypeError\<close>.
\<close>

definition step_reserved :: "string list" where
  "step_reserved = [''event_type'', ''title'', ''run_id'', ''sandbox_id'', ''step'', ''step_status'']"

definition handle_step :: "(nat \<Rightarrow> string) \<Rightarrow> int \<Rightarrow> dict \<Rightarrow> orch \<Rightarrow> unit res \<times> orch" where
  "handle_step eid now msg s =
     (let run_id = get msg ''run_id''; sandbox_id = get msg ''sandbox_id'';
          step = get_or msg ''step'' (JStr []);
          status = get_or msg ''step_status'' (JStr ''ok'');
          detail = py_or (get msg ''detail'') (JObj []);
          s1 = (if step \<noteq> JStr ''service_log'' then store_run_event now run_id ''sandbox.step'' msg s else s)
      in case detail of
           JObj d \<Rightarrow>
             (let extra = filter (\<lambda>(k, v). v \<noteq> JNull) d
              in if \<exists>(k, v) \<in> set extra. k \<in> set step_reserved then (Inl TypeError, s1)
                 else (Inr (), publish_notification (eid 0) now ''sandbox.step'' step run_id
                                 ([(''sandbox_id'', sandbox_id), (''step'', step), (''step_status'', status)]
                                  @ extra) s1))
         | _ \<Rightarrow> (Inl AttributeError, s1))"

definition handle_log_batch :: "(log_fields \<Rightarrow> bool) \<Rightarrow> (nat \<Rightarrow> string) \<Rightarrow> int \<Rightarrow> dict \<Rightarrow> orch \<Rightarrow> unit res \<times> orch" where
  "handle_log_batch row_ok eid now msg s =
     (let run_id = get msg ''run_id''; lines = py_or (get msg ''lines'') (JArr []);
          live = publish_live (JObj
                [(''event_id'', JStr (eid 0)), (''run_id'', run_id), (''sandbox_id'', get msg ''sandbox_id''),
                 (''service'', JStr ''orchestrator''), (''ts'', JInt now),
                 (''event_type'', JStr ''log_batch''), (''lines'', lines)])
      in case lines of
           JArr ls \<Rightarrow> (Inr (), live (store_log_batch row_ok now run_id ls s))
         | JStr _ \<Rightarrow> (Inr (), live s)  \<comment> \<open>iterates over characters: no dict among them\<close>
         | JObj _ \<Rightarrow> (Inr (), live s)  \<comment> \<open>iterates over the keys\<close>
         | _ \<Rightarrow> (Inl TypeError, s))"

text \<open>A sandbox became ready: the run starts and its tests are dispatched.\<close>

definition mark_running :: "int \<Rightarrow> json \<Rightarrow> orch \<Rightarrow> orch" where
  "mark_running now run_id s =
     s\<lparr>o_db := update_run (key_of run_id) (\<lambda>r. r\<lparr>r_status := RRunning, r_started_at := Some now\<rparr>) (o_db s)\<rparr>"

definition handle_ready :: "(nat \<Rightarrow> string) \<Rightarrow> int \<Rightarrow> dict \<Rightarrow> orch \<Rightarrow> unit res \<times> orch" where
  "handle_ready eid now msg s =
     (let run_id = get msg ''run_id''; sandbox_id = get msg ''sandbox_id'';
          s1 = mark_running now run_id s;
          s2 = store_run_event now run_id ''sandbox.ready'' msg s1
      in case dispatch_tests eid now run_id sandbox_id msg s2 of
           (Inl e, s3) \<Rightarrow> (Inl e, s3)
         | (Inr _, s3) \<Rightarrow>
             (Inr (), publish_notification (eid 0) now ''sandbox.ready''
                        (JStr ''Sandbox ready'') run_id [(''sandbox_id'', sandbox_id)] s3))"

definition mark_failed :: "json \<Rightarrow> orch \<Rightarrow> orch" where
  "mark_failed run_id s =
     s\<lparr>o_db := update_run (key_of run_id) (\<lambda>r. r\<lparr>r_status := RFailed\<rparr>) (o_db s)\<rparr>"

text \<open>
  \<open>_handle\<close>: the result says whether an exception reached the consumer loop, which logs it and
  acknowledges the message in either case.
\<close>

definition handle_sandbox_event ::
  "(log_fields \<Rightarrow> bool) \<Rightarrow> (nat \<Rightarrow> string) \<Rightarrow> int \<Rightarrow> dict \<Rightarrow> orch \<Rightarrow> unit res \<times> orch" where
  "handle_sandbox_event row_ok eid now msg s =
     (let event_type = get msg ''event_type''; run_id = get msg ''run_id''; sandbox_id = get msg ''sandbox_id''
      in if truthy run_id \<and> is_run_cancelled (o_db s) (key_of run_id) then (Inr (), s)
         else if event_type = JStr ''log_batch'' then handle_log_batch row_ok eid now msg s
         else if event_type = JStr ''step'' then handle_step eid now msg s
         else if event_type = JStr ''provisioning'' then
           (Inr (), publish_notification (eid 0) now ''sandbox.provisioning'' (JStr ''Sandbox provisioning'') run_id
                      [(''sandbox_id'', sandbox_id)]
                      (store_run_event now run_id ''sandbox.provisioning'' msg s))
         else if event_type = JStr ''ready'' then handle_ready eid now msg s
         else if event_type = JStr ''failed'' then
           (Inr (), publish_notification (eid 0) now ''sandbox.failed'' (JStr ''Sandbox failed'') run_id
                      [(''reason'', get msg ''failure_reason'')]
                      (store_run_event now run_id ''sandbox.failed'' msg (mark_failed run_id s)))
         else if event_type = JStr ''closed'' then
           (Inr (), publish_notification (eid 0) now ''sandbox.closed'' (JStr ''Sandbox closed'') run_id
                      [(''sandbox_id'', sandbox_id)]
                      (store_run_event now run_id ''sandbox.closed'' msg s))
         else (Inr (), s))"

section \<open>The handler, one await at a time\<close>

text \<open>
  A step per database transaction and per command that is published; a message for the viewers goes with
  the transaction before it, because no service reads it back.  Between two steps the API and the other
  services go on, so the cancellation that is checked first can be out of date when the status is written,
  and results can be counted before the number of dispatched tests is recorded.
\<close>

datatype event_pc =
    EvCheck                 \<comment> \<open>\<open>_is_run_cancelled\<close> in a session of its own\<close>
  | EvEffect                \<comment> \<open>the first write of the branch\<close>
  | EvFailedStore           \<comment> \<open>failed: the audit row\<close>
  | EvReadyStore            \<comment> \<open>ready: the audit row\<close>
  | EvSelect                \<comment> \<open>ready: the run and its definitions\<close>
  | EvPublish selection nat \<comment> \<open>ready: the loop, with the number of commands published\<close>
  | EvRecord selection      \<comment> \<open>ready: the transaction that records the number\<close>
  | EvReadyNotify
  | EvDone "unit res"

definition publish_one ::
  "(nat \<Rightarrow> string) \<Rightarrow> int \<Rightarrow> json \<Rightarrow> json \<Rightarrow> dict \<Rightarrow> selection \<Rightarrow> nat \<Rightarrow> orch \<Rightarrow> orch" where
  "publish_one eid now run_id sandbox_id sandbox_msg sel i s =
     s\<lparr>o_test_cmds := o_test_cmds s @
         [test_command (eid (Suc i)) now run_id sandbox_id sandbox_msg
            (sel_major sel) (sel_app_address sel) (sel_definitions sel ! i)]\<rparr>"

text \<open>The first write of each branch; the branches with a single transaction end with it.\<close>

definition event_effect ::
  "(log_fields \<Rightarrow> bool) \<Rightarrow> (nat \<Rightarrow> string) \<Rightarrow> int \<Rightarrow> dict \<Rightarrow> orch \<Rightarrow> event_pc \<times> orch" where
  "event_effect row_ok eid now msg s =
     (let event_type = get msg ''event_type''; run_id = get msg ''run_id''; sandbox_id = get msg ''sandbox_id''
      in if event_type = JStr ''log_batch'' then (let (r, s') = handle_log_batch row_ok eid now msg s in (EvDone r, s'))
         else if event_type = JStr ''step'' then (let (r, s') = handle_step eid now msg s in (EvDone r, s'))
         else if event_type = JStr ''provisioning'' then
           (EvDone (Inr ()), publish_notification (eid 0) now ''sandbox.provisioning'' (JStr ''Sandbox provisioning'') run_id
                      [(''sandbox_id'', sandbox_id)]
                      (store_run_event now run_id ''sandbox.provisioning'' msg s))
         else if event_type = JStr ''ready'' then (EvReadyStore, mark_running now run_id s)
         else if event_type = JStr ''failed'' then (EvFailedStore, mark_failed run_id s)
         else if event_type = JStr ''closed'' then
           (EvDone (Inr ()), publish_notification (eid 0) now ''sandbox.closed'' (JStr ''Sandbox closed'') run_id
                      [(''sandbox_id'', sandbox_id)]
                      (store_run_event now run_id ''sandbox.closed'' msg s))
         else (EvDone (Inr ()), s))"

fun event_step ::
  "(log_fields \<Rightarrow> bool) \<Rightarrow> (nat \<Rightarrow> string) \<Rightarrow> int \<Rightarrow> dict \<Rightarrow> event_pc \<Rightarrow> orch \<Rightarrow> event_pc \<times> orch" where
  "event_step row_ok eid now msg EvCheck s =
     (let run_id = get msg ''run_id''
      in (if truthy run_id \<and> is_run_cancelled (o_db s) (key_of run_id) then EvDone (Inr ()) else EvEffect, s))"
| "event_step row_ok eid now msg EvEffect s = event_effect row_ok eid now msg s"
| "event_step row_ok eid now msg EvFailedStore s =
     (EvDone (Inr ()), publish_notification (eid 0) now ''sandbox.failed'' (JStr ''Sandbox failed'') (get msg ''run_id'')
                         [(''reason'', get msg ''failure_reason'')]
                         (store_run_event now (get msg ''run_id'') ''sandbox.failed'' msg s))"
| "event_step row_ok eid now msg EvReadyStore s =
     (EvSelect, store_run_event now (get msg ''run_id'') ''sandbox.ready'' msg s)"
| "event_step row_ok eid now msg EvSelect s =
     (case select_tests (o_db s) (get msg ''run_id'') msg of
        Inl e \<Rightarrow> (EvDone (Inl e), s)
      | Inr sel \<Rightarrow> (if sel_bootstrap sel then EvRecord sel else EvPublish sel 0, s))"
| "event_step row_ok eid now msg (EvPublish sel i) s =
     (if i < length (sel_definitions sel)
      then (EvPublish sel (Suc i), publish_one eid now (get msg ''run_id'') (get msg ''sandbox_id'') msg sel i s)
      else (EvRecord sel, s))"
| "event_step row_ok eid now msg (EvRecord sel) s = (EvReadyNotify, record_dispatched (get msg ''run_id'') sel s)"
| "event_step row_ok eid now msg EvReadyNotify s =
     (EvDone (Inr ()), publish_notification (eid 0) now ''sandbox.ready'' (JStr ''Sandbox ready'') (get msg ''run_id'')
                         [(''sandbox_id'', get msg ''sandbox_id'')] s)"
| "event_step row_ok eid now msg (EvDone r) s = (EvDone r, s)"

text \<open>
  The consumer loop: every message is acknowledged, also when its handler raised.
\<close>

fun consume_events ::
  "(log_fields \<Rightarrow> bool) \<Rightarrow> ((nat \<Rightarrow> string) \<times> int \<times> dict) list \<Rightarrow> orch \<Rightarrow> orch" where
  "consume_events row_ok [] s = s"
| "consume_events row_ok ((eid, now, msg) # ms) s =
     consume_events row_ok ms (snd (handle_sandbox_event row_ok eid now msg s))"

end
