(* ===== verification/Sandbox_Events_Spec.thy ===== *)
theory Sandbox_Events_Spec
  imports Sandbox_Events
begin

text \<open>
  What the sandbox event consumer guarantees: which runs an event can touch, how it moves the status
  of its run, which tests a ready sandbox gets, and what the log store holds.
\<close>

section \<open>What the handler leaves alone\<close>

definition cmd_run :: "json \<Rightarrow> string" where
  "cmd_run c = (case c of JObj d \<Rightarrow> key_of (get d ''run_id'') | _ \<Rightarrow> [])"

text \<open>Everything the orchestrator keeps about one run: its row, audit events, logs and test commands.\<close>

definition view :: "string \<Rightarrow> orch \<Rightarrow> run_row option \<times> event_row list \<times> log_row list \<times> json list" where
  "view rid s = (find_run (o_db s) rid,
                 filter (\<lambda>e. ev_run_id e = rid) (run_events (o_db s)),
                 filter (\<lambda>l. lg_run_id l = rid) (run_logs (o_db s)),
                 filter (\<lambda>c. cmd_run c = rid) (o_test_cmds s))"

named_theorems orch_frame \<open>operations that keep the view of other runs\<close>

lemma view_publish [orch_frame]:
  "view rid (publish_notification e n t title j flds s) = view rid s"
  "view rid (publish_live p s) = view rid s"
  by (simp_all add: view_def publish_notification_def publish_live_def Let_def)

lemma find_run_update_other [simp]:
  assumes "\<And>r. r_id (f r) = r_id r" and "rid \<noteq> k"
  shows "find_run (update_run k f db) rid = find_run db rid"
  using assms by (rule run_table.upd_other)

lemma view_mark [orch_frame]:
  "key_of run_id \<noteq> rid \<Longrightarrow> view rid (mark_running now run_id s) = view rid s"
  "key_of run_id \<noteq> rid \<Longrightarrow> view rid (mark_failed run_id s) = view rid s"
  "key_of run_id \<noteq> rid \<Longrightarrow> view rid (record_dispatched run_id sel s) = view rid s"
  by (simp_all add: view_def mark_running_def mark_failed_def record_dispatched_def set_dispatched_def
                    find_run_update_other) (simp_all add: update_run_def)

lemma view_event [orch_frame]:
  "key_of run_id \<noteq> rid \<Longrightarrow> view rid (store_run_event now run_id ty p s) = view rid s"
  by (simp add: view_def store_run_event_def find_run_def)

lemma log_rows_ids:
  "l \<in> set (log_rows q rid rows) \<Longrightarrow> q < lg_id l \<and> lg_id l \<le> q + int (length rows) \<and> lg_run_id l = rid"
  by (induction q rid rows rule: log_rows.induct) fastforce+

lemma view_logs [orch_frame]:
  "key_of run_id \<noteq> rid \<Longrightarrow> view rid (store_log_batch row_ok now run_id ls s) = view rid s"
  by (auto simp: view_def store_log_batch_def Let_def find_run_def filter_empty_conv
           dest: log_rows_ids)

lemma cmd_run_command [simp]: "cmd_run (test_command e n run_id sb m v a d) = key_of run_id"
  by (simp add: cmd_run_def test_command_def get_def get_or_def)

lemma view_commands [orch_frame]:
  "key_of run_id \<noteq> rid \<Longrightarrow> view rid (publish_commands e n run_id sb m sel s) = view rid s"
  by (auto simp: view_def publish_commands_def filter_empty_conv split: prod.splits)

lemma view_dispatch [orch_frame]:
  "key_of run_id \<noteq> rid \<Longrightarrow> view rid (snd (dispatch_tests e n run_id sb m s)) = view rid s"
  by (simp add: dispatch_tests_def orch_frame split: sum.splits)

lemma view_ready [orch_frame]:
  assumes "key_of (get msg ''run_id'') \<noteq> rid"
  shows "view rid (snd (handle_ready e n msg s)) = view rid s"
proof -
  let ?s2 = "store_run_event n (get msg ''run_id'') ''sandbox.ready'' msg
               (mark_running n (get msg ''run_id'') s)"
  have "view rid (snd (dispatch_tests e n (get msg ''run_id'') (get msg ''sandbox_id'') msg ?s2))
          = view rid s"
    using assms by (simp add: orch_frame)
  then show ?thesis
    by (cases "dispatch_tests e n (get msg ''run_id'') (get msg ''sandbox_id'') msg ?s2")
       (auto simp: handle_ready_def Let_def orch_frame split: sum.split)
qed

lemma view_step [orch_frame]:
  "key_of (get msg ''run_id'') \<noteq> rid \<Longrightarrow> view rid (snd (handle_step e n msg s)) = view rid s"
  by (simp add: handle_step_def Let_def orch_frame split: json.split)

lemma view_log_batch [orch_frame]:
  "key_of (get msg ''run_id'') \<noteq> rid \<Longrightarrow>
     view rid (snd (handle_log_batch row_ok e n msg s)) = view rid s"
  by (simp add: handle_log_batch_def Let_def orch_frame split: json.split)

lemma view_handle:
  assumes "key_of (get msg ''run_id'') \<noteq> rid"
  shows "view rid (snd (handle_sandbox_event row_ok e n msg s)) = view rid s"
  using assms
  by (simp add: handle_sandbox_event_def Let_def orch_frame)

lemma view_handle_cancelled:
  assumes "find_run (o_db s) rid = Some r" "r_status r = RCancelled" "rid \<noteq> []"
  shows "view rid (snd (handle_sandbox_event row_ok e n msg s)) = view rid s"
proof (cases "key_of (get msg ''run_id'') = rid")
  case True
  with assms(3) have "get msg ''run_id'' = JStr rid"
    by (auto simp: key_of_def split: json.splits)
  with assms show ?thesis
    by (simp add: handle_sandbox_event_def is_run_cancelled_def key_of_def)
qed (rule view_handle)

text \<open>
  C22: a cancelled run is inert.  Whatever sandbox events arrive, in whatever order, the row of a
  cancelled run, its audit events, its logs and the test commands sent for it stay as they are.
\<close>

theorem cancelled_run_is_inert:
  assumes "find_run (o_db s) rid = Some r" and "r_status r = RCancelled" and "rid \<noteq> []"
  shows "view rid (consume_events row_ok ms s) = view rid s"
  using assms
proof (induction row_ok ms s rule: consume_events.induct)
  case (2 row_ok eid now msg ms s)
  let ?s' = "snd (handle_sandbox_event row_ok eid now msg s)"
  have v: "view rid ?s' = view rid s" using 2(2-4) by (rule view_handle_cancelled)
  then have "find_run (o_db ?s') rid = Some r" using 2(2) by (simp add: view_def)
  with 2 v show ?case by simp
qed simp

text \<open>
  Runs are isolated from each other: events of other runs change nothing the orchestrator keeps
  about a run.
\<close>

theorem events_touch_only_their_run:
  assumes "\<forall>(eid, now, msg) \<in> set ms. key_of (get msg ''run_id'') \<noteq> rid"
  shows "view rid (consume_events row_ok ms s) = view rid s"
  using assms
  by (induction row_ok ms s rule: consume_events.induct) (auto simp: view_handle)

section \<open>The status machine\<close>

named_theorems orch_status \<open>what the steps of a handler do to the row of their run\<close>

lemma db_publish [orch_status]:
  "o_db (publish_notification e n t title j flds s) = o_db s"
  "o_db (publish_live p s) = o_db s"
  "o_db (publish_commands es n run_id sb m sel s) = o_db s"
  by (simp_all add: publish_notification_def publish_live_def publish_commands_def Let_def)

lemma find_run_event [orch_status]:
  "find_run (o_db (store_run_event now run_id ty p s)) = find_run (o_db s)"
  "find_run (o_db (store_log_batch row_ok now run_id ls s)) = find_run (o_db s)"
  by (simp_all add: store_run_event_def store_log_batch_def find_run_def fun_eq_iff Let_def)

lemma find_run_mark [orch_status]:
  assumes "find_run (o_db s) (key_of run_id) = Some r"
  shows "find_run (o_db (mark_running now run_id s)) (key_of run_id)
           = Some (r\<lparr>r_status := RRunning, r_started_at := Some now\<rparr>)"
    and "find_run (o_db (mark_failed run_id s)) (key_of run_id) = Some (r\<lparr>r_status := RFailed\<rparr>)"
    and "find_run (o_db (record_dispatched run_id sel s)) (key_of run_id)
           = Some (r\<lparr>r_metadata := meta_merge (r_metadata r) ''dispatched_count''
                                     (JInt (int (length (sel_definitions sel))))\<rparr>)"
  using assms
  by (simp_all add: mark_running_def mark_failed_def record_dispatched_def set_dispatched_def
                    run_table.look_upd)

lemma dispatch_status:
  assumes "find_run (o_db s) (key_of run_id) = Some r"
  shows "\<exists>r'. find_run (o_db (snd (dispatch_tests e n run_id sb m s))) (key_of run_id) = Some r'
              \<and> r_status r' = r_status r"
  using assms
  by (cases "select_tests (o_db s) run_id m") (simp_all add: dispatch_tests_def orch_status)

lemma ready_db:
  "o_db (snd (handle_ready e n msg s))
     = o_db (snd (dispatch_tests e n (get msg ''run_id'') (get msg ''sandbox_id'') msg
                    (store_run_event n (get msg ''run_id'') ''sandbox.ready'' msg
                      (mark_running n (get msg ''run_id'') s))))"
  by (simp add: handle_ready_def Let_def db_publish split: prod.split sum.split)

lemma ready_status:
  assumes "find_run (o_db s) (key_of (get msg ''run_id'')) = Some r"
  shows "\<exists>r'. find_run (o_db (snd (handle_ready e n msg s))) (key_of (get msg ''run_id'')) = Some r'
              \<and> r_status r' = RRunning"
proof -
  let ?id = "get msg ''run_id''"
  let ?s2 = "store_run_event n ?id ''sandbox.ready'' msg (mark_running n ?id s)"
  let ?r = "r\<lparr>r_status := RRunning, r_started_at := Some n\<rparr>"
  have "find_run (o_db ?s2) (key_of ?id) = Some ?r" using assms by (simp add: orch_status)
  from dispatch_status [OF this, of e n "get msg ''sandbox_id''" msg] show ?thesis
    by (simp add: ready_db)
qed

lemma handle_step_status [orch_status]:
  "find_run (o_db (snd (handle_step e n msg s))) = find_run (o_db s)"
  by (simp add: handle_step_def Let_def orch_status split: json.split)

lemma handle_log_batch_status [orch_status]:
  "find_run (o_db (snd (handle_log_batch row_ok e n msg s))) = find_run (o_db s)"
  by (simp add: handle_log_batch_def Let_def orch_status split: json.split)

definition status_after :: "dict \<Rightarrow> run_status \<Rightarrow> run_status" where
  \<comment> \<open>the transitions that the sandbox events are meant to make\<close>
  "status_after msg st =
     (if st = RCancelled then RCancelled
      else if get msg ''event_type'' = JStr ''ready'' then RRunning
      else if get msg ''event_type'' = JStr ''failed'' then RFailed
      else st)"

text \<open>
  The status machine.  After any event about a run, also when the handler raised, the status is
  the one of the transition table: only cancelled is final; ready moves every other status, completed
  ones included, to running, and failed overwrites every other status.
\<close>

theorem status_after_sandbox_event:
  assumes "get msg ''run_id'' = JStr rid" and "rid \<noteq> []"
    and "find_run (o_db s) rid = Some r"
  shows "\<exists>r'. find_run (o_db (snd (handle_sandbox_event row_ok eid now msg s))) rid = Some r'
              \<and> r_status r' = status_after msg (r_status r)"
proof (cases "r_status r = RCancelled")
  case True
  with assms show ?thesis
    by (simp add: handle_sandbox_event_def is_run_cancelled_def key_of_def status_after_def)
next
  case False
  have key: "key_of (get msg ''run_id'') = rid" using assms(1) by (simp add: key_of_def)
  have nc: "\<not> is_run_cancelled (o_db s) (key_of (get msg ''run_id''))"
    using False assms(3) by (simp add: is_run_cancelled_def key)
  note ready = ready_status [of s msg r eid now, unfolded key, OF assms(3)]
  note failed = find_run_mark(2) [of s "get msg ''run_id''" r, unfolded key, OF assms(3)]
  show ?thesis
  proof (cases "get msg ''event_type'' = JStr ''ready'' \<or> get msg ''event_type'' = JStr ''failed''")
    case True
    then show ?thesis
    proof
      assume ty: "get msg ''event_type'' = JStr ''ready''"
      with nc have "handle_sandbox_event row_ok eid now msg s = handle_ready eid now msg s"
        by (simp add: handle_sandbox_event_def Let_def)
      with ready ty False show ?thesis by (simp add: status_after_def)
    next
      assume "get msg ''event_type'' = JStr ''failed''"
      with nc failed False show ?thesis
        by (simp add: handle_sandbox_event_def Let_def status_after_def orch_status)
    qed
  next
    case other: False
    then have "find_run (o_db (snd (handle_sandbox_event row_ok eid now msg s))) = find_run (o_db s)"
      by (simp add: handle_sandbox_event_def Let_def orch_status)
    with other False assms(3) show ?thesis by (simp add: status_after_def)
  qed
qed

section \<open>The handler and its steps\<close>

text \<open>Undisturbed, the steps are the handler: they end with its result and in its state.\<close>

definition event_run ::
  "(log_fields \<Rightarrow> bool) \<Rightarrow> (nat \<Rightarrow> string) \<Rightarrow> int \<Rightarrow> dict \<Rightarrow> event_pc \<times> orch \<Rightarrow> event_pc \<times> orch" where
  "event_run row_ok eid now msg x = event_step row_ok eid now msg (fst x) (snd x)"

lemma event_run_pair: "event_run row_ok eid now msg (pc, s) = event_step row_ok eid now msg pc s"
  by (simp add: event_run_def)

lemma publish_by_steps:
  assumes "i + k = length (sel_definitions sel)"
  shows "(event_run row_ok eid now msg ^^ k) (EvPublish sel i, s)
       = (EvPublish sel (i + k),
          s\<lparr>o_test_cmds := o_test_cmds s @ map (\<lambda>(j, d). test_command (eid j) now (get msg ''run_id'') (get msg ''sandbox_id'')
             msg (sel_major sel) (sel_app_address sel) d) (enumerate (Suc i) (drop i (sel_definitions sel)))\<rparr>)"
  using assms
proof (induction k arbitrary: i s)
  case (Suc k)
  then have i: "i < length (sel_definitions sel)" "Suc i + k = length (sel_definitions sel)" by simp_all
  let ?f = "event_run row_ok eid now msg"
  have "(?f ^^ Suc k) (EvPublish sel i, s) = (?f ^^ k) (?f (EvPublish sel i, s))"
    by (simp add: funpow_Suc_right del: funpow.simps)
  also have "?f (EvPublish sel i, s)
      = (EvPublish sel (Suc i), publish_one eid now (get msg ''run_id'') (get msg ''sandbox_id'') msg sel i s)"
    using i by (simp add: event_run_def)
  finally show ?case
    using i by (simp add: Suc.IH [OF i(2)] publish_one_def Cons_nth_drop_Suc [OF i(1), symmetric] del: funpow.simps)
qed simp

lemma dispatch_by_steps:
  "\<exists>k. (event_run row_ok eid now msg ^^ k) (EvSelect, s)
     = (case dispatch_tests eid now (get msg ''run_id'') (get msg ''sandbox_id'') msg s of
          (Inl e, s') \<Rightarrow> (EvDone (Inl e), s')
        | (Inr u, s') \<Rightarrow> (EvReadyNotify, s'))"
proof (cases "select_tests (o_db s) (get msg ''run_id'') msg")
  case (Inl e)
  then show ?thesis by (intro exI [of _ 1]) (simp add: event_run_def dispatch_tests_def)
next
  case (Inr sel)
  let ?f = "event_run row_ok eid now msg" and ?n = "length (sel_definitions sel)"
  show ?thesis
  proof (cases "sel_bootstrap sel")
    case True
    with Inr show ?thesis by (intro exI [of _ 2]) (simp add: event_run_def dispatch_tests_def numeral_2_eq_2)
  next
    case False
    have p: "(?f ^^ ?n) (EvPublish sel 0, s)
        = (EvPublish sel ?n, publish_commands eid now (get msg ''run_id'') (get msg ''sandbox_id'') msg sel s)"
      using publish_by_steps [of 0 ?n sel row_ok eid now msg s] by (simp add: publish_commands_def)
    have "(?f ^^ (2 + (?n + 1))) (EvSelect, s) = (?f ^^ 2) ((?f ^^ ?n) (?f (EvSelect, s)))"
      by (simp only: funpow_add comp_apply) simp
    also have "?f (EvSelect, s) = (EvPublish sel 0, s)" using Inr False by (simp add: event_run_def)
    also have "(?f ^^ 2) ((?f ^^ ?n) (EvPublish sel 0, s)) = (case dispatch_tests eid now (get msg ''run_id'') (get msg ''sandbox_id'') msg s of
          (Inl e, s') \<Rightarrow> (EvDone (Inl e), s') | (Inr u, s') \<Rightarrow> (EvReadyNotify, s'))"
      using Inr False unfolding p by (simp add: event_run_pair dispatch_tests_def numeral_2_eq_2)
    finally show ?thesis by blast
  qed
qed

lemma event_by_steps:
  "\<exists>k. (event_run row_ok eid now msg ^^ k) (EvCheck, s)
     = (EvDone (fst (handle_sandbox_event row_ok eid now msg s)), snd (handle_sandbox_event row_ok eid now msg s))"
proof -
  let ?f = "event_run row_ok eid now msg" and ?h = "handle_sandbox_event row_ok eid now msg s"
  show ?thesis
  proof (cases "get msg ''event_type'' = JStr ''ready'' \<and> \<not> (truthy (get msg ''run_id'') \<and> is_run_cancelled (o_db s) (key_of (get msg ''run_id'')))")
    case True
    let ?s2 = "store_run_event now (get msg ''run_id'') ''sandbox.ready'' msg (mark_running now (get msg ''run_id'') s)"
    obtain k where k: "(?f ^^ k) (EvSelect, ?s2)
        = (case dispatch_tests eid now (get msg ''run_id'') (get msg ''sandbox_id'') msg ?s2 of
             (Inl e, s') \<Rightarrow> (EvDone (Inl e), s') | (Inr u, s') \<Rightarrow> (EvReadyNotify, s'))"
      using dispatch_by_steps by blast
    have "(?f ^^ (1 + (k + 3))) (EvCheck, s) = ?f ((?f ^^ k) ((?f ^^ 3) (EvCheck, s)))"
      by (simp only: funpow_add comp_apply) simp
    also have "(?f ^^ 3) (EvCheck, s) = (EvSelect, ?s2)"
      using True by (auto simp: event_run_def event_effect_def numeral_eq_Suc Let_def)
    also have "?f ((?f ^^ k) (EvSelect, ?s2)) = (EvDone (fst ?h), snd ?h)"
      using True unfolding k
      by (auto simp: handle_sandbox_event_def handle_ready_def event_run_pair Let_def split: prod.split sum.split)
    finally show ?thesis by blast
  next
    case False
    then have "(?f ^^ 3) (EvCheck, s) = (EvDone (fst ?h), snd ?h)"
      by (auto simp: event_run_def event_effect_def handle_sandbox_event_def numeral_eq_Suc Let_def split: prod.split)
    then show ?thesis by blast
  qed
qed

section \<open>Which tests are dispatched\<close>

definition arr_of :: "json \<Rightarrow> json list" where
  "arr_of j = (case j of JArr xs \<Rightarrow> xs | _ \<Rightarrow> [])"

text \<open>The tests a run asks for, stated on one definition.\<close>

definition passes_filter :: "json \<Rightarrow> json \<Rightarrow> def_row \<Rightarrow> bool" where
  "passes_filter tags cats d =
     (if truthy tags then (case d_tags d of None \<Rightarrow> False | Some ts \<Rightarrow> \<exists>t \<in> set ts. JStr t \<in> set (arr_of tags))
      else if truthy cats then (case d_category d of None \<Rightarrow> False | Some c \<Rightarrow> JStr c \<in> set (arr_of cats))
      else (case d_tags d of None \<Rightarrow> False | Some ts \<Rightarrow> ''standalone'' \<notin> set ts))"

definition wanted_test :: "db \<Rightarrow> run_row \<Rightarrow> def_row \<Rightarrow> bool" where
  "wanted_test db r d =
     (let tags = meta_get (r_metadata r) ''tags_filter''; cats = meta_get (r_metadata r) ''category_filter''
      in \<not> truthy (meta_get (r_metadata r) ''ai_session'')
         \<and> d_active d \<and> d_min_node_major d = catalog_major db (r_release_tag r)
         \<and> (r_suite_ids r = [] \<or> d_id d \<in> set (r_suite_ids r))
         \<and> passes_filter tags cats d)"

lemma bind_array_set [res_inv]:
  "bind_array j = Inr xs \<longleftrightarrow> arr_of j = map JStr xs \<and> (\<exists>ys. j = JArr ys)"
proof -
  have "text_array ys = Inr xs \<longleftrightarrow> ys = map JStr xs" for ys
    by (induction ys arbitrary: xs rule: text_array.induct) (auto simp: res_inv)
  then show ?thesis by (auto simp: bind_array_def arr_of_def res_inv split: json.splits)
qed

lemma query_is_filter:
  assumes "query_definitions db v tags cats = Inr ds"
  shows "ds = filter (\<lambda>d. d_active d \<and> d_min_node_major d = v
                       \<and> passes_filter tags cats d) (definitions db)"
  using assms
  by (auto simp: query_definitions_def active_definitions_def overlaps_def sql_not_def sql_true_def res_inv image_iff passes_filter_def
           intro!: filter_cong split: if_splits option.splits)

lemma select_is_wanted:
  assumes "find_run db (key_of run_id) = Some r" and "select_tests db run_id m = Inr sel"
  shows "sel_definitions sel = filter (wanted_test db r) (definitions db)"
    and "sel_bootstrap sel = truthy (meta_get (r_metadata r) ''ai_session'')"
proof -
  show "sel_definitions sel = filter (wanted_test db r) (definitions db)"
  proof (cases "truthy (meta_get (r_metadata r) ''ai_session'')")
    case True
    with assms show ?thesis by (auto simp: select_tests_def Let_def wanted_test_def)
  next
    case False
    with assms obtain ds where
      ds: "query_definitions db (catalog_major db (r_release_tag r))
             (meta_get (r_metadata r) ''tags_filter'') (meta_get (r_metadata r) ''category_filter'') = Inr ds"
      and sel: "sel_definitions sel = (if r_suite_ids r \<noteq> []
                   then filter (\<lambda>d. d_id d \<in> set (r_suite_ids r)) ds else ds)"
      by (auto simp: select_tests_def Let_def res_inv)
    show ?thesis unfolding sel query_is_filter [OF ds]
      using False by (auto simp: wanted_test_def Let_def intro!: filter_cong)
  qed
  show "sel_bootstrap sel = truthy (meta_get (r_metadata r) ''ai_session'')"
    using assms by (auto simp: select_tests_def Let_def res_inv split: if_splits)
qed

definition cmd_def :: "json \<Rightarrow> json" where
  "cmd_def c = (case c of JObj d \<Rightarrow> get d ''definition_id'' | _ \<Rightarrow> JNull)"

lemma cmd_def_command [simp]: "cmd_def (test_command e n run_id sb m v a d) = JStr (d_id d)"
  by (simp add: cmd_def_def test_command_def get_def get_or_def)

lemma wanted_frame:
  "release_catalog db' = release_catalog db \<Longrightarrow>
     wanted_test db' (r\<lparr>r_status := st, r_started_at := t\<rparr>) = wanted_test db r"
  by (auto simp: wanted_test_def fun_eq_iff catalog_major_def Let_def)

lemma marked_db [simp]:
  "definitions (o_db (store_run_event n j ty p s)) = definitions (o_db s)"
  "definitions (o_db (mark_running n j s)) = definitions (o_db s)"
  "release_catalog (o_db (store_run_event n j ty p s)) = release_catalog (o_db s)"
  "release_catalog (o_db (mark_running n j s)) = release_catalog (o_db s)"
  "o_test_cmds (store_run_event n j ty p s) = o_test_cmds s"
  "o_test_cmds (mark_running n j s) = o_test_cmds s"
  "o_test_cmds (record_dispatched j sel s) = o_test_cmds s"
  "o_test_cmds (publish_notification e n t title j flds s) = o_test_cmds s"
  by (simp_all add: store_run_event_def mark_running_def record_dispatched_def
                    publish_notification_def Let_def)

lemma commands_of:
  "map cmd_def (map (\<lambda>(i, d). test_command (e i) n j sb m v a d) (enumerate k ds))
     = map (\<lambda>d. JStr (d_id d)) ds"
  "\<forall>c \<in> set (map (\<lambda>(i, d). test_command (e i) n j sb m v a d) (enumerate k ds)). cmd_run c = key_of j"
  by (induction ds arbitrary: k) auto

lemma dispatch_wanted:
  assumes "find_run (o_db s) (key_of run_id) = Some r"
    and "dispatch_tests e n run_id sb m s = (Inr u, s')"
  defines "ds \<equiv> filter (wanted_test (o_db s) r) (definitions (o_db s))"
  shows "\<exists>cmds r'. o_test_cmds s' = o_test_cmds s @ cmds
           \<and> map cmd_def cmds = map (\<lambda>d. JStr (d_id d)) ds
           \<and> (\<forall>c \<in> set cmds. cmd_run c = key_of run_id)
           \<and> find_run (o_db s') (key_of run_id) = Some r' \<and> r_status r' = r_status r
           \<and> dispatched_count (r_metadata r') = int (length ds)"
proof -
  obtain sel where sel: "select_tests (o_db s) run_id m = Inr sel"
    using assms(2) by (cases "select_tests (o_db s) run_id m") (auto simp: dispatch_tests_def)
  note w = select_is_wanted [OF assms(1) sel]
  define pub where "pub = (if sel_bootstrap sel then s else publish_commands e n run_id sb m sel s)"
  have s': "s' = record_dispatched run_id sel pub"
    using assms(2) by (cases "sel_bootstrap sel") (simp_all add: dispatch_tests_def pub_def sel)
  have "ds = []" if "sel_bootstrap sel"
    using that w(2) by (auto simp: ds_def wanted_test_def Let_def filter_empty_conv)
  then have "\<exists>cmds. o_test_cmds pub = o_test_cmds s @ cmds
           \<and> map cmd_def cmds = map (\<lambda>d. JStr (d_id d)) ds
           \<and> (\<forall>c \<in> set cmds. cmd_run c = key_of run_id)"
    unfolding pub_def
    by (cases "sel_bootstrap sel") (simp_all add: publish_commands_def w(1) ds_def commands_of del: map_map)
  moreover have "find_run (o_db pub) (key_of run_id) = Some r"
    using assms(1) by (simp add: pub_def orch_status)
  ultimately show ?thesis
    unfolding s' using w(1) by (auto simp: find_run_mark(3) ds_def)
qed

text \<open>
  C10: a ready sandbox starts its run and gets exactly the tests the run asks for.  When the handler
  succeeds, the run is running, one command per wanted definition was sent for this run, in the order
  of the definitions table, and the recorded count is the number sent; a bootstrap run gets none.
\<close>

theorem ready_dispatches_wanted_tests:
  assumes "get msg ''event_type'' = JStr ''ready''" and "get msg ''run_id'' = JStr rid" and "rid \<noteq> []"
    and "find_run (o_db s) rid = Some r" and "r_status r \<noteq> RCancelled"
    and "handle_sandbox_event row_ok eid now msg s = (Inr (), s')"
  shows "\<exists>cmds r'. o_test_cmds s' = o_test_cmds s @ cmds
           \<and> map cmd_def cmds
               = map (\<lambda>d. JStr (d_id d)) (filter (wanted_test (o_db s) r) (definitions (o_db s)))
           \<and> (\<forall>c \<in> set cmds. cmd_run c = rid)
           \<and> find_run (o_db s') rid = Some r' \<and> r_status r' = RRunning
           \<and> dispatched_count (r_metadata r') = int (length cmds)"
proof -
  let ?s2 = "store_run_event now (JStr rid) ''sandbox.ready'' msg (mark_running now (JStr rid) s)"
  let ?r = "r\<lparr>r_status := RRunning, r_started_at := Some now\<rparr>"
  have ready: "handle_ready eid now msg s = (Inr (), s')"
    using assms by (simp add: handle_sandbox_event_def is_run_cancelled_def key_of_def Let_def)
  obtain u s3 where
    d: "dispatch_tests eid now (JStr rid) (get msg ''sandbox_id'') msg ?s2 = (Inr u, s3)"
  proof (cases "dispatch_tests eid now (JStr rid) (get msg ''sandbox_id'') msg ?s2")
    case (Pair x s3)
    with ready that show ?thesis
      by (cases x) (simp_all add: handle_ready_def Let_def assms(2))
  qed
  have "s' = publish_notification (eid 0) now ''sandbox.ready''
               (JStr ''Sandbox ready'') (JStr rid) [(''sandbox_id'', get msg ''sandbox_id'')] s3"
    using ready by (simp add: handle_ready_def Let_def assms(2) d)
  then have db: "o_db s' = o_db s3" and cm: "o_test_cmds s' = o_test_cmds s3"
    by (simp_all add: db_publish)
  have "find_run (o_db ?s2) (key_of (JStr rid)) = Some ?r"
    using find_run_mark(1) [of s "JStr rid" r now] assms(4) by (simp add: find_run_event key_of_def)
  from dispatch_wanted [OF this d]
  have "\<exists>cmds r'. o_test_cmds s3 = o_test_cmds s @ cmds
           \<and> map cmd_def cmds
               = map (\<lambda>d. JStr (d_id d)) (filter (wanted_test (o_db s) r) (definitions (o_db s)))
           \<and> (\<forall>c \<in> set cmds. cmd_run c = rid)
           \<and> find_run (o_db s3) rid = Some r' \<and> r_status r' = RRunning
           \<and> dispatched_count (r_metadata r')
               = int (length (filter (wanted_test (o_db s) r) (definitions (o_db s))))"
    by (simp add: key_of_def wanted_frame [of "o_db ?s2" "o_db s"])
  then show ?thesis unfolding db cm by (metis length_map)
qed

section \<open>The log store\<close>

definition logs_ok :: "db \<Rightarrow> bool" where
  "logs_ok db = (sorted_wrt (<) (map lg_id (run_logs db))
     \<and> (\<forall>l \<in> set (run_logs db). lg_id l \<le> log_seq db \<and> find_run db (lg_run_id l) \<noteq> None
          \<and> str_len (lg_source l) \<le> 64 \<and> str_len (lg_message l) \<le> 4096))"

lemma find_run_dom_update [simp]:
  "(find_run (update_run k (f :: run_row \<Rightarrow> run_row) db) rid = None) = (find_run db rid = None)"
  if "\<And>r. r_id (f r) = r_id r"
  using that by (rule run_table.upd_keeps_dom)

lemma log_fields_bounds:
  "log_fields now j = Some (src, lvl, m, ts) \<Longrightarrow> str_len src \<le> 64 \<and> str_len m \<le> 4096"
  by (cases "(now, j)" rule: log_fields.cases) auto

lemma log_rows_sorted: "sorted_wrt (<) (map lg_id (log_rows q rid rows))"
  by (induction q rid rows rule: log_rows.induct) (auto dest: log_rows_ids)

lemma log_rows_fields:
  "map (\<lambda>l. (lg_source l, lg_level l, lg_message l, lg_ts l)) (log_rows q rid rows) = rows"
  by (induction q rid rows rule: log_rows.induct) auto

lemma log_rows_bounds:
  assumes "l \<in> set (log_rows q rid (List.map_filter (log_fields now) js))"
  shows "str_len (lg_source l) \<le> 64 \<and> str_len (lg_message l) \<le> 4096"
proof -
  have "(lg_source l, lg_level l, lg_message l, lg_ts l) \<in> set (List.map_filter (log_fields now) js)"
    using assms by (metis (mono_tags, lifting) image_eqI list.set_map log_rows_fields)
  then obtain j where "log_fields now j = Some (lg_source l, lg_level l, lg_message l, lg_ts l)"
    by (auto simp: map_filter_def)
  then show ?thesis by (rule log_fields_bounds)
qed

lemma logs_ok_store:
  assumes "logs_ok (o_db s)"
  shows "logs_ok (o_db (store_log_batch row_ok now run_id ls s))"
proof (cases "o_db (store_log_batch row_ok now run_id ls s) = o_db s")
  case False
  let ?rows = "List.map_filter (log_fields now) ls"
  let ?new = "log_rows (log_seq (o_db s)) (key_of run_id) ?rows"
  from False have db: "o_db (store_log_batch row_ok now run_id ls s)
        = (o_db s)\<lparr>run_logs := run_logs (o_db s) @ ?new, log_seq := log_seq (o_db s) + int (length ?rows)\<rparr>"
    and known: "find_run (o_db s) (key_of run_id) \<noteq> None"
    by (auto simp: store_log_batch_def Let_def split: if_splits)
  have "sorted_wrt (<) (map lg_id (run_logs (o_db s) @ ?new))"
    using assms by (fastforce simp: sorted_wrt_append log_rows_sorted logs_ok_def dest: log_rows_ids)
  moreover have "lg_id l \<le> log_seq (o_db s) + int (length ?rows)
        \<and> find_run (o_db s) (lg_run_id l) \<noteq> None
        \<and> str_len (lg_source l) \<le> 64 \<and> str_len (lg_message l) \<le> 4096"
    if "l \<in> set (run_logs (o_db s)) \<or> l \<in> set ?new" for l
    using that assms known log_rows_ids [of l "log_seq (o_db s)" "key_of run_id" ?rows]
      log_rows_bounds [of l "log_seq (o_db s)" "key_of run_id" now ls]
    by (fastforce simp: logs_ok_def)
  ultimately show ?thesis unfolding db by (auto simp: logs_ok_def find_run_def)
qed (use assms in simp)

lemma logs_ok_frame:
  assumes "logs_ok db" and "run_logs db' = run_logs db" and "log_seq db' = log_seq db"
    and "\<And>k. find_run db' k = None \<longleftrightarrow> find_run db k = None"
  shows "logs_ok db'"
  using assms by (simp add: logs_ok_def)

lemma logs_ok_mark:
  "logs_ok (o_db s) \<Longrightarrow> logs_ok (o_db (mark_running n j s))"
  "logs_ok (o_db s) \<Longrightarrow> logs_ok (o_db (mark_failed j s))"
  "logs_ok (o_db s) \<Longrightarrow> logs_ok (o_db (record_dispatched j sel s))"
  by (erule logs_ok_frame;
      simp add: mark_running_def mark_failed_def record_dispatched_def set_dispatched_def;
      simp add: update_run_def)+

lemma logs_ok_event: "logs_ok (o_db s) \<Longrightarrow> logs_ok (o_db (store_run_event n j ty p s))"
  by (erule logs_ok_frame) (simp_all add: store_run_event_def find_run_def)

lemmas logs_ok_steps = logs_ok_store logs_ok_mark logs_ok_event

lemma logs_ok_ready: "logs_ok (o_db s) \<Longrightarrow> logs_ok (o_db (snd (handle_ready e n msg s)))"
  by (simp add: ready_db dispatch_tests_def logs_ok_steps db_publish split: sum.split)

lemma logs_ok_handle:
  "logs_ok (o_db s) \<Longrightarrow> logs_ok (o_db (snd (handle_sandbox_event row_ok e n msg s)))"
  by (simp add: handle_sandbox_event_def handle_step_def handle_log_batch_def Let_def db_publish
                logs_ok_steps logs_ok_ready split: json.split)

text \<open>
  C30: the log store keeps its invariant under every sequence of sandbox events: ids strictly
  increase in insertion order and stay below the sequence, every line belongs to a known run, and
  sources and messages respect their length limits.
\<close>

theorem log_store_invariant:
  assumes "logs_ok (o_db s)"
  shows "logs_ok (o_db (consume_events row_ok ms s))"
  using assms by (induction row_ok ms s rule: consume_events.induct) (simp_all add: logs_ok_handle)

text \<open>
  A log batch is stored as a whole or not at all: the rows appended for a batch about a live run
  are, in order, its well-formed lines when PostgreSQL accepts all of them and nothing otherwise; in
  both cases the batch is broadcast once and no notification is sent.
\<close>

theorem log_batch_all_or_nothing:
  assumes "get msg ''event_type'' = JStr ''log_batch''" and "get msg ''run_id'' = JStr rid"
    and "find_run (o_db s) rid = Some r" and "r_status r \<noteq> RCancelled"
    and "get msg ''lines'' = JArr ls"
    and "handle_sandbox_event row_ok eid now msg s = (res, s')"
  shows "\<exists>new p. run_logs (o_db s') = run_logs (o_db s) @ new
           \<and> map (\<lambda>l. (lg_source l, lg_level l, lg_message l, lg_ts l)) new
               = (if \<forall>row \<in> set (List.map_filter (log_fields now) ls). row_ok row
                  then List.map_filter (log_fields now) ls else [])
           \<and> o_live s' = o_live s @ [p] \<and> o_notify s' = o_notify s"
proof -
  have lines: "py_or (get msg ''lines'') (JArr []) = JArr ls"
    using assms(5) by (cases ls) (simp_all add: py_or_def)
  have "\<exists>p. s' = publish_live p (store_log_batch row_ok now (JStr rid) ls s)"
    using assms(1-4,6) lines
    by (auto simp: handle_sandbox_event_def handle_log_batch_def is_run_cancelled_def key_of_def Let_def)
  then obtain p where s': "s' = publish_live p (store_log_batch row_ok now (JStr rid) ls s)" ..
  let ?rows = "List.map_filter (log_fields now) ls"
  let ?new = "if \<forall>row \<in> set ?rows. row_ok row then log_rows (log_seq (o_db s)) rid ?rows else []"
  have "ls = [] \<Longrightarrow> ?rows = []" by (simp add: map_filter_def)
  then have "run_logs (o_db s') = run_logs (o_db s) @ ?new \<and> o_live s' = o_live s @ [p]
               \<and> o_notify s' = o_notify s"
    unfolding s' using assms(3)
    by (auto simp: publish_live_def store_log_batch_def Let_def key_of_def)
  moreover have "map (\<lambda>l. (lg_source l, lg_level l, lg_message l, lg_ts l)) ?new
                   = (if \<forall>row \<in> set ?rows. row_ok row then ?rows else [])"
    by (simp add: log_rows_fields)
  ultimately show ?thesis by blast
qed

section \<open>A concrete state\<close>

definition sample_run :: "string \<Rightarrow> run_status \<Rightarrow> run_row" where
  "sample_run rid st = \<lparr>r_id = rid, r_release_tag = ''v2.0.0'', r_image_tag = ''img'', r_suite_ids = [],
     r_status = st, r_priority = 5, r_triggered_by = ''manual'', r_triggered_by_user = None,
     r_queued_at = 0, r_started_at = None, r_completed_at = None, r_pass_rate = None,
     r_metadata = JNull, r_app_id = None, r_app_address = JNull\<rparr>"

definition sample_def :: "string \<Rightarrow> string list \<Rightarrow> int \<Rightarrow> def_row" where
  "sample_def did tags major = \<lparr>d_id = did, d_slug = did, d_name = did, d_version = 1, d_tags = Some tags,
     d_category = None, d_phase = None, d_active = True, d_min_node_major = major,
     d_timeout_seconds = 60, d_parsed = JNull\<rparr>"

definition sample_orch :: orch where
  "sample_orch = \<lparr>o_db = \<lparr>runs = [sample_run ''r1'' RProvisioning, sample_run ''r2'' RCancelled,
                                 sample_run ''r3'' RCompleted],
       run_events = [], run_logs = [], log_seq = 0,
       definitions = [sample_def ''d1'' [] 2, sample_def ''d2'' [''standalone''] 2, sample_def ''d3'' [] 1,
                      sample_def ''d4'' [''x''] 2],
       results = [], sandboxes = [], applications = [], sessions = [],
       release_catalog = [\<lparr>rc_tag = ''v2.0.0'', rc_cli_tag = None, rc_node_major = Some 2\<rparr>],
       cli_catalog = [], devnet_catalog = []\<rparr>,
     o_notify = [], o_live = [], o_test_cmds = [], o_sandbox_reqs = []\<rparr>"

definition sample_msg :: "string \<Rightarrow> string \<Rightarrow> json \<Rightarrow> dict" where
  "sample_msg ty rid lines = [(''event_type'', JStr ty), (''run_id'', JStr rid), (''sandbox_id'', JStr ''sb''),
                              (''lines'', lines)]"

theorem cancelled_run_is_inert_witness:
  "view ''r2'' (consume_events (\<lambda>_. True) [((\<lambda>i. ''e''), 1, sample_msg ''ready'' ''r2'' JNull),
                                          ((\<lambda>i. ''e''), 2, sample_msg ''failed'' ''r2'' JNull)] sample_orch)
     = view ''r2'' sample_orch"
  by (rule cancelled_run_is_inert [of _ _ "sample_run ''r2'' RCancelled"]) code_simp+

theorem events_touch_only_their_run_witness:
  "view ''r3'' (consume_events (\<lambda>_. True) [((\<lambda>i. ''e''), 1, sample_msg ''ready'' ''r1'' JNull)] sample_orch)
     = view ''r3'' sample_orch"
  by (rule events_touch_only_their_run) (simp add: sample_msg_def get_def get_or_def key_of_def)

theorem status_after_sandbox_event_witness:
  "\<exists>r'. find_run (o_db (snd (handle_sandbox_event (\<lambda>_. True) (\<lambda>i. ''e'') 1
                              (sample_msg ''failed'' ''r3'' JNull) sample_orch))) ''r3'' = Some r'
     \<and> r_status r' = RFailed"
proof -
  have "status_after (sample_msg ''failed'' ''r3'' JNull) (r_status (sample_run ''r3'' RCompleted)) = RFailed"
    by code_simp
  with status_after_sandbox_event [of "sample_msg ''failed'' ''r3'' JNull" "''r3''" sample_orch
         "sample_run ''r3'' RCompleted" "\<lambda>_. True" "\<lambda>i. ''e''" 1]
  show ?thesis
    by (simp add: sample_msg_def get_def get_or_def sample_orch_def find_run_def sample_run_def)
qed

definition sample_ready :: "unit res \<times> orch" where
  "sample_ready = handle_sandbox_event (\<lambda>_. True) (\<lambda>i. ''e'') 1 (sample_msg ''ready'' ''r1'' JNull) sample_orch"

theorem ready_dispatches_wanted_tests_witness:
  "\<exists>cmds r'. o_test_cmds (snd sample_ready) = cmds
      \<and> map cmd_def cmds = [JStr ''d1'', JStr ''d4''] \<and> (\<forall>c \<in> set cmds. cmd_run c = ''r1'')
      \<and> find_run (o_db (snd sample_ready)) ''r1'' = Some r' \<and> r_status r' = RRunning
      \<and> dispatched_count (r_metadata r') = int (length cmds)"
proof -
  have run: "handle_sandbox_event (\<lambda>_. True) (\<lambda>i. ''e'') 1 (sample_msg ''ready'' ''r1'' JNull) sample_orch
               = (Inr (), snd sample_ready)"
    by code_simp
  have wanted: "map (\<lambda>d. JStr (d_id d))
      (filter (wanted_test (o_db sample_orch) (sample_run ''r1'' RProvisioning))
              (definitions (o_db sample_orch))) = [JStr ''d1'', JStr ''d4'']"
    by code_simp
  have row: "find_run (o_db sample_orch) ''r1'' = Some (sample_run ''r1'' RProvisioning)"
    "r_status (sample_run ''r1'' RProvisioning) \<noteq> RCancelled" "o_test_cmds sample_orch = []"
    by code_simp+
  from ready_dispatches_wanted_tests [OF _ _ _ row(1,2) run] wanted row(3) show ?thesis
    by (simp add: sample_msg_def get_def get_or_def)
qed

theorem log_store_invariant_witness:
  "logs_ok (o_db (consume_events (\<lambda>_. True)
     [((\<lambda>i. ''e''), 1, sample_msg ''log_batch'' ''r1'' (JArr [JObj [(''message'', JStr ''m'')]]))] sample_orch))"
  by (rule log_store_invariant) (simp add: logs_ok_def sample_orch_def)

definition sample_logged :: "unit res \<times> orch" where
  "sample_logged = handle_sandbox_event (\<lambda>_. True) (\<lambda>i. ''e'') 7
     (sample_msg ''log_batch'' ''r1'' (JArr [JObj [(''message'', JStr ''m'')], JNull])) sample_orch"

theorem log_batch_all_or_nothing_witness:
  "\<exists>new p. run_logs (o_db (snd sample_logged)) = new
     \<and> map (\<lambda>l. (lg_source l, lg_level l, lg_message l, lg_ts l)) new
         = [(''unknown'', ''info'', ''m'', JInt 7)]
     \<and> o_live (snd sample_logged) = [p] \<and> o_notify (snd sample_logged) = []"
proof -
  let ?ls = "[JObj [(''message'', JStr ''m'')], JNull]"
  have run: "handle_sandbox_event (\<lambda>_. True) (\<lambda>i. ''e'') 7 (sample_msg ''log_batch'' ''r1'' (JArr ?ls))
               sample_orch = (fst sample_logged, snd sample_logged)"
    by (simp add: sample_logged_def)
  have row: "find_run (o_db sample_orch) ''r1'' = Some (sample_run ''r1'' RProvisioning)"
    "r_status (sample_run ''r1'' RProvisioning) \<noteq> RCancelled" "run_logs (o_db sample_orch) = []"
    "o_live sample_orch = []" "o_notify sample_orch = []"
    by code_simp+
  have ls: "List.map_filter (log_fields 7) ?ls = [(''unknown'', ''info'', ''m'', JInt 7)]"
    by code_simp
  from log_batch_all_or_nothing [OF _ _ row(1,2) _ run, of ?ls] row(3-) ls show ?thesis
    by (simp add: sample_msg_def get_def get_or_def)
qed

end
