(* ===== verification/Test_Results.thy ===== *)
theory Test_Results
  imports Sandbox_Events
begin

text \<open>
  \<open>services/orchestrator/consumers/test_results.py\<close>: counting the results of a run against the number
  of dispatched tests, closing the run with a verdict and reporting it.

  Rates are exact fractions (\<open>rat\<close>).  The thresholds that the environment configures are arguments, in
  the order completed, warning (100 and 80 by default).  \<open>le\<close> is the collation of the database.  The
  notification of a closed run, whose fields hold fractions, is a typed record: the handler returns
  it when it publishes one.
\<close>

definition final_status :: "rat \<Rightarrow> rat \<Rightarrow> rat \<Rightarrow> run_status" where
  "final_status completed warning rate =
     (if rate \<ge> completed then RCompleted else if rate \<ge> warning then RWarning else RFailed)"

section \<open>The queries\<close>

definition in_flight_status :: "test_status \<Rightarrow> bool" where
  "in_flight_status st = (st = TRunning \<or> st = TPending)"

definition is_failure :: "test_status \<Rightarrow> bool" where
  "is_failure st = (st \<notin> {TPassed, TRunning, TPending})"

record run_counts =
  cnt_dispatched :: int
  cnt_finished :: int
  cnt_in_flight :: int

definition count_results :: "db \<Rightarrow> string \<Rightarrow> run_counts option" where
  "count_results db rid =
     (case find_run db rid of
        None \<Rightarrow> None
      | Some r \<Rightarrow> Some
          \<lparr>cnt_dispatched = dispatched_count (r_metadata r),
           cnt_finished = int (length (filter (\<lambda>t. \<not> in_flight_status (t_status t)) (run_results db rid))),
           cnt_in_flight = int (length (filter (\<lambda>t. in_flight_status (t_status t)) (run_results db rid)))\<rparr>)"

definition percentage :: "nat \<Rightarrow> nat \<Rightarrow> rat" where
  "percentage passed n = (if n = 0 then 0 else of_nat passed / of_nat n * 100)"

definition passed_in :: "result_row list \<Rightarrow> nat" where
  "passed_in ts = length (filter (\<lambda>t. t_status t = TPassed) ts)"

text \<open>The column \<open>pass_rate NUMERIC(5, 2)\<close> and Python's \<open>round(x, 1)\<close> (half to even).\<close>

definition numeric2 :: "rat \<Rightarrow> rat" where
  "numeric2 x = of_int \<lfloor>x * 100 + 1 / 2\<rfloor> / 100"

definition round_even :: "rat \<Rightarrow> int" where
  "round_even x =
     (let f = \<lfloor>x\<rfloor>; d = x - of_int f
      in if d < 1 / 2 then f else if d > 1 / 2 then f + 1 else if even f then f else f + 1)"

definition round1 :: "rat \<Rightarrow> rat" where
  "round1 x = of_int (round_even (x * 10)) / 10"

text \<open>\<open>UPDATE \<dots> WHERE id = :id AND status = 'running' RETURNING \<dots>\<close>.\<close>

definition close_run :: "string \<Rightarrow> run_status \<Rightarrow> rat \<Rightarrow> int \<Rightarrow> db \<Rightarrow> run_row option \<times> db" where
  "close_run rid final rate now db =
     (case find_run db rid of
        None \<Rightarrow> (None, db)
      | Some r \<Rightarrow>
          if r_status r = RRunning
          then (let r' = r\<lparr>r_status := final, r_pass_rate := Some (numeric2 rate), r_completed_at := Some now\<rparr>
                in (Some r', update_run rid (\<lambda>_. r') db))
          else (None, db))"

definition duration_seconds :: "int \<Rightarrow> run_row \<Rightarrow> int option" where
  \<comment> \<open>\<open>EXTRACT(EPOCH FROM (NOW() - started_at))::int\<close> over milliseconds\<close>
  "duration_seconds now r =
     (case r_started_at r of None \<Rightarrow> None
      | Some t \<Rightarrow> Some (let d = now - t in if d \<ge> 0 then (d + 500) div 1000 else - ((500 - d) div 1000)))"

text \<open>Results joined with their definitions.\<close>

definition joined_results :: "db \<Rightarrow> string \<Rightarrow> (result_row \<times> def_row) list" where
  "joined_results db rid =
     List.map_filter (\<lambda>t. map_option (Pair t) (find_def db (t_def_id t))) (run_results db rid)"

fun insert_by :: "('a \<Rightarrow> 'a \<Rightarrow> bool) \<Rightarrow> 'a \<Rightarrow> 'a list \<Rightarrow> 'a list" where
  "insert_by le x [] = [x]"
| "insert_by le x (y # ys) = (if le x y then x # y # ys else y # insert_by le x ys)"

definition sort_by :: "('a \<Rightarrow> 'a \<Rightarrow> bool) \<Rightarrow> 'a list \<Rightarrow> 'a list" where
  "sort_by le xs = foldr (insert_by le) xs []"

fun nulls_last :: "('a \<Rightarrow> 'a \<Rightarrow> bool) \<Rightarrow> 'a option \<Rightarrow> 'a option \<Rightarrow> bool" where
  "nulls_last le x None = True"
| "nulls_last le None (Some y) = False"
| "nulls_last le (Some x) (Some y) = le x y"

record phase_stat =
  ph_phase :: string
  ph_total :: nat
  ph_passed :: nat
  ph_failed :: nat
  ph_pass_rate :: rat

definition phase_of :: "result_row list \<Rightarrow> string option \<Rightarrow> phase_stat" where
  "phase_of ts ph =
     (let passed = passed_in ts in
      \<lparr>ph_phase = (case ph of None \<Rightarrow> ''Uncategorised'' | Some p \<Rightarrow> p),
       ph_total = length ts, ph_passed = passed,
       ph_failed = length (filter (\<lambda>t. is_failure (t_status t)) ts),
       ph_pass_rate = round1 (percentage passed (length ts))\<rparr>)"

definition phase_stats :: "(string \<Rightarrow> string \<Rightarrow> bool) \<Rightarrow> (result_row \<times> def_row) list \<Rightarrow> phase_stat list" where
  "phase_stats le joined =
     map (\<lambda>ph. phase_of (map fst (filter (\<lambda>p. d_phase (snd p) = ph) joined)) ph)
         (sort_by (nulls_last le) (remdups (map (d_phase \<circ> snd) joined)))"

record failure =
  fl_name :: string
  fl_status :: test_status
  fl_error :: string

definition top_failures :: "(result_row \<times> def_row) list \<Rightarrow> failure list" where
  "top_failures joined =
     map (\<lambda>(t, d). \<lparr>fl_name = d_name d, fl_status = t_status t,
                    fl_error = str_take 200 (case t_error_message t of None \<Rightarrow> [] | Some e \<Rightarrow> e)\<rparr>)
       (take 5 (sort_by (\<lambda>(t, _) (u, _). nulls_last (\<le>) (t_completed_at t) (t_completed_at u))
                  (filter (\<lambda>p. is_failure (t_status (fst p))) joined)))"

section \<open>The handler\<close>

record run_report =
  rep_event_type :: string
  rep_title :: string
  rep_run_id :: json
  rep_pass_rate :: rat
  rep_release_tag :: string
  rep_triggered_by :: string
  rep_triggered_by_user :: "string option"
  rep_duration_seconds :: "int option"
  rep_total_tests :: nat
  rep_passed_tests :: nat
  rep_failed_tests :: nat
  rep_phases :: "phase_stat list"
  rep_top_failures :: "failure list"
  rep_is_success :: bool
  rep_is_warning :: bool
  rep_is_error :: bool

definition make_report ::
  "(string \<Rightarrow> string \<Rightarrow> bool) \<Rightarrow> int \<Rightarrow> json \<Rightarrow> run_status \<Rightarrow> rat \<Rightarrow> run_row \<Rightarrow> result_row list
     \<Rightarrow> (result_row \<times> def_row) list \<Rightarrow> run_report" where
  "make_report le now run_id final rate updated ts joined =
     (let failed_tests = top_failures joined in
      \<lparr>rep_event_type = ''run.'' @ run_status_str final, rep_title = ''Run '' @ run_status_str final,
       rep_run_id = run_id, rep_pass_rate = rate, rep_release_tag = r_release_tag updated,
       rep_triggered_by = r_triggered_by updated, rep_triggered_by_user = r_triggered_by_user updated,
       rep_duration_seconds = duration_seconds now updated,
       rep_total_tests = length ts, rep_passed_tests = passed_in ts,
       rep_failed_tests = length failed_tests, rep_phases = phase_stats le joined,
       rep_top_failures = failed_tests, rep_is_success = (final = RCompleted),
       rep_is_warning = (final = RWarning), rep_is_error = (final = RFailed)\<rparr>)"

definition handle_test_result ::
  "(string \<Rightarrow> string \<Rightarrow> bool) \<Rightarrow> rat \<Rightarrow> rat \<Rightarrow> int \<Rightarrow> dict \<Rightarrow> orch \<Rightarrow> run_report option \<times> orch" where
  "handle_test_result le completed warning now msg s =
     (let run_id = get msg ''run_id''; rid = key_of run_id;
          s1 = publish_live (JObj [(''event_type'', JStr ''test.result''), (''run_id'', run_id),
                                   (''definition_slug'', get msg ''definition_slug''),
                                   (''status'', get msg ''status'')]) s;
          db = o_db s1
      in case count_results db rid of
           None \<Rightarrow> (None, s1)
         | Some c \<Rightarrow>
             if cnt_dispatched c = 0 \<or> cnt_in_flight c > 0 \<or> cnt_finished c < cnt_dispatched c then (None, s1)
             else
               (let ts = run_results db rid;
                    rate = percentage (passed_in ts) (length ts);
                    final = final_status completed warning rate
                in case close_run rid final rate now db of
                     (None, _) \<Rightarrow> (None, s1)
                   | (Some updated, db') \<Rightarrow>
                       (Some (make_report le now run_id final rate updated ts (joined_results db' rid)),
                        s1\<lparr>o_db := db'\<rparr>)))"

text \<open>
  The handler one statement at a time: the counts, the rate, the guarded UPDATE with the queries for the
  report.  Other services can act between two of them.
\<close>

datatype result_pc =
    ReCount
  | ReStats
  | ReClose "result_row list"
  | ReDone

fun result_step ::
  "(string \<Rightarrow> string \<Rightarrow> bool) \<Rightarrow> rat \<Rightarrow> rat \<Rightarrow> int \<Rightarrow> dict \<Rightarrow> result_pc \<Rightarrow> orch
     \<Rightarrow> result_pc \<times> run_report option \<times> orch" where
  "result_step le completed warning now msg ReCount s =
     (let run_id = get msg ''run_id'';
          s1 = publish_live (JObj [(''event_type'', JStr ''test.result''), (''run_id'', run_id),
                                   (''definition_slug'', get msg ''definition_slug''),
                                   (''status'', get msg ''status'')]) s
      in case count_results (o_db s1) (key_of run_id) of
           None \<Rightarrow> (ReDone, None, s1)
         | Some c \<Rightarrow>
             (if cnt_dispatched c = 0 \<or> cnt_in_flight c > 0 \<or> cnt_finished c < cnt_dispatched c
              then ReDone else ReStats, None, s1))"
| "result_step le completed warning now msg ReStats s =
     (ReClose (run_results (o_db s) (key_of (get msg ''run_id''))), None, s)"
| "result_step le completed warning now msg (ReClose ts) s =
     (let run_id = get msg ''run_id''; rid = key_of run_id;
          rate = percentage (passed_in ts) (length ts);
          final = final_status completed warning rate
      in case close_run rid final rate now (o_db s) of
           (None, _) \<Rightarrow> (ReDone, None, s)
         | (Some updated, db') \<Rightarrow>
             (ReDone, Some (make_report le now run_id final rate updated ts (joined_results db' rid)), s\<lparr>o_db := db'\<rparr>))"
| "result_step le completed warning now msg ReDone s = (ReDone, None, s)"

text \<open>The consumer loop and the reports it publishes.\<close>

fun consume_results ::
  "(string \<Rightarrow> string \<Rightarrow> bool) \<Rightarrow> rat \<Rightarrow> rat \<Rightarrow> (int \<times> dict) list \<Rightarrow> orch \<Rightarrow> run_report list \<times> orch" where
  "consume_results le c w [] s = ([], s)"
| "consume_results le c w ((now, msg) # ms) s =
     (let (rep, s1) = handle_test_result le c w now msg s;
          (reps, s2) = consume_results le c w ms s1
      in ((case rep of None \<Rightarrow> [] | Some r \<Rightarrow> [r]) @ reps, s2))"

end
