(* ===== verification/Test_Results_Spec.thy ===== *)
theory Test_Results_Spec
  imports Test_Results Sandbox_Events_Spec
begin

text \<open>
  What closing a run guarantees: when the verdict is given and that it is the right one, that it is
  given once, and that the report adds up.
\<close>

section \<open>When a run closes\<close>

definition run_done :: "db \<Rightarrow> string \<Rightarrow> run_row \<Rightarrow> bool" where
  "run_done db rid r =
     (dispatched_count (r_metadata r) \<noteq> 0
      \<and> (\<forall>t \<in> set (run_results db rid). \<not> in_flight_status (t_status t))
      \<and> dispatched_count (r_metadata r) \<le> int (length (run_results db rid)))"

definition rate_of :: "db \<Rightarrow> string \<Rightarrow> rat" where
  "rate_of db rid = percentage (passed_in (run_results db rid)) (length (run_results db rid))"

lemma handle_cases:
  assumes "get msg ''run_id'' = JStr rid" and "find_run (o_db s) rid = Some r"
  shows "if run_done (o_db s) rid r \<and> r_status r = RRunning
         then (\<exists>rep. fst (handle_test_result le c w now msg s) = Some rep
                 \<and> rep_run_id rep = JStr rid \<and> rep_pass_rate rep = rate_of (o_db s) rid
                 \<and> rep_total_tests rep = length (run_results (o_db s) rid)
                 \<and> rep_passed_tests rep = passed_in (run_results (o_db s) rid)
                 \<and> rep_phases rep = phase_stats le (joined_results (o_db s) rid)
                 \<and> rep_top_failures rep = top_failures (joined_results (o_db s) rid)
                 \<and> rep_failed_tests rep = length (rep_top_failures rep))
              \<and> o_db (snd (handle_test_result le c w now msg s))
                  = update_run rid (\<lambda>_. r\<lparr>r_status := final_status c w (rate_of (o_db s) rid),
                                        r_pass_rate := Some (numeric2 (rate_of (o_db s) rid)),
                                        r_completed_at := Some now\<rparr>) (o_db s)
         else fst (handle_test_result le c w now msg s) = None
              \<and> o_db (snd (handle_test_result le c w now msg s)) = o_db s"
proof -
  have key: "key_of (JStr rid) = rid" by (simp add: key_of_def)
  have pub: "o_db (publish_live p s) = o_db s" for p by (simp add: publish_live_def)
  let ?ts = "run_results (o_db s) rid"
  obtain cnt where cnt: "count_results (o_db s) rid = Some cnt"
    using assms(2) by (simp add: count_results_def)
  have dn: "\<not> (cnt_dispatched cnt = 0 \<or> cnt_in_flight cnt > 0 \<or> cnt_finished cnt < cnt_dispatched cnt)
              \<longleftrightarrow> run_done (o_db s) rid r"
  proof (cases "\<forall>t \<in> set ?ts. \<not> in_flight_status (t_status t)")
    case True
    then have "filter (\<lambda>t. \<not> in_flight_status (t_status t)) ?ts = ?ts"
      and "filter (\<lambda>t. in_flight_status (t_status t)) ?ts = []"
      by (simp_all add: filter_empty_conv filter_id_conv)
    then show ?thesis using cnt True assms(2) by (auto simp: count_results_def run_done_def)
  next
    case False
    then show ?thesis using cnt assms(2)
      by (auto simp: count_results_def run_done_def filter_empty_conv)
  qed
  have joined: "joined_results (update_run rid f (o_db s)) rid = joined_results (o_db s) rid" for f
    by (simp add: joined_results_def find_def_def)
  show ?thesis
  proof (cases "run_done (o_db s) rid r")
    case False
    with dn have "cnt_dispatched cnt = 0 \<or> cnt_in_flight cnt > 0 \<or> cnt_finished cnt < cnt_dispatched cnt"
      by blast
    then show ?thesis using False
      by (simp add: handle_test_result_def assms(1) key pub cnt Let_def)
  next
    case True
    with dn have go: "\<not> (cnt_dispatched cnt = 0 \<or> cnt_in_flight cnt > 0 \<or> cnt_finished cnt < cnt_dispatched cnt)"
      by blast
    show ?thesis
    proof (cases "r_status r = RRunning")
      case False
      then show ?thesis
        by (simp add: handle_test_result_def assms key pub cnt go close_run_def Let_def)
    next
      case running: True
      with True go show ?thesis
        by (simp add: handle_test_result_def assms key pub cnt close_run_def Let_def rate_of_def
                      make_report_def joined)
    qed
  qed
qed

section \<open>The verdict\<close>

lemma find_map_other:
  "k \<noteq> rid \<Longrightarrow> r_id r' = k \<Longrightarrow>
     find (\<lambda>r. r_id r = rid) (map (\<lambda>r. if r_id r = k then r' else r) rs) = find (\<lambda>r. r_id r = rid) rs"
  by (induction rs) auto

lemma find_map_const:
  "r_id r' = rid \<Longrightarrow> find (\<lambda>r. r_id r = rid) rs = Some r \<Longrightarrow>
     find (\<lambda>r. r_id r = rid) (map (\<lambda>r. if r_id r = rid then r' else r) rs) = Some r'"
  by (induction rs) auto

lemma passed_in_le: "passed_in ts \<le> length ts"
  by (simp add: passed_in_def)

lemma passed_in_all: "passed_in ts = length ts \<longleftrightarrow> (\<forall>t \<in> set ts. t_status t = TPassed)"
  unfolding passed_in_def by (metis (mono_tags, lifting) filter_True length_filter_less less_irrefl)

lemma percentage_ge:
  assumes "0 < n"
  shows "of_nat k \<le> percentage p n \<longleftrightarrow> k * n \<le> 100 * p"
proof -
  have "of_nat k \<le> percentage p n \<longleftrightarrow> of_nat k * of_nat n \<le> (100 * of_nat p :: rat)"
    using assms by (simp add: percentage_def field_simps)
  also have "\<dots> \<longleftrightarrow> k * n \<le> 100 * p"
    by (metis (mono_tags, lifting) of_nat_le_iff of_nat_mult of_nat_numeral)
  finally show ?thesis .
qed

text \<open>
  C7: with the default thresholds the run closes exactly when it is running, tests were dispatched,
  every result row is final and there are at least as many rows as dispatched tests; then it is
  completed exactly when all tests passed, a warning when at least four of five but not all passed,
  and failed otherwise.  In every other situation the message changes nothing in the database.
\<close>

theorem verdict_matches_results:
  assumes "get msg ''run_id'' = JStr rid" and "find_run (o_db s) rid = Some r"
    and "0 \<le> dispatched_count (r_metadata r)"
    and "handle_test_result le 100 80 now msg s = (rep, s')"
  shows "if run_done (o_db s) rid r \<and> r_status r = RRunning
         then (\<exists>r'. find_run (o_db s') rid = Some r' \<and> rep \<noteq> None
                \<and> r_status r' = (if \<forall>t \<in> set (run_results (o_db s) rid). t_status t = TPassed then RCompleted
                    else if 4 * length (run_results (o_db s) rid) \<le> 5 * passed_in (run_results (o_db s) rid)
                    then RWarning else RFailed))
         else rep = None \<and> o_db s' = o_db s"
proof (cases "run_done (o_db s) rid r \<and> r_status r = RRunning")
  case True
  let ?ts = "run_results (o_db s) rid" and ?fin = "final_status 100 80 (rate_of (o_db s) rid)"
  from True assms(3) have ne: "0 < length ?ts" by (auto simp: run_done_def)
  have "rate_of (o_db s) rid \<ge> 100 \<longleftrightarrow> (\<forall>t \<in> set ?ts. t_status t = TPassed)"
    using percentage_ge [OF ne, of 100 "passed_in ?ts"] passed_in_le [of ?ts]
    by (auto simp: rate_of_def passed_in_all [symmetric])
  moreover have "rate_of (o_db s) rid \<ge> 80 \<longleftrightarrow> 4 * length ?ts \<le> 5 * passed_in ?ts"
    using percentage_ge [OF ne, of 80 "passed_in ?ts"] by (auto simp: rate_of_def)
  ultimately have fin: "?fin = (if \<forall>t \<in> set ?ts. t_status t = TPassed then RCompleted
                    else if 4 * length ?ts \<le> 5 * passed_in ?ts then RWarning else RFailed)"
    by (simp add: final_status_def)
  have "r_id r = rid" using assms(2) by (rule find_run_id)
  with handle_cases [OF assms(1,2), of le 100 80 now] True assms(2,4) show ?thesis
    unfolding fin [symmetric] by (auto simp: find_run_def update_run_def find_map_const)
next
  case False
  with handle_cases [OF assms(1,2), of le 100 80 now] assms(4) show ?thesis by auto
qed

section \<open>One report per run\<close>

definition reports_for :: "string \<Rightarrow> run_report list \<Rightarrow> run_report list" where
  "reports_for rid reps = filter (\<lambda>rep. key_of (rep_run_id rep) = rid) reps"

lemma other_run_result:
  assumes "key_of (get msg ''run_id'') \<noteq> rid"
  shows "find_run (o_db (snd (handle_test_result le c w now msg s))) rid = find_run (o_db s) rid"
    and "fst (handle_test_result le c w now msg s) = Some rep \<Longrightarrow> key_of (rep_run_id rep) \<noteq> rid"
proof -
  have upd: "find_run (update_run k (\<lambda>_. r'\<lparr>r_status := a, r_pass_rate := b, r_completed_at := d\<rparr>) db) rid
               = find_run db rid" if "k \<noteq> rid" "r_id r' = k" for k r' a b d db
    using that by (auto simp: find_run_def update_run_def intro: find_map_other)
  show "find_run (o_db (snd (handle_test_result le c w now msg s))) rid = find_run (o_db s) rid"
    using assms
    by (auto simp: handle_test_result_def Let_def publish_live_def close_run_def upd
             dest: find_run_id split: option.splits)
  show "key_of (rep_run_id rep) \<noteq> rid" if "fst (handle_test_result le c w now msg s) = Some rep"
    using assms that
    by (auto simp: handle_test_result_def Let_def make_report_def split: option.splits if_splits prod.splits)
qed

lemma closed_run_result:
  assumes "find_run (o_db s) rid = Some r" and "r_status r \<noteq> RRunning" and "rid \<noteq> []"
  shows "find_run (o_db (snd (handle_test_result le c w now msg s))) rid = Some r"
    and "fst (handle_test_result le c w now msg s) = Some rep \<Longrightarrow> key_of (rep_run_id rep) \<noteq> rid"
proof -
  have j: "get msg ''run_id'' = JStr rid" if "key_of (get msg ''run_id'') = rid"
    using that assms(3) by (auto simp: key_of_def split: json.splits)
  show "find_run (o_db (snd (handle_test_result le c w now msg s))) rid = Some r"
    using handle_cases [OF j assms(1), of le c w now] assms(1,2) other_run_result(1) [of msg rid le c w now s]
    by fastforce
  show "key_of (rep_run_id rep) \<noteq> rid" if "fst (handle_test_result le c w now msg s) = Some rep"
    using handle_cases [OF j assms(1), of le c w now] assms(2) that
      other_run_result(2) [of msg rid le c w now s rep] by fastforce
qed

lemma closed_run_stays:
  assumes "find_run (o_db s) rid = Some r" and "r_status r \<noteq> RRunning" and "rid \<noteq> []"
  shows "find_run (o_db (snd (consume_results le c w ms s))) rid = Some r
         \<and> reports_for rid (fst (consume_results le c w ms s)) = []"
  using assms
proof (induction le c w ms s rule: consume_results.induct)
  case (2 le c w now msg ms s)
  obtain rep s1 where h: "handle_test_result le c w now msg s = (rep, s1)" by fastforce
  with closed_run_result [OF 2(2-4), of le c w now msg]
  have "find_run (o_db s1) rid = Some r" "\<And>x. rep = Some x \<Longrightarrow> key_of (rep_run_id x) \<noteq> rid" by auto
  with 2 h show ?case
    by (auto simp: reports_for_def split: prod.splits option.splits)
qed (simp add: reports_for_def)

text \<open>
  C23: a run is reported at most once, and once it is closed the result consumer never touches it
  again, however many results arrive, duplicated or late.
\<close>

theorem run_reported_at_most_once:
  assumes "find_run (o_db s) rid = Some r" and "rid \<noteq> []"
  shows "length (reports_for rid (fst (consume_results le c w ms s))) \<le> 1
         \<and> (r_status r \<noteq> RRunning \<longrightarrow>
              find_run (o_db (snd (consume_results le c w ms s))) rid = Some r
              \<and> reports_for rid (fst (consume_results le c w ms s)) = [])"
proof -
  have "length (reports_for rid (fst (consume_results le c w ms s))) \<le> 1"
    using assms(1,2)
  proof (induction le c w ms s arbitrary: r rule: consume_results.induct)
    case (2 le c w now msg ms s)
    obtain rep s1 where h: "handle_test_result le c w now msg s = (rep, s1)" by fastforce
    obtain reps s2 where t: "consume_results le c w ms s1 = (reps, s2)" by fastforce
    show ?case
    proof (cases "key_of (get msg ''run_id'') = rid \<and> rep \<noteq> None")
      case True
      then have j: "get msg ''run_id'' = JStr rid" using 2(3)
        by (auto simp: key_of_def split: json.splits)
      have "\<exists>r'. find_run (o_db s1) rid = Some r' \<and> r_status r' \<noteq> RRunning"
        using handle_cases [OF j 2(2), of le c w now] True h 2(2) find_run_id [OF 2(2)]
        by (auto simp: find_run_def update_run_def final_status_def intro!: exI find_map_const split: if_splits)
      then show ?thesis
        using closed_run_stays [of s1 rid _ le c w ms] 2(3) h t by (auto simp: reports_for_def split: option.splits)
    next
      case False
      have "find_run (o_db s1) rid = Some r \<and> (\<forall>x. rep = Some x \<longrightarrow> key_of (rep_run_id x) \<noteq> rid)"
      proof (cases "key_of (get msg ''run_id'') = rid")
        case True
        then have "get msg ''run_id'' = JStr rid" using 2(3)
          by (auto simp: key_of_def split: json.splits)
        with handle_cases [of msg rid s r le c w now] 2(2) False True h show ?thesis
          by (auto split: if_splits)
      next
        case False
        with other_run_result [OF False, of le c w now s] h 2(2) show ?thesis by auto
      qed
      with 2(1) [OF h [symmetric] refl, of r] 2(3) h t show ?thesis
        by (auto simp: reports_for_def split: option.splits)
    qed
  qed (simp add: reports_for_def)
  then show ?thesis using closed_run_stays [OF assms(1) _ assms(2)] by blast
qed

section \<open>The report\<close>

lemma set_sort_by: "set (sort_by le xs) = set xs" "length (sort_by le xs) = length xs"
proof -
  have "set (insert_by le x ys) = insert x (set ys)" "length (insert_by le x ys) = Suc (length ys)" for x ys
    by (induction ys) auto
  then show "set (sort_by le xs) = set xs" "length (sort_by le xs) = length xs"
    by (simp_all add: sort_by_def) (induction xs; simp)+
qed

lemma distinct_sort_by: "distinct (sort_by le xs) = distinct xs"
  by (metis card_distinct distinct_card set_sort_by)

lemma status_split:
  "length ts = length (filter (\<lambda>t. t_status t = TPassed) ts) + length (filter (\<lambda>t. is_failure (t_status t)) ts)"
  if "\<forall>t \<in> set ts. \<not> in_flight_status (t_status t)"
  using that by (induction ts) (auto simp: is_failure_def in_flight_status_def)

lemma sum_list_delta:
  "distinct ks \<Longrightarrow> (\<Sum>k\<leftarrow>ks. if a = k then b else 0) = (if a \<in> set ks then b else (0 :: nat))"
  by (induction ks) auto

lemma sum_by_key:
  "distinct ks \<Longrightarrow> set (map f xs) \<subseteq> set ks \<Longrightarrow>
     (\<Sum>k\<leftarrow>ks. length (filter (\<lambda>x. f x = k \<and> P x) xs)) = length (filter P xs)"
proof (induction xs)
  case Nil
  then show ?case by (simp add: sum_list_0)
next
  case (Cons x xs)
  have "(\<Sum>k\<leftarrow>ks. length (filter (\<lambda>x. f x = k \<and> P x) (x # xs)))
          = (\<Sum>k\<leftarrow>ks. (if f x = k then of_bool (P x) else 0) + length (filter (\<lambda>x. f x = k \<and> P x) xs))"
    by (rule arg_cong [where f = sum_list]) auto
  also have "\<dots> = (\<Sum>k\<leftarrow>ks. (if f x = k then of_bool (P x) else 0)) + length (filter P xs)"
    using Cons by (simp add: sum_list_addf)
  also have "(\<Sum>k\<leftarrow>ks. (if f x = k then of_bool (P x) else 0)) = (of_bool (P x) :: nat)"
    using sum_list_delta [OF Cons.prems(1), of "f x" "of_bool (P x)"] Cons.prems(2) by simp
  finally show ?case by simp
qed

lemma round1_bounds: "0 \<le> x \<Longrightarrow> x \<le> 100 \<Longrightarrow> 0 \<le> round1 x \<and> round1 x \<le> 100"
proof -
  assume x: "0 \<le> x" "x \<le> 100"
  have lo: "0 \<le> \<lfloor>x * 10\<rfloor>" using x by simp
  have hi: "round_even (x * 10) \<le> 1000"
  proof (cases "x = 100")
    case True then show ?thesis by (simp add: round_even_def)
  next
    case False
    with x have "x * 10 < 1000" by simp
    then have "\<lfloor>x * 10\<rfloor> < 1000" by (simp add: floor_less_iff)
    then show ?thesis by (simp add: round_even_def Let_def)
  qed
  from lo have "0 \<le> round_even (x * 10)" by (simp add: round_even_def Let_def)
  with hi show ?thesis by (simp add: round1_def)
qed

lemma percentage_bounds: "p \<le> n \<Longrightarrow> 0 \<le> percentage p n \<and> percentage p n \<le> 100"
  by (simp add: percentage_def divide_le_eq)

text \<open>
  The report of a closed run adds up: the phases are distinct groups whose totals and passes sum
  to the results that have a definition, in every phase the failed and the passed ones make the
  total and the rate is a percentage, and no more than five failures are listed.
\<close>

theorem report_adds_up:
  assumes "get msg ''run_id'' = JStr rid" and "find_run (o_db s) rid = Some r"
    and "handle_test_result le c w now msg s = (Some rep, s')"
  shows "sum_list (map ph_total (rep_phases rep)) = length (joined_results (o_db s) rid)
       \<and> sum_list (map ph_passed (rep_phases rep)) = passed_in (map fst (joined_results (o_db s) rid))
       \<and> (\<forall>ph \<in> set (rep_phases rep). ph_total ph = ph_passed ph + ph_failed ph \<and> 0 < ph_total ph
              \<and> 0 \<le> ph_pass_rate ph \<and> ph_pass_rate ph \<le> 100)
       \<and> rep_failed_tests rep = min 5 (length (filter (is_failure \<circ> t_status \<circ> fst)
                                                (joined_results (o_db s) rid)))"
proof -
  let ?j = "joined_results (o_db s) rid"
  let ?ks = "sort_by (nulls_last le) (remdups (map (d_phase \<circ> snd) ?j))"
  from handle_cases [OF assms(1,2), of le c w now] assms(3)
  have dn: "run_done (o_db s) rid r" and ph: "rep_phases rep = phase_stats le ?j"
    and top: "rep_failed_tests rep = length (top_failures ?j)"
    by (auto split: if_splits)
  have dis: "distinct ?ks" and keys: "set (map (d_phase \<circ> snd) ?j) \<subseteq> set ?ks"
    by (simp_all add: distinct_sort_by set_sort_by)
  have fin: "\<forall>t \<in> fst ` set ?j. \<not> in_flight_status (t_status t)"
    using dn by (auto simp: run_done_def joined_results_def map_filter_def)
  have "sum_list (map ph_total (rep_phases rep)) = length ?j"
    using sum_by_key [OF dis keys, of "\<lambda>_. True"]
    by (simp add: ph phase_stats_def phase_of_def Let_def o_def case_prod_beta)
  moreover have "sum_list (map ph_passed (rep_phases rep)) = passed_in (map fst ?j)"
    using sum_by_key [OF dis keys, of "\<lambda>x. t_status (fst x) = TPassed"]
    by (simp add: ph phase_stats_def phase_of_def Let_def o_def case_prod_beta passed_in_def
                  filter_map conj_commute)
  moreover have "ph_total p = ph_passed p + ph_failed p \<and> 0 < ph_total p
      \<and> 0 \<le> ph_pass_rate p \<and> ph_pass_rate p \<le> 100" if "p \<in> set (rep_phases rep)" for p
  proof -
    from that obtain k where k: "k \<in> set ?ks"
      and p: "p = phase_of (map fst (filter (\<lambda>p. d_phase (snd p) = k) ?j)) k"
      by (auto simp: ph phase_stats_def)
    define ts where "ts = map fst (filter (\<lambda>p. d_phase (snd p) = k) ?j)"
    have len: "length ts = passed_in ts + length (filter (\<lambda>t. is_failure (t_status t)) ts)"
      unfolding passed_in_def by (rule status_split) (use fin in \<open>auto simp: ts_def\<close>)
    have ne: "0 < length ts" using k by (auto simp: ts_def set_sort_by filter_empty_conv)
    have "0 \<le> round1 (percentage (passed_in ts) (length ts))
            \<and> round1 (percentage (passed_in ts) (length ts)) \<le> 100"
      using round1_bounds percentage_bounds [OF passed_in_le [of ts]] by blast
    with len ne show ?thesis
      by (simp add: p phase_of_def Let_def ts_def [symmetric])
  qed
  moreover have "length (top_failures ?j) = min 5 (length (filter (is_failure \<circ> t_status \<circ> fst) ?j))"
    by (simp add: top_failures_def set_sort_by case_prod_beta o_def min.commute)
  ultimately show ?thesis unfolding top by blast
qed

section \<open>A concrete state\<close>

definition sample_result :: "string \<Rightarrow> string \<Rightarrow> test_status \<Rightarrow> result_row" where
  "sample_result tid did st = \<lparr>t_id = tid, t_run_id = ''r'', t_sandbox_id = ''sb'', t_def_id = did,
     t_def_version = 1, t_status = st, t_duration_ms = None, t_assertion_results = JNull,
     t_error_message = None, t_started_at = Some 0, t_completed_at = Some 1\<rparr>"

definition sample_running :: "test_status \<Rightarrow> orch" where
  "sample_running st = sample_orch\<lparr>o_db := (o_db sample_orch)
     \<lparr>runs := [(sample_run ''r'' RRunning)\<lparr>r_metadata := JObj [(''dispatched_count'', JInt 2)]\<rparr>],
      results := [sample_result ''t1'' ''d1'' TPassed, sample_result ''t2'' ''d2'' st]\<rparr>\<rparr>"

definition sample_result_msg :: dict where
  "sample_result_msg = [(''run_id'', JStr ''r'')]"

definition sample_row :: run_row where
  "sample_row = (sample_run ''r'' RRunning)\<lparr>r_metadata := JObj [(''dispatched_count'', JInt 2)]\<rparr>"

definition sample_closed :: "run_report option \<times> orch" where
  "sample_closed = handle_test_result (\<lambda>_ _. True) 100 80 9 sample_result_msg (sample_running TFailed)"

lemma sample_facts:
  "get sample_result_msg ''run_id'' = JStr ''r''"
  "find_run (o_db (sample_running st)) ''r'' = Some sample_row"
  "dispatched_count (r_metadata sample_row) = 2" "r_status sample_row = RRunning"
  "run_results (o_db (sample_running st)) ''r''
     = [sample_result ''t1'' ''d1'' TPassed, sample_result ''t2'' ''d2'' st]"
  "joined_results (o_db (sample_running st)) ''r''
     = [(sample_result ''t1'' ''d1'' TPassed, sample_def ''d1'' [] 2),
        (sample_result ''t2'' ''d2'' st, sample_def ''d2'' [''standalone''] 2)]"
  by (simp_all add: sample_result_msg_def get_def get_or_def sample_running_def sample_row_def find_run_def
        sample_run_def dispatched_count_def meta_get_def run_results_def sample_result_def
        joined_results_def find_def_def sample_orch_def sample_def_def map_filter_simps)

theorem verdict_matches_results_witness:
  "\<exists>r'. find_run (o_db (snd sample_closed)) ''r'' = Some r' \<and> r_status r' = RFailed"
proof -
  have run: "handle_test_result (\<lambda>_ _. True) 100 80 9 sample_result_msg (sample_running TFailed)
               = (fst sample_closed, snd sample_closed)"
    by (simp add: sample_closed_def)
  have "run_done (o_db (sample_running TFailed)) ''r'' sample_row"
    by (simp add: run_done_def sample_facts in_flight_status_def sample_result_def)
  with verdict_matches_results [OF sample_facts(1,2) _ run] show ?thesis
    by (auto simp: sample_facts passed_in_def sample_result_def)
qed

theorem run_reported_at_most_once_witness:
  "length (reports_for ''r'' (fst (consume_results (\<lambda>_ _. True) 100 80
      [(1, sample_result_msg), (2, sample_result_msg)] (sample_running TPassed)))) \<le> 1"
  by (rule run_reported_at_most_once [OF sample_facts(2), THEN conjunct1]) simp

theorem report_adds_up_witness:
  "\<exists>rep. fst sample_closed = Some rep \<and> sum_list (map ph_total (rep_phases rep)) = 2
     \<and> rep_failed_tests rep = 1"
proof -
  have "run_done (o_db (sample_running TFailed)) ''r'' sample_row"
    by (simp add: run_done_def sample_facts in_flight_status_def sample_result_def)
  with handle_cases [OF sample_facts(1,2), of TFailed "\<lambda>_ _. True" 100 80 9]
  obtain rep where rep: "fst sample_closed = Some rep"
    by (auto simp: sample_facts sample_closed_def)
  then have run: "handle_test_result (\<lambda>_ _. True) 100 80 9 sample_result_msg (sample_running TFailed)
               = (Some rep, snd sample_closed)"
    by (simp add: sample_closed_def prod_eq_iff)
  from report_adds_up [OF sample_facts(1,2) run] rep show ?thesis
    by (simp add: sample_facts is_failure_def sample_result_def)
qed

end
