(* ===== verification/Releases_Consumer.thy ===== *)
theory Releases_Consumer
  imports Sandbox_Events_Spec Sdk_Resolver
begin

text \<open>
  \<open>services/orchestrator/consumers/releases.py\<close> and \<open>publishers/sandbox_requests.py\<close>: a release
  event creates a queued run, once per release tag, and asks the sandbox manager for a sandbox.
  \<open>up\<close> says whether the broker accepts the request; \<open>eid\<close> numbers the fresh UUIDs of the handler.
\<close>

section \<open>The sandbox request\<close>

record request_versions =
  q_sdk :: "string option"
  q_cli :: "string option"
  q_devnet :: "string option"
  q_contracts :: "string option"
  q_node_major :: "int option"

record request_app =
  q_app_id :: "string option"
  q_app_name :: "string option"
  q_app_url :: "string option"

definition no_app :: request_app where
  "no_app = \<lparr>q_app_id = None, q_app_name = None, q_app_url = None\<rparr>"

definition opt_num :: "int option \<Rightarrow> json" where
  "opt_num x = (case x of None \<Rightarrow> JNull | Some n \<Rightarrow> JInt n)"

definition sandbox_request ::
  "string \<Rightarrow> int \<Rightarrow> string \<Rightarrow> string \<Rightarrow> string \<Rightarrow> int \<Rightarrow> string option \<Rightarrow> request_versions \<Rightarrow> request_app \<Rightarrow> json" where
  "sandbox_request eid now run_id release_tag image_tag priority requested_by v app = JObj
     [(''event_id'', JStr eid), (''run_id'', JStr run_id), (''service'', JStr ''orchestrator''),
      (''ts'', JInt now), (''release_tag'', JStr release_tag), (''image_tag'', JStr image_tag),
      (''sdk_version'', opt_json (q_sdk v)), (''cli_version'', opt_json (q_cli v)),
      (''devnet_version'', opt_json (q_devnet v)), (''contracts_version'', opt_json (q_contracts v)),
      (''node_major_version'', opt_num (q_node_major v)), (''priority'', JInt priority),
      (''requested_by'', opt_json requested_by), (''app_id'', opt_json (q_app_id app)),
      (''app_name'', opt_json (q_app_name app)), (''app_github_url'', opt_json (q_app_url app))]"

definition publish_sandbox_request ::
  "bool \<Rightarrow> string \<Rightarrow> int \<Rightarrow> string \<Rightarrow> string \<Rightarrow> string \<Rightarrow> int \<Rightarrow> string option \<Rightarrow> request_versions \<Rightarrow> request_app
     \<Rightarrow> orch \<Rightarrow> unit res \<times> orch" where
  "publish_sandbox_request up eid now run_id release_tag image_tag priority requested_by v app s =
     (if up then
        (Inr (), s\<lparr>o_sandbox_reqs := o_sandbox_reqs s @
           [(priority, sandbox_request eid now run_id release_tag image_tag priority requested_by v app)]\<rparr>)
      else (Inl (Exc KOtherError ''AMQPConnectionError''), s))"

section \<open>The catalog lookup\<close>

record catalog_info =
  ci_node_major :: "int option"
  ci_image_tag :: string
  ci_versions :: "string option \<times> string option \<times> string option \<times> string option"

definition find_cli :: "db \<Rightarrow> string option \<Rightarrow> cli_row option" where
  "find_cli db tag = (case tag of None \<Rightarrow> None | Some t \<Rightarrow> find (\<lambda>c. cc_tag c = t) (cli_catalog db))"

definition find_devnet :: "db \<Rightarrow> string option \<Rightarrow> devnet_row option" where
  "find_devnet db tag = (case tag of None \<Rightarrow> None | Some t \<Rightarrow> find (\<lambda>d. dc_tag d = t) (devnet_catalog db))"

definition catalog_image_tag :: "int option \<Rightarrow> string option \<Rightarrow> string \<Rightarrow> string" where
  \<comment> \<open>the SQL CASE; a NULL major version is not \<open>>= 2\<close>\<close>
  "catalog_image_tag node_major sdk_tag tag =
     (case (node_major, sdk_tag) of
        (Some n, Some sdk) \<Rightarrow> if n \<ge> 2 then ''cartesi/rollups-runtime:'' @ lstrip_v sdk
                              else ''cartesi/rollups-node:'' @ lstrip_v tag
      | _ \<Rightarrow> ''cartesi/rollups-node:'' @ lstrip_v tag)"

definition lookup_catalog :: "db \<Rightarrow> string \<Rightarrow> catalog_info option" where
  "lookup_catalog db tag =
     (case find (\<lambda>rc. rc_tag rc = tag) (release_catalog db) of
        None \<Rightarrow> None
      | Some rc \<Rightarrow>
          (let c = find_cli db (rc_cli_tag rc);
               sdk_tag = Option.bind c cc_sdk_tag;
               devnet_tag = Option.bind c cc_devnet_tag;
               d = find_devnet db devnet_tag
           in Some \<lparr>ci_node_major = rc_node_major rc,
                    ci_image_tag = catalog_image_tag (rc_node_major rc) sdk_tag (rc_tag rc),
                    ci_versions = (map_option lstrip_v sdk_tag, map_option (\<lambda>c. lstrip_v (cc_tag c)) c,
                                   devnet_tag, Option.bind d dc_contracts_tag)\<rparr>))"

text \<open>The image tag and the versions of the run, with the fallback for a missing catalog row.\<close>

definition release_versions :: "db \<Rightarrow> string \<Rightarrow> string \<times> request_versions" where
  "release_versions db tag =
     (case lookup_catalog db tag of
        Some ci \<Rightarrow>
          (let (sdk, cli, devnet, contracts) = ci_versions ci;
               major = (case ci_node_major ci of
                          None \<Rightarrow> node_major_version tag
                        | Some n \<Rightarrow> if n = 0 then node_major_version tag else n)
           in (ci_image_tag ci, \<lparr>q_sdk = sdk, q_cli = cli, q_devnet = devnet, q_contracts = contracts,
                                 q_node_major = Some major\<rparr>))
      | None \<Rightarrow> (derive_image_tag tag None,
                 \<lparr>q_sdk = None, q_cli = None, q_devnet = None, q_contracts = None,
                  q_node_major = Some (node_major_version tag)\<rparr>))"

section \<open>The handler\<close>

definition release_run_exists :: "db \<Rightarrow> string \<Rightarrow> bool" where
  "release_run_exists db tag =
     (\<exists>r \<in> set (runs db). r_release_tag r = tag \<and> r_triggered_by r = ''github_release'')"

definition release_run :: "string \<Rightarrow> string \<Rightarrow> string \<Rightarrow> int \<Rightarrow> run_row" where
  "release_run run_id tag image_tag now =
     \<lparr>r_id = run_id, r_release_tag = tag, r_image_tag = image_tag, r_suite_ids = [],
      r_status = RQueued, r_priority = 9, r_triggered_by = ''github_release'',
      r_triggered_by_user = None, r_queued_at = now, r_started_at = None, r_completed_at = None,
      r_pass_rate = None, r_metadata = JObj [], r_app_id = None, r_app_address = JNull\<rparr>"

definition queued_payload :: "string \<Rightarrow> json \<Rightarrow> request_versions \<Rightarrow> dict" where
  "queued_payload tag html_url v =
     [(''release_tag'', JStr tag), (''source'', JStr ''github-watcher''), (''html_url'', html_url),
      (''sdk_version'', opt_json (q_sdk v)), (''cli_version'', opt_json (q_cli v)),
      (''devnet_version'', opt_json (q_devnet v)), (''contracts_version'', opt_json (q_contracts v)),
      (''node_major_version'', opt_num (q_node_major v))]"

text \<open>Both INSERTs commit together; a run id that is taken violates the primary key.\<close>

definition insert_run :: "run_row \<Rightarrow> event_row \<Rightarrow> orch \<Rightarrow> unit res \<times> orch" where
  "insert_run r e s =
     (if find_run (o_db s) (r_id r) \<noteq> None then (Inl (Exc KOtherError ''IntegrityError''), s)
      else (Inr (), s\<lparr>o_db := (o_db s)\<lparr>runs := runs (o_db s) @ [r],
                                        run_events := run_events (o_db s) @ [e]\<rparr>\<rparr>))"

definition create_release_run :: "(nat \<Rightarrow> string) \<Rightarrow> int \<Rightarrow> string \<Rightarrow> json \<Rightarrow> orch \<Rightarrow> unit res \<times> orch" where
  "create_release_run eid now tag html_url s =
     (let (image_tag, v) = release_versions (o_db s) tag
      in insert_run (release_run (eid 0) tag image_tag now)
           \<lparr>ev_run_id = eid 0, ev_type = ''run.queued'', ev_payload = JObj (queued_payload tag html_url v),
            ev_ts = now\<rparr> s)"

definition handle_release_event :: "bool \<Rightarrow> (nat \<Rightarrow> string) \<Rightarrow> int \<Rightarrow> dict \<Rightarrow> orch \<Rightarrow> unit res \<times> orch" where
  "handle_release_event up eid now msg s =
     (case get_or msg ''tag_name'' (JStr ''unknown'') of
        JStr tag \<Rightarrow>
          if release_run_exists (o_db s) tag then (Inr (), s)
          else
            (case create_release_run eid now tag (get_or msg ''html_url'' (JStr [])) s of
               (Inl e, s1) \<Rightarrow> (Inl e, s1)
             | (Inr _, s1) \<Rightarrow>
                 (let (image_tag, v) = release_versions (o_db s) tag
                  in publish_sandbox_request up (eid 1) now (eid 0) tag image_tag 9 (Some ''github-watcher'')
                       v no_app s1))
      | _ \<Rightarrow> (Inl TypeError, s))"

fun consume_releases :: "(bool \<times> (nat \<Rightarrow> string) \<times> int \<times> dict) list \<Rightarrow> orch \<Rightarrow> orch" where
  "consume_releases [] s = s"
| "consume_releases ((up, eid, now, msg) # ms) s =
     consume_releases ms (snd (handle_release_event up eid now msg s))"

section \<open>What the release consumer guarantees\<close>

definition field :: "json \<Rightarrow> string \<Rightarrow> json" where
  "field j k = (case j of JObj d \<Rightarrow> get d k | _ \<Rightarrow> JNull)"

definition release_runs :: "db \<Rightarrow> run_row list" where
  "release_runs db = filter (\<lambda>r. r_triggered_by r = ''github_release'') (runs db)"

definition request_has_run :: "db \<Rightarrow> json \<Rightarrow> bool" where
  "request_has_run db req =
     (case find_run db (key_of (field req ''run_id'')) of None \<Rightarrow> False
      | Some r \<Rightarrow> field req ''release_tag'' = JStr (r_release_tag r)
                 \<and> field req ''image_tag'' = JStr (r_image_tag r))"

definition releases_ok :: "orch \<Rightarrow> bool" where
  "releases_ok s = (distinct (map r_release_tag (release_runs (o_db s)))
                    \<and> (\<forall>(p, req) \<in> set (o_sandbox_reqs s). request_has_run (o_db s) req))"

lemma request_fields:
  "field (sandbox_request e now rid tag img p rb v app) ''run_id'' = JStr rid"
  "field (sandbox_request e now rid tag img p rb v app) ''release_tag'' = JStr tag"
  "field (sandbox_request e now rid tag img p rb v app) ''image_tag'' = JStr img"
  by (simp_all add: field_def sandbox_request_def get_def get_or_def)

lemma find_run_insert:
  "find_run (db\<lparr>runs := runs db @ [r], run_events := es\<rparr>) k
     = (case find_run db k of Some x \<Rightarrow> Some x | None \<Rightarrow> if r_id r = k then Some r else None)"
  by (simp add: find_run_def find_append split: option.split)

lemma release_run_exists_iff:
  "release_run_exists db tag \<longleftrightarrow> tag \<in> set (map r_release_tag (release_runs db))"
  by (auto simp: release_run_exists_def release_runs_def)

lemma request_has_run_insert:
  "request_has_run db req \<Longrightarrow> request_has_run (db\<lparr>runs := runs db @ [r], run_events := es\<rparr>) req"
  by (auto simp: request_has_run_def find_run_insert split: option.splits)

text \<open>The handler on a fresh release.\<close>

lemma handle_fresh:
  assumes "get_or msg ''tag_name'' (JStr ''unknown'') = JStr tag"
    and "\<not> release_run_exists (o_db s) tag" and "find_run (o_db s) (eid 0) = None"
  shows "\<exists>img v e.
     let db' = (o_db s)\<lparr>runs := runs (o_db s) @ [release_run (eid 0) tag img now],
                        run_events := run_events (o_db s) @ [e]\<rparr>
     in (img, v) = release_versions (o_db s) tag
        \<and> snd (handle_release_event up eid now msg s)
            = s\<lparr>o_db := db', o_sandbox_reqs := o_sandbox_reqs s @ (if up then
                 [(9, sandbox_request (eid 1) now (eid 0) tag img 9 (Some ''github-watcher'') v no_app)] else [])\<rparr>"
proof -
  obtain img v where v: "release_versions (o_db s) tag = (img, v)" by fastforce
  then show ?thesis using assms
    by (intro exI [of _ img] exI [of _ v]
          exI [of _ "\<lparr>ev_run_id = eid 0, ev_type = ''run.queued'',
             ev_payload = JObj (queued_payload tag (get_or msg ''html_url'' (JStr [])) v), ev_ts = now\<rparr>"])
       (simp add: handle_release_event_def create_release_run_def insert_run_def release_run_def
                  publish_sandbox_request_def Let_def)
qed

lemma handle_not_fresh:
  assumes "\<And>tag. get_or msg ''tag_name'' (JStr ''unknown'') = JStr tag \<Longrightarrow>
             release_run_exists (o_db s) tag \<or> find_run (o_db s) (eid 0) \<noteq> None"
  shows "snd (handle_release_event up eid now msg s) = s"
  using assms
  by (auto simp: handle_release_event_def create_release_run_def insert_run_def release_run_def
           split: json.split prod.split)

lemma releases_ok_handle:
  assumes "releases_ok s"
  shows "releases_ok (snd (handle_release_event up eid now msg s))"
proof (cases "\<exists>tag. get_or msg ''tag_name'' (JStr ''unknown'') = JStr tag
              \<and> \<not> release_run_exists (o_db s) tag \<and> find_run (o_db s) (eid 0) = None")
  case False
  then have "snd (handle_release_event up eid now msg s) = s" by (intro handle_not_fresh) auto
  with assms show ?thesis by simp
next
  case True
  then obtain tag where t: "get_or msg ''tag_name'' (JStr ''unknown'') = JStr tag"
    "\<not> release_run_exists (o_db s) tag" "find_run (o_db s) (eid 0) = None" by blast
  from handle_fresh [where eid = eid and up = up and now = now, OF t] obtain img v e where
    h: "snd (handle_release_event up eid now msg s)
          = s\<lparr>o_db := (o_db s)\<lparr>runs := runs (o_db s) @ [release_run (eid 0) tag img now],
                               run_events := run_events (o_db s) @ [e]\<rparr>,
              o_sandbox_reqs := o_sandbox_reqs s @ (if up then
                [(9, sandbox_request (eid 1) now (eid 0) tag img 9 (Some ''github-watcher'') v no_app)] else [])\<rparr>"
    by (auto simp: Let_def)
  let ?db = "(o_db s)\<lparr>runs := runs (o_db s) @ [release_run (eid 0) tag img now],
                      run_events := run_events (o_db s) @ [e]\<rparr>"
  have "distinct (map r_release_tag (release_runs ?db))"
    using assms t(2) by (auto simp: releases_ok_def release_runs_def release_run_def release_run_exists_def)
  moreover have "request_has_run ?db
      (sandbox_request (eid 1) now (eid 0) tag img 9 (Some ''github-watcher'') v no_app)"
    using t(3) by (simp add: request_has_run_def request_fields key_of_def find_run_insert release_run_def)
  moreover have "\<forall>(p, req) \<in> set (o_sandbox_reqs s). request_has_run ?db req"
    using assms request_has_run_insert by (fastforce simp: releases_ok_def)
  ultimately show ?thesis unfolding h by (auto simp: releases_ok_def)
qed

text \<open>
  C18: however often release events are delivered and whether or not the broker is up, every release
  tag has at most one run triggered by it, and every sandbox request in the queue names a run that
  exists, with the release and image tag of that run.
\<close>

theorem release_runs_unique_and_requested:
  assumes "releases_ok s"
  shows "releases_ok (consume_releases ms s)"
  using assms by (induction ms s rule: consume_releases.induct) (simp_all add: releases_ok_handle)

lemma existing_run_not_repeated:
  assumes "release_run_exists (o_db s) tag"
    and "\<forall>(up, eid, now, msg) \<in> set ms. get_or msg ''tag_name'' (JStr ''unknown'') = JStr tag"
  shows "consume_releases ms s = s"
  using assms
proof (induction ms s rule: consume_releases.induct)
  case (2 up eid now msg ms s)
  then have "snd (handle_release_event up eid now msg s) = s" by (intro handle_not_fresh) auto
  with 2 show ?case by simp
qed simp

text \<open>
  C34: the run is committed before its sandbox request is published.  When the broker refuses the
  request the run exists, queued, without a request, and no redelivery of the release event ever
  publishes one.
\<close>

theorem lost_request_is_never_retried:
  assumes "get_or msg ''tag_name'' (JStr ''unknown'') = JStr tag"
    and "\<not> release_run_exists (o_db s) tag" and "find_run (o_db s) (eid 0) = None"
    and "\<forall>(up, eid, now, msg) \<in> set ms. get_or msg ''tag_name'' (JStr ''unknown'') = JStr tag"
  shows "\<exists>r. find_run (o_db (consume_releases ((False, eid, now, msg) # ms) s)) (eid 0) = Some r
           \<and> r_status r = RQueued
           \<and> o_sandbox_reqs (consume_releases ((False, eid, now, msg) # ms) s) = o_sandbox_reqs s"
proof -
  from handle_fresh [where eid = eid and up = False and now = now, OF assms(1-3)] obtain img e where
    h: "snd (handle_release_event False eid now msg s)
          = s\<lparr>o_db := (o_db s)\<lparr>runs := runs (o_db s) @ [release_run (eid 0) tag img now],
                               run_events := run_events (o_db s) @ [e]\<rparr>\<rparr>"
    by (auto simp: Let_def)
  then have "release_run_exists (o_db (snd (handle_release_event False eid now msg s))) tag"
    by (simp add: release_run_exists_def release_run_def)
  from existing_run_not_repeated [OF this assms(4)] h assms(3) show ?thesis
    by (simp add: find_run_insert release_run_def)
qed

text \<open>
  The image tag that the catalog query computes in SQL is the one that the resolver module
  derives, for a row whose major version is that of its tag and whose SDK tag is not blank.
\<close>

theorem sql_image_tag_agrees:
  assumes "sdk_tag = None \<or> (\<exists>t. sdk_tag = Some t \<and> lstrip_v t \<noteq> [])"
  shows "catalog_image_tag (Some (node_major_version tag)) sdk_tag tag
           = derive_image_tag tag (map_option lstrip_v sdk_tag)"
  using assms
  by (auto simp: catalog_image_tag_def derive_image_tag_def node_major_version_def opt_truthy_def Let_def)

definition sample_release_msg :: dict where
  "sample_release_msg = [(''tag_name'', JStr ''v3.0.0'')]"

theorem release_runs_unique_and_requested_witness:
  "releases_ok (consume_releases [(True, (\<lambda>i. CHR ''u'' # nat_str i), 5, sample_release_msg),
                                  (True, (\<lambda>i. CHR ''w'' # nat_str i), 6, sample_release_msg)] sample_orch)"
  by (rule release_runs_unique_and_requested) code_simp

theorem lost_request_is_never_retried_witness:
  "\<exists>r. find_run (o_db (consume_releases [(False, (\<lambda>i. ''u''), 5, sample_release_msg),
                                         (True, (\<lambda>i. ''w''), 6, sample_release_msg)] sample_orch)) ''u'' = Some r
     \<and> r_status r = RQueued
     \<and> o_sandbox_reqs (consume_releases [(False, (\<lambda>i. ''u''), 5, sample_release_msg),
                                         (True, (\<lambda>i. ''w''), 6, sample_release_msg)] sample_orch) = []"
proof -
  have "\<not> release_run_exists (o_db sample_orch) ''v3.0.0''" "find_run (o_db sample_orch) ''u'' = None"
    "o_sandbox_reqs sample_orch = []" "get_or sample_release_msg ''tag_name'' (JStr ''unknown'') = JStr ''v3.0.0''"
    by code_simp+
  then show ?thesis
    using lost_request_is_never_retried [of sample_release_msg "''v3.0.0''" sample_orch "\<lambda>i. ''u''"
            "[(True, (\<lambda>i. ''w''), 6, sample_release_msg)]" 5]
    by (auto simp del: consume_releases.simps)
qed

theorem sql_image_tag_agrees_witness:
  "catalog_image_tag (Some (node_major_version ''v2.0.0'')) (Some ''v0.12.0'') ''v2.0.0''
     = derive_image_tag ''v2.0.0'' (Some ''0.12.0'')"
proof -
  have "lstrip_v ''v0.12.0'' = ''0.12.0''" by code_simp
  with sql_image_tag_agrees [of "Some ''v0.12.0''" "''v2.0.0''"] show ?thesis by simp
qed

end
