(* ===== verification/Sandbox_Queue.thy ===== *)
theory Sandbox_Queue
  imports Rvp_Db Sandbox_Pool
begin

text \<open>
  \<open>services/sandbox-manager/consumers/sandbox_queue.py\<close>: the life of a sandbox.  The coroutine
  \<open>_handle\<close> is a state machine: the program counter names the await at which a task is suspended,
  and one step runs from there to the next await.  What an awaited call answers, an exception
  included, is the \<open>reply\<close> of the step, so that every failure of the database, the broker and the
  provisioner is covered.  Between two steps of a task the other tasks, the consumer loop and the
  other services run (theory \<open>Sandbox_Queue_Sys\<close>).

  The provisioner is a parameter: its answer and the callbacks that it makes are part of the reply.
  \<open>stamp\<close> holds the fresh event id and the clock of a step.
\<close>

type_synonym stamp = "string \<times> int"

record mgr =
  g_pool :: pool
  g_port :: int               \<comment> \<open>\<open>_port_offset_counter\<close>\<close>
  g_db :: db
  g_events :: "json list"     \<comment> \<open>queue sandbox.events\<close>
  g_teardowns :: "(string \<times> json \<times> json \<times> json) list"  \<comment> \<open>calls of \<open>provisioner.teardown\<close>\<close>

section \<open>Events and rows\<close>

definition sandbox_event :: "stamp \<Rightarrow> string \<Rightarrow> string \<Rightarrow> json \<Rightarrow> dict \<Rightarrow> json" where
  "sandbox_event st event_type sandbox_id run_id extra = JObj
     ([(''event_id'', JStr (fst st)), (''run_id'', run_id), (''sandbox_id'', JStr sandbox_id),
       (''service'', JStr ''sandbox-manager''), (''ts'', JInt (snd st)),
       (''event_type'', JStr event_type)] @ extra)"

definition publish_event :: "stamp \<Rightarrow> string \<Rightarrow> string \<Rightarrow> json \<Rightarrow> dict \<Rightarrow> mgr \<Rightarrow> mgr" where
  "publish_event st event_type sandbox_id run_id extra g =
     g\<lparr>g_events := g_events g @ [sandbox_event st event_type sandbox_id run_id extra]\<rparr>"

definition new_sandbox_row :: "string \<Rightarrow> string \<Rightarrow> sandbox_row" where
  "new_sandbox_row sid rid =
     \<lparr>s_id = sid, s_run_id = rid, s_status = SRequested, s_docker_network = JNull,
      s_container_ids = JNull, s_anvil_port = JNull, s_node_port = JNull, s_graphql_port = JNull,
      s_snapshot_volume = JNull, s_metadata = JObj [], s_failure_reason = None, s_provisioned_at = None,
      s_ready_at = None, s_closed_at = None\<rparr>"

text \<open>INSERT \<open>\<dots>\<close> ON CONFLICT (id) DO UPDATE SET the given columns.\<close>

definition upsert_sandbox :: "string \<Rightarrow> json \<Rightarrow> (sandbox_row \<Rightarrow> sandbox_row) \<Rightarrow> mgr \<Rightarrow> mgr" where
  "upsert_sandbox sid run_id f g =
     g\<lparr>g_db := (case find_sandbox (g_db g) sid of
        Some _ \<Rightarrow> update_sandbox sid f (g_db g)
      | None \<Rightarrow> (g_db g)\<lparr>sandboxes := sandboxes (g_db g)
                           @ [f (new_sandbox_row sid (case run_id of JStr r \<Rightarrow> r | _ \<Rightarrow> []))]\<rparr>)\<rparr>"

section \<open>Tasks\<close>

record request =
  rq_run_id :: json
  rq_release_tag :: json
  rq_image_tag :: json
  rq_sdk_version :: json
  rq_cli_version :: json
  rq_devnet_version :: json
  rq_contracts_version :: json
  rq_node_major :: int
  rq_app_id :: json
  rq_app_name :: json
  rq_app_url :: json

definition item :: "dict \<Rightarrow> string \<Rightarrow> json res" where
  "item d k = (case map_of d k of None \<Rightarrow> Inl KeyError | Some v \<Rightarrow> Inr v)"

definition parse_request :: "dict \<Rightarrow> request res" where
  "parse_request msg =
     res_bind (item msg ''run_id'') (\<lambda>run_id.
     res_bind (item msg ''release_tag'') (\<lambda>release_tag.
     res_bind (item msg ''image_tag'') (\<lambda>image_tag.
     res_bind (py_int (get_or msg ''node_major_version'' (JInt 1))) (\<lambda>major.
       Inr \<lparr>rq_run_id = run_id, rq_release_tag = release_tag, rq_image_tag = image_tag,
            rq_sdk_version = get msg ''sdk_version'', rq_cli_version = get msg ''cli_version'',
            rq_devnet_version = get msg ''devnet_version'',
            rq_contracts_version = get msg ''contracts_version'', rq_node_major = major,
            rq_app_id = get msg ''app_id'', rq_app_name = get msg ''app_name'',
            rq_app_url = get msg ''app_github_url''\<rparr>))))"

text \<open>How a task ends: it returned, got no slot, or an exception left it, from \<open>_teardown\<close> or elsewhere.\<close>

datatype outcome = Finished | Rejected | Raised | TeardownRaised

datatype pc =
    AtStart                       \<comment> \<open>the task is created and not yet scheduled\<close>
  | AtResolve                     \<comment> \<open>\<open>_resolve_contracts_version\<close>\<close>
  | AtCheck1 | AtMarkProvisioning | AtPublishProvisioning | AtProvision
  | AtMarkFailed exc | AtPublishFailed exc  \<comment> \<open>the handler of a failed provisioning\<close>
  | AtV2Ready | AtDelay | AtCheck2 | AtMarkReady | AtStoreAddress | AtPublishReady
  | AtAiFlag | AtSleep | AtPollCheck | AtPollSessions | AtPollDispatched | AtPollCounts int
  | AtErrorMark exc | AtErrorPublish exc    \<comment> \<open>the outer handler\<close>
  | AtTearRead | AtTearDocker json json json | AtTearMark | AtTearPublish  \<comment> \<open>\<open>_teardown\<close>\<close>
  | AtRelease
  | Done outcome

record task =
  tk_sid :: string
  tk_msg :: dict
  tk_req :: request
  tk_pc :: pc
  tk_port :: int
  tk_provisioned :: bool
  tk_info :: dict
  tk_ai :: bool
  tk_polls :: nat       \<comment> \<open>rounds of the polling loop begun\<close>
  tk_raised :: bool     \<comment> \<open>an exception is pending while the finally block runs\<close>

datatype callback = Step string string dict | Lines json

record reply =
  rp_raise :: "exc option"
  rp_info :: dict
  rp_callbacks :: "callback list"

definition goto :: "pc \<Rightarrow> task \<Rightarrow> task" where
  "goto p t = t\<lparr>tk_pc := p\<rparr>"

definition enter_finally :: "task \<Rightarrow> task" where
  "enter_finally t = goto (if tk_provisioned t then AtTearRead else AtRelease) t"

text \<open>A step whose awaited call may raise into the outer handler.\<close>

definition guarded :: "reply \<Rightarrow> (task \<Rightarrow> mgr \<Rightarrow> task \<times> mgr) \<Rightarrow> task \<Rightarrow> mgr \<Rightarrow> task \<times> mgr" where
  "guarded rep k t g = (case rp_raise rep of Some e \<Rightarrow> (goto (AtErrorMark e) t, g) | None \<Rightarrow> k t g)"

section \<open>Queries\<close>

definition run_key :: "json \<Rightarrow> string" where
  "run_key j = (case j of JStr s \<Rightarrow> s | _ \<Rightarrow> [])"

text \<open>Both checks answer False, and the sessions query (True, True), when the database raises.\<close>

definition run_cancelled :: "reply \<Rightarrow> db \<Rightarrow> json \<Rightarrow> bool" where
  "run_cancelled rep db run_id =
     (if rp_raise rep \<noteq> None then False
      else (case find_run db (run_key run_id) of None \<Rightarrow> False | Some r \<Rightarrow> r_status r = RCancelled))"

definition casts_true :: "json \<Rightarrow> bool" where
  \<comment> \<open>\<open>(v ->> k)::bool\<close> is true; a text that is no boolean raises, which answers False\<close>
  "casts_true j =
     (case j of
        JBool b \<Rightarrow> b
      | JInt n \<Rightarrow> n = 1
      | JStr s \<Rightarrow> lower (strip s) \<in> set [''t'', ''tr'', ''tru'', ''true'', ''y'', ''ye'', ''yes'', ''on'', ''1'']
      | _ \<Rightarrow> False)"

definition is_ai_session_run :: "reply \<Rightarrow> db \<Rightarrow> json \<Rightarrow> bool" where
  "is_ai_session_run rep db run_id =
     (if rp_raise rep \<noteq> None then False
      else (case find_run db (run_key run_id) of None \<Rightarrow> False
            | Some r \<Rightarrow> (case r_metadata r of JObj d \<Rightarrow> casts_true (get d ''ai_session'') | _ \<Rightarrow> False)))"

definition ai_session_counts :: "reply \<Rightarrow> db \<Rightarrow> json \<Rightarrow> bool \<times> bool" where
  "ai_session_counts rep db run_id =
     (if rp_raise rep \<noteq> None then (True, True)
      else
        (let ss = filter (\<lambda>x. ss_run_id x = run_key run_id) (sessions db)
         in (ss \<noteq> [], \<exists>x \<in> set ss. ss_status x = ''starting'' \<or> ss_status x = ''active'')))"

definition resolve_contracts_version :: "reply \<Rightarrow> db \<Rightarrow> json \<Rightarrow> json" where
  "resolve_contracts_version rep db release_tag =
     (if rp_raise rep \<noteq> None then JNull
      else
        (case find (\<lambda>rc. JStr (rc_tag rc) = release_tag) (release_catalog db) of
           None \<Rightarrow> JNull
         | Some rc \<Rightarrow>
             (let c = Option.bind (rc_cli_tag rc) (\<lambda>t. find (\<lambda>c. cc_tag c = t) (cli_catalog db));
                  d = Option.bind (Option.bind c cc_devnet_tag)
                        (\<lambda>t. find (\<lambda>d. dc_tag d = t) (devnet_catalog db))
              in (case Option.bind d dc_contracts_tag of
                    None \<Rightarrow> JNull | Some t \<Rightarrow> if t = [] then JNull else JStr t))))"

definition dispatched_of :: "db \<Rightarrow> json \<Rightarrow> int" where
  "dispatched_of db run_id =
     (case find_run db (run_key run_id) of None \<Rightarrow> 0 | Some r \<Rightarrow> dispatched_count (r_metadata r))"

definition sandbox_results :: "db \<Rightarrow> string \<Rightarrow> result_row list" where
  "sandbox_results db sid = filter (\<lambda>t. t_sandbox_id t = sid) (results db)"

section \<open>Acquiring a slot\<close>

text \<open>\<open>pool.acquire\<close> up to the first await inside the try block; nothing awaits in between.\<close>

definition claim_slot :: "int \<Rightarrow> task \<Rightarrow> mgr \<Rightarrow> task \<times> mgr" where
  "claim_slot max_sandboxes t g =
     (let (acquired, p) = acquire max_sandboxes (g_pool g) (tk_sid t) (run_key (rq_run_id (tk_req t)))
      in if \<not> acquired then (goto (Done Rejected) t, g\<lparr>g_pool := p\<rparr>)
         else (goto AtCheck1 (t\<lparr>tk_port := g_port g mod 50\<rparr>), g\<lparr>g_pool := p, g_port := g_port g + 1\<rparr>))"

definition start_step :: "int \<Rightarrow> reply \<Rightarrow> task \<Rightarrow> mgr \<Rightarrow> task \<times> mgr" where
  "start_step max_sandboxes rep t g =
     (case tk_pc t of
        AtStart \<Rightarrow>
          (case parse_request (tk_msg t) of
             Inl e \<Rightarrow> (goto (Done Raised) t, g)
           | Inr rq \<Rightarrow>
               (let t1 = t\<lparr>tk_req := rq\<rparr>
                in if \<not> truthy (rq_contracts_version rq) \<and> truthy (rq_release_tag rq)
                   then (goto AtResolve t1, g) else claim_slot max_sandboxes t1 g))
      | AtResolve \<Rightarrow>
          claim_slot max_sandboxes
            (t\<lparr>tk_req := (tk_req t)\<lparr>rq_contracts_version :=
                 resolve_contracts_version rep (g_db g) (rq_release_tag (tk_req t))\<rparr>\<rparr>) g
      | _ \<Rightarrow> (t, g))"

section \<open>Provisioning\<close>

definition callback_event :: "stamp \<Rightarrow> string \<Rightarrow> json \<Rightarrow> callback \<Rightarrow> json" where
  "callback_event st sid run_id cb =
     (case cb of
        Step step status detail \<Rightarrow>
          sandbox_event st ''step'' sid run_id
            [(''step'', JStr step), (''step_status'', JStr status),
             (''detail'', if detail = [] then JNull else JObj detail)]
      | Lines batch \<Rightarrow> sandbox_event st ''log_batch'' sid run_id [(''lines'', batch)])"

definition mark_failed_row :: "exc \<Rightarrow> sandbox_row \<Rightarrow> sandbox_row" where
  "mark_failed_row e r = r\<lparr>s_status := SFailed, s_failure_reason := Some (exc_str e)\<rparr>"

definition v2_wait_needed :: "request \<Rightarrow> dict \<Rightarrow> bool res" where
  \<comment> \<open>\<open>node_major_version >= 2 and len(info["container_ids"]) >= 7\<close>\<close>
  "v2_wait_needed rq info =
     (if rq_node_major rq < 2 then Inr False
      else res_bind (item info ''container_ids'') (\<lambda>c.
           res_bind (as_arr TypeError c) (\<lambda>ids. Inr (length ids \<ge> 7))))"

definition provision_step :: "reply \<Rightarrow> stamp \<Rightarrow> task \<Rightarrow> mgr \<Rightarrow> task \<times> mgr" where
  "provision_step rep st t g =
     (let sid = tk_sid t; run_id = rq_run_id (tk_req t) in
      case tk_pc t of
        AtCheck1 \<Rightarrow>
          if run_cancelled rep (g_db g) run_id then (enter_finally t, g) else (goto AtMarkProvisioning t, g)
      | AtMarkProvisioning \<Rightarrow>
          guarded rep (\<lambda>t g. (goto AtPublishProvisioning t,
             upsert_sandbox sid run_id
               (\<lambda>r. r\<lparr>s_status := SProvisioning, s_provisioned_at := Some (snd st)\<rparr>) g)) t g
      | AtPublishProvisioning \<Rightarrow>
          guarded rep (\<lambda>t g. (goto AtProvision t, publish_event st ''provisioning'' sid run_id [] g)) t g
      | AtProvision \<Rightarrow>
          (let g1 = g\<lparr>g_events := g_events g @ map (callback_event st sid run_id) (rp_callbacks rep)\<rparr>
           in case rp_raise rep of
                Some e \<Rightarrow> (goto (AtMarkFailed e) t, g1)
              | None \<Rightarrow>
                  (let t1 = t\<lparr>tk_info := rp_info rep, tk_provisioned := True\<rparr>
                   in case v2_wait_needed (tk_req t) (rp_info rep) of
                        Inl e \<Rightarrow> (goto (AtErrorMark e) t1, g1)
                      | Inr b \<Rightarrow> (goto (if b then AtV2Ready else AtDelay) t1, g1)))
      | AtMarkFailed e \<Rightarrow>
          guarded rep (\<lambda>t g. (goto (AtPublishFailed e) t, upsert_sandbox sid run_id (mark_failed_row e) g)) t g
      | AtPublishFailed e \<Rightarrow>
          guarded rep (\<lambda>t g. (enter_finally t,
             publish_event st ''failed'' sid run_id [(''failure_reason'', JStr (exc_str e))] g)) t g
      | _ \<Rightarrow> (t, g))"

section \<open>Becoming ready\<close>

definition address_keys :: "string list" where
  "address_keys = [''inputbox_address'', ''ether_portal_address'', ''erc20_portal_address'',
     ''erc721_portal_address'', ''erc1155_portal_address'', ''erc20_token_address'',
     ''erc721_token_address'', ''erc1155_token_address'']"

definition sandbox_meta :: "request \<Rightarrow> dict \<Rightarrow> dict" where
  "sandbox_meta rq info = filter (\<lambda>(k, v). truthy v)
     ([(''app_address'', get info ''app_address''), (''app_name'', get info ''app_name'')]
      @ map (\<lambda>k. (k, get info k)) address_keys
      @ [(''cli_container_name'', get info ''cli_container_name''),
         (''node_major_version'', JInt (rq_node_major rq))])"

text \<open>The five items that \<open>info\<close> must have: network, containers and three ports.\<close>

definition info_items :: "dict \<Rightarrow> (json \<times> json \<times> json \<times> json \<times> json) res" where
  "info_items info =
     res_bind (item info ''docker_network'') (\<lambda>net.
     res_bind (item info ''container_ids'') (\<lambda>cids.
     res_bind (item info ''anvil_port'') (\<lambda>anvil.
     res_bind (item info ''node_port'') (\<lambda>node.
     res_bind (item info ''graphql_port'') (\<lambda>gql. Inr (net, cids, anvil, node, gql))))))"

definition mark_ready_row :: "request \<Rightarrow> dict \<Rightarrow> json \<times> json \<times> json \<times> json \<times> json \<Rightarrow> int \<Rightarrow> sandbox_row \<Rightarrow> sandbox_row" where
  "mark_ready_row rq info items now r =
     (let (net, cids, anvil, node, gql) = items
      in r\<lparr>s_status := SReady, s_docker_network := net, s_container_ids := cids, s_anvil_port := anvil,
           s_node_port := node, s_graphql_port := gql, s_snapshot_volume := get info ''per_sandbox_volume'',
           s_metadata := JObj (sandbox_meta rq info), s_ready_at := Some now\<rparr>)"

definition ready_payload :: "dict \<Rightarrow> json \<times> json \<times> json \<times> json \<times> json \<Rightarrow> dict" where
  "ready_payload info items =
     (let (net, cids, anvil, node, gql) = items
      in [(''anvil_port'', anvil), (''node_port'', node), (''graphql_port'', gql), (''docker_network'', net),
          (''container_ids'', cids), (''cli_container_name'', get info ''cli_container_name''),
          (''app_address'', get info ''app_address'')] @ map (\<lambda>k. (k, get info k)) address_keys)"

definition ready_step :: "reply \<Rightarrow> stamp \<Rightarrow> task \<Rightarrow> mgr \<Rightarrow> task \<times> mgr" where
  "ready_step rep st t g =
     (let sid = tk_sid t; run_id = rq_run_id (tk_req t); info = tk_info t in
      case tk_pc t of
        AtV2Ready \<Rightarrow> guarded rep (\<lambda>t g. (goto AtDelay t, g)) t g  \<comment> \<open>not ready is only logged\<close>
      | AtDelay \<Rightarrow> (goto AtCheck2 t, g)
      | AtCheck2 \<Rightarrow>
          if run_cancelled rep (g_db g) run_id then (enter_finally t, g) else (goto AtMarkReady t, g)
      | AtMarkReady \<Rightarrow>
          (case info_items info of
             Inl e \<Rightarrow> (goto (AtErrorMark e) t, g)
           | Inr items \<Rightarrow>
               guarded rep (\<lambda>t g.
                 (goto (if truthy (get info ''app_address'') then AtStoreAddress else AtPublishReady) t,
                  upsert_sandbox sid run_id (mark_ready_row (tk_req t) info items (snd st)) g)) t g)
      | AtStoreAddress \<Rightarrow>
          guarded rep (\<lambda>t g. (goto AtPublishReady t,
             g\<lparr>g_db := update_run (run_key run_id)
                  (\<lambda>r. r\<lparr>r_app_address := get info ''app_address''\<rparr>) (g_db g)\<rparr>)) t g
      | AtPublishReady \<Rightarrow>
          (case info_items info of
             Inl e \<Rightarrow> (goto (AtErrorMark e) t, g)
           | Inr items \<Rightarrow>
               guarded rep (\<lambda>t g. (goto AtAiFlag t,
                  publish_event st ''ready'' sid run_id (ready_payload info items) g)) t g)
      | _ \<Rightarrow> (t, g))"

section \<open>Waiting for the tests\<close>

definition max_polls :: nat where
  "max_polls = 7200 div 5"

text \<open>The head of \<open>for _ in range(timeout // 5)\<close>.\<close>

definition next_poll :: "task \<Rightarrow> task" where
  "next_poll t = (if tk_polls t < max_polls then goto AtSleep (t\<lparr>tk_polls := Suc (tk_polls t)\<rparr>)
                  else enter_finally t)"

definition wait_step :: "int \<Rightarrow> reply \<Rightarrow> task \<Rightarrow> mgr \<Rightarrow> task \<times> mgr" where
  "wait_step grace rep t g =
     (let run_id = rq_run_id (tk_req t); elapsed = 5 * int (tk_polls t) in
      case tk_pc t of
        AtAiFlag \<Rightarrow>
          (next_poll (t\<lparr>tk_ai := is_ai_session_run rep (g_db g) run_id, tk_polls := 0\<rparr>), g)
      | AtSleep \<Rightarrow> (goto AtPollCheck t, g)
      | AtPollCheck \<Rightarrow>
          if run_cancelled rep (g_db g) run_id then (enter_finally t, g)
          else (goto (if tk_ai t then AtPollSessions else AtPollDispatched) t, g)
      | AtPollSessions \<Rightarrow>
          (let (exists, live) = ai_session_counts rep (g_db g) run_id
           in if exists \<and> \<not> live then (enter_finally t, g)
              else if \<not> exists \<and> elapsed > grace then (enter_finally t, g)
              else (next_poll t, g))
      | AtPollDispatched \<Rightarrow>
          guarded rep (\<lambda>t g. (goto (AtPollCounts (dispatched_of (g_db g) run_id)) t, g)) t g
      | AtPollCounts dispatched \<Rightarrow>
          guarded rep (\<lambda>t g.
            (let rs = sandbox_results (g_db g) (tk_sid t);
                 in_flight = length (filter (\<lambda>r. t_status r = TPending \<or> t_status r = TRunning) rs)
             in if dispatched > 0 \<and> int (length rs) \<ge> dispatched \<and> in_flight = 0
                then (enter_finally t, g) else (next_poll t, g))) t g
      | _ \<Rightarrow> (t, g))"

section \<open>Errors and cleanup\<close>

definition cleanup_step :: "reply \<Rightarrow> stamp \<Rightarrow> task \<Rightarrow> mgr \<Rightarrow> task \<times> mgr" where
  "cleanup_step rep st t g =
     (let sid = tk_sid t; run_id = rq_run_id (tk_req t); failed = rp_raise rep \<noteq> None in
      case tk_pc t of
        AtErrorMark e \<Rightarrow>
          if failed then (enter_finally (t\<lparr>tk_raised := True\<rparr>), g)
          else (goto (AtErrorPublish e) t, upsert_sandbox sid run_id (mark_failed_row e) g)
      | AtErrorPublish e \<Rightarrow>
          if failed then (enter_finally (t\<lparr>tk_raised := True\<rparr>), g)
          else (enter_finally t,
                publish_event st ''failed'' sid run_id [(''failure_reason'', JStr (exc_str e))] g)
      | AtTearRead \<Rightarrow>
          if failed then (goto (Done TeardownRaised) t, g)
          else
            (case find_sandbox (g_db g) sid of
               Some r \<Rightarrow>
                 if truthy (s_container_ids r)
                 then (goto (AtTearDocker (s_container_ids r) (py_or (s_docker_network r) (JStr []))
                               (s_snapshot_volume r)) t, g)
                 else (goto AtTearMark t, g)
             | None \<Rightarrow> (goto AtTearMark t, g))
      | AtTearDocker cids net vol \<Rightarrow>
          (let g1 = g\<lparr>g_teardowns := g_teardowns g @ [(sid, cids, net, vol)]\<rparr>
           in if failed then (goto (Done TeardownRaised) t, g1) else (goto AtTearMark t, g1))
      | AtTearMark \<Rightarrow>
          if failed then (goto (Done TeardownRaised) t, g)
          else (goto AtTearPublish t,
                g\<lparr>g_db := update_sandbox sid (\<lambda>r. r\<lparr>s_status := SClosed, s_closed_at := Some (snd st)\<rparr>)
                            (g_db g)\<rparr>)
      | AtTearPublish \<Rightarrow>
          if failed then (goto (Done TeardownRaised) t, g)
          else (goto AtRelease t, publish_event st ''closed'' sid run_id [] g)
      | AtRelease \<Rightarrow> (goto (Done (if tk_raised t then Raised else Finished)) t, g\<lparr>g_pool := release (g_pool g) sid\<rparr>)
      | _ \<Rightarrow> (t, g))"

text \<open>One step of \<open>_handle\<close>.\<close>

definition task_step :: "int \<Rightarrow> int \<Rightarrow> reply \<Rightarrow> stamp \<Rightarrow> task \<Rightarrow> mgr \<Rightarrow> task \<times> mgr" where
  "task_step max_sandboxes grace rep st t g =
     (case tk_pc t of
        AtStart \<Rightarrow> start_step max_sandboxes rep t g
      | AtResolve \<Rightarrow> start_step max_sandboxes rep t g
      | AtCheck1 \<Rightarrow> provision_step rep st t g
      | AtMarkProvisioning \<Rightarrow> provision_step rep st t g
      | AtPublishProvisioning \<Rightarrow> provision_step rep st t g
      | AtProvision \<Rightarrow> provision_step rep st t g
      | AtMarkFailed _ \<Rightarrow> provision_step rep st t g
      | AtPublishFailed _ \<Rightarrow> provision_step rep st t g
      | AtV2Ready \<Rightarrow> ready_step rep st t g
      | AtDelay \<Rightarrow> ready_step rep st t g
      | AtCheck2 \<Rightarrow> ready_step rep st t g
      | AtMarkReady \<Rightarrow> ready_step rep st t g
      | AtStoreAddress \<Rightarrow> ready_step rep st t g
      | AtPublishReady \<Rightarrow> ready_step rep st t g
      | AtAiFlag \<Rightarrow> wait_step grace rep t g
      | AtSleep \<Rightarrow> wait_step grace rep t g
      | AtPollCheck \<Rightarrow> wait_step grace rep t g
      | AtPollSessions \<Rightarrow> wait_step grace rep t g
      | AtPollDispatched \<Rightarrow> wait_step grace rep t g
      | AtPollCounts _ \<Rightarrow> wait_step grace rep t g
      | Done _ \<Rightarrow> (t, g)
      | _ \<Rightarrow> cleanup_step rep st t g)"

section \<open>Cancellation\<close>

text \<open>
  \<open>task.cancel()\<close> of a draining manager: a CancelledError at the await where the task is suspended.  It passes
  every \<open>except Exception\<close>; the finally block runs if the task was inside the try, and is left itself if the
  task was in \<open>_teardown\<close>, before the slot is released.  The release suspends nowhere.
\<close>

definition cancel_task :: "task \<Rightarrow> task" where
  "cancel_task t =
     (case tk_pc t of
        AtStart \<Rightarrow> goto (Done Raised) t
      | AtResolve \<Rightarrow> goto (Done Raised) t
      | AtTearRead \<Rightarrow> goto (Done TeardownRaised) t
      | AtTearDocker _ _ _ \<Rightarrow> goto (Done TeardownRaised) t
      | AtTearMark \<Rightarrow> goto (Done TeardownRaised) t
      | AtTearPublish \<Rightarrow> goto (Done TeardownRaised) t
      | AtRelease \<Rightarrow> t
      | Done _ \<Rightarrow> t
      | _ \<Rightarrow> enter_finally (t\<lparr>tk_raised := True\<rparr>))"

section \<open>Start-up and garbage collection\<close>

definition live_sandbox :: "sandbox_row \<Rightarrow> bool" where
  "live_sandbox r = (s_status r = SProvisioning \<or> s_status r = SReady)"

text \<open>\<open>up\<close> says whether the database answers; \<open>range(200)\<close> bounds the search.\<close>

definition init_port_offset :: "bool \<Rightarrow> int \<Rightarrow> mgr \<Rightarrow> mgr" where
  "init_port_offset up anvil_base g =
     (if \<not> up then g
      else
        (let used = map s_anvil_port (filter (\<lambda>r. live_sandbox r \<and> s_anvil_port r \<noteq> JNull)
                                             (sandboxes (g_db g)))
         in if used = [] then g
            else (case find (\<lambda>k. JInt (anvil_base + int k * 10) \<notin> set used) [0..<200] of
                    None \<Rightarrow> g | Some k \<Rightarrow> g\<lparr>g_port := int k\<rparr>)))"

text \<open>
  The sweep tears down every live sandbox of a previous process; \<open>down sid\<close> says whether the UPDATE
  for a sandbox fails.  A failing teardown is logged and the row is closed all the same.
\<close>

definition sweep_one :: "(string \<Rightarrow> bool) \<Rightarrow> int \<Rightarrow> sandbox_row \<Rightarrow> mgr \<Rightarrow> mgr" where
  "sweep_one down now r g =
     (let sid = s_id r;
          g1 = g\<lparr>g_teardowns := g_teardowns g @
                   [(sid, py_or (s_container_ids r) (JArr []),
                     py_or (s_docker_network r) (JStr (''rvp-sbx-'' @ str_take 8 sid)), s_snapshot_volume r)]\<rparr>
      in if down sid then g1
         else g1\<lparr>g_db := update_sandbox sid (\<lambda>r. r\<lparr>s_status := SClosed, s_closed_at := Some now\<rparr>) (g_db g1)\<rparr>)"

definition sweep_orphaned_sandboxes :: "bool \<Rightarrow> (string \<Rightarrow> bool) \<Rightarrow> int \<Rightarrow> mgr \<Rightarrow> mgr" where
  "sweep_orphaned_sandboxes up down now g =
     (if \<not> up then g
      else fold (sweep_one down now) (filter live_sandbox (sandboxes (g_db g))) g)"

text \<open>
  A collection run asks the database for the live sandboxes and hands their ids to a thread of the executor
  (\<open>provisioner.gc_orphaned_resources\<close>), which lists the containers and the networks by their label and removes
  those of all other sandboxes.  The ids are not asked for again.  When the database raises, nothing is
  collected.
\<close>

definition run_gc :: "bool \<Rightarrow> mgr \<Rightarrow> string set option" where
  "run_gc up g = (if \<not> up then None else Some (set (map s_id (filter live_sandbox (sandboxes (g_db g))))))"

definition gc_orphans :: "string set \<Rightarrow> string list \<Rightarrow> string list" where
  "gc_orphans active_sandbox_ids labels = filter (\<lambda>sid. sid \<noteq> [] \<and> sid \<notin> active_sandbox_ids) labels"

end
