(* ===== verification/Sandbox_Queue_Sys.thy ===== *)
theory Sandbox_Queue_Sys
  imports Sandbox_Queue
begin

text \<open>
  The sandbox manager as a whole: the consumer loop, the tasks it has spawned, the garbage collector and
  their environment, interleaved at the awaits; a draining manager may cancel a task at any of them.  The
  other services change the database, except for the sandbox rows, which only the manager writes, and put
  requests into the queue.

  The collector works in two steps that other steps can separate: it asks for the live sandboxes, then a
  thread removes what it finds of others (\<open>y_removed\<close> are the sandboxes whose resources it took).  What
  containers and networks Docker lists at that moment is open.
\<close>

record sys =
  y_mgr :: mgr
  y_queue :: "dict list"
  y_waiting :: "dict option"   \<comment> \<open>the message for which the loop awaits \<open>wait_for_slot\<close>\<close>
  y_tasks :: "task list"
  y_gc :: "string set option"  \<comment> \<open>the ids that the collection under way spares\<close>
  y_removed :: "string set"

definition no_request :: request where
  "no_request = \<lparr>rq_run_id = JNull, rq_release_tag = JNull, rq_image_tag = JNull, rq_sdk_version = JNull,
     rq_cli_version = JNull, rq_devnet_version = JNull, rq_contracts_version = JNull, rq_node_major = 1,
     rq_app_id = JNull, rq_app_name = JNull, rq_app_url = JNull\<rparr>"

definition new_task :: "string \<Rightarrow> dict \<Rightarrow> task" where
  "new_task sid msg = \<lparr>tk_sid = sid, tk_msg = msg, tk_req = no_request, tk_pc = AtStart, tk_port = 0,
     tk_provisioned = False, tk_info = [], tk_ai = False, tk_polls = 0, tk_raised = False\<rparr>"

text \<open>
  \<open>async for message in q: await wait_for_slot(); ack; create_task(_handle)\<close>: the message is
  acknowledged when the loop sees capacity; the slot is claimed later, by the task.
\<close>

inductive sys_step :: "int \<Rightarrow> int \<Rightarrow> sys \<Rightarrow> sys \<Rightarrow> bool" for m grace where
  deliver: "y_waiting y = None \<Longrightarrow> y_queue y = q @ msg # q' \<Longrightarrow>
     sys_step m grace y (y\<lparr>y_queue := q @ q', y_waiting := Some msg\<rparr>)"
| spawn: "y_waiting y = Some msg \<Longrightarrow> has_capacity m (g_pool (y_mgr y)) \<Longrightarrow>
     sid \<notin> tk_sid ` set (y_tasks y) \<Longrightarrow> find_sandbox (g_db (y_mgr y)) sid = None \<Longrightarrow>
     sys_step m grace y (y\<lparr>y_waiting := None, y_tasks := y_tasks y @ [new_task sid msg]\<rparr>)"
| run: "i < length (y_tasks y) \<Longrightarrow> task_step m grace rep st (y_tasks y ! i) (y_mgr y) = (t', g') \<Longrightarrow>
     sys_step m grace y (y\<lparr>y_mgr := g', y_tasks := (y_tasks y)[i := t']\<rparr>)"
| other: "sandboxes db' = sandboxes (g_db (y_mgr y)) \<Longrightarrow>
     sys_step m grace y (y\<lparr>y_mgr := (y_mgr y)\<lparr>g_db := db'\<rparr>, y_queue := q\<rparr>)"
| cancel: "i < length (y_tasks y) \<Longrightarrow>
     sys_step m grace y (y\<lparr>y_tasks := (y_tasks y)[i := cancel_task (y_tasks y ! i)]\<rparr>)"
| gc_ask: "y_gc y = None \<Longrightarrow> run_gc up (y_mgr y) = Some ids \<Longrightarrow> sys_step m grace y (y\<lparr>y_gc := Some ids\<rparr>)"
| gc_remove: "y_gc y = Some ids \<Longrightarrow>
     sys_step m grace y (y\<lparr>y_removed := y_removed y \<union> set (gc_orphans ids labels)\<rparr>)"
| gc_end: "sys_step m grace y (y\<lparr>y_gc := None\<rparr>)"

inductive sys_reach :: "int \<Rightarrow> int \<Rightarrow> sys \<Rightarrow> sys \<Rightarrow> bool" for m grace y0 where
  init: "sys_reach m grace y0 y0"
| step: "sys_reach m grace y0 y \<Longrightarrow> sys_step m grace y y' \<Longrightarrow> sys_reach m grace y0 y'"

definition fresh_sys :: "sys \<Rightarrow> bool" where
  "fresh_sys y = (g_pool (y_mgr y) = init_pool \<and> y_tasks y = [] \<and> y_waiting y = None \<and> y_gc y = None
                  \<and> y_removed y = {})"

section \<open>What a step does\<close>

named_theorems mgr_steps \<open>definitions of the phases of a task\<close>

lemmas [mgr_steps] = task_step_def start_step_def provision_step_def ready_step_def wait_step_def
  cleanup_step_def guarded_def enter_finally_def next_poll_def goto_def Let_def

definition holds :: "pc \<Rightarrow> bool" where
  "holds p = (case p of AtStart \<Rightarrow> False | AtResolve \<Rightarrow> False | Done k \<Rightarrow> k = TeardownRaised | _ \<Rightarrow> True)"

lemma pool_unchanged [simp]:
  "g_pool (upsert_sandbox sid rid f g) = g_pool g"
  "g_pool (publish_event st ty sid rid x g) = g_pool g"
  by (simp_all add: upsert_sandbox_def publish_event_def)

lemma step_sid:
  assumes "task_step m grace rep st t g = (t', g')"
  shows "tk_sid t' = tk_sid t"
  using assms
  by (cases "tk_pc t")
     (auto simp: mgr_steps claim_slot_def split: if_splits option.splits sum.splits prod.splits)

text \<open>How a step moves the pool: claim, release or nothing.\<close>

lemma step_pool:
  assumes "task_step m grace rep st t g = (t', g')"
  shows "(\<not> holds (tk_pc t) \<and> holds (tk_pc t') \<and> has_capacity m (g_pool g)
            \<and> (\<exists>rid. g_pool g' = snd (acquire m (g_pool g) (tk_sid t) rid)))
       \<or> (holds (tk_pc t) \<and> \<not> holds (tk_pc t') \<and> g_pool g' = release (g_pool g) (tk_sid t))
       \<or> (holds (tk_pc t) = holds (tk_pc t') \<and> g_pool g' = g_pool g)"
proof (cases "tk_pc t = AtStart \<or> tk_pc t = AtResolve")
  case True
  have claim: "(\<not> holds AtStart \<and> holds (tk_pc t2) \<and> has_capacity m (g_pool g)
            \<and> (\<exists>rid. g_pool g2 = snd (acquire m (g_pool g) (tk_sid t1) rid)))
       \<or> (holds (tk_pc t2) = False \<and> g_pool g2 = g_pool g)"
    if "claim_slot m t1 g = (t2, g2)" for t1 t2 g2
    using that
    by (cases "has_capacity m (g_pool g)")
       (auto simp: claim_slot_def Let_def goto_def holds_def acquire_def split: prod.splits)
  from True assms claim show ?thesis
    by (fastforce simp: task_step_def start_step_def Let_def goto_def holds_def
                  split: sum.splits if_splits)
next
  case False
  with assms show ?thesis
    by (cases "tk_pc t")
       (auto simp: mgr_steps holds_def split: if_splits option.splits sum.splits prod.splits)
qed

lemma cancel_fields [simp]:
  "tk_sid (cancel_task t) = tk_sid t" "holds (tk_pc (cancel_task t)) = holds (tk_pc t)"
  by (cases "tk_pc t"; simp add: cancel_task_def goto_def enter_finally_def holds_def)+

section \<open>Slots\<close>

definition holders :: "sys \<Rightarrow> string set" where
  "holders y = tk_sid ` {t \<in> set (y_tasks y). holds (tk_pc t)}"

definition slots_ok :: "int \<Rightarrow> sys \<Rightarrow> bool" where
  "slots_ok m y = (pool_ok m (g_pool (y_mgr y)) \<and> distinct (map tk_sid (y_tasks y))
                   \<and> held (g_pool (y_mgr y)) = holders y)"

lemma holders_update:
  assumes "distinct (map tk_sid ts)" and "i < length ts" and "tk_sid t' = tk_sid (ts ! i)"
  shows "tk_sid ` {t \<in> set (ts[i := t']). holds (tk_pc t)}
           = (tk_sid ` {t \<in> set ts. holds (tk_pc t)} - {tk_sid t'})
               \<union> (if holds (tk_pc t') then {tk_sid t'} else {})"
proof -
  have other: "tk_sid (ts ! j) \<noteq> tk_sid (ts ! i)" if "j < length ts" "j \<noteq> i" for j
    using assms(1,2) that by (simp add: distinct_conv_nth)
  have "x \<in> tk_sid ` {t \<in> set (ts[i := t']). holds (tk_pc t)}
          \<longleftrightarrow> (\<exists>j < length ts. j \<noteq> i \<and> tk_sid (ts ! j) = x \<and> holds (tk_pc (ts ! j)))
              \<or> (x = tk_sid t' \<and> holds (tk_pc t'))" for x
    using assms(2) by (auto simp: in_set_conv_nth image_iff nth_list_update)
  moreover have "x \<in> tk_sid ` {t \<in> set ts. holds (tk_pc t)} - {tk_sid t'}
          \<longleftrightarrow> (\<exists>j < length ts. j \<noteq> i \<and> tk_sid (ts ! j) = x \<and> holds (tk_pc (ts ! j)))" for x
    using other assms(3) by (auto simp: in_set_conv_nth image_iff)
  ultimately show ?thesis by (intro set_eqI) (simp only: Un_iff; simp)
qed

lemma slots_ok_step:
  assumes "sys_step m grace y y'" and "slots_ok m y"
  shows "slots_ok m y'"
  using assms
proof (induction rule: sys_step.induct)
  case (run i y rep st t' g')
  let ?t = "y_tasks y ! i" and ?g = "y_mgr y"
  have sid: "tk_sid t' = tk_sid ?t" using run(2) by (rule step_sid)
  have dis: "distinct (map tk_sid (y_tasks y))" and ok: "pool_ok m (g_pool ?g)"
    and hd: "held (g_pool ?g) = holders y"
    using run(3) by (auto simp: slots_ok_def)
  have "map tk_sid ((y_tasks y)[i := t']) = map tk_sid (y_tasks y)"
    using sid run(1) by (metis list_update_id map_update nth_map length_map)
  with dis have dis': "distinct (map tk_sid ((y_tasks y)[i := t']))" by simp
  note upd = holders_update [OF dis run(1) sid, folded holders_def]
  have mem: "tk_sid ?t \<in> holders y \<longleftrightarrow> holds (tk_pc ?t)"
    using run(1) dis by (auto simp: holders_def in_set_conv_nth distinct_conv_nth image_iff)
  from step_pool [OF run(2)]
  have "pool_ok m (g_pool g') \<and> held (g_pool g') = (holders y - {tk_sid t'})
               \<union> (if holds (tk_pc t') then {tk_sid t'} else {})"
    using ok hd sid mem
    by (elim disjE conjE exE) (auto simp: pool_ok_acquire pool_ok_release held_acquire held_release)
  then show ?case using dis' upd by (simp add: slots_ok_def holders_def)
next
  case (spawn y msg sid)
  then show ?case by (auto simp: slots_ok_def holders_def new_task_def holds_def)
next
  case (cancel i y)
  let ?t = "y_tasks y ! i"
  have dis: "distinct (map tk_sid (y_tasks y))" and hd: "held (g_pool (y_mgr y)) = holders y"
    using cancel(2) by (auto simp: slots_ok_def)
  have "map tk_sid ((y_tasks y)[i := cancel_task ?t]) = map tk_sid (y_tasks y)"
    using cancel(1) by (metis cancel_fields(1) list_update_id map_update nth_map length_map)
  moreover have "tk_sid ?t \<in> holders y \<longleftrightarrow> holds (tk_pc ?t)"
    using cancel(1) dis by (auto simp: holders_def in_set_conv_nth distinct_conv_nth image_iff)
  ultimately show ?case
    using cancel(2) holders_update [OF dis cancel(1), of "cancel_task ?t", folded holders_def]
    by (auto simp: slots_ok_def holders_def)
qed (auto simp: slots_ok_def holders_def)

lemma slots_ok_reach:
  assumes "sys_reach m grace y0 y" and "fresh_sys y0"
  shows "slots_ok m y"
  using assms
proof (induction rule: sys_reach.induct)
  case init
  then show ?case by (simp add: slots_ok_def fresh_sys_def holders_def pool_ok_init)
next
  case (step y y')
  then show ?case by (blast intro: slots_ok_step)
qed

text \<open>
  C5: slot accounting.  In every reachable state of the manager the pool holds exactly the sandboxes
  of the tasks between their claim and their release, and of those whose teardown raised; there are
  at most MAX_SANDBOXES of them, and no task shares a sandbox with another.
\<close>

theorem slot_accounting:
  assumes "sys_reach (int m) grace y0 y" and "fresh_sys y0"
  shows "held (g_pool (y_mgr y)) = tk_sid ` {t \<in> set (y_tasks y). holds (tk_pc t)}
         \<and> length (filter (\<lambda>t. holds (tk_pc t)) (y_tasks y)) \<le> m
         \<and> distinct (map tk_sid (y_tasks y))"
proof -
  have ok: "slots_ok (int m) y" using assms by (rule slots_ok_reach)
  then have dis: "distinct (map tk_sid (filter (\<lambda>t. holds (tk_pc t)) (y_tasks y)))"
    by (simp add: slots_ok_def distinct_map_filter)
  have "length (filter (\<lambda>t. holds (tk_pc t)) (y_tasks y)) = card (held (g_pool (y_mgr y)))"
    using ok distinct_card [OF dis] by (simp add: slots_ok_def holders_def)
  also have "int \<dots> \<le> int m"
    using ok card_held [of "int m" "g_pool (y_mgr y)"] by (simp add: slots_ok_def pool_ok_def)
  finally show ?thesis using ok by (simp add: slots_ok_def holders_def)
qed

section \<open>Leaked slots and lost requests\<close>

definition leaked :: "sys \<Rightarrow> task set" where
  "leaked y = {t \<in> set (y_tasks y). tk_pc t = Done TeardownRaised}"

lemma done_stays: "task_step m grace rep st t g = (t', g') \<Longrightarrow> tk_pc t = Done k \<Longrightarrow> t' = t \<and> g' = g"
  by (simp add: task_step_def)

lemma leaked_mono:
  assumes "sys_step m grace y y'" shows "leaked y \<subseteq> leaked y'"
  using assms
proof (induction rule: sys_step.induct)
  case (run i y rep st t' g')
  show ?case
  proof
    fix t assume t: "t \<in> leaked y"
    then obtain j where j: "j < length (y_tasks y)" "t = y_tasks y ! j"
      by (auto simp: leaked_def in_set_conv_nth)
    have "(y_tasks y)[i := t'] ! j = t"
      using done_stays [OF run(2)] t j by (cases "j = i") (auto simp: leaked_def)
    with t j show "t \<in> leaked (y\<lparr>y_mgr := g', y_tasks := (y_tasks y)[i := t']\<rparr>)"
      by (auto simp: leaked_def in_set_conv_nth)
  qed
next
  case (cancel i y)
  let ?ts = "(y_tasks y)[i := cancel_task (y_tasks y ! i)]"
  show ?case
  proof
    fix t assume t: "t \<in> leaked y"
    then obtain j where j: "j < length (y_tasks y)" "t = y_tasks y ! j"
      by (auto simp: leaked_def in_set_conv_nth)
    have "cancel_task t = t" using t by (simp add: leaked_def cancel_task_def)
    then have "?ts ! j = t" using j by (cases "j = i") simp_all
    then have "t \<in> set ?ts" using j(1) by (metis length_list_update nth_mem)
    then show "t \<in> leaked (y\<lparr>y_tasks := ?ts\<rparr>)" using t by (simp add: leaked_def)
  qed
qed (auto simp: leaked_def)

text \<open>
  C28: a teardown that raises costs a slot for the life of the process.  Once as many teardowns have
  raised as there are slots, no request is ever accepted again, whatever happens.
\<close>

theorem leaked_slots_block_the_consumer:
  assumes "sys_reach (int m) grace y0 y" and "fresh_sys y0" and "card (leaked y) = m"
    and "sys_reach (int m) grace y y'"
  shows "length (y_tasks y') = length (y_tasks y) \<and> \<not> has_capacity (int m) (g_pool (y_mgr y'))"
proof -
  have full: "\<not> has_capacity (int m) (g_pool (y_mgr z))" if "slots_ok (int m) z" "leaked y \<subseteq> leaked z" for z
  proof -
    have "inj_on tk_sid (leaked z)"
      using that(1) by (auto simp: slots_ok_def distinct_map leaked_def intro: inj_on_subset)
    then have "card (leaked z) = card (tk_sid ` leaked z)" by (simp add: card_image)
    also have "tk_sid ` leaked z \<subseteq> held (g_pool (y_mgr z))"
      using that(1) by (auto simp: slots_ok_def holders_def leaked_def holds_def)
    then have "card (tk_sid ` leaked z) \<le> card (held (g_pool (y_mgr z)))" by (simp add: card_mono)
    finally have "card (leaked z) \<le> card (held (g_pool (y_mgr z)))" .
    moreover have "card (leaked y) \<le> card (leaked z)"
      using that(2) by (intro card_mono) (auto simp: leaked_def)
    ultimately have "int m \<le> active_count (g_pool (y_mgr z))"
      using assms(3) that(1) card_held [of "int m" "g_pool (y_mgr z)"] by (simp add: slots_ok_def)
    then show ?thesis by (simp add: has_capacity_def)
  qed
  have "length (y_tasks y') = length (y_tasks y) \<and> slots_ok (int m) y' \<and> leaked y \<subseteq> leaked y'"
    using assms(4)
  proof (induction rule: sys_reach.induct)
    case init
    then show ?case using slots_ok_reach [OF assms(1,2)] by simp
  next
    case (step z z')
    then have ok: "slots_ok (int m) z" and sub: "leaked y \<subseteq> leaked z" by auto
    from step(2) have "length (y_tasks z') = length (y_tasks z)"
      using full [OF ok sub] by (cases rule: sys_step.cases) auto
    with step leaked_mono [OF step(2)] slots_ok_step [OF step(2) ok] show ?case by auto
  qed
  with full show ?thesis by blast
qed

definition sample_request :: "string \<Rightarrow> dict" where
  "sample_request rid = [(''run_id'', JStr rid), (''release_tag'', JStr ''v2''), (''image_tag'', JStr ''img''),
                         (''contracts_version'', JStr ''3'')]"

definition empty_mgr :: mgr where
  "empty_mgr = \<lparr>g_pool = init_pool, g_port = 0,
     g_db = \<lparr>runs = [], run_events = [], run_logs = [], log_seq = 0, definitions = [], results = [],
             sandboxes = [], applications = [], sessions = [], release_catalog = [], cli_catalog = [],
             devnet_catalog = []\<rparr>,
     g_events = [], g_teardowns = []\<rparr>"

definition two_requests :: sys where
  "two_requests = \<lparr>y_mgr = empty_mgr, y_queue = [sample_request ''r1'', sample_request ''r2''],
                   y_waiting = None, y_tasks = [], y_gc = None, y_removed = {}\<rparr>"

definition spawned :: "string \<Rightarrow> string \<Rightarrow> task" where
  "spawned sid rid = new_task sid (sample_request rid)"

definition ok_reply :: reply where
  "ok_reply = \<lparr>rp_raise = None, rp_info = [], rp_callbacks = []\<rparr>"

definition lost_state :: sys where
  "lost_state =
     (let (t1, g1) = task_step 1 900 ok_reply (''e'', 0) (spawned ''s1'' ''r1'') empty_mgr;
          (t2, g2) = task_step 1 900 ok_reply (''e'', 0) (spawned ''s2'' ''r2'') g1
      in \<lparr>y_mgr = g2, y_queue = [], y_waiting = None, y_tasks = [t1, t2], y_gc = None, y_removed = {}\<rparr>)"

lemma two_requests_spawned:
  "sys_reach 1 900 two_requests
     \<lparr>y_mgr = empty_mgr, y_queue = [], y_waiting = None, y_tasks = [spawned ''s1'' ''r1'', spawned ''s2'' ''r2''], y_gc = None, y_removed = {}\<rparr>"
proof -
  have cap: "has_capacity 1 init_pool"
    by (simp add: has_capacity_def active_count_def init_pool_def)
  have none: "find_sandbox (g_db empty_mgr) sid = None" for sid
    by (simp add: empty_mgr_def find_sandbox_def)
  have pool: "g_pool empty_mgr = init_pool" by (simp add: empty_mgr_def)
  let ?q = "\<lambda>q w ts. \<lparr>y_mgr = empty_mgr, y_queue = q, y_waiting = w, y_tasks = ts, y_gc = None, y_removed = {}\<rparr>"
  have e1: "sys_step 1 900 two_requests (?q [sample_request ''r2''] (Some (sample_request ''r1'')) [])"
    using sys_step.deliver [of two_requests "[]" "sample_request ''r1''" "[sample_request ''r2'']" 1 900]
    by (simp add: two_requests_def)
  have e2: "sys_step 1 900 (?q [sample_request ''r2''] (Some (sample_request ''r1'')) [])
                   (?q [sample_request ''r2''] None [spawned ''s1'' ''r1''])"
    using sys_step.spawn [of "?q [sample_request ''r2''] (Some (sample_request ''r1'')) []"
        "sample_request ''r1''" 1 "''s1''" 900] by (simp add: cap none pool spawned_def)
  have e3: "sys_step 1 900 (?q [sample_request ''r2''] None [spawned ''s1'' ''r1''])
                   (?q [] (Some (sample_request ''r2'')) [spawned ''s1'' ''r1''])"
    using sys_step.deliver [of "?q [sample_request ''r2''] None [spawned ''s1'' ''r1'']" "[]"
        "sample_request ''r2''" "[]" 1 900] by simp
  have e4: "sys_step 1 900 (?q [] (Some (sample_request ''r2'')) [spawned ''s1'' ''r1''])
                   (?q [] None [spawned ''s1'' ''r1'', spawned ''s2'' ''r2''])"
    using sys_step.spawn [of "?q [] (Some (sample_request ''r2'')) [spawned ''s1'' ''r1'']"
        "sample_request ''r2''" 1 "''s2''" 900] by (simp add: cap none pool spawned_def new_task_def)
  show ?thesis
    by (rule sys_reach.step [OF sys_reach.step [OF sys_reach.step [OF sys_reach.step [OF sys_reach.init e1] e2] e3] e4])
qed

lemma start_sample:
  "task_step m grace rep st (spawned sid rid) g
     = claim_slot m ((spawned sid rid)\<lparr>tk_req := no_request\<lparr>rq_run_id := JStr rid, rq_release_tag := JStr ''v2'',
                        rq_image_tag := JStr ''img'', rq_contracts_version := JStr ''3''\<rparr>\<rparr>) g"
  by (simp add: task_step_def start_step_def spawned_def new_task_def parse_request_def item_def
                sample_request_def get_def get_or_def no_request_def)

lemma spawned_msg [simp]: "tk_msg (spawned sid rid) = sample_request rid"
  by (simp add: spawned_def new_task_def)

lemma first_claims:
  "task_step 1 grace rep st (spawned sid rid) empty_mgr = (t, g) \<Longrightarrow>
     \<not> has_capacity 1 (g_pool g) \<and> g_db g = g_db empty_mgr \<and> g_events g = []"
  by (auto simp: start_sample claim_slot_def acquire_def has_capacity_def active_count_def empty_mgr_def
                 init_pool_def put_entry_def Let_def)

lemma second_rejected:
  "\<not> has_capacity m (g_pool g) \<Longrightarrow> task_step m grace rep st (spawned sid rid) g = (t, g') \<Longrightarrow>
     tk_msg t = sample_request rid \<and> tk_pc t = Done Rejected \<and> g_db g' = g_db g \<and> g_events g' = g_events g"
  by (auto simp: start_sample claim_slot_def acquire_def goto_def spawned_msg Let_def)

lemma lost_reachable:
  "sys_reach 1 900 two_requests lost_state" "fresh_sys two_requests"
  "tk_msg (y_tasks lost_state ! 1) = sample_request ''r2''" "tk_pc (y_tasks lost_state ! 1) = Done Rejected"
  "length (y_tasks lost_state) = 2" "y_queue lost_state = []" "sandboxes (g_db (y_mgr lost_state)) = []"
  "g_events (y_mgr lost_state) = []"
proof -
  let ?y0 = "\<lparr>y_mgr = empty_mgr, y_queue = [], y_waiting = None,
              y_tasks = [spawned ''s1'' ''r1'', spawned ''s2'' ''r2''], y_gc = None, y_removed = {}\<rparr>"
  obtain t1 g1 where s1: "task_step 1 900 ok_reply (''e'', 0) (spawned ''s1'' ''r1'') empty_mgr = (t1, g1)"
    by fastforce
  obtain t2 g2 where s2: "task_step 1 900 ok_reply (''e'', 0) (spawned ''s2'' ''r2'') g1 = (t2, g2)"
    by fastforce
  have "sys_step 1 900 ?y0 (?y0\<lparr>y_mgr := g1, y_tasks := [t1, spawned ''s2'' ''r2'']\<rparr>)"
    using sys_step.run [of 0 ?y0 1 900 ok_reply "(''e'', 0)" t1 g1] s1 by simp
  moreover have "sys_step 1 900 (?y0\<lparr>y_mgr := g1, y_tasks := [t1, spawned ''s2'' ''r2'']\<rparr>) lost_state"
    using sys_step.run [of 1 "?y0\<lparr>y_mgr := g1, y_tasks := [t1, spawned ''s2'' ''r2'']\<rparr>"
        1 900 ok_reply "(''e'', 0)" t2 g2] s1 s2 by (simp add: lost_state_def)
  ultimately show "sys_reach 1 900 two_requests lost_state"
    using sys_reach.step [OF sys_reach.step [OF two_requests_spawned]] by blast
  have lost: "lost_state = \<lparr>y_mgr = g2, y_queue = [], y_waiting = None, y_tasks = [t1, t2], y_gc = None, y_removed = {}\<rparr>"
    by (simp add: lost_state_def s1 s2)
  have empty: "sandboxes (g_db empty_mgr) = []" "g_events empty_mgr = []"
    by (simp_all add: empty_mgr_def)
  show "tk_msg (y_tasks lost_state ! 1) = sample_request ''r2''" "tk_pc (y_tasks lost_state ! 1) = Done Rejected"
    "length (y_tasks lost_state) = 2" "y_queue lost_state = []" "sandboxes (g_db (y_mgr lost_state)) = []"
    "g_events (y_mgr lost_state) = []"
    using first_claims [OF s1] second_rejected [OF _ s2] by (simp_all add: lost empty)
  show "fresh_sys two_requests" by (simp add: fresh_sys_def two_requests_def empty_mgr_def)
qed

text \<open>
  A request can be acknowledged and lost.  With one slot the loop may see capacity a second time
  before the task of the first request has claimed the slot; the second task then finds the pool
  full and ends, with no sandbox row and no event for its run.
\<close>

theorem acknowledged_request_can_be_lost:
  "\<exists>y t. sys_reach 1 900 two_requests y \<and> fresh_sys two_requests \<and> t \<in> set (y_tasks y)
     \<and> tk_msg t = sample_request ''r2'' \<and> tk_pc t = Done Rejected
     \<and> y_queue y = [] \<and> sandboxes (g_db (y_mgr y)) = [] \<and> g_events (y_mgr y) = []"
  by (intro exI [of _ lost_state] exI [of _ "y_tasks lost_state ! 1"])
     (use lost_reachable in simp)

section \<open>Every task ends\<close>

fun stage :: "pc \<Rightarrow> nat" where
  "stage (Done _) = 0"
| "stage AtRelease = 1"
| "stage AtTearPublish = 2"
| "stage AtTearMark = 3"
| "stage (AtTearDocker _ _ _) = 4"
| "stage AtTearRead = 5"
| "stage (AtErrorPublish _) = 6"
| "stage (AtErrorMark _) = 7"
| "stage (AtPublishFailed _) = 8"
| "stage (AtMarkFailed _) = 9"
| "stage (AtPollCounts _) = 9"
| "stage AtPollDispatched = 10"
| "stage AtPollSessions = 10"
| "stage AtPollCheck = 11"
| "stage AtSleep = 12"
| "stage AtAiFlag = 13"
| "stage AtPublishReady = 14"
| "stage AtStoreAddress = 15"
| "stage AtMarkReady = 16"
| "stage AtCheck2 = 17"
| "stage AtDelay = 18"
| "stage AtV2Ready = 19"
| "stage AtProvision = 20"
| "stage AtPublishProvisioning = 21"
| "stage AtMarkProvisioning = 22"
| "stage AtCheck1 = 23"
| "stage AtResolve = 24"
| "stage AtStart = 25"

text \<open>In the polling loop the rounds that are left count too; before it, all of them are.\<close>

definition rounds_left :: "task \<Rightarrow> nat" where
  "rounds_left t = (case tk_pc t of
       AtSleep \<Rightarrow> max_polls - tk_polls t | AtPollCheck \<Rightarrow> max_polls - tk_polls t
     | AtPollSessions \<Rightarrow> max_polls - tk_polls t | AtPollDispatched \<Rightarrow> max_polls - tk_polls t
     | AtPollCounts _ \<Rightarrow> max_polls - tk_polls t
     | Done _ \<Rightarrow> 0 | AtRelease \<Rightarrow> 0 | AtTearPublish \<Rightarrow> 0 | AtTearMark \<Rightarrow> 0 | AtTearDocker _ _ _ \<Rightarrow> 0
     | AtTearRead \<Rightarrow> 0 | AtErrorPublish _ \<Rightarrow> 0 | AtErrorMark _ \<Rightarrow> 0
     | _ \<Rightarrow> max_polls)"

definition task_size :: "task \<Rightarrow> nat" where
  "task_size t = 4 * rounds_left t + stage (tk_pc t)"

lemma task_size_step:
  assumes "task_step m grace rep st t g = (t', g')" and "\<forall>k. tk_pc t \<noteq> Done k"
  shows "task_size t' < task_size t"
  using assms
  by (cases "tk_pc t")
     (auto simp: mgr_steps claim_slot_def task_size_def rounds_left_def max_polls_def
           split: if_splits option.splits sum.splits prod.splits)

text \<open>A task alone: its replies, and what the rest of the system does to the manager in between.\<close>

fun task_run :: "int \<Rightarrow> int \<Rightarrow> (reply \<times> stamp \<times> (mgr \<Rightarrow> mgr)) list \<Rightarrow> task \<Rightarrow> mgr \<Rightarrow> task \<times> mgr" where
  "task_run m grace [] t g = (t, g)"
| "task_run m grace ((rep, st, f) # xs) t g =
     (let (t', g') = task_step m grace rep st t g in task_run m grace xs t' (f g'))"

text \<open>
  C14: every task ends, whatever the database, the broker and the provisioner answer and whatever the
  other tasks do in between, within 5790 steps; the polling loop runs at most 1440 rounds.
\<close>

theorem task_always_ends:
  assumes "length xs \<ge> 5790"
  shows "\<exists>k. tk_pc (fst (task_run m grace xs (new_task sid msg) g)) = Done k"
proof -
  have "\<exists>k. tk_pc (fst (task_run m grace xs t g)) = Done k" if "task_size t \<le> length xs" for xs t g
    using that
  proof (induction m grace xs t g rule: task_run.induct)
    case (1 m grace t g)
    then show ?case by (cases "tk_pc t") (auto simp: task_size_def)
  next
    case (2 m grace rep st f xs t g)
    obtain t' g' where step: "task_step m grace rep st t g = (t', g')" by fastforce
    have "task_size t' \<le> length xs"
    proof (cases "\<exists>k. tk_pc t = Done k")
      case True
      then have "t' = t" using done_stays [OF step] by blast
      with True show ?thesis by (auto simp: task_size_def rounds_left_def)
    next
      case False
      with task_size_step [OF step] 2(2) show ?thesis by simp
    qed
    with 2 step show ?case by simp
  qed
  moreover have "task_size (new_task sid msg) \<le> 5790"
    by (simp add: task_size_def rounds_left_def new_task_def max_polls_def)
  ultimately show ?thesis using assms by simp
qed

section \<open>Rows of live sandboxes\<close>

definition unborn :: "pc \<Rightarrow> bool" where
  "unborn p = (p \<in> {AtStart, AtResolve, AtCheck1, AtMarkProvisioning})"

definition coming_up :: "pc \<Rightarrow> bool" where
  "coming_up p = (p \<in> {AtV2Ready, AtDelay, AtCheck2, AtMarkReady})"

definition in_use :: "pc \<Rightarrow> bool" where
  "in_use p = (coming_up p \<or> p \<in> {AtPublishProvisioning, AtProvision, AtStoreAddress, AtPublishReady, AtAiFlag,
     AtSleep, AtPollCheck, AtPollSessions, AtPollDispatched} \<or> (\<exists>n. p = AtPollCounts n))"

lemmas pc_kinds = unborn_def coming_up_def in_use_def

definition row_inv :: "task \<Rightarrow> db \<Rightarrow> bool" where
  "row_inv t db =
     ((unborn (tk_pc t) \<longrightarrow> find_sandbox db (tk_sid t) = None)
      \<and> (in_use (tk_pc t) \<longrightarrow> (\<exists>r. find_sandbox db (tk_sid t) = Some r \<and> live_sandbox r
            \<and> (coming_up (tk_pc t) \<or> tk_pc t = AtPublishProvisioning \<or> tk_pc t = AtProvision
                 \<longrightarrow> s_container_ids r = JNull)))
      \<and> (coming_up (tk_pc t) \<longrightarrow> tk_provisioned t))"

lemma find_sandbox_append:
  "find_sandbox (db\<lparr>sandboxes := sandboxes db @ [r]\<rparr>) k
     = (case find_sandbox db k of Some x \<Rightarrow> Some x | None \<Rightarrow> if s_id r = k then Some r else None)"
proof -
  have "find P (xs @ [r]) = (case find P xs of Some x \<Rightarrow> Some x | None \<Rightarrow> if P r then Some r else None)"
    for P and xs :: "sandbox_row list"
    by (induction xs) auto
  then show ?thesis by (simp add: find_sandbox_def)
qed

lemma find_upsert:
  assumes "\<And>r. s_id (f r) = s_id r"
  shows "find_sandbox (g_db (upsert_sandbox sid rid f g)) k =
     (if k = sid then Some (f (case find_sandbox (g_db g) sid of Some r \<Rightarrow> r
                               | None \<Rightarrow> new_sandbox_row sid (case rid of JStr r \<Rightarrow> r | _ \<Rightarrow> [])))
      else find_sandbox (g_db g) k)"
proof (cases "find_sandbox (g_db g) sid")
  case None
  have "s_id (f (new_sandbox_row sid x)) = sid" for x
    by (simp add: assms) (simp add: new_sandbox_row_def)
  with None show ?thesis
    by (simp add: upsert_sandbox_def find_sandbox_append split: option.split)
next
  case (Some r)
  then show ?thesis using assms by (simp add: upsert_sandbox_def sandbox_table.look_upd)
qed

lemma row_functions_keep_id [simp]:
  "s_id (mark_failed_row e r) = s_id r"
  "s_id (mark_ready_row rq info items now r) = s_id r"
  by (simp_all add: mark_failed_row_def mark_ready_row_def split: prod.splits)

lemma live_rows [simp]:
  "live_sandbox (r\<lparr>s_status := SProvisioning, s_provisioned_at := n\<rparr>)"
  "live_sandbox (mark_ready_row rq info items now r)"
  by (simp_all add: live_sandbox_def mark_ready_row_def split: prod.splits)

lemma db_publish_event [simp]: "g_db (publish_event st ty sid rid x g) = g_db g"
  by (simp add: publish_event_def)

lemma find_sandbox_update_run [simp]: "find_sandbox (update_run k f db) sid = find_sandbox db sid"
  by (simp add: find_sandbox_def)

lemma claim_slot_frame:
  "claim_slot m t g = (t', g') \<Longrightarrow> g_db g' = g_db g \<and> (tk_pc t' = AtCheck1 \<or> tk_pc t' = Done Rejected)
     \<and> tk_sid t' = tk_sid t"
  by (auto simp: claim_slot_def goto_def Let_def split: prod.splits if_splits)

lemma step_other_rows:
  assumes "task_step m grace rep st t g = (t', g')" and "k \<noteq> tk_sid t"
  shows "find_sandbox (g_db g') k = find_sandbox (g_db g) k"
  using assms
  by (cases "tk_pc t")
     (auto simp: mgr_steps find_upsert sandbox_table.look_upd dest!: claim_slot_frame
           split: if_splits option.splits sum.splits prod.splits)

lemma goto_fields [simp]:
  "tk_pc (goto p t) = p" "tk_sid (goto p t) = tk_sid t" "tk_provisioned (goto p t) = tk_provisioned t"
  "tk_pc (enter_finally t) = (if tk_provisioned t then AtTearRead else AtRelease)"
  "tk_sid (enter_finally t) = tk_sid t"
  "tk_pc (next_poll t) = (if tk_polls t < max_polls then AtSleep
                          else if tk_provisioned t then AtTearRead else AtRelease)"
  "tk_sid (next_poll t) = tk_sid t"
  by (simp_all add: goto_def enter_finally_def next_poll_def)

definition polling :: "pc \<Rightarrow> bool" where
  "polling p = (p \<in> {AtAiFlag, AtSleep, AtPollCheck, AtPollSessions, AtPollDispatched} \<or> (\<exists>n. p = AtPollCounts n))"

lemma step_polling:
  assumes "task_step m grace rep st t g = (t', g')" and "polling (tk_pc t)"
  shows "g' = g \<and> tk_sid t' = tk_sid t \<and> \<not> unborn (tk_pc t') \<and> \<not> coming_up (tk_pc t')
           \<and> tk_pc t' \<noteq> AtPublishProvisioning \<and> tk_pc t' \<noteq> AtProvision"
  using assms
  by (cases "tk_pc t")
     (auto simp: task_step_def wait_step_def guarded_def Let_def polling_def unborn_def coming_up_def
           split: if_splits option.splits prod.splits)

lemma row_inv_quiet: "\<not> unborn (tk_pc t) \<Longrightarrow> \<not> in_use (tk_pc t) \<Longrightarrow> row_inv t db"
  by (auto simp: row_inv_def in_use_def)

lemma quiet_pcs [simp]:
  "\<not> unborn (AtErrorMark e)" "\<not> in_use (AtErrorMark e)" "\<not> unborn (AtMarkFailed e)" "\<not> in_use (AtMarkFailed e)"
  "\<not> unborn AtTearRead" "\<not> in_use AtTearRead" "\<not> unborn AtRelease" "\<not> in_use AtRelease"
  by (simp_all add: pc_kinds)

lemma step_coming_up:
  assumes "task_step m grace rep st t g = (t', g')" and "row_inv t (g_db g)"
    and "tk_pc t \<in> {AtPublishProvisioning, AtProvision, AtV2Ready, AtDelay, AtCheck2,
          AtMarkReady, AtStoreAddress, AtPublishReady}"
  shows "row_inv t' (g_db g')"
proof (cases "in_use (tk_pc t')")
  case False
  moreover have "\<not> unborn (tk_pc t')"
    using assms(1,3)
    by (auto simp: task_step_def provision_step_def ready_step_def guarded_def Let_def unborn_def
             split: if_splits sum.splits option.splits)
  ultimately show ?thesis by (intro row_inv_quiet)
next
  case True
  have kinds: "in_use (tk_pc t)"
    "tk_pc t \<noteq> AtStoreAddress \<Longrightarrow> tk_pc t \<noteq> AtPublishReady \<Longrightarrow>
       coming_up (tk_pc t) \<or> tk_pc t = AtPublishProvisioning \<or> tk_pc t = AtProvision"
    using assms(3) by (auto simp: in_use_def coming_up_def)
  with assms(2) obtain r where r: "find_sandbox (g_db g) (tk_sid t) = Some r" "live_sandbox r"
    and jn: "tk_pc t \<noteq> AtStoreAddress \<Longrightarrow> tk_pc t \<noteq> AtPublishReady \<Longrightarrow> s_container_ids r = JNull"
    and pr: "coming_up (tk_pc t) \<Longrightarrow> tk_provisioned t"
    unfolding row_inv_def by blast
  have sid: "tk_sid t' = tk_sid t" using assms(1) by (rule step_sid)
  have "\<not> unborn (tk_pc t')" using True by (auto simp: pc_kinds)
  moreover have "coming_up (tk_pc t') \<longrightarrow> tk_provisioned t'"
    using assms(1,3) pr True
    by (auto simp: task_step_def provision_step_def ready_step_def guarded_def Let_def coming_up_def
             split: if_splits sum.splits option.splits)
  moreover have "\<exists>r. find_sandbox (g_db g') (tk_sid t) = Some r \<and> live_sandbox r
            \<and> (coming_up (tk_pc t') \<or> tk_pc t' = AtPublishProvisioning \<or> tk_pc t' = AtProvision
                 \<longrightarrow> s_container_ids r = JNull)"
    using assms(1,3) r jn True
    by (auto simp: task_step_def provision_step_def ready_step_def guarded_def Let_def find_upsert coming_up_def
             split: if_splits sum.splits option.splits)
  ultimately show ?thesis using sid by (simp add: row_inv_def)
qed

lemma step_own_row:
  assumes "task_step m grace rep st t g = (t', g')" and "row_inv t (g_db g)"
  shows "row_inv t' (g_db g')"
proof (cases "unborn (tk_pc t)")
  case True
  then show ?thesis using assms
    by (cases "tk_pc t")
       (auto simp: mgr_steps find_upsert row_inv_def pc_kinds new_sandbox_row_def live_sandbox_def dest!: claim_slot_frame
             split: if_splits option.splits sum.splits prod.splits)
next
  case False
  show ?thesis
  proof (cases "in_use (tk_pc t)")
    case True
    show ?thesis
    proof (cases "polling (tk_pc t)")
      case True
      have "in_use (tk_pc t)" "\<not> coming_up (tk_pc t)" using True by (auto simp: polling_def pc_kinds)
      with step_polling [OF assms(1) True] assms(2) show ?thesis
        by (auto simp: row_inv_def)
    next
      case nopoll: False
      from True nopoll have "tk_pc t \<in> {AtPublishProvisioning, AtProvision, AtV2Ready, AtDelay, AtCheck2,
          AtMarkReady, AtStoreAddress, AtPublishReady}"
        by (auto simp: polling_def pc_kinds)
      with assms step_coming_up [OF assms(1)] show ?thesis by blast
    qed
  next
    case notuse: False
    with False assms(1) have "\<not> unborn (tk_pc t') \<and> \<not> in_use (tk_pc t') \<and> \<not> coming_up (tk_pc t')"
      by (cases "tk_pc t")
         (auto simp: mgr_steps pc_kinds split: if_splits option.splits sum.splits prod.splits)
    then show ?thesis by (simp add: row_inv_def)
  qed
qed

lemma row_inv_cong: "find_sandbox db' (tk_sid t) = find_sandbox db (tk_sid t) \<Longrightarrow> row_inv t db' = row_inv t db"
  by (simp add: row_inv_def)

lemma rows_reach:
  assumes "sys_reach m grace y0 y" and "fresh_sys y0"
  shows "\<forall>t \<in> set (y_tasks y). row_inv t (g_db (y_mgr y))"
  using assms
proof (induction rule: sys_reach.induct)
  case init
  then show ?case by (simp add: fresh_sys_def)
next
  case (step y y')
  then have inv: "\<forall>t \<in> set (y_tasks y). row_inv t (g_db (y_mgr y))"
    and dis: "distinct (map tk_sid (y_tasks y))"
    using slots_ok_reach [OF step(1)] by (auto simp: slots_ok_def)
  from step(2) show ?case
  proof (cases rule: sys_step.cases)
    case (run i rep st t' g')
    show ?thesis
    proof
      fix t assume "t \<in> set (y_tasks y')"
      then obtain j where j: "j < length (y_tasks y)" "t = (y_tasks y)[i := t'] ! j"
        using run(1) by (auto simp: in_set_conv_nth)
      show "row_inv t (g_db (y_mgr y'))"
      proof (cases "j = i")
        case True
        with run j inv step_own_row [OF run(3)] show ?thesis by simp
      next
        case False
        with j dis run(2) have "tk_sid t \<noteq> tk_sid (y_tasks y ! i)" by (simp add: distinct_conv_nth)
        from step_other_rows [OF run(3) this] have "row_inv t (g_db g') = row_inv t (g_db (y_mgr y))"
          by (rule row_inv_cong)
        with False j inv run(1) show ?thesis by simp
      qed
    qed
  next
    case (spawn msg sid)
    with inv show ?thesis by (auto simp: new_task_def row_inv_def pc_kinds)
  next
    case (other db' q)
    with inv show ?thesis by (auto simp: row_inv_def find_sandbox_def)
  next
    case (cancel i)
    have quiet: "cancel_task t = t \<or> \<not> unborn (tk_pc (cancel_task t)) \<and> \<not> in_use (tk_pc (cancel_task t))" for t
      by (cases "tk_pc t") (simp_all add: cancel_task_def goto_def enter_finally_def pc_kinds)
    have "row_inv (cancel_task t) db" if "row_inv t db" for t db
      using that quiet [of t] row_inv_quiet [of "cancel_task t"] by metis
    with inv cancel(2) have "row_inv (cancel_task (y_tasks y ! i)) (g_db (y_mgr y))" by simp
    moreover have "set (y_tasks y') \<subseteq> insert (cancel_task (y_tasks y ! i)) (set (y_tasks y))"
      by (simp add: cancel(1) set_update_subset_insert)
    ultimately show ?thesis using inv by (auto simp: cancel(1))
  qed (use inv in auto)
qed







text \<open>
  A run that is cancelled after its containers were started, but before the sandbox is marked
  ready, is closed without a teardown: the row does not hold the container ids yet, so the cleanup
  finds nothing to remove, marks the sandbox closed and reports it as closed.
\<close>

theorem cancelled_before_ready_is_not_torn_down:
  assumes "sys_reach m grace y0 y" and "fresh_sys y0"
    and "t \<in> set (y_tasks y)" and "tk_pc t = AtCheck2"
    and "find_run (g_db (y_mgr y)) (run_key (rq_run_id (tk_req t))) = Some r" and "r_status r = RCancelled"
    and "rp_raise rep = None"
    and "task_run m grace (replicate 5 (rep, st, (\<lambda>g. g))) t (y_mgr y) = (t', g')"
  shows "(\<exists>k. tk_pc t' = Done k) \<and> g_teardowns g' = g_teardowns (y_mgr y)
         \<and> (\<exists>sb. find_sandbox (g_db g') (tk_sid t) = Some sb \<and> s_status sb = SClosed)
         \<and> (\<exists>e. g_events g' = g_events (y_mgr y) @ [e])"
proof -
  have inv: "row_inv t (g_db (y_mgr y))" using rows_reach [OF assms(1,2)] assms(3) by blast
  then obtain sb where
    sb: "find_sandbox (g_db (y_mgr y)) (tk_sid t) = Some sb" "s_container_ids sb = JNull"
    by (auto simp: row_inv_def pc_kinds assms(4))
  from inv have pr: "tk_provisioned t" by (simp add: row_inv_def pc_kinds assms(4))
  let ?g = "y_mgr y" and ?sid = "tk_sid t"
  let ?g3 = "?g\<lparr>g_db := update_sandbox ?sid (\<lambda>r. r\<lparr>s_status := SClosed, s_closed_at := Some (snd st)\<rparr>) (g_db ?g)\<rparr>"
  let ?g4 = "publish_event st ''closed'' ?sid (rq_run_id (tk_req t)) [] ?g3"
  let ?g5 = "?g4\<lparr>g_pool := release (g_pool ?g4) ?sid\<rparr>"
  note steps = task_step_def provision_step_def ready_step_def cleanup_step_def enter_finally_def goto_def Let_def
  have s1: "task_step m grace rep st t ?g = (t\<lparr>tk_pc := AtTearRead\<rparr>, ?g)"
    using assms(4-7) pr by (simp add: steps run_cancelled_def)
  have s2: "task_step m grace rep st (t\<lparr>tk_pc := AtTearRead\<rparr>) ?g = (t\<lparr>tk_pc := AtTearMark\<rparr>, ?g)"
    using assms(7) sb by (simp add: steps)
  have s3: "task_step m grace rep st (t\<lparr>tk_pc := AtTearMark\<rparr>) ?g = (t\<lparr>tk_pc := AtTearPublish\<rparr>, ?g3)"
    using assms(7) by (simp add: steps)
  have s4: "task_step m grace rep st (t\<lparr>tk_pc := AtTearPublish\<rparr>) ?g3 = (t\<lparr>tk_pc := AtRelease\<rparr>, ?g4)"
    using assms(7) by (simp add: steps)
  have s5: "task_step m grace rep st (t\<lparr>tk_pc := AtRelease\<rparr>) ?g4
              = (t\<lparr>tk_pc := Done (if tk_raised t then Raised else Finished)\<rparr>, ?g5)"
    by (simp add: steps)
  have "task_run m grace (replicate 5 (rep, st, (\<lambda>g. g))) t ?g
          = (t\<lparr>tk_pc := Done (if tk_raised t then Raised else Finished)\<rparr>, ?g5)"
    by (simp add: numeral_eq_Suc s1 s2 s3 s4 s5)
  with assms(8) have "t' = t\<lparr>tk_pc := Done (if tk_raised t then Raised else Finished)\<rparr>" and g': "g' = ?g5"
    by simp_all
  moreover have "find_sandbox (g_db ?g5) ?sid = Some (sb\<lparr>s_status := SClosed, s_closed_at := Some (snd st)\<rparr>)"
    using sb(1) by (simp add: sandbox_table.look_upd)
  ultimately show ?thesis by (simp add: publish_event_def)
qed

section \<open>The startup sweep\<close>

lemma sweep_db:
  "sandboxes (g_db (fold (sweep_one (\<lambda>_. False) now) rs g))
     = map (\<lambda>r. if s_id r \<in> s_id ` set rs then r\<lparr>s_status := SClosed, s_closed_at := Some now\<rparr> else r)
           (sandboxes (g_db g))"
  by (induction rs arbitrary: g) (auto simp: sweep_one_def update_sandbox_def Let_def)

lemma sweep_teardowns:
  "map fst (g_teardowns (fold (sweep_one down now) rs g)) = map fst (g_teardowns g) @ map s_id rs"
  by (induction rs arbitrary: g) (auto simp: sweep_one_def Let_def)

text \<open>
  The startup sweep tears down every sandbox that a previous process left live, each once and
  although earlier teardowns may raise, and when the database answers none is live afterwards.
\<close>

theorem sweep_leaves_no_orphan:
  shows "map fst (g_teardowns (sweep_orphaned_sandboxes True down now g))
           = map fst (g_teardowns g) @ map s_id (filter live_sandbox (sandboxes (g_db g)))
       \<and> filter live_sandbox (sandboxes (g_db (sweep_orphaned_sandboxes True (\<lambda>_. False) now g))) = []
       \<and> run_gc True (sweep_orphaned_sandboxes True (\<lambda>_. False) now g) = Some {}"
proof -
  have "filter live_sandbox (sandboxes (g_db (sweep_orphaned_sandboxes True (\<lambda>_. False) now g))) = []"
    by (auto simp: sweep_orphaned_sandboxes_def sweep_db filter_empty_conv live_sandbox_def)
  then show ?thesis by (simp add: sweep_orphaned_sandboxes_def sweep_teardowns run_gc_def)
qed

section \<open>Concrete runs\<close>

definition solo :: "task \<Rightarrow> mgr \<Rightarrow> sys" where
  "solo t g = \<lparr>y_mgr = g, y_queue = [], y_waiting = None, y_tasks = [t], y_gc = None, y_removed = {}\<rparr>"

text \<open>A task that runs undisturbed is a run of the system.\<close>

lemma solo_run_collecting:
  assumes "sys_reach m grace y0 ((solo t g)\<lparr>y_gc := c\<rparr>)"
    and "task_run m grace (map (\<lambda>rep. (rep, st, (\<lambda>g. g))) reps) t g = (t', g')"
  shows "sys_reach m grace y0 ((solo t' g')\<lparr>y_gc := c\<rparr>)"
  using assms
proof (induction reps arbitrary: t g)
  case (Cons rep reps)
  obtain t1 g1 where s: "task_step m grace rep st t g = (t1, g1)" by fastforce
  have "sys_step m grace ((solo t g)\<lparr>y_gc := c\<rparr>) ((solo t1 g1)\<lparr>y_gc := c\<rparr>)"
    using sys_step.run [of 0 "(solo t g)\<lparr>y_gc := c\<rparr>" m grace rep st t1 g1] s by (simp add: solo_def)
  with Cons.prems(1) have "sys_reach m grace y0 ((solo t1 g1)\<lparr>y_gc := c\<rparr>)" by (rule sys_reach.step)
  with Cons.IH Cons.prems(2) s show ?case by simp
qed simp

lemma solo_run:
  assumes "sys_reach m grace y0 (solo t g)"
    and "task_run m grace (map (\<lambda>rep. (rep, st, (\<lambda>g. g))) reps) t g = (t', g')"
  shows "sys_reach m grace y0 (solo t' g')"
  using solo_run_collecting [where c = None, OF _ assms(2)] assms(1) by (simp add: solo_def)

definition cancelled_mgr :: mgr where
  "cancelled_mgr = empty_mgr\<lparr>g_db := (g_db empty_mgr)\<lparr>runs :=
     [\<lparr>r_id = ''r1'', r_release_tag = ''v2'', r_image_tag = ''img'', r_suite_ids = [], r_status = RCancelled,
       r_priority = 5, r_triggered_by = ''user'', r_triggered_by_user = None, r_queued_at = 0,
       r_started_at = None, r_completed_at = None, r_pass_rate = None, r_metadata = JNull,
       r_app_id = None, r_app_address = JNull\<rparr>]\<rparr>\<rparr>"

definition start_sys :: "mgr \<Rightarrow> sys" where
  "start_sys g = \<lparr>y_mgr = g, y_queue = [sample_request ''r1''], y_waiting = None, y_tasks = [], y_gc = None, y_removed = {}\<rparr>"

lemma start_spawned:
  assumes "g_pool g = init_pool" and "sandboxes (g_db g) = []"
  shows "sys_reach 1 900 (start_sys g) (solo (spawned ''s1'' ''r1'') g)" and "fresh_sys (start_sys g)"
proof -
  let ?y = "\<lparr>y_mgr = g, y_queue = [], y_waiting = Some (sample_request ''r1''), y_tasks = [], y_gc = None, y_removed = {}\<rparr>"
  have "sys_step 1 900 (start_sys g) ?y"
    using sys_step.deliver [of "start_sys g" "[]" "sample_request ''r1''" "[]" 1 900]
    by (simp add: start_sys_def)
  moreover have "sys_step 1 900 ?y (solo (spawned ''s1'' ''r1'') g)"
    using sys_step.spawn [of ?y "sample_request ''r1''" 1 "''s1''" 900] assms
    by (simp add: solo_def spawned_def has_capacity_def active_count_def init_pool_def find_sandbox_def)
  ultimately show "sys_reach 1 900 (start_sys g) (solo (spawned ''s1'' ''r1'') g)"
    by (rule sys_reach.step [OF sys_reach.step [OF sys_reach.init]])
  show "fresh_sys (start_sys g)" using assms by (simp add: fresh_sys_def start_sys_def)
qed

definition bad_reply :: reply where
  "bad_reply = ok_reply\<lparr>rp_raise := Some ValueError\<rparr>"

lemmas run_defs = task_step_def provision_step_def ready_step_def cleanup_step_def guarded_def goto_def
  enter_finally_def Let_def start_step_def parse_request_def sample_request_def get_def get_or_def
  spawned_def new_task_def claim_slot_def acquire_def has_capacity_def active_count_def
  init_pool_def put_entry_def empty_mgr_def cancelled_mgr_def ok_reply_def bad_reply_def no_request_def
  run_cancelled_def find_run_def upsert_sandbox_def publish_event_def find_sandbox_def new_sandbox_row_def
  v2_wait_needed_def info_items_def item_def run_key_def

definition ten :: "reply list" where
  "ten = replicate 10 ok_reply @ [bad_reply]"

lemma leak_run:
  "\<exists>t g. task_run 1 900 (map (\<lambda>rep. (rep, (''e'', 0), (\<lambda>g. g))) ten) (spawned ''s1'' ''r1'') empty_mgr = (t, g)
     \<and> tk_pc t = Done TeardownRaised"
  by (simp add: ten_def numeral_eq_Suc run_defs)

lemma check2_run:
  "\<exists>t g r. task_run 1 900 (map (\<lambda>rep. (rep, (''e'', 0), (\<lambda>g. g)))
               [ok_reply, bad_reply, ok_reply, ok_reply, ok_reply, ok_reply]) (spawned ''s1'' ''r1'') cancelled_mgr = (t, g)
     \<and> tk_pc t = AtCheck2 \<and> find_run (g_db g) (run_key (rq_run_id (tk_req t))) = Some r \<and> r_status r = RCancelled"
  by (simp add: numeral_eq_Suc run_defs)


lemma empty_start:
  "sys_reach 1 900 (start_sys empty_mgr) (solo (spawned ''s1'' ''r1'') empty_mgr)"
  "fresh_sys (start_sys empty_mgr)"
  "sys_reach 1 900 (start_sys cancelled_mgr) (solo (spawned ''s1'' ''r1'') cancelled_mgr)"
  "fresh_sys (start_sys cancelled_mgr)"
  by (rule start_spawned; simp add: empty_mgr_def cancelled_mgr_def)+

theorem slot_accounting_witness:
  "held (g_pool (y_mgr lost_state)) = tk_sid ` {t \<in> set (y_tasks lost_state). holds (tk_pc t)}"
  using slot_accounting [of 1 900 two_requests lost_state] lost_reachable by simp

theorem leaked_slots_block_the_consumer_witness:
  "\<exists>y. sys_reach 1 900 (start_sys empty_mgr) y \<and> leaked y \<noteq> {} \<and> \<not> has_capacity 1 (g_pool (y_mgr y))"
proof -
  obtain t g where run: "task_run 1 900 (map (\<lambda>rep. (rep, (''e'', 0), (\<lambda>g. g))) ten) (spawned ''s1'' ''r1'')
      empty_mgr = (t, g)" and pc: "tk_pc t = Done TeardownRaised"
    using leak_run by blast
  have reach: "sys_reach 1 900 (start_sys empty_mgr) (solo t g)"
    by (rule solo_run [OF empty_start(1) run])
  have leak: "leaked (solo t g) = {t}" using pc by (auto simp: leaked_def solo_def)
  with leaked_slots_block_the_consumer [of 1 900 "start_sys empty_mgr" "solo t g" "solo t g"]
    reach empty_start(2) sys_reach.init show ?thesis by auto
qed

theorem task_always_ends_witness:
  "\<exists>k. tk_pc (fst (task_run 1 900 (replicate 5790 (bad_reply, (''e'', 0), (\<lambda>g. g)))
               (new_task ''s1'' (sample_request ''r1'')) empty_mgr)) = Done k"
  by (rule task_always_ends) simp






theorem cancelled_before_ready_is_not_torn_down_witness:
  "\<exists>y t t' g'. sys_reach 1 900 (start_sys cancelled_mgr) y \<and> t \<in> set (y_tasks y) \<and> tk_pc t = AtCheck2
     \<and> task_run 1 900 (replicate 5 (ok_reply, (''e'', 9), (\<lambda>g. g))) t (y_mgr y) = (t', g')
     \<and> g_teardowns g' = g_teardowns (y_mgr y)"
proof -
  obtain t g r where run: "task_run 1 900 (map (\<lambda>rep. (rep, (''e'', 0), (\<lambda>g. g)))
        [ok_reply, bad_reply, ok_reply, ok_reply, ok_reply, ok_reply]) (spawned ''s1'' ''r1'') cancelled_mgr = (t, g)"
    and t: "tk_pc t = AtCheck2" "find_run (g_db g) (run_key (rq_run_id (tk_req t))) = Some r"
      "r_status r = RCancelled"
    using check2_run by blast
  have reach: "sys_reach 1 900 (start_sys cancelled_mgr) (solo t g)"
    by (rule solo_run [OF empty_start(3) run])
  obtain t' g' where fin: "task_run 1 900 (replicate 5 (ok_reply, (''e'', 9), (\<lambda>g. g))) t g = (t', g')"
    by fastforce
  have "rp_raise ok_reply = None" by (simp add: ok_reply_def)
  with cancelled_before_ready_is_not_torn_down [OF reach empty_start(4), of t r ok_reply "(''e'', 9)" t' g'] t fin
  have "g_teardowns g' = g_teardowns g" by (simp add: solo_def)
  with reach t(1) fin show ?thesis by (intro exI [of _ "solo t g"] exI [of _ t] exI [of _ t'] exI [of _ g']) (simp add: solo_def)
qed

end
