(* ===== verification/Rvp_Json.thy ===== *)
theory Rvp_Json
  imports Rvp_Regex
begin

text \<open>
  Reading JSON values the way Python does (\<open>obj[key]\<close>, \<open>len\<close>, comparisons, negative indices, slices
  of a \<open>str\<close> by character) and JSON text: \<open>json.loads\<close> and \<open>json.dumps\<close> with the default arguments.
  Fractional numerals are outside the model, as in \<open>Rvp_Prelude\<close>.
\<close>

text \<open>\<open>s.splitlines()\<close>, over the characters.\<close>

fun lines_of :: "string list \<Rightarrow> string \<Rightarrow> string list" where
  "lines_of [] cur = (if cur = [] then [] else [cur])"
| "lines_of (c # cs) cur =
     (if c = [CHR 0x0D] \<and> cs \<noteq> [] \<and> hd cs = nl then cur # lines_of (tl cs) []
      else if c \<in> {[CHR 0x0A], [CHR 0x0B], [CHR 0x0C], [CHR 0x0D], [CHR 0x1C], [CHR 0x1D], [CHR 0x1E],
                   [CHR 0xC2, CHR 0x85], [CHR 0xE2, CHR 0x80, CHR 0xA8], [CHR 0xE2, CHR 0x80, CHR 0xA9]}
      then cur # lines_of cs []
      else lines_of cs (cur @ c))"

definition splitlines :: "string \<Rightarrow> string list" where
  "splitlines s = lines_of (chars_of s) []"

section \<open>Subscripts, lengths and comparisons\<close>

definition py_index :: "'a list \<Rightarrow> int \<Rightarrow> 'a res" where
  "py_index xs i =
     (let j = (if i < 0 then i + int (length xs) else i)
      in if 0 \<le> j \<and> j < int (length xs) then Inr (xs ! nat j) else Inl IndexError)"

fun py_num :: "json \<Rightarrow> int res" where
  \<comment> \<open>the operand of \<open><\<close>, \<open><=\<close> against a number\<close>
  "py_num (JInt n) = Inr n"
| "py_num (JBool b) = Inr (of_bool b)"
| "py_num _ = Inl TypeError"

text \<open>\<open>obj[key]\<close>.\<close>

definition py_item :: "json \<Rightarrow> json \<Rightarrow> json res" where
  "py_item obj key =
     (case obj of
        JObj d \<Rightarrow> (case key of JStr k \<Rightarrow> (case map_of d k of None \<Rightarrow> Inl KeyError | Some v \<Rightarrow> Inr v)
                    | JArr _ \<Rightarrow> Inl TypeError | JObj _ \<Rightarrow> Inl TypeError | _ \<Rightarrow> Inl KeyError)
      | JArr xs \<Rightarrow> res_bind (py_num key) (py_index xs)
      | JStr s \<Rightarrow> res_bind (py_num key) (\<lambda>i. res_bind (py_index (chars_of s) i) (\<lambda>c. Inr (JStr c)))
      | _ \<Rightarrow> Inl TypeError)"

fun py_len :: "json \<Rightarrow> nat res" where
  "py_len (JArr xs) = Inr (length xs)"
| "py_len (JObj d) = Inr (length d)"
| "py_len (JStr s) = Inr (str_len s)"
| "py_len _ = Inl TypeError"

text \<open>Iterating over a value: a list's items, a dict's keys, a string's characters.\<close>

fun py_iter :: "json \<Rightarrow> json list res" where
  "py_iter (JArr xs) = Inr xs"
| "py_iter (JObj d) = Inr (map (JStr \<circ> fst) d)"
| "py_iter (JStr s) = Inr (map JStr (chars_of s))"
| "py_iter _ = Inl TypeError"

text \<open>\<open>needle in s\<close> for a string \<open>s\<close>.\<close>

definition in_str :: "json \<Rightarrow> string \<Rightarrow> bool res" where
  "in_str needle s = (case needle of JStr k \<Rightarrow> Inr (contains k s) | _ \<Rightarrow> Inl TypeError)"

text \<open>\<open>v in coll\<close> for any two values.\<close>

definition py_in :: "json \<Rightarrow> json \<Rightarrow> bool res" where
  "py_in v coll =
     (case coll of
        JStr s \<Rightarrow> in_str v s
      | JArr xs \<Rightarrow> Inr (\<exists>x\<in>set xs. py_eq v x)
      | JObj d \<Rightarrow> (case v of JStr k \<Rightarrow> Inr (has_key d k) | JArr _ \<Rightarrow> Inl TypeError
                    | JObj _ \<Rightarrow> Inl TypeError | _ \<Rightarrow> Inr False)
      | _ \<Rightarrow> Inl TypeError)"

text \<open>The exceptions inside a list comprehension.\<close>

fun res_map :: "('a \<Rightarrow> 'b res) \<Rightarrow> 'a list \<Rightarrow> 'b list res" where
  "res_map f [] = Inr []"
| "res_map f (x # xs) = res_bind (f x) (\<lambda>y. res_bind (res_map f xs) (\<lambda>ys. Inr (y # ys)))"

definition res_filter :: "('a \<Rightarrow> bool res) \<Rightarrow> 'a list \<Rightarrow> 'a list res" where
  "res_filter f xs =
     res_bind (res_map (\<lambda>x. res_bind (f x) (\<lambda>b. Inr (b, x))) xs) (\<lambda>ys. Inr (map snd (filter fst ys)))"

text \<open>Short-circuit \<open>and\<close>, \<open>or\<close> over operands that may raise.\<close>

definition res_or :: "bool res \<Rightarrow> bool res \<Rightarrow> bool res" where
  "res_or a b = res_bind a (\<lambda>x. if x then Inr True else b)"

definition res_and :: "bool res \<Rightarrow> bool res \<Rightarrow> bool res" where
  "res_and a b = res_bind a (\<lambda>x. if x then b else Inr False)"

section \<open>\<open>json.dumps\<close>\<close>

text \<open>The code point of a character, and the UTF-8 bytes of a code point.\<close>

fun code_point :: "string \<Rightarrow> nat" where
  "code_point [a] = ord a"
| "code_point [a, b] = (ord a - 192) * 64 + (ord b - 128)"
| "code_point [a, b, c] = (ord a - 224) * 4096 + (ord b - 128) * 64 + (ord c - 128)"
| "code_point [a, b, c, d] =
     (ord a - 240) * 262144 + (ord b - 128) * 4096 + (ord c - 128) * 64 + (ord d - 128)"
| "code_point _ = 0"

definition utf8_of :: "nat \<Rightarrow> string" where
  "utf8_of n =
     (if n < 128 then [char_of n]
      else if n < 2048 then [char_of (192 + n div 64), char_of (128 + n mod 64)]
      else if n < 65536
      then [char_of (224 + n div 4096), char_of (128 + n div 64 mod 64), char_of (128 + n mod 64)]
      else [char_of (240 + n div 262144), char_of (128 + n div 4096 mod 64),
            char_of (128 + n div 64 mod 64), char_of (128 + n mod 64)])"

definition backslash :: char where "backslash = CHR 0x5C"
definition dquote :: char where "dquote = CHR 0x22"

definition hex4 :: "nat \<Rightarrow> string" where
  "hex4 n = [digit_char (n div 4096 mod 16), digit_char (n div 256 mod 16),
             digit_char (n div 16 mod 16), digit_char (n mod 16)]"

definition u_escape :: "nat \<Rightarrow> string" where
  "u_escape n = [backslash, CHR ''u''] @ hex4 n"

definition escape_code :: "nat \<Rightarrow> string" where
  "escape_code n =
     (if n = 34 then [backslash, dquote]
      else if n = 92 then [backslash, backslash]
      else if n = 10 then [backslash, CHR ''n'']
      else if n = 13 then [backslash, CHR ''r'']
      else if n = 9 then [backslash, CHR ''t'']
      else if n = 12 then [backslash, CHR ''f'']
      else if n = 8 then [backslash, CHR ''b'']
      else if 32 \<le> n \<and> n < 127 then [char_of n]
      else if n < 65536 then u_escape n
      else u_escape (55296 + (n - 65536) div 1024) @ u_escape (56320 + (n - 65536) mod 1024))"

definition dump_str :: "string \<Rightarrow> string" where
  "dump_str s = [dquote] @ concat (map (escape_code \<circ> code_point) (chars_of s)) @ [dquote]"

fun json_dumps :: "json \<Rightarrow> string" where
  "json_dumps JNull = ''null''"
| "json_dumps (JBool b) = (if b then ''true'' else ''false'')"
| "json_dumps (JInt n) = int_str n"
| "json_dumps (JStr s) = dump_str s"
| "json_dumps (JArr xs) = ''['' @ join '', '' (map json_dumps xs) @ '']''"
| "json_dumps (JObj d) = ''{'' @ join '', '' (map (\<lambda>(k, v). dump_str k @ '': '' @ json_dumps v) d) @ ''}''"

section \<open>\<open>json.loads\<close>\<close>

definition is_ws :: "char \<Rightarrow> bool" where
  "is_ws c = (c = CHR '' '' \<or> c = CHR 0x09 \<or> c = CHR 0x0A \<or> c = CHR 0x0D)"

definition skip_ws :: "string \<Rightarrow> string" where "skip_ws = dropWhile is_ws"

definition read_hex4 :: "string \<Rightarrow> nat option" where
  "read_hex4 s = (if length s < 4 then None else hex_nat 0 (take 4 s))"

text \<open>The code unit after \<open>\u\<close>, joined with a low surrogate that follows, and how many bytes it takes.\<close>

definition read_unicode :: "string \<Rightarrow> (nat \<times> nat) option" where
  "read_unicode s =
     (case read_hex4 s of
        None \<Rightarrow> None
      | Some n \<Rightarrow>
          (let r = drop 4 s in
           if 55296 \<le> n \<and> n < 56320 \<and> take 2 r = [backslash, CHR ''u'']
           then (case read_hex4 (drop 2 r) of
                   None \<Rightarrow> None
                 | Some m \<Rightarrow> if 56320 \<le> m \<and> m < 57344
                             then Some (65536 + (n - 55296) * 1024 + (m - 56320), 10) else Some (n, 4))
           else Some (n, 4)))"

definition simple_escape :: "char \<Rightarrow> char option" where
  "simple_escape c =
     (if c = dquote \<or> c = backslash \<or> c = CHR ''/'' then Some c
      else if c = CHR ''b'' then Some (CHR 0x08)
      else if c = CHR ''f'' then Some (CHR 0x0C)
      else if c = CHR ''n'' then Some (CHR 0x0A)
      else if c = CHR ''r'' then Some (CHR 0x0D)
      else if c = CHR ''t'' then Some (CHR 0x09)
      else None)"

text \<open>The rest of a string literal after its opening quote.\<close>

function scan_str :: "string \<Rightarrow> (string \<times> string) option" where
  "scan_str [] = None"
| "scan_str (c # cs) =
     (if c = dquote then Some ([], cs)
      else if c = backslash then
        (case cs of
           [] \<Rightarrow> None
         | e # r \<Rightarrow>
             if e = CHR ''u''
             then (case read_unicode r of
                     None \<Rightarrow> None
                   | Some (n, k) \<Rightarrow> map_option (\<lambda>(t, r'). (utf8_of n @ t, r')) (scan_str (drop k r)))
             else (case simple_escape e of
                     None \<Rightarrow> None
                   | Some x \<Rightarrow> map_option (\<lambda>(t, r'). (x # t, r')) (scan_str r)))
      else if ord c < 32 then None
      else map_option (\<lambda>(t, r'). (c # t, r')) (scan_str cs))"
  by pat_completeness auto
termination by (relation "measure length") auto

definition scan_num :: "string \<Rightarrow> (int \<times> string) option" where
  "scan_num s =
     (let neg = startswith s ''-''; t = (if neg then tl s else s);
          ds = takeWhile is_digit t; r = dropWhile is_digit t;
          mk = (\<lambda>d. case digits_val 0 False d of
                      None \<Rightarrow> None | Some n \<Rightarrow> Some (if neg then - int n else int n))
      in if ds = [] then None
         else if hd ds = CHR ''0'' then Some (0, tl t)
         else map_option (\<lambda>n. (n, r)) (mk ds))"

text \<open>The fuel bounds the nesting; the length of the text is enough.\<close>

fun jval :: "nat \<Rightarrow> string \<Rightarrow> (json \<times> string) option"
  and jarr :: "nat \<Rightarrow> string \<Rightarrow> (json list \<times> string) option"
  and jobj :: "nat \<Rightarrow> string \<Rightarrow> (dict \<times> string) option" where
  "jval 0 s = None"
| "jval (Suc n) s =
     (if s = [] then None
      else if hd s = dquote then map_option (\<lambda>(t, r). (JStr t, r)) (scan_str (tl s))
      else if hd s = CHR ''{'' then
        (let r = skip_ws (tl s) in
         if startswith r ''}'' then Some (JObj [], tl r)
         else map_option (\<lambda>(d, r'). (JObj (foldl (\<lambda>d (k, v). set_key d k v) [] d), r')) (jobj n r))
      else if hd s = CHR ''['' then
        (let r = skip_ws (tl s) in
         if startswith r '']'' then Some (JArr [], tl r)
         else map_option (\<lambda>(xs, r'). (JArr xs, r')) (jarr n r))
      else if startswith s ''null'' then Some (JNull, drop 4 s)
      else if startswith s ''true'' then Some (JBool True, drop 4 s)
      else if startswith s ''false'' then Some (JBool False, drop 5 s)
      else map_option (\<lambda>(i, r). (JInt i, r)) (scan_num s))"
| "jarr 0 s = None"
| "jarr (Suc n) s =
     (case jval n s of
        None \<Rightarrow> None
      | Some (v, r) \<Rightarrow>
          (let r' = skip_ws r in
           if startswith r' '']'' then Some ([v], tl r')
           else if startswith r' '',''
           then map_option (\<lambda>(vs, r2). (v # vs, r2)) (jarr n (skip_ws (tl r')))
           else None))"
| "jobj 0 s = None"
| "jobj (Suc n) s =
     (if \<not> startswith s [dquote] then None
      else (case scan_str (tl s) of
              None \<Rightarrow> None
            | Some (k, r) \<Rightarrow>
                (let r' = skip_ws r in
                 if \<not> startswith r' '':'' then None
                 else (case jval n (skip_ws (tl r')) of
                         None \<Rightarrow> None
                       | Some (v, r2) \<Rightarrow>
                           (let r3 = skip_ws r2 in
                            if startswith r3 ''}'' then Some ([(k, v)], tl r3)
                            else if startswith r3 '',''
                            then map_option (\<lambda>(kvs, r4). ((k, v) # kvs, r4)) (jobj n (skip_ws (tl r3)))
                            else None)))))"

definition json_loads :: "string \<Rightarrow> json res" where
  "json_loads s =
     (case jval (2 * length s + 2) (skip_ws s) of
        Some (v, r) \<Rightarrow> if skip_ws r = [] then Inr v else Inl ValueError
      | None \<Rightarrow> Inl ValueError)"

end
