(* ===== verification/Rvp_World.thy ===== *)
theory Rvp_World
  imports Rvp_Json
begin

text \<open>
  The outside world of the test runner and the agent tools, as an effect monad: a computation asks the
  world to perform an effect (an HTTP request, a process, a read of container logs, a sleep) and gets
  an answer that may depend on everything that happened before.  Time is a millisecond clock that
  every effect advances.

  \<open>env\<close> is the world: the answer to an effect and the time it takes, given the effects so far (newest
  first).  A computation may be run under \<open>asyncio.timeout\<close>: an awaited effect that would end after
  the deadline is cancelled at the deadline, and the cancellation passes every \<open>except Exception\<close>.
  The result None of a computation means that it does not return.
\<close>

section \<open>Effects and answers\<close>

datatype effect =
    Http string string json          \<comment> \<open>method, URL, JSON body (or text as JStr, JNull for none)\<close>
  | HttpMany nat string string json  \<comment> \<open>\<open>asyncio.gather\<close> of equal requests\<close>
  | Proc "string list" int           \<comment> \<open>\<open>subprocess.run(argv, timeout=s)\<close>\<close>
  | Logs string int                  \<comment> \<open>last lines of a container's log\<close>
  | Sleep int                        \<comment> \<open>milliseconds\<close>
  | Docker string "string list"      \<comment> \<open>a call of the Docker API: ps, rm, run, wait, logs, restart\<close>

record http_reply =
  h_status :: int
  h_json :: "json res"    \<comment> \<open>what \<open>resp.json()\<close> gives or raises\<close>
  h_text :: string

datatype answer =
    Fails exc
  | Replied http_reply
  | RepliedMany "nat \<Rightarrow> http_reply res"   \<comment> \<open>the reply to, or exception of, the i-th request\<close>
  | Exited int string string         \<comment> \<open>return code, stdout, stderr\<close>
  | LogBytes string
  | Found "string list"              \<comment> \<open>identifiers of containers\<close>

type_synonym env = "effect list \<Rightarrow> effect \<Rightarrow> answer \<times> nat"

record world =
  w_clock :: int
  w_deadline :: "int option"
  w_trace :: "effect list"

datatype 'a outcome = Ok 'a | Err exc | Cancelled

type_synonym 'a io = "env \<Rightarrow> world \<Rightarrow> ('a outcome \<times> world) option"

section \<open>The monad\<close>

definition io_return :: "'a \<Rightarrow> 'a io" where
  "io_return x = (\<lambda>env w. Some (Ok x, w))"

definition io_raise :: "exc \<Rightarrow> 'a io" where
  "io_raise e = (\<lambda>env w. Some (Err e, w))"

definition io_bind :: "'a io \<Rightarrow> ('a \<Rightarrow> 'b io) \<Rightarrow> 'b io" where
  "io_bind m f = (\<lambda>env w.
     case m env w of
       None \<Rightarrow> None
     | Some (r, w') \<Rightarrow> (case r of Ok x \<Rightarrow> f x env w' | Err e \<Rightarrow> Some (Err e, w') | Cancelled \<Rightarrow> Some (Cancelled, w')))"

text \<open>\<open>try: m except Exception as e: h e\<close>.\<close>

definition io_catch :: "'a io \<Rightarrow> (exc \<Rightarrow> 'a io) \<Rightarrow> 'a io" where
  "io_catch m h = (\<lambda>env w.
     case m env w of
       None \<Rightarrow> None
     | Some (r, w') \<Rightarrow> (case r of Ok x \<Rightarrow> Some (Ok x, w') | Err e \<Rightarrow> h e env w' | Cancelled \<Rightarrow> Some (Cancelled, w')))"

definition io_lift :: "'a res \<Rightarrow> 'a io" where
  "io_lift r = (case r of Inl e \<Rightarrow> io_raise e | Inr x \<Rightarrow> io_return x)"

definition io_now :: "int io" where
  "io_now = (\<lambda>env w. Some (Ok (w_clock w), w))"

text \<open>An effect that blocks the thread: the deadline is not noticed.\<close>

definition perform_blocking :: "effect \<Rightarrow> answer io" where
  "perform_blocking e = (\<lambda>env w.
     let (a, d) = env (w_trace w) e
     in Some (Ok a, w\<lparr>w_clock := w_clock w + int d, w_trace := e # w_trace w\<rparr>))"

text \<open>Reaching an await at the clock \<open>c\<close> of its completion.\<close>

definition await_until :: "'a \<Rightarrow> int \<Rightarrow> world \<Rightarrow> world \<Rightarrow> 'a outcome \<times> world" where
  "await_until x c w w' =
     (case w_deadline w of
        None \<Rightarrow> (Ok x, w'\<lparr>w_clock := c\<rparr>)
      | Some dl \<Rightarrow> if c \<le> dl then (Ok x, w'\<lparr>w_clock := c\<rparr>)
                   else (Cancelled, w'\<lparr>w_clock := max (w_clock w) dl\<rparr>))"

definition perform :: "effect \<Rightarrow> answer io" where
  "perform e = (\<lambda>env w.
     let (a, d) = env (w_trace w) e
     in Some (await_until a (w_clock w + int d) w (w\<lparr>w_trace := e # w_trace w\<rparr>)))"

text \<open>A sleep takes at least its time; \<open>asyncio.sleep\<close> of a negative number returns at once.\<close>

definition sleep_time :: "int \<Rightarrow> nat \<Rightarrow> int" where
  "sleep_time ms d = max 0 ms + int d"

definition io_sleep :: "int \<Rightarrow> unit io" where
  "io_sleep ms = (\<lambda>env w.
     let (a, d) = env (w_trace w) (Sleep ms)
     in Some (await_until () (w_clock w + sleep_time ms d) w (w\<lparr>w_trace := Sleep ms # w_trace w\<rparr>)))"

text \<open>\<open>time.sleep\<close> raises on a negative number.\<close>

definition io_sleep_blocking :: "int \<Rightarrow> unit io" where
  "io_sleep_blocking ms = (\<lambda>env w.
     if ms < 0 then Some (Err ValueError, w)
     else (let (a, d) = env (w_trace w) (Sleep ms)
           in Some (Ok (), w\<lparr>w_clock := w_clock w + sleep_time ms d, w_trace := Sleep ms # w_trace w\<rparr>)))"

text \<open>\<open>await loop.run_in_executor(None, m)\<close>: the thread runs to its end without a deadline of its own.\<close>

definition in_thread :: "'a io \<Rightarrow> 'a io" where
  "in_thread m = (\<lambda>env w.
     case m env (w\<lparr>w_deadline := None\<rparr>) of
       None \<Rightarrow> None
     | Some (r, w') \<Rightarrow>
         (case await_until r (w_clock w') w (w'\<lparr>w_deadline := w_deadline w\<rparr>) of
            (Ok r', w2) \<Rightarrow> Some (r', w2)
          | (_, w2) \<Rightarrow> Some (Cancelled, w2)))"

lemmas io_defs = io_return_def io_raise_def io_bind_def io_catch_def io_lift_def io_now_def

section \<open>The calls of the code\<close>

text \<open>
  An answer of a kind that the effect cannot have is no behaviour of the world; it reads as a failure.
\<close>

definition OtherError :: exc where "OtherError = Exc KOtherError ''Exception''"

fun reply_of :: "answer \<Rightarrow> http_reply res" where
  "reply_of (Replied r) = Inr r"
| "reply_of (Fails e) = Inl e"
| "reply_of _ = Inl OtherError"

fun replies_of :: "nat \<Rightarrow> answer \<Rightarrow> http_reply res list" where
  "replies_of n (RepliedMany f) = map f [0..<n]"
| "replies_of n (Fails e) = replicate n (Inl e)"
| "replies_of n _ = replicate n (Inl OtherError)"

fun exit_of :: "answer \<Rightarrow> (int \<times> string \<times> string) res" where
  "exit_of (Exited rc out err) = Inr (rc, out, err)"
| "exit_of (Fails e) = Inl e"
| "exit_of _ = Inl OtherError"

fun log_of :: "answer \<Rightarrow> string res" where
  "log_of (LogBytes b) = Inr b"
| "log_of (Fails e) = Inl e"
| "log_of _ = Inl OtherError"

fun found_of :: "answer \<Rightarrow> string list res" where
  "found_of (Found ids) = Inr ids"
| "found_of (Fails e) = Inl e"
| "found_of _ = Inl OtherError"

text \<open>A call whose answer is not used, apart from its failure.\<close>

fun done_of :: "answer \<Rightarrow> unit res" where
  "done_of (Fails e) = Inl e"
| "done_of _ = Inr ()"

text \<open>
  \<open>await client.get(url)\<close>, \<open>await client.post(url, \<dots>)\<close>: the client's own time limit is part of the
  world's answer.  \<open>asyncio.gather\<close> of equal requests with \<open>return_exceptions=True\<close>.
\<close>

definition http_get :: "string \<Rightarrow> http_reply io" where
  "http_get url = io_bind (perform (Http ''GET'' url JNull)) (\<lambda>a. io_lift (reply_of a))"

definition http_post :: "string \<Rightarrow> json \<Rightarrow> http_reply io" where
  "http_post url body = io_bind (perform (Http ''POST'' url body)) (\<lambda>a. io_lift (reply_of a))"

definition http_many :: "nat \<Rightarrow> string \<Rightarrow> string \<Rightarrow> json \<Rightarrow> http_reply res list io" where
  "http_many n meth url body = io_bind (perform (HttpMany n meth url body)) (\<lambda>a. io_return (replies_of n a))"

text \<open>\<open>resp.raise_for_status()\<close> raises for every status outside 200 to 299.\<close>

definition raise_for_status :: "http_reply \<Rightarrow> unit io" where
  "raise_for_status r =
     (if 200 \<le> h_status r \<and> h_status r < 300 then io_return ()
      else io_raise (Exc KHTTPStatusError ''HTTPStatusError''))"

definition resp_json :: "http_reply \<Rightarrow> json io" where
  "resp_json r = io_lift (h_json r)"

text \<open>
  \<open>subprocess.run(argv, capture_output=True, timeout=s)\<close> and reading a container's log block the
  thread they run in.
\<close>

definition run_proc :: "string list \<Rightarrow> int \<Rightarrow> (int \<times> string \<times> string) io" where
  "run_proc argv s = io_bind (perform_blocking (Proc argv s)) (\<lambda>a. io_lift (exit_of a))"

definition container_logs :: "string \<Rightarrow> int \<Rightarrow> string io" where
  "container_logs c n = io_bind (perform_blocking (Logs c n)) (\<lambda>a. io_lift (log_of a))"

text \<open>The Docker client of Python, called from a worker thread.\<close>

definition docker :: "string \<Rightarrow> string list \<Rightarrow> answer io" where
  "docker op args = perform_blocking (Docker op args)"

section \<open>Polling loops\<close>

text \<open>
  \<open>while time.monotonic() < deadline: body\<close>, where one round (with its sleep) either continues with
  a new state or returns a result.
\<close>

partial_function (option) io_while ::
  "('s \<Rightarrow> bool) \<Rightarrow> int \<Rightarrow> ('s \<Rightarrow> ('s + 'r) io) \<Rightarrow> 's \<Rightarrow> env \<Rightarrow> world \<Rightarrow> (('s + 'r) outcome \<times> world) option"
  where
  "io_while ever deadline body s env w =
     (if \<not> ever s \<and> deadline \<le> w_clock w then Some (Ok (Inl s), w)
      else Option.bind (body s env w) (\<lambda>(r, w').
        case r of
          Ok (Inl s') \<Rightarrow> io_while ever deadline body s' env w'
        | Ok (Inr x) \<Rightarrow> Some (Ok (Inr x), w')
        | Err e \<Rightarrow> Some (Err e, w')
        | Cancelled \<Rightarrow> Some (Cancelled, w')))"

section \<open>Well-behaved computations\<close>

text \<open>
  \<open>returns m\<close>: from every state of every world the computation returns, the clock does not go back
  and the deadline is as before.  \<open>timely m\<close>: started by the deadline, it is over by the deadline.
\<close>

definition returns :: "'a io \<Rightarrow> bool" where
  "returns m = (\<forall>env w. \<exists>r w'. m env w = Some (r, w') \<and> w_clock w \<le> w_clock w' \<and> w_deadline w' = w_deadline w)"

definition timely :: "'a io \<Rightarrow> bool" where
  "timely m = (\<forall>env w r w' dl. m env w = Some (r, w') \<longrightarrow> w_deadline w = Some dl \<longrightarrow> w_clock w \<le> dl
                 \<longrightarrow> w_deadline w' = Some dl \<and> w_clock w' \<le> dl)"

named_theorems io_returns \<open>introduction rules of \<open>returns\<close>\<close>
named_theorems io_timely \<open>introduction rules of \<open>timely\<close>\<close>

lemma returnsE:
  assumes "returns m"
  obtains r w' where "m env w = Some (r, w')" "w_clock w \<le> w_clock w'" "w_deadline w' = w_deadline w"
  using assms unfolding returns_def by blast

lemma timelyD:
  "timely m \<Longrightarrow> m env w = Some (r, w') \<Longrightarrow> w_deadline w = Some dl \<Longrightarrow> w_clock w \<le> dl
     \<Longrightarrow> w_deadline w' = Some dl \<and> w_clock w' \<le> dl"
  unfolding timely_def by blast

lemma returns_basic [io_returns]:
  "returns (io_return x)" "returns (io_raise e)" "returns (io_lift r)" "returns io_now"
  by (simp_all add: returns_def io_defs split: sum.splits)

lemma timely_basic [io_timely]:
  "timely (io_return x)" "timely (io_raise e)" "timely (io_lift r)" "timely io_now"
  by (auto simp: timely_def io_defs split: sum.splits)

lemma returns_bind [io_returns]:
  assumes m: "returns m" and f: "\<And>x. returns (f x)"
  shows "returns (io_bind m f)"
  unfolding returns_def
proof (intro allI)
  fix env w
  obtain r w' where 1: "m env w = Some (r, w')" "w_clock w \<le> w_clock w'" "w_deadline w' = w_deadline w"
    using m by (rule returnsE)
  show "\<exists>r w'. io_bind m f env w = Some (r, w') \<and> w_clock w \<le> w_clock w' \<and> w_deadline w' = w_deadline w"
  proof (cases r)
    case (Ok x)
    obtain r2 w2 where "f x env w' = Some (r2, w2)" "w_clock w' \<le> w_clock w2" "w_deadline w2 = w_deadline w'"
      using f by (rule returnsE)
    with 1 Ok show ?thesis by (simp add: io_bind_def)
  qed (use 1 in \<open>simp_all add: io_bind_def\<close>)
qed

lemma timely_bind [io_timely]:
  assumes m: "timely m" and f: "\<And>x. timely (f x)"
  shows "timely (io_bind m f)"
  unfolding timely_def
proof (intro allI impI)
  fix env w r w' dl
  assume b: "io_bind m f env w = Some (r, w')" and w: "w_deadline w = Some dl" "w_clock w \<le> dl"
  then obtain r1 w1 where 1: "m env w = Some (r1, w1)" by (auto simp: io_bind_def split: option.splits)
  note w1 = timelyD [OF m 1 w]
  show "w_deadline w' = Some dl \<and> w_clock w' \<le> dl"
  proof (cases r1)
    case (Ok x)
    with 1 b have "f x env w1 = Some (r, w')" by (simp add: io_bind_def)
    then show ?thesis using timelyD [OF f] w1 by blast
  qed (use 1 b w1 in \<open>auto simp: io_bind_def\<close>)
qed

lemma returns_catch [io_returns]:
  assumes m: "returns m" and h: "\<And>e. returns (h e)"
  shows "returns (io_catch m h)"
  unfolding returns_def
proof (intro allI)
  fix env w
  obtain r w' where 1: "m env w = Some (r, w')" "w_clock w \<le> w_clock w'" "w_deadline w' = w_deadline w"
    using m by (rule returnsE)
  show "\<exists>r w'. io_catch m h env w = Some (r, w') \<and> w_clock w \<le> w_clock w' \<and> w_deadline w' = w_deadline w"
  proof (cases r)
    case (Err e)
    obtain r2 w2 where "h e env w' = Some (r2, w2)" "w_clock w' \<le> w_clock w2" "w_deadline w2 = w_deadline w'"
      using h by (rule returnsE)
    with 1 Err show ?thesis by (simp add: io_catch_def)
  qed (use 1 in \<open>simp_all add: io_catch_def\<close>)
qed

lemma timely_catch [io_timely]:
  assumes m: "timely m" and h: "\<And>e. timely (h e)"
  shows "timely (io_catch m h)"
  unfolding timely_def
proof (intro allI impI)
  fix env w r w' dl
  assume b: "io_catch m h env w = Some (r, w')" and w: "w_deadline w = Some dl" "w_clock w \<le> dl"
  then obtain r1 w1 where 1: "m env w = Some (r1, w1)" by (auto simp: io_catch_def split: option.splits)
  note w1 = timelyD [OF m 1 w]
  show "w_deadline w' = Some dl \<and> w_clock w' \<le> dl"
  proof (cases r1)
    case (Err e)
    with 1 b have "h e env w1 = Some (r, w')" by (simp add: io_catch_def)
    then show ?thesis using timelyD [OF h] w1 by blast
  qed (use 1 b w1 in \<open>auto simp: io_catch_def\<close>)
qed

lemma await_until_mono:
  "await_until x c w w2 = (r, w') \<Longrightarrow> w_deadline w2 = w_deadline w \<Longrightarrow> w_clock w \<le> c
     \<Longrightarrow> w_clock w \<le> w_clock w' \<and> w_deadline w' = w_deadline w"
  by (auto simp: await_until_def split: option.splits if_splits)

lemma await_until_timely:
  "await_until x c w w2 = (r, w') \<Longrightarrow> w_deadline w2 = w_deadline w \<Longrightarrow> w_deadline w = Some dl
     \<Longrightarrow> w_clock w \<le> dl \<Longrightarrow> w_deadline w' = Some dl \<and> w_clock w' \<le> dl"
  by (auto simp: await_until_def split: option.splits if_splits)

lemma returns_effects [io_returns]:
  "returns (perform e)" "returns (perform_blocking e)" "returns (io_sleep ms)" "returns (io_sleep_blocking ms)"
  by (auto simp: returns_def perform_def perform_blocking_def io_sleep_def io_sleep_blocking_def
        await_until_def sleep_time_def split: option.splits prod.splits)

lemma timely_effects [io_timely]: "timely (perform e)" "timely (io_sleep ms)"
  by (auto simp: timely_def perform_def io_sleep_def split: prod.splits
        dest!: await_until_timely)

lemma returns_thread [io_returns]:
  assumes m: "returns m"
  shows "returns (in_thread m)"
  unfolding returns_def
proof (intro allI)
  fix env w
  obtain r w' where "m env (w\<lparr>w_deadline := None\<rparr>) = Some (r, w')"
      "w_clock (w\<lparr>w_deadline := None\<rparr>) \<le> w_clock w'"
    using m by (rule returnsE)
  then show "\<exists>r w'. in_thread m env w = Some (r, w') \<and> w_clock w \<le> w_clock w' \<and> w_deadline w' = w_deadline w"
    by (auto simp: in_thread_def await_until_def split: option.splits if_splits outcome.splits prod.splits)
qed

text \<open>A thread is timely whatever it does: the event loop cancels the await.\<close>

lemma timely_thread [io_timely]: "timely (in_thread m)"
  by (auto simp: timely_def in_thread_def await_until_def split: option.splits if_splits outcome.splits)

section \<open>Polling loops return\<close>

text \<open>
  \<open>advances m\<close>: a round that goes on has taken time; \<open>starts_by dl m\<close>: a round that goes on started before
  the deadline.
\<close>

definition advances :: "('s + 'r) io \<Rightarrow> bool" where
  "advances m = (\<forall>env w s w'. m env w = Some (Ok (Inl s), w') \<longrightarrow> w_clock w < w_clock w')"

definition starts_by :: "int \<Rightarrow> ('s + 'r) io \<Rightarrow> bool" where
  "starts_by dl m = (\<forall>env w s w'. m env w = Some (Ok (Inl s), w') \<longrightarrow> w_clock w < dl)"

named_theorems io_advances \<open>introduction rules of \<open>advances\<close> and \<open>starts_by\<close>\<close>

lemma bind_Ok:
  "io_bind m f env w = Some (Ok y, w2) \<longleftrightarrow> (\<exists>x w1. m env w = Some (Ok x, w1) \<and> f x env w1 = Some (Ok y, w2))"
  by (auto simp: io_bind_def split: option.splits outcome.splits)

lemma returns_mono: "returns m \<Longrightarrow> m env w = Some (r, w') \<Longrightarrow> w_clock w \<le> w_clock w'"
  by (metis Pair_inject option.inject returnsE)

lemma advances_done [io_advances]: "advances (io_return (Inr x))" "starts_by dl (io_return (Inr x))"
  by (simp_all add: advances_def starts_by_def io_return_def)

lemma advances_last [io_advances]:
  "advances (io_bind m (\<lambda>x. io_return (Inr (f x))))" "starts_by dl (io_bind m (\<lambda>x. io_return (Inr (f x))))"
  by (auto simp: advances_def starts_by_def bind_Ok io_return_def)

lemma advances_bind [io_advances]:
  assumes m: "returns m" and f: "\<And>x. advances (f x)"
  shows "advances (io_bind m f)"
  unfolding advances_def
proof (intro allI impI)
  fix env w s w'
  assume "io_bind m f env w = Some (Ok (Inl s), w')"
  then obtain x w1 where "m env w = Some (Ok x, w1)" "f x env w1 = Some (Ok (Inl s), w')"
    by (auto simp: bind_Ok)
  then show "w_clock w < w_clock w'"
    using returns_mono [OF m] f unfolding advances_def by fastforce
qed

lemma starts_by_bind [io_advances]:
  assumes m: "returns m" and f: "\<And>x. starts_by dl (f x)"
  shows "starts_by dl (io_bind m f)"
  unfolding starts_by_def
proof (intro allI impI)
  fix env w s w'
  assume "io_bind m f env w = Some (Ok (Inl s), w')"
  then obtain x w1 where "m env w = Some (Ok x, w1)" "f x env w1 = Some (Ok (Inl s), w')"
    by (auto simp: bind_Ok)
  then show "w_clock w < dl"
    using returns_mono [OF m] f unfolding starts_by_def by fastforce
qed

lemma advances_sleep [io_advances]:
  assumes "0 < ms" and "\<And>x. returns (f x)"
  shows "advances (io_bind (io_sleep ms) f)" "advances (io_bind (io_sleep_blocking ms) f)"
proof -
  have "m env w = Some (Ok x, w1) \<Longrightarrow> w_clock w < w_clock w1"
    if "m = io_sleep ms \<or> m = io_sleep_blocking ms" for m :: "unit io" and x env w w1
    using that assms(1)
    by (auto simp: io_sleep_def io_sleep_blocking_def await_until_def sleep_time_def
          split: prod.splits option.splits if_splits)
  then show "advances (io_bind (io_sleep ms) f)" "advances (io_bind (io_sleep_blocking ms) f)"
    using returns_mono [OF assms(2)] unfolding advances_def bind_Ok by fastforce+
qed

lemma starts_by_check [io_advances]:
  "starts_by dl (io_bind io_now (\<lambda>t. if P t \<or> dl \<le> t then io_return (Inr (x t)) else m t))"
  by (auto simp: starts_by_def bind_Ok io_now_def io_return_def split: if_splits)

lemma while_returns_bounded:
  assumes body: "\<And>s. returns (body s)" "\<And>s. advances (body s)"
    and bound: "\<And>s. ever s \<Longrightarrow> starts_by deadline (body s)"
  shows "returns (io_while ever deadline body s)"
proof -
  have "\<exists>r w'. io_while ever deadline body s env w = Some (r, w') \<and> w_clock w \<le> w_clock w'
          \<and> w_deadline w' = w_deadline w" for env w
  proof (induction "nat (deadline - w_clock w)" arbitrary: s w rule: less_induct)
    case less
    obtain r w1 where b: "body s env w = Some (r, w1)" "w_clock w \<le> w_clock w1" "w_deadline w1 = w_deadline w"
      using body(1) by (rule returnsE)
    show ?case
    proof (cases "\<exists>s'. r = Ok (Inl s') \<and> \<not> (\<not> ever s \<and> deadline \<le> w_clock w)")
      case True
      then obtain s' where s': "r = Ok (Inl s')" "\<not> (\<not> ever s \<and> deadline \<le> w_clock w)" by blast
      have "w_clock w < w_clock w1" using body(2) b(1) s'(1) unfolding advances_def by blast
      moreover have "w_clock w < deadline"
        using s' bound [of s] b(1) unfolding starts_by_def by (cases "ever s") (simp, blast, simp)
      ultimately have "nat (deadline - w_clock w1) < nat (deadline - w_clock w)" by linarith
      from less [OF this, of s'] b s' \<open>w_clock w < w_clock w1\<close> show ?thesis
        by (subst io_while.simps) auto
    next
      case False
      with b show ?thesis
        by (subst io_while.simps) (auto split: outcome.splits sum.splits)
    qed
  qed
  then show ?thesis by (simp add: returns_def)
qed

text \<open>The two kinds of loop of the code: \<open>while time.monotonic() < deadline\<close> and \<open>while True\<close>.\<close>

lemma returns_while [io_returns]:
  assumes "\<And>s. returns (body s)" and "\<And>s. advances (body s)"
  shows "returns (io_while (\<lambda>_. False) deadline body s)"
  using assms by (rule while_returns_bounded) simp

lemma returns_while_True [io_returns]:
  assumes "\<And>s. returns (body s)" and "\<And>s. advances (body s)" and "\<And>s. starts_by deadline (body s)"
  shows "returns (io_while (\<lambda>_. True) deadline body s)"
  using assms by (rule while_returns_bounded)

definition kept_by :: "int \<Rightarrow> world \<Rightarrow> bool" where
  "kept_by dl w = (w_deadline w = Some dl \<and> w_clock w \<le> dl)"

lemma timely_kept: "timely m \<longleftrightarrow> (\<forall>env w r w' dl. m env w = Some (r, w') \<longrightarrow> kept_by dl w \<longrightarrow> kept_by dl w')"
  unfolding timely_def kept_by_def by blast

lemma while_timely:
  assumes "io_while ever deadline body s env w = Some y"
  shows "(\<forall>s. timely (body s)) \<longrightarrow> kept_by dl w \<longrightarrow> kept_by dl (snd y)"
proof (rule io_while.raw_induct [OF _ assms,
    where P = "\<lambda>ever deadline body s env w y. (\<forall>s. timely (body s)) \<longrightarrow> kept_by dl w \<longrightarrow> kept_by dl (snd y)"])
  fix rec ever deadline body s env w y
  assume IH: "\<And>ever deadline body s env w y. rec ever deadline body s env w = Some y
      \<Longrightarrow> (\<forall>s. timely (body s)) \<longrightarrow> kept_by dl w \<longrightarrow> kept_by dl (snd y)"
    and y: "(if \<not> ever s \<and> deadline \<le> w_clock w then Some (Ok (Inl s), w)
      else Option.bind (body s env w) (\<lambda>(r, w'). case r of
          Ok (Inl s') \<Rightarrow> rec ever deadline body s' env w' | Ok (Inr x) \<Rightarrow> Some (Ok (Inr x), w')
        | Err e \<Rightarrow> Some (Err e, w') | Cancelled \<Rightarrow> Some (Cancelled, w'))) = Some y"
  show "(\<forall>s. timely (body s)) \<longrightarrow> kept_by dl w \<longrightarrow> kept_by dl (snd y)"
  proof (intro impI)
    assume t: "\<forall>s. timely (body s)" and k: "kept_by dl w"
    show "kept_by dl (snd y)"
    proof (cases "\<not> ever s \<and> deadline \<le> w_clock w")
      case True
      with y k show ?thesis by auto
    next
      case False
      then obtain r w1 where b: "body s env w = Some (r, w1)"
        using y by (cases "body s env w") auto
      have k1: "kept_by dl w1" using t k b unfolding timely_kept by blast
      show ?thesis
      proof (cases "\<exists>s'. r = Ok (Inl s')")
        case True
        then obtain s' where "r = Ok (Inl s')" by blast
        then have "rec ever deadline body s' env w1 = Some y" using y False b by simp
        then show ?thesis using IH t k1 by blast
      next
        case False': False
        then show ?thesis using y False b k1 by (auto split: outcome.splits sum.splits)
      qed
    qed
  qed
qed

lemma timely_while [io_timely]: "(\<And>s. timely (body s)) \<Longrightarrow> timely (io_while ever deadline body s)"
  by (auto simp: timely_kept dest: while_timely)

section \<open>Rules for branching and for the calls\<close>

lemma returns_branch [io_returns]:
  "returns a \<Longrightarrow> returns b \<Longrightarrow> returns (if c then a else b)"
  "returns n \<Longrightarrow> (\<And>x. returns (f x)) \<Longrightarrow> returns (case y of None \<Rightarrow> n | Some x \<Rightarrow> f x)"
  "(\<And>x. returns (g x)) \<Longrightarrow> (\<And>x. returns (h x)) \<Longrightarrow> returns (case z of Inl x \<Rightarrow> g x | Inr x \<Rightarrow> h x)"
  "(\<And>x y. returns (k x y)) \<Longrightarrow> returns (case p of (x, y) \<Rightarrow> k x y)"
  "returns n \<Longrightarrow> (\<And>x xs. returns (l x xs)) \<Longrightarrow> returns (case ys of [] \<Rightarrow> n | x # xs \<Rightarrow> l x xs)"
  by (auto split: option.splits sum.splits prod.splits list.splits)

lemma returns_bind_lift:
  "(\<And>x. r = Inr x \<Longrightarrow> returns (f x)) \<Longrightarrow> returns (io_bind (io_lift r) f)"
  by (cases r) (simp_all add: io_defs returns_def)

lemma timely_branch [io_timely]:
  "timely a \<Longrightarrow> timely b \<Longrightarrow> timely (if c then a else b)"
  "timely n \<Longrightarrow> (\<And>x. timely (f x)) \<Longrightarrow> timely (case y of None \<Rightarrow> n | Some x \<Rightarrow> f x)"
  "(\<And>x. timely (g x)) \<Longrightarrow> (\<And>x. timely (h x)) \<Longrightarrow> timely (case z of Inl x \<Rightarrow> g x | Inr x \<Rightarrow> h x)"
  "(\<And>x y. timely (k x y)) \<Longrightarrow> timely (case p of (x, y) \<Rightarrow> k x y)"
  by (auto split: option.splits sum.splits prod.splits)

lemma advances_branch [io_advances]:
  "advances a \<Longrightarrow> advances b \<Longrightarrow> advances (if c then a else b)"
  "(\<And>x. advances (g x)) \<Longrightarrow> (\<And>x. advances (h x)) \<Longrightarrow> advances (case z of Inl x \<Rightarrow> g x | Inr x \<Rightarrow> h x)"
  "advances n \<Longrightarrow> (\<And>x. advances (g x)) \<Longrightarrow> advances (case y of None \<Rightarrow> n | Some x \<Rightarrow> g x)"
  "(\<And>x y. advances (k x y)) \<Longrightarrow> advances (case p of (x, y) \<Rightarrow> k x y)"
  by (auto split: sum.splits option.splits prod.splits)

lemma returns_calls [io_returns]:
  "returns (http_get url)" "returns (http_post url body)" "returns (http_many n meth url body)"
  "returns (raise_for_status r)" "returns (resp_json r)" "returns (run_proc argv s)"
  "returns (container_logs c k)" "returns (docker op args)"
  unfolding http_get_def http_post_def http_many_def raise_for_status_def resp_json_def run_proc_def
    container_logs_def docker_def
  by (intro io_returns)+

lemma timely_calls [io_timely]:
  "timely (http_get url)" "timely (http_post url body)" "timely (http_many n meth url body)"
  "timely (raise_for_status r)" "timely (resp_json r)"
  unfolding http_get_def http_post_def http_many_def raise_for_status_def resp_json_def
  by (intro io_timely)+

section \<open>Counting effects\<close>

text \<open>\<open>at_most P k m\<close>: however it is run, \<open>m\<close> performs at most \<open>k\<close> effects that satisfy \<open>P\<close>.\<close>

definition few :: "(effect \<Rightarrow> bool) \<Rightarrow> nat \<Rightarrow> world \<Rightarrow> world \<Rightarrow> bool" where
  "few P k w w' = (\<exists>new. w_trace w' = new @ w_trace w \<and> length (filter P new) \<le> k)"

definition at_most :: "(effect \<Rightarrow> bool) \<Rightarrow> nat \<Rightarrow> 'a io \<Rightarrow> bool" where
  "at_most P k m = (\<forall>env w r w'. m env w = Some (r, w') \<longrightarrow> few P k w w')"

named_theorems io_silent \<open>introduction rules of \<open>at_most P 0\<close>\<close>

lemma few_refl [simp]: "few P k w w" by (simp add: few_def)

lemma few_trans: "few P i w w1 \<Longrightarrow> few P j w1 w2 \<Longrightarrow> few P (i + j) w w2"
proof -
  assume "few P i w w1" "few P j w1 w2"
  then obtain a b where "w_trace w1 = a @ w_trace w" "length (filter P a) \<le> i"
    "w_trace w2 = b @ w_trace w1" "length (filter P b) \<le> j"
    unfolding few_def by blast
  then show ?thesis unfolding few_def by (intro exI [of _ "b @ a"]) simp
qed

lemma few_weaken: "few P i w w' \<Longrightarrow> i \<le> k \<Longrightarrow> few P k w w'"
  unfolding few_def by (meson order.trans)

lemma few_zero_trans: "few P 0 w w1 \<Longrightarrow> few P 0 w1 w2 \<Longrightarrow> few P 0 w w2"
  using few_trans [of P 0 w w1 0 w2] by simp

lemma at_most_bind:
  assumes m: "at_most P i m" and f: "\<And>x. at_most P j (f x)"
  shows "at_most P (i + j) (io_bind m f)"
  unfolding at_most_def
proof (intro allI impI)
  fix env w r w'
  assume b: "io_bind m f env w = Some (r, w')"
  then obtain r1 w1 where 1: "m env w = Some (r1, w1)" by (auto simp: io_bind_def split: option.splits)
  with m have few1: "few P i w w1" unfolding at_most_def by blast
  show "few P (i + j) w w'"
  proof (cases r1)
    case (Ok x)
    with 1 b have "f x env w1 = Some (r, w')" by (simp add: io_bind_def)
    then show ?thesis using few_trans [OF few1] f unfolding at_most_def by blast
  qed (use 1 b few1 in \<open>auto simp: io_bind_def intro: few_weaken\<close>)
qed

lemma at_most_weaken: "at_most P i m \<Longrightarrow> i \<le> k \<Longrightarrow> at_most P k m"
  unfolding at_most_def using few_weaken by blast

lemma at_most_catch:
  assumes m: "at_most P i m" and h: "\<And>e. at_most P j (h e)"
  shows "at_most P (i + j) (io_catch m h)"
  unfolding at_most_def
proof (intro allI impI)
  fix env w r w'
  assume b: "io_catch m h env w = Some (r, w')"
  then obtain r1 w1 where 1: "m env w = Some (r1, w1)" by (auto simp: io_catch_def split: option.splits)
  with m have few1: "few P i w w1" unfolding at_most_def by blast
  show "few P (i + j) w w'"
  proof (cases r1)
    case (Err e)
    with 1 b have "h e env w1 = Some (r, w')" by (simp add: io_catch_def)
    then show ?thesis using few_trans [OF few1] h unfolding at_most_def by blast
  qed (use 1 b few1 in \<open>auto simp: io_catch_def intro: few_weaken\<close>)
qed

lemma silent_basic [io_silent]:
  "at_most P 0 (io_return x)" "at_most P 0 (io_raise e)" "at_most P 0 (io_lift r)" "at_most P 0 io_now"
  by (auto simp: at_most_def io_defs split: sum.splits)

lemma silent_bind [io_silent]: "at_most P 0 m \<Longrightarrow> (\<And>x. at_most P 0 (f x)) \<Longrightarrow> at_most P 0 (io_bind m f)"
  using at_most_bind [of P 0 m 0 f] by simp

lemma silent_catch [io_silent]: "at_most P 0 m \<Longrightarrow> (\<And>e. at_most P 0 (h e)) \<Longrightarrow> at_most P 0 (io_catch m h)"
  using at_most_catch [of P 0 m 0 h] by simp

lemma few_cons: "w_trace w' = e # w_trace w \<Longrightarrow> few P (of_bool (P e)) w w'"
  unfolding few_def by (rule exI [of _ "[e]"]) simp

lemma await_until_trace: "await_until x c w w2 = (r, w') \<Longrightarrow> w_trace w' = w_trace w2"
  by (auto simp: await_until_def split: option.splits if_splits)

lemma at_most_perform: "at_most P (of_bool (P e)) (perform e)"
  unfolding at_most_def
proof (intro allI impI)
  fix env w r w'
  assume "perform e env w = Some (r, w')"
  then have "w_trace w' = e # w_trace w"
    by (auto simp: perform_def split: prod.splits dest: await_until_trace)
  then show "few P (of_bool (P e)) w w'" by (rule few_cons)
qed

lemma silent_sleep [io_silent]: "\<not> P (Sleep ms) \<Longrightarrow> at_most P 0 (io_sleep ms)"
  by (auto simp: at_most_def io_sleep_def few_def split: prod.splits dest!: await_until_trace)

lemma silent_branch [io_silent]:
  "at_most P k a \<Longrightarrow> at_most P k b \<Longrightarrow> at_most P k (if c then a else b)"
  "at_most P k n \<Longrightarrow> (\<And>x. at_most P k (f x)) \<Longrightarrow> at_most P k (case y of None \<Rightarrow> n | Some x \<Rightarrow> f x)"
  "(\<And>x. at_most P k (g x)) \<Longrightarrow> (\<And>x. at_most P k (h x)) \<Longrightarrow> at_most P k (case z of Inl x \<Rightarrow> g x | Inr x \<Rightarrow> h x)"
  by (auto split: option.splits sum.splits)

lemma http_post_at_most: "at_most P (of_bool (P (Http ''POST'' url body))) (http_post url body)"
  unfolding http_post_def
  using at_most_bind [OF at_most_perform silent_basic(3), of P "Http ''POST'' url body" reply_of] by simp

lemma silent_post [io_silent]: "\<not> P (Http ''POST'' url body) \<Longrightarrow> at_most P 0 (http_post url body)"
  using http_post_at_most [of P url body] by simp

lemma silent_resp [io_silent]: "at_most P 0 (resp_json r)"
  unfolding resp_json_def by (intro io_silent)

lemma while_silent:
  assumes "io_while ever deadline body s env w = Some y"
  shows "(\<forall>s. at_most P 0 (body s)) \<longrightarrow> few P 0 w (snd y)"
proof (rule io_while.raw_induct [OF _ assms,
    where P = "\<lambda>ever deadline body s env w y. (\<forall>s. at_most P 0 (body s)) \<longrightarrow> few P 0 w (snd y)"])
  fix rec ever deadline body s env w y
  assume IH: "\<And>ever deadline body s env w y. rec ever deadline body s env w = Some y
      \<Longrightarrow> (\<forall>s. at_most P 0 (body s)) \<longrightarrow> few P 0 w (snd y)"
    and y: "(if \<not> ever s \<and> deadline \<le> w_clock w then Some (Ok (Inl s), w)
      else Option.bind (body s env w) (\<lambda>(r, w'). case r of
          Ok (Inl s') \<Rightarrow> rec ever deadline body s' env w' | Ok (Inr x) \<Rightarrow> Some (Ok (Inr x), w')
        | Err e \<Rightarrow> Some (Err e, w') | Cancelled \<Rightarrow> Some (Cancelled, w'))) = Some y"
  show "(\<forall>s. at_most P 0 (body s)) \<longrightarrow> few P 0 w (snd y)"
  proof (intro impI)
    assume t: "\<forall>s. at_most P 0 (body s)"
    show "few P 0 w (snd y)"
    proof (cases "\<not> ever s \<and> deadline \<le> w_clock w")
      case True
      with y show ?thesis by auto
    next
      case False
      then obtain r w1 where b: "body s env w = Some (r, w1)" using y by (cases "body s env w") auto
      have k1: "few P 0 w w1" using t b unfolding at_most_def by blast
      show ?thesis
      proof (cases "\<exists>s'. r = Ok (Inl s')")
        case True
        then obtain s' where "r = Ok (Inl s')" by blast
        then have "rec ever deadline body s' env w1 = Some y" using y False b by simp
        then show ?thesis using IH t k1 few_zero_trans by blast
      next
        case False': False
        then show ?thesis using y False b k1 by (auto split: outcome.splits sum.splits)
      qed
    qed
  qed
qed

lemma silent_while [io_silent]: "(\<And>s. at_most P 0 (body s)) \<Longrightarrow> at_most P 0 (io_while ever deadline body s)"
  unfolding at_most_def [of P 0 "io_while ever deadline body s"] using while_silent by fastforce

end
