(* ===== verification/Exec_Base.thy ===== *)
theory Exec_Base
  imports Rvp_World
begin

text \<open>
  \<open>services/test-runner/executors/base.py\<close>: the result of an assertion, the connection details of a
  sandbox and the helpers that the executors share.  An executor is a computation from an assertion
  (a dict) and a context to a list of results: \<open>run_test\<close> makes a list of a single result.
\<close>

section \<open>Results\<close>

record assertion_result =
  ar_type :: string
  ar_passed :: bool
  ar_expected :: json
  ar_actual :: json
  ar_detail :: string
  ar_duration :: "int option"

definition opt_int :: "int option \<Rightarrow> json" where
  "opt_int x = (case x of None \<Rightarrow> JNull | Some n \<Rightarrow> JInt n)"

definition to_dict :: "assertion_result \<Rightarrow> dict" where
  "to_dict r =
     [(''assertion_type'', JStr (ar_type r)), (''passed'', JBool (ar_passed r)),
      (''expected'', ar_expected r), (''actual'', ar_actual r),
      (''detail'', JStr (ar_detail r)), (''duration_ms'', opt_int (ar_duration r))]"

text \<open>\<open>AssertionResult(type, passed, detail=\<dots>, duration_ms=\<dots>)\<close> and with the compared values.\<close>

definition plain_result :: "string \<Rightarrow> bool \<Rightarrow> string \<Rightarrow> int \<Rightarrow> assertion_result" where
  "plain_result ty ok detail ms =
     \<lparr>ar_type = ty, ar_passed = ok, ar_expected = JNull, ar_actual = JNull, ar_detail = detail,
      ar_duration = Some ms\<rparr>"

definition full_result :: "string \<Rightarrow> bool \<Rightarrow> json \<Rightarrow> json \<Rightarrow> string \<Rightarrow> int \<Rightarrow> assertion_result" where
  "full_result ty ok expected actual detail ms =
     \<lparr>ar_type = ty, ar_passed = ok, ar_expected = expected, ar_actual = actual, ar_detail = detail,
      ar_duration = Some ms\<rparr>"

text \<open>A result made now, with the milliseconds since \<open>t0\<close>.\<close>

definition timed :: "int \<Rightarrow> (int \<Rightarrow> assertion_result) \<Rightarrow> assertion_result io" where
  "timed t0 mk = io_bind io_now (\<lambda>t. io_return (mk (t - t0)))"

text \<open>The common handler: \<open>except Exception as exc\<close> returns a failed result with \<open>str(exc)\<close>.\<close>

definition failed_on :: "string \<Rightarrow> int \<Rightarrow> exc \<Rightarrow> assertion_result io" where
  "failed_on ty t0 e = timed t0 (plain_result ty False (exc_str e))"

section \<open>The sandbox context\<close>

record sandbox_context =
  cx_sandbox_id :: string
  cx_run_id :: string
  cx_anvil_port :: json
  cx_node_port :: json
  cx_graphql_port :: json
  cx_docker_network :: json
  cx_node_major :: int
  cx_cli_container :: json
  cx_app_address :: json
  cx_inputbox :: json
  cx_ether_portal :: json
  cx_erc20_portal :: json
  cx_erc721_portal :: json
  cx_erc1155_portal :: json
  cx_erc20_token :: json
  cx_erc721_token :: json
  cx_erc1155_token :: json

text \<open>The environment's \<open>SANDBOX_HOST\<close>, by default.\<close>

definition SANDBOX_HOST :: string where "SANDBOX_HOST = ''host.docker.internal''"

definition V2_DEVNET_INPUTBOX :: string where
  "V2_DEVNET_INPUTBOX = ''0x1b51e2992A2755Ba4D6F7094032DF91991a0Cfac''"
definition V1_DEVNET_INPUTBOX :: string where
  "V1_DEVNET_INPUTBOX = ''0x59b22D57D4f067708AB0c00552767405926dc768''"

definition V2_DEVNET_PORTALS :: "(string \<times> string) list" where
  "V2_DEVNET_PORTALS =
     [(''ether_portal'', ''0xA632c5c05812c6a6149B7af5C56117d1D2603828''),
      (''erc20_portal'', ''0xaca6586a0cf05bd831f2501e7b4aea550da6562d''),
      (''erc721_portal'', ''0x9e8851dadb2b77103928518846c4678d48b5e371''),
      (''erc1155_portal'', ''0x18558398dd1a8ce20956287a4da7b76ae7a96662'')]"

definition portal_default :: "string \<Rightarrow> json" where
  "portal_default k = (case map_of V2_DEVNET_PORTALS k of None \<Rightarrow> JNull | Some a \<Rightarrow> JStr a)"

text \<open>The constructor, from a record of its arguments as given.\<close>

definition init_context :: "sandbox_context \<Rightarrow> sandbox_context" where
  "init_context a = a\<lparr>
     cx_inputbox := (if truthy (cx_inputbox a) then cx_inputbox a
                     else if cx_node_major a \<ge> 2 then JStr V2_DEVNET_INPUTBOX
                     else JStr V1_DEVNET_INPUTBOX),
     cx_ether_portal := py_or (cx_ether_portal a) (portal_default ''ether_portal''),
     cx_erc20_portal := py_or (cx_erc20_portal a) (portal_default ''erc20_portal''),
     cx_erc721_portal := py_or (cx_erc721_portal a) (portal_default ''erc721_portal''),
     cx_erc1155_portal := py_or (cx_erc1155_portal a) (portal_default ''erc1155_portal''),
     cx_erc20_token := py_or (cx_erc20_token a) JNull,
     cx_erc721_token := py_or (cx_erc721_token a) JNull,
     cx_erc1155_token := py_or (cx_erc1155_token a) JNull\<rparr>"

definition host_url :: "json \<Rightarrow> string \<Rightarrow> string" where
  "host_url port path = ''http://'' @ SANDBOX_HOST @ '':'' @ py_str port @ path"

definition jsonrpc_port :: "sandbox_context \<Rightarrow> json" where "jsonrpc_port = cx_node_port"
definition inspect_port :: "sandbox_context \<Rightarrow> json" where "inspect_port = cx_graphql_port"

definition jsonrpc_url :: "sandbox_context \<Rightarrow> string" where
  "jsonrpc_url ctx = host_url (jsonrpc_port ctx) []"

definition jsonrpc_rpc_url :: "sandbox_context \<Rightarrow> string" where
  "jsonrpc_rpc_url ctx = host_url (jsonrpc_port ctx) ''/rpc''"

definition graphql_url :: "sandbox_context \<Rightarrow> string" where
  "graphql_url ctx = host_url (cx_graphql_port ctx) ''/graphql''"

definition inspect_url :: "sandbox_context \<Rightarrow> string" where
  "inspect_url ctx =
     (if cx_node_major ctx \<ge> 2 then host_url (inspect_port ctx) ''/inspect''
      else host_url (cx_node_port ctx) ''/inspect'')"

definition app_inspect_url :: "sandbox_context \<Rightarrow> string \<Rightarrow> string" where
  "app_inspect_url ctx path =
     (let base = host_url (inspect_port ctx) ''/inspect'' in
      if truthy (cx_app_address ctx)
      then rstrip_slash (base @ ''/'' @ py_str (cx_app_address ctx) @ ''/'' @ path)
      else rstrip_slash (base @ ''/'' @ path))"

definition anvil_rpc_url :: "sandbox_context \<Rightarrow> string" where
  "anvil_rpc_url ctx = host_url (cx_anvil_port ctx) []"

definition short_id :: "sandbox_context \<Rightarrow> string" where
  "short_id ctx = str_take 8 (cx_sandbox_id ctx)"

section \<open>Counting inputs and outputs\<close>

definition rpc_body :: "json \<Rightarrow> json \<Rightarrow> int \<Rightarrow> json" where
  "rpc_body meth params i =
     JObj [(''jsonrpc'', JStr ''2.0''), (''method'', meth), (''params'', params), (''id'', JInt i)]"

definition count_in :: "json \<Rightarrow> json res" where
  "count_in body =
     res_bind (jget_or body ''result'' (JObj [])) (\<lambda>result.
     res_bind (jget_or result ''pagination'' (JObj [])) (\<lambda>pagination.
     res_bind (if truthy pagination then jin ''total_count'' pagination else Inr False) (\<lambda>has.
     if has then py_item pagination (JStr ''total_count'')
     else res_bind (jget_or result ''data'' (JArr [])) (\<lambda>d. map_sum id (\<lambda>n. JInt (int n)) (py_len d)))))"

definition fetch_count :: "string \<Rightarrow> string \<Rightarrow> json \<Rightarrow> json io" where
  "fetch_count meth rpc_url app_id =
     io_catch
       (io_bind (http_post rpc_url
          (rpc_body (JStr meth) (JObj [(''application'', app_id), (''limit'', JInt 1000)]) 1)) (\<lambda>resp.
        io_bind (resp_json resp) (\<lambda>body. io_lift (count_in body))))
       (\<lambda>e. io_return (JInt (- 1)))"

definition fetch_input_count :: "string \<Rightarrow> json \<Rightarrow> json io" where
  "fetch_input_count = fetch_count ''cartesi_listInputs''"

definition fetch_output_count :: "string \<Rightarrow> json \<Rightarrow> json io" where
  "fetch_output_count = fetch_count ''cartesi_listOutputs''"

definition count_before_result :: "string \<Rightarrow> json \<Rightarrow> assertion_result" where
  "count_before_result noun count =
     plain_result ''count_before'' True (noun @ '' before: '' @ py_str count) 0"

definition count_after_result :: "string \<Rightarrow> json \<Rightarrow> json \<Rightarrow> bool \<Rightarrow> assertion_result res" where
  "count_after_result noun before after require_increase =
     res_bind (py_num before) (\<lambda>b. res_bind (py_num after) (\<lambda>a.
       Inr (if a > b then
              plain_result ''count_after'' True
                (noun @ '' after: '' @ py_str after @ '' (+'' @ int_str (a - b) @ '')'') 0
            else if a = b then
              plain_result ''count_after'' (\<not> require_increase)
                (noun @ '' after: '' @ py_str after @ '' (no change)'') 0
            else
              plain_result ''count_after'' False
                (noun @ '' after: '' @ py_str after @ '' (decreased from '' @ py_str before @ '')'') 0)))"

type_synonym executor = "dict \<Rightarrow> sandbox_context \<Rightarrow> assertion_result list io"

text \<open>A single result.\<close>

definition single :: "assertion_result io \<Rightarrow> assertion_result list io" where
  "single m = io_bind m (\<lambda>r. io_return [r])"

end
