(* ===== verification/Exec_Http.thy ===== *)
theory Exec_Http
  imports Exec_Base
begin

text \<open>
  The executors that make one HTTP request to the node: \<open>executors/graphql.py\<close>, \<open>http.py\<close>, \<open>voucher.py\<close>
  and \<open>inspect_query.py\<close> of the test runner.  What happens before the \<open>try\<close> raises to the caller; the
  body of the \<open>try\<close> turns every exception into a failed result.
\<close>

section \<open>Paths into a response\<close>

text \<open>\<open>for part in parts: obj = obj[key part]\<close>, skipping empty parts.\<close>

definition walk :: "(string \<Rightarrow> json res) \<Rightarrow> string option list \<Rightarrow> json \<Rightarrow> json res" where
  "walk key parts obj =
     foldl (\<lambda>r part. case part of
              None \<Rightarrow> r
            | Some p \<Rightarrow> if p = [] then r else res_bind r (\<lambda>o'. res_bind (key p) (py_item o')))
       (Inr obj) parts"

text \<open>\<open>part[1:-1]\<close>.\<close>

definition str_inner :: "string \<Rightarrow> string" where
  "str_inner s = concat (butlast (tl (chars_of s)))"

definition int_key :: "string \<Rightarrow> json res" where
  "int_key s = (case str_int s of None \<Rightarrow> Inl ValueError | Some n \<Rightarrow> Inr (JInt n))"

definition graphql_sep :: rx where
  \<comment> \<open>\<open>\.|\[(\d+)\]\<close>\<close>
  "graphql_sep = Alt (Chr CHR ''.'') (Seq (Chr CHR ''['') (Seq (Grp (Plus Digit)) (Chr CHR '']'')))"

definition bracket_sep :: rx where
  \<comment> \<open>\<open>\.|(\[\d+\])\<close>\<close>
  "bracket_sep = Alt (Chr CHR ''.'') (Grp (Seq (Chr CHR ''['') (Seq (Plus Digit) (Chr CHR '']''))))"

definition graphql_key :: "string \<Rightarrow> json res" where
  "graphql_key part = (if part \<noteq> [] \<and> (\<forall>c\<in>set part. is_digit c) then int_key part else Inr (JStr part))"

definition graphql_resolve_path :: "json \<Rightarrow> json \<Rightarrow> json res" where
  "graphql_resolve_path obj path =
     res_bind (as_str TypeError path) (\<lambda>p. walk graphql_key (re_split graphql_sep None p) obj)"

definition inspect_key :: "string \<Rightarrow> json res" where
  "inspect_key part = (if startswith part ''['' then int_key (str_inner part) else Inr (JStr part))"

definition inspect_resolve :: "json \<Rightarrow> json \<Rightarrow> json res" where
  "inspect_resolve obj path =
     res_bind (as_str TypeError path) (\<lambda>p. walk inspect_key (re_split bracket_sep None p) obj)"

section \<open>graphql\<close>

definition graphql_judge :: "json \<Rightarrow> json \<Rightarrow> json \<Rightarrow> int \<Rightarrow> assertion_result res" where
  "graphql_judge path expected body ms =
     res_bind (jget_or body ''data'' (JObj [])) (\<lambda>data.
     res_bind (if truthy path then graphql_resolve_path data path else Inr data) (\<lambda>actual.
     Inr (full_result ''graphql'' (py_eq actual expected) expected actual
            (''Path '' @ squote @ py_str path @ squote @ '': expected='' @ py_repr expected
             @ '' actual='' @ py_repr actual) ms)))"

definition exec_graphql :: executor where
  "exec_graphql a ctx =
     (let query = get_or a ''query'' (JStr []); expect = get_or a ''expect'' (JObj []) in
      io_bind (io_lift (jget_or expect ''path'' JNull)) (\<lambda>path.
      io_bind (io_lift (jget_or expect ''value'' JNull)) (\<lambda>expected.
      io_bind io_now (\<lambda>t0.
      single (io_catch
        (io_bind (http_post (graphql_url ctx) (JObj [(''query'', query)])) (\<lambda>resp.
         io_bind (raise_for_status resp) (\<lambda>_.
         io_bind (resp_json resp) (\<lambda>body.
         io_bind io_now (\<lambda>t.
         io_lift (graphql_judge path expected body (t - t0)))))))
        (failed_on ''graphql'' t0))))))"

section \<open>http_status\<close>

definition resolve_endpoint :: "string \<Rightarrow> sandbox_context \<Rightarrow> string" where
  "resolve_endpoint path ctx =
     (if cx_node_major ctx \<ge> 2 then
        (if startswith path ''/inspect'' then host_url (inspect_port ctx) path
         else host_url (jsonrpc_port ctx) path)
      else host_url (cx_node_port ctx) path)"

definition endpoint_url :: "dict \<Rightarrow> sandbox_context \<Rightarrow> string res" where
  "endpoint_url a ctx =
     (let raw = get_or a ''endpoint'' (JStr ''/healthz''); port_override = get a ''port_override'' in
      if truthy port_override then Inr (host_url port_override (py_str raw))
      else res_bind (as_str AttributeError raw) (\<lambda>r.
             Inr (if startswith r ''/'' then resolve_endpoint r ctx else r)))"

definition exec_http_status :: executor where
  "exec_http_status a ctx =
     (let expected = get_or a ''expect'' (JInt 200) in
      io_bind (io_lift (endpoint_url a ctx)) (\<lambda>url.
      io_bind io_now (\<lambda>t0.
      single (io_catch
        (io_bind (http_get url) (\<lambda>resp.
         let actual = JInt (h_status resp) in
         timed t0 (full_result ''http_status'' (py_eq actual expected) expected actual
                     (''GET '' @ url @ '' '' @ u_arrow @ '' '' @ py_str actual))))
        (failed_on ''http_status'' t0)))))"

section \<open>voucher\<close>

definition VOUCHER_QUERY :: string where
  "VOUCHER_QUERY =
     join nl ['''', ''{'', ''  vouchers {'', ''    edges {'', ''      node {'', ''        index'',
              ''        destination'', ''        payload'',
              ''        proof { validity { inputIndexWithinEpoch outputIndexWithinInput } }'',
              ''      }'', ''    }'', ''  }'', ''}'', '''']"

definition voucher_judge :: "json \<Rightarrow> json \<Rightarrow> int \<Rightarrow> assertion_result res" where
  "voucher_judge expected_count body ms =
     res_bind (jget_or body ''data'' (JObj [])) (\<lambda>data.
     res_bind (jget_or data ''vouchers'' (JObj [])) (\<lambda>vs.
     res_bind (jget_or vs ''edges'' (JArr [])) (\<lambda>vouchers.
     res_bind (py_len vouchers) (\<lambda>n.
     res_bind (py_num expected_count) (\<lambda>k.
     let actual = int_str (int n); want = py_str expected_count in
     Inr (full_result ''voucher'' (int n \<ge> k) (JStr (''>= '' @ want @ '' vouchers''))
            (JStr (actual @ '' vouchers''))
            (''Found '' @ actual @ '' voucher(s), expected >= '' @ want) ms))))))"

definition exec_voucher :: executor where
  "exec_voucher a ctx =
     (let expected_count = get_or a ''expect_count'' (JInt 1) in
      io_bind io_now (\<lambda>t0.
      single (io_catch
        (io_bind (http_post (graphql_url ctx) (JObj [(''query'', JStr VOUCHER_QUERY)])) (\<lambda>resp.
         io_bind (raise_for_status resp) (\<lambda>_.
         io_bind (resp_json resp) (\<lambda>body.
         io_bind io_now (\<lambda>t. io_lift (voucher_judge expected_count body (t - t0)))))))
        (failed_on ''voucher'' t0))))"

section \<open>inspect_query\<close>

record inspect_spec =
  iq_query :: json
  iq_method :: string
  iq_field :: json
  iq_value :: json
  iq_contains :: json
  iq_status :: int
  iq_concurrent :: json

definition inspect_url_of :: "dict \<Rightarrow> sandbox_context \<Rightarrow> json \<Rightarrow> string \<Rightarrow> string" where
  "inspect_url_of a ctx query meth =
     (let base = inspect_url ctx;
          app_id = py_or (get a ''app_address_override'')
                     (if truthy (get_or a ''use_app_name'' (JBool False)) then JStr ''app''
                      else cx_app_address ctx)
      in if meth = ''GET''
         then (if truthy app_id then rstrip_slash (base @ ''/'' @ py_str app_id @ ''/'' @ py_str query)
               else rstrip_slash (base @ ''/'' @ py_str query))
         else (if truthy app_id then rstrip_slash (base @ ''/'' @ py_str app_id) else base))"

definition inspect_spec_of :: "dict \<Rightarrow> inspect_spec res" where
  "inspect_spec_of a =
     res_bind (as_str AttributeError (get_or a ''method'' (JStr ''POST''))) (\<lambda>meth.
     res_bind (py_int (get_or a ''expect_status'' (JInt 200))) (\<lambda>status.
     Inr \<lparr>iq_query = get_or a ''query'' (JStr ''all''), iq_method = upper meth,
          iq_field = get a ''expect_json_field'', iq_value = get a ''expect_json_value'',
          iq_contains = get a ''expect_contains'', iq_status = status,
          iq_concurrent = get a ''concurrent''\<rparr>))"

text \<open>\<open>range(concurrent)\<close>.\<close>

definition range_len :: "json \<Rightarrow> nat res" where
  "range_len j = map_sum id nat (py_num j)"

definition is_inl :: "'a + 'b \<Rightarrow> bool" where "is_inl s = (case s of Inl _ \<Rightarrow> True | Inr _ \<Rightarrow> False)"

text \<open>How many requests of a batch raised, and how many were answered with an unwanted status.\<close>

definition count_errors :: "http_reply res list \<Rightarrow> nat" where
  "count_errors rs = length (filter is_inl rs)"

definition count_bad :: "(http_reply \<Rightarrow> bool) \<Rightarrow> http_reply res list \<Rightarrow> nat" where
  "count_bad bad rs = length (filter (\<lambda>r. case r of Inl _ \<Rightarrow> False | Inr x \<Rightarrow> bad x) rs)"

definition inspect_many :: "inspect_spec \<Rightarrow> string \<Rightarrow> nat \<Rightarrow> http_reply res list io" where
  "inspect_many q url n =
     (if iq_method q = ''GET'' then http_many n ''GET'' url JNull
      else (case iq_query q of
              JStr s \<Rightarrow> http_many n ''POST'' url (JStr s)
            | _ \<Rightarrow> io_return (replicate n (Inl AttributeError))))"

definition inspect_one :: "inspect_spec \<Rightarrow> string \<Rightarrow> http_reply io" where
  "inspect_one q url =
     (if iq_method q = ''GET'' then http_get url
      else io_bind (io_lift (as_str AttributeError (iq_query q))) (\<lambda>s. http_post url (JStr s)))"

definition inspect_report :: "json \<Rightarrow> (json \<times> string) res" where
  "inspect_report body =
     res_bind (jget_or body ''reports'' (JArr [])) (\<lambda>reports.
     if \<not> truthy reports then Inr (reports, [])
     else res_bind (py_item reports (JInt 0)) (\<lambda>first.
          res_bind (jget_or first ''payload'' (JStr ''0x'')) (\<lambda>p.
          res_bind (as_str AttributeError p) (\<lambda>hex.
          (case fromhex (removeprefix hex ''0x'') of
             None \<Rightarrow> Inl ValueError
           | Some raw \<Rightarrow> Inr (reports, decode_replace raw))))))"

definition inspect_field_check :: "inspect_spec \<Rightarrow> string \<Rightarrow> int \<Rightarrow> assertion_result" where
  "inspect_field_check q raw ms =
     (let pre = ''inspect '' @ py_repr (iq_query q) @ '': '' in
      case res_bind (json_loads raw) (\<lambda>parsed. inspect_resolve parsed (iq_field q)) of
        Inr actual \<Rightarrow>
          full_result ''inspect_query'' (py_eq actual (iq_value q)) (iq_value q) actual
            (pre @ py_str (iq_field q) @ ''='' @ py_repr actual) ms
      | Inl e \<Rightarrow>
          plain_result ''inspect_query'' False
            (pre @ ''JSON parse error '' @ u_emdash @ '' '' @ exc_str e @ ''; raw='' @ str_take 200 raw) ms)"

definition inspect_judge :: "inspect_spec \<Rightarrow> json \<Rightarrow> int \<Rightarrow> assertion_result res" where
  "inspect_judge q body ms =
     res_bind (inspect_report body) (\<lambda>(reports, raw).
     res_bind (if truthy (iq_contains q) then map_sum id Not (in_str (iq_contains q) raw) else Inr False)
       (\<lambda>missing.
     if missing then
       Inr (full_result ''inspect_query'' False (JStr (''contains '' @ py_repr (iq_contains q)))
              (JStr (str_take 300 raw))
              (''inspect '' @ py_repr (iq_query q) @ '' response missing expected text'') ms)
     else if iq_field q \<noteq> JNull then Inr (inspect_field_check q raw ms)
     else res_bind (py_len reports) (\<lambda>n.
       Inr (plain_result ''inspect_query'' True
              (''inspect '' @ py_repr (iq_query q) @ '' '' @ u_arrow @ '' OK ('' @ int_str (int n)
               @ '' report(s)); '' @ str_take 120 raw) ms))))"

definition inspect_batch :: "inspect_spec \<Rightarrow> string \<Rightarrow> int \<Rightarrow> assertion_result io" where
  "inspect_batch q url t0 =
     io_bind (io_lift (range_len (iq_concurrent q))) (\<lambda>n.
     io_bind (inspect_many q url n) (\<lambda>rs.
     let errors = count_errors rs; non_ok = count_bad (\<lambda>r. h_status r \<noteq> iq_status q) rs in
     timed t0 (plain_result ''inspect_query'' (errors = 0 \<and> non_ok = 0)
       (''inspect '' @ py_repr (iq_query q) @ '' '' @ u_times @ '' '' @ py_str (iq_concurrent q) @ '': ''
        @ int_str (int errors) @ '' exceptions, '' @ int_str (int non_ok) @ '' non-''
        @ int_str (iq_status q) @ '' responses''))))"

definition exec_inspect_query :: executor where
  "exec_inspect_query a ctx =
     io_bind (io_lift (inspect_spec_of a)) (\<lambda>q.
     let url = inspect_url_of a ctx (iq_query q) (iq_method q) in
     io_bind io_now (\<lambda>t0.
     single (io_catch
       (if truthy (iq_concurrent q) then inspect_batch q url t0
        else
          io_bind (inspect_one q url) (\<lambda>resp.
          io_bind io_now (\<lambda>t.
          let ms = t - t0; code = int_str (h_status resp);
              pre = ''inspect '' @ py_repr (iq_query q) @ '' '' @ u_arrow @ '' HTTP '' @ code in
          if h_status resp \<noteq> iq_status q then
            io_return (full_result ''inspect_query'' False (JStr (''HTTP '' @ int_str (iq_status q)))
                         (JStr (''HTTP '' @ code)) pre ms)
          else if iq_status q \<noteq> 200 then
            io_return (plain_result ''inspect_query'' True (pre @ '' (expected)'') ms)
          else io_bind (resp_json resp) (\<lambda>body. io_lift (inspect_judge q body ms)))))
       (failed_on ''inspect_query'' t0))))"

end
