(* ===== verification/Exec_Rpc.thy ===== *)
theory Exec_Rpc
  imports Exec_Http
begin

text \<open>
  The executors that poll the JSON-RPC interfaces of the node and of Anvil: \<open>executors/jsonrpc.py\<close>,
  \<open>notice_check.py\<close> and \<open>chain.py\<close> of the test runner.  Poll times and intervals are whole seconds.
\<close>

definition error_in :: "json \<Rightarrow> bool res" where "error_in body = jin ''error'' body"

text \<open>\<open>x[:n]\<close> of a value.\<close>

definition py_slice :: "nat \<Rightarrow> json \<Rightarrow> json res" where
  "py_slice n x = (case x of JStr s \<Rightarrow> Inr (JStr (str_take n s)) | JArr xs \<Rightarrow> Inr (JArr (take n xs))
                   | _ \<Rightarrow> Inl TypeError)"

section \<open>json_rpc\<close>

record rpc_spec =
  rq_method :: json
  rq_app_id :: json
  rq_params :: json          \<comment> \<open>a list, or a dict of named parameters\<close>
  rq_count :: json
  rq_count_exact :: json
  rq_path :: json
  rq_value :: json
  rq_error :: bool
  rq_error_code :: json
  rq_raw_body :: json
  rq_stress :: json
  rq_has_field :: json
  rq_last_epoch :: bool
  rq_poll_timeout :: int     \<comment> \<open>seconds\<close>
  rq_poll_interval :: int    \<comment> \<open>seconds\<close>

definition rpc_params :: "json \<Rightarrow> json \<Rightarrow> json \<Rightarrow> json \<Rightarrow> json res" where
  "rpc_params app_id extra limit offset =
     (if limit \<noteq> JNull \<or> offset \<noteq> JNull then
        Inr (JObj ((if truthy app_id then [(''application'', app_id)] else [])
                   @ (if limit \<noteq> JNull then [(''limit'', limit)] else [])
                   @ (if offset \<noteq> JNull then [(''offset'', offset)] else [])))
      else res_bind (py_iter extra) (\<lambda>xs. Inr (JArr ((if truthy app_id then [app_id] else []) @ xs))))"

definition rpc_spec_of :: "dict \<Rightarrow> sandbox_context \<Rightarrow> rpc_spec res" where
  "rpc_spec_of a ctx =
     res_bind (py_float (get_or a ''poll_timeout'' (JInt 60))) (\<lambda>poll_timeout.
     res_bind (py_float (get_or a ''poll_interval'' (JInt 2))) (\<lambda>poll_interval.
     let app_id = (if truthy (get_or a ''use_app_address'' (JBool True))
                   then py_or (cx_app_address ctx) (JStr ''app'') else JNull) in
     res_bind (rpc_params app_id (get_or a ''params'' (JArr [])) (get a ''pagination_limit'')
                 (get a ''pagination_offset'')) (\<lambda>params.
     Inr \<lparr>rq_method = get_or a ''method'' (JStr ''cartesi_listApplications''), rq_app_id = app_id,
          rq_params = params, rq_count = get a ''expect_count'',
          rq_count_exact = get a ''expect_count_exact'', rq_path = get a ''path'',
          rq_value = get a ''value'', rq_error = truthy (get_or a ''expect_error'' (JBool False)),
          rq_error_code = get a ''expect_error_code'', rq_raw_body = get a ''raw_body'',
          rq_stress = get a ''stress_count'', rq_has_field = get a ''expect_has_field'',
          rq_last_epoch = truthy (get_or a ''use_last_epoch'' (JBool False)),
          rq_poll_timeout = poll_timeout, rq_poll_interval = poll_interval\<rparr>)))"

text \<open>Waiting for the last accepted epoch and adding its index to the parameters.\<close>

definition epoch_of :: "json \<Rightarrow> json res" where
  "epoch_of resp =
     res_bind (error_in resp) (\<lambda>e.
     if e then Inr JNull
     else res_bind (jget_or resp ''result'' (JObj [])) (\<lambda>r. jget_or r ''data'' JNull))"

definition epoch_poll :: "string \<Rightarrow> json \<Rightarrow> int \<Rightarrow> int \<Rightarrow> json \<Rightarrow> (json + json) io" where
  "epoch_poll url app_id deadline interval u =
     io_bind (io_catch
       (io_bind (http_post url (rpc_body (JStr ''cartesi_getLastAcceptedEpochIndex'') (JArr [app_id]) 99))
          (\<lambda>resp. io_bind (resp_json resp) (\<lambda>body. io_lift (epoch_of body))))
       (\<lambda>e. io_return JNull)) (\<lambda>epoch.
     io_bind io_now (\<lambda>t.
     if epoch \<noteq> JNull \<or> deadline \<le> t then io_return (Inr epoch)
     else io_bind (io_sleep (1000 * interval)) (\<lambda>_. io_return (Inl JNull))))"

definition with_epoch :: "json \<Rightarrow> json \<Rightarrow> json" where
  "with_epoch epoch params =
     (let e = (case epoch of JInt n \<Rightarrow> JStr (py_hex n) | JBool b \<Rightarrow> JStr (py_hex (of_bool b)) | _ \<Rightarrow> epoch) in
      if epoch = JNull then params
      else (case params of JArr xs \<Rightarrow> JArr (xs @ [e]) | JObj d \<Rightarrow> JObj (set_key d ''epoch_index'' e)
            | _ \<Rightarrow> params))"

definition epoch_params :: "rpc_spec \<Rightarrow> string \<Rightarrow> json io" where
  "epoch_params q url =
     (if rq_last_epoch q \<and> truthy (rq_app_id q) then
        io_bind io_now (\<lambda>t.
        let deadline = t + 1000 * rq_poll_timeout q in
        io_bind (io_while (\<lambda>_. True) deadline
                   (epoch_poll url (rq_app_id q) deadline (rq_poll_interval q)) JNull) (\<lambda>r.
        io_return (with_epoch (case r of Inl e \<Rightarrow> e | Inr e \<Rightarrow> e) (rq_params q))))
      else io_return (rq_params q))"

definition rpc_stress :: "rpc_spec \<Rightarrow> json \<Rightarrow> string \<Rightarrow> int \<Rightarrow> assertion_result io" where
  "rpc_stress q params url t0 =
     io_bind (io_lift (range_len (rq_stress q))) (\<lambda>n.
     io_bind (http_many n ''POST'' url (rpc_body (rq_method q) params 1)) (\<lambda>rs.
     let errors = count_errors rs; non_200 = count_bad (\<lambda>r. h_status r \<ge> 400) rs in
     timed t0 (plain_result ''json_rpc'' (errors = 0 \<and> non_200 = 0)
       (py_str (rq_method q) @ '' '' @ u_times @ '' '' @ py_str (rq_stress q) @ '': ''
        @ int_str (int errors) @ '' exceptions, '' @ int_str (int non_200) @ '' HTTP errors''))))"

definition raw_judge :: "json \<Rightarrow> http_reply \<Rightarrow> int \<Rightarrow> assertion_result res" where
  "raw_judge expect_code resp ms =
     (let body = (case h_json resp of Inl _ \<Rightarrow> JObj [] | Inr b \<Rightarrow> b);
          http_is_error = (h_status resp \<ge> 400); status = int_str (h_status resp) in
      res_bind (jget_or body ''error'' (JObj [])) (\<lambda>err.
      res_bind (jget_or err ''code'' JNull) (\<lambda>code.
      if expect_code \<noteq> JNull then
        (let got = ''http='' @ status @ '' code='' @ py_str code in
         Inr (full_result ''json_rpc'' (py_eq code expect_code \<or> http_is_error) (JStr (py_str expect_code))
                (JStr got)
                (''raw_body error: expected code='' @ py_str expect_code @ '', got '' @ got) ms))
      else res_bind (res_or (error_in body) (Inr http_is_error)) (\<lambda>is_error.
         Inr (plain_result ''json_rpc'' is_error
                (''raw_body '' @ u_arrow @ '' HTTP '' @ status @ '', error=''
                 @ py_str (py_or err (JStr (str_take 80 (h_text resp))))) ms)))))"

definition rpc_raw :: "rpc_spec \<Rightarrow> string \<Rightarrow> int \<Rightarrow> assertion_result io" where
  "rpc_raw q url t0 =
     io_bind (io_lift (as_str TypeError (rq_raw_body q))) (\<lambda>s.
     io_bind (http_post url (JStr s)) (\<lambda>resp.
     io_bind io_now (\<lambda>t. io_lift (raw_judge (rq_error_code q) resp (t - t0)))))"

definition error_judge :: "rpc_spec \<Rightarrow> json \<Rightarrow> int \<Rightarrow> assertion_result res" where
  "error_judge q body ms =
     (let m = py_str (rq_method q); want = rq_error_code q in
      res_bind (jget_or body ''error'' (JObj [])) (\<lambda>err.
      if want \<noteq> JNull then
        res_bind (jget_or err ''code'' JNull) (\<lambda>code.
        Inr (full_result ''json_rpc'' (py_eq code want) (JStr (py_str want)) (JStr (py_str code))
               (m @ '' error code: expected='' @ py_str want @ '' actual='' @ py_str code) ms))
      else res_bind (error_in body) (\<lambda>present.
        Inr (plain_result ''json_rpc'' present
               (m @ '': '' @ (if present then ''error present'' else ''no error (expected error)'')) ms))))"

definition rpc_error_result :: "rpc_spec \<Rightarrow> json \<Rightarrow> int \<Rightarrow> assertion_result res" where
  "rpc_error_result q body ms =
     res_bind (py_item body (JStr ''error'')) (\<lambda>err.
     res_bind (jget_or err ''message'' err) (\<lambda>msg.
     Inr (plain_result ''json_rpc'' False (py_str (rq_method q) @ '' error: '' @ py_str msg) ms)))"

definition rpc_call :: "rpc_spec \<Rightarrow> json \<Rightarrow> string \<Rightarrow> json io" where
  "rpc_call q params url =
     io_bind (http_post url (rpc_body (rq_method q) params 1)) resp_json"

text \<open>Repeating the call while it answers with an error, for \<open>expect_has_field\<close>.\<close>

definition field_poll :: "rpc_spec \<Rightarrow> json \<Rightarrow> string \<Rightarrow> json \<Rightarrow> (json + json) io" where
  "field_poll q params url u =
     io_bind (io_sleep (1000 * rq_poll_interval q)) (\<lambda>_.
     io_bind (rpc_call q params url) (\<lambda>body.
     io_bind (io_lift (error_in body)) (\<lambda>e. io_return (if e then Inl body else Inr body))))"

definition field_judge :: "rpc_spec \<Rightarrow> json \<Rightarrow> int \<Rightarrow> assertion_result res" where
  "field_judge q result ms =
     (let f = py_str (rq_has_field q) in
      res_bind (py_in (rq_has_field q) result) (\<lambda>found.
      res_bind (as_obj AttributeError result) (\<lambda>d.
      Inr (full_result ''json_rpc'' found (JStr (''field '' @ squote @ f @ squote @ '' present''))
             (JStr (str_take 200 (py_repr (JArr (map (JStr \<circ> fst) d)))))
             (py_str (rq_method q) @ '': field '' @ squote @ f @ squote
              @ (if found then '' found'' else '' missing'')) ms))))"

definition count_ok :: "rpc_spec \<Rightarrow> nat \<Rightarrow> bool res" where
  "count_ok q n =
     (if rq_count_exact q \<noteq> JNull then Inr (py_eq (JInt (int n)) (rq_count_exact q))
      else res_bind (py_num (rq_count q)) (\<lambda>k. Inr (int n \<ge> k)))"

definition data_len :: "json \<Rightarrow> nat res" where
  "data_len result = res_bind (jget_or result ''data'' (JArr [])) py_len"

text \<open>
  One round of the count loop: an error answer breaks, another exception is ignored; the state is
  the last count seen.
\<close>

definition count_round :: "rpc_spec \<Rightarrow> json \<Rightarrow> string \<Rightarrow> nat \<Rightarrow> (nat + nat) io" where
  "count_round q params url n =
     io_bind (http_post url (rpc_body (rq_method q) params 1)) (\<lambda>resp.
     io_bind (raise_for_status resp) (\<lambda>_.
     io_bind (resp_json resp) (\<lambda>body.
     io_bind (io_lift (error_in body)) (\<lambda>e.
     if e then io_return (Inr n)
     else io_bind (io_lift (res_bind (jget_or body ''result'' (JObj [])) data_len)) (\<lambda>m.
          io_return (case count_ok q m of Inr True \<Rightarrow> Inr m | _ \<Rightarrow> Inl m))))))"

definition count_poll :: "rpc_spec \<Rightarrow> json \<Rightarrow> string \<Rightarrow> nat \<Rightarrow> (nat + nat) io" where
  "count_poll q params url n =
     io_bind (io_sleep (1000 * rq_poll_interval q)) (\<lambda>_.
     io_catch (count_round q params url n) (\<lambda>e. io_return (Inl n)))"

definition first_param :: "json \<Rightarrow> json" where
  "first_param params =
     (case params of JArr (x # _) \<Rightarrow> x | JObj d \<Rightarrow> get_or d ''application'' (JStr []) | _ \<Rightarrow> JStr [])"

definition count_results_of :: "rpc_spec \<Rightarrow> json \<Rightarrow> nat \<Rightarrow> nat \<Rightarrow> int \<Rightarrow> assertion_result list res" where
  "count_results_of q params before after ms =
     (let m = py_str (rq_method q); n = int_str (int after);
          exp_str = (if rq_count_exact q \<noteq> JNull then ''== '' @ py_str (rq_count_exact q)
                     else ''>= '' @ py_str (rq_count q)) @ '' items'' in
      res_bind (count_ok q after) (\<lambda>passed.
      res_bind (count_after_result m (JInt (int before)) (JInt (int after)) False) (\<lambda>final.
      Inr [count_before_result m (JInt (int before)),
           full_result ''json_rpc'' passed (JStr exp_str) (JStr (n @ '' items''))
             (m @ ''('' @ py_str (first_param params) @ '') '' @ u_emdash @ '' '' @ n
              @ '' item(s) (expected '' @ exp_str @ '')''
              @ (if passed then []
                 else '' '' @ u_emdash @ '' timed out after '' @ int_str (rq_poll_timeout q) @ ''s'')) ms,
           final])))"

definition rpc_count :: "rpc_spec \<Rightarrow> json \<Rightarrow> string \<Rightarrow> int \<Rightarrow> json \<Rightarrow> assertion_result list io" where
  "rpc_count q params url t0 result =
     io_bind (io_lift (data_len result)) (\<lambda>before.
     io_bind io_now (\<lambda>t1.
     io_bind (io_lift (count_ok q before)) (\<lambda>good.
     io_bind (if good then io_return before
              else io_bind (io_while (\<lambda>_. False) (t1 + 1000 * rq_poll_timeout q) (count_poll q params url) before)
                     (\<lambda>r. io_return (case r of Inl n \<Rightarrow> n | Inr n \<Rightarrow> n))) (\<lambda>after.
     io_bind io_now (\<lambda>t. io_lift (count_results_of q params before after (t - t0)))))))"

definition path_judge :: "rpc_spec \<Rightarrow> json \<Rightarrow> int \<Rightarrow> assertion_result res" where
  "path_judge q result ms =
     res_bind (as_str TypeError (rq_path q)) (\<lambda>p.
     res_bind (walk (\<lambda>part. if startswith part ''['' \<and> startswith (rev part) '']'' then int_key (str_inner part)
                             else Inr (JStr part)) (re_split bracket_sep None p) result) (\<lambda>actual.
     Inr (full_result ''json_rpc'' (py_eq actual (rq_value q)) (rq_value q) actual
            (py_str (rq_method q) @ '' path='' @ py_repr (rq_path q) @ '': expected='' @ py_repr (rq_value q)
             @ '' actual='' @ py_repr actual) ms)))"

text \<open>What a successful answer is checked for.\<close>

definition rpc_success :: "rpc_spec \<Rightarrow> json \<Rightarrow> string \<Rightarrow> int \<Rightarrow> json \<Rightarrow> assertion_result list io" where
  "rpc_success q params url t0 body =
     io_bind (io_lift (jget_or body ''result'' (JObj []))) (\<lambda>result.
     let judge = (\<lambda>f. single (io_bind io_now (\<lambda>t. io_lift (f (t - t0))))) in
     if truthy (rq_has_field q) then judge (field_judge q result)
     else if rq_count q \<noteq> JNull \<or> rq_count_exact q \<noteq> JNull then rpc_count q params url t0 result
     else if truthy (rq_path q) then judge (path_judge q result)
     else single (timed t0 (full_result ''json_rpc'' True JNull (JStr (take 200 (json_dumps result)))
                    (py_str (rq_method q) @ '' succeeded''))))"

definition rpc_answer :: "rpc_spec \<Rightarrow> json \<Rightarrow> string \<Rightarrow> int \<Rightarrow> json \<Rightarrow> assertion_result list io" where
  "rpc_answer q params url t0 body =
     (let judge = (\<lambda>f. single (io_bind io_now (\<lambda>t. io_lift (f (t - t0)))));
          deadline = t0 + 1000 * rq_poll_timeout q in
      if rq_error q \<or> rq_error_code q \<noteq> JNull then judge (error_judge q body)
      else io_bind (io_lift (error_in body)) (\<lambda>e.
        if \<not> e then rpc_success q params url t0 body
        else io_bind (io_lift (py_item body (JStr ''error''))) (\<lambda>_.
          io_bind io_now (\<lambda>t.
          if truthy (rq_has_field q) \<and> t < deadline then
            io_bind (io_while (\<lambda>_. False) deadline (field_poll q params url) body) (\<lambda>r.
            case r of
              Inl b \<Rightarrow> judge (rpc_error_result q b)
            | Inr b \<Rightarrow> rpc_success q params url t0 b)
          else judge (rpc_error_result q body)))))"

definition rpc_request :: "rpc_spec \<Rightarrow> json \<Rightarrow> string \<Rightarrow> int \<Rightarrow> assertion_result list io" where
  "rpc_request q params url t0 =
     (if truthy (rq_stress q) then single (rpc_stress q params url t0)
      else if rq_raw_body q \<noteq> JNull then single (rpc_raw q url t0)
      else
        io_bind (http_post url (rpc_body (rq_method q) params 1)) (\<lambda>resp.
        io_bind (raise_for_status resp) (\<lambda>_.
        io_bind (resp_json resp) (rpc_answer q params url t0))))"

definition exec_json_rpc :: executor where
  "exec_json_rpc a ctx =
     io_bind (io_lift (rpc_spec_of a ctx)) (\<lambda>q.
     io_bind io_now (\<lambda>t0.
     let url = jsonrpc_rpc_url ctx in
     io_bind (epoch_params q url) (\<lambda>params.
     io_catch (rpc_request q params url t0) (\<lambda>e. single (failed_on ''json_rpc'' t0 e)))))"

section \<open>notice_check\<close>

definition str_is :: "json \<Rightarrow> string \<Rightarrow> string \<Rightarrow> bool res" where
  "str_is o' k v = res_bind (jget_or o' k JNull) (\<lambda>x. Inr (x = JStr v))"

definition is_notice :: "json \<Rightarrow> bool res" where
  "is_notice o' =
     res_or (str_is o' ''__typename'' ''Notice'')
     (res_or (str_is o' ''type'' ''Notice'')
     (res_or (res_bind (jget_or o' ''__typename'' (JStr [])) (\<lambda>x. Inr (contains ''notice'' (lower (py_str x)))))
     (res_or (str_is o' ''output_enum'' ''Notice'')
       (res_bind (jget_or o' ''decoded_data'' (JObj [])) (\<lambda>d. str_is d ''type'' ''Notice'')))))"

definition no_destination :: "json \<Rightarrow> bool res" where
  "no_destination o' =
     res_and (res_bind (jget_or o' ''destination'' JNull) (\<lambda>x. Inr (\<not> truthy x)))
       (res_bind (jget_or o' ''decoded_data'' (JObj [])) (\<lambda>d.
        res_bind (jget_or d ''destination'' JNull) (\<lambda>x. Inr (\<not> truthy x))))"

definition notice_payload :: "json \<Rightarrow> json res" where
  "notice_payload o' =
     res_bind (jget_or o' ''raw_data'' (JStr ''0x'')) (\<lambda>raw. jget_or o' ''payload'' raw)"

definition hex_text :: "json \<Rightarrow> string option" where
  \<comment> \<open>\<open>bytes.fromhex(p.removeprefix("0x")).decode("utf-8", errors="replace")\<close>, None when it raises\<close>
  "hex_text p =
     (case p of JStr s \<Rightarrow> map_option decode_replace (fromhex (removeprefix s ''0x'')) | _ \<Rightarrow> None)"

definition notice_matches :: "json \<Rightarrow> json \<Rightarrow> bool res" where
  "notice_matches wanted o' =
     res_bind (notice_payload o') (\<lambda>p.
     Inr (case hex_text p of None \<Rightarrow> False | Some t \<Rightarrow> in_str wanted t = Inr True))"

definition matching_notices :: "json \<Rightarrow> json \<Rightarrow> json list res" where
  "matching_notices wanted body =
     res_bind (jget_or body ''result'' (JObj [])) (\<lambda>result.
     res_bind (jget_or result ''data'' (JArr [])) (\<lambda>data.
     res_bind (py_iter data) (\<lambda>outputs.
     res_bind (res_filter is_notice outputs) (\<lambda>typed.
     res_bind (if typed = [] then res_filter no_destination outputs else Inr typed) (\<lambda>notices.
     if truthy wanted then res_filter (notice_matches wanted) notices else Inr notices)))))"

definition notice_sample :: "json list \<Rightarrow> json res" where
  "notice_sample ms =
     res_bind (py_index ms 0) (\<lambda>sample.
     res_bind (notice_payload sample) (\<lambda>p.
     case hex_text p of Some t \<Rightarrow> Inr (JStr (str_take 120 t)) | None \<Rightarrow> py_slice 120 p))"

definition notice_found :: "int \<Rightarrow> json list \<Rightarrow> nat \<Rightarrow> int \<Rightarrow> assertion_result list res" where
  "notice_found min_count ms before dur =
     res_bind (notice_sample ms) (\<lambda>sample.
     let after = int_str (int (length ms)); want = ''>= '' @ int_str min_count in
     res_bind (count_after_result ''notices'' (JInt (int before)) (JInt (int (length ms))) False) (\<lambda>final.
     Inr [count_before_result ''notices'' (JInt (int before)),
          full_result ''notice_check'' True (JStr (want @ '' notice(s)''))
            (JStr (after @ '' matching notice(s)''))
            (''Found '' @ after @ '' notice(s) (expected '' @ want @ '') | First: '' @ py_str sample) dur,
          final]))"

record notice_state =
  nt_before :: "nat option"
  nt_last :: nat

definition notice_round ::
  "int \<Rightarrow> json \<Rightarrow> int \<Rightarrow> json \<Rightarrow> int \<Rightarrow> notice_state \<Rightarrow> notice_state + assertion_result list" where
  \<comment> \<open>what one answered poll makes of the state; an exception ends the round where it is raised\<close>
  "notice_round min_count wanted t0 body t st =
     (case error_in body of
        Inl _ \<Rightarrow> Inl st
      | Inr True \<Rightarrow> Inl st
      | Inr False \<Rightarrow>
          (case matching_notices wanted body of
             Inl _ \<Rightarrow> Inl st
           | Inr ms \<Rightarrow>
               (let before = (case nt_before st of None \<Rightarrow> length ms | Some n \<Rightarrow> n);
                    st' = \<lparr>nt_before = Some before, nt_last = length ms\<rparr> in
                if int (length ms) \<ge> min_count
                then (case notice_found min_count ms before (t - t0) of Inl _ \<Rightarrow> Inl st' | Inr rs \<Rightarrow> Inr rs)
                else Inl st')))"

definition notice_poll ::
  "int \<Rightarrow> json \<Rightarrow> int \<Rightarrow> string \<Rightarrow> json \<Rightarrow> int \<Rightarrow> notice_state
     \<Rightarrow> (notice_state + assertion_result list) io" where
  "notice_poll min_count wanted t0 url app_id interval st =
     io_bind (io_catch
        (io_bind (http_post url (rpc_body (JStr ''cartesi_listOutputs'') (JArr [app_id]) 1)) (\<lambda>resp.
         io_bind (resp_json resp) (\<lambda>body.
         io_bind io_now (\<lambda>t. io_return (notice_round min_count wanted t0 body t st)))))
        (\<lambda>e. io_return (Inl st))) (\<lambda>r.
     case r of
       Inr rs \<Rightarrow> io_return (Inr rs)
     | Inl st' \<Rightarrow> io_bind (io_sleep (1000 * interval)) (\<lambda>_. io_return (Inl st')))"

definition notice_timeout :: "int \<Rightarrow> json \<Rightarrow> int \<Rightarrow> notice_state \<Rightarrow> int \<Rightarrow> assertion_result list res" where
  "notice_timeout min_count wanted poll_timeout st ms =
     (let want = ''>= '' @ int_str min_count; seen = int_str (int (nt_last st));
          main = full_result ''notice_check'' False
            (JStr (want @ '' notice(s)'' @ (if truthy wanted then '' containing '' @ py_repr wanted else [])))
            (JStr (seen @ '' matching notices after timeout''))
            (''Timed out after '' @ float_str poll_timeout @ ''s '' @ u_emdash @ '' last seen: '' @ seen
             @ '' (expected '' @ want @ '')'') ms in
      case nt_before st of
        None \<Rightarrow> Inr [main]
      | Some bc \<Rightarrow>
          res_bind (count_after_result ''notices'' (JInt (int bc)) (JInt (int (nt_last st))) False) (\<lambda>final.
          Inr [count_before_result ''notices'' (JInt (int bc)), main, final]))"

definition exec_notice_check :: executor where
  "exec_notice_check a ctx =
     (let wanted = get_or a ''contains_text'' (JStr []);
          app_id = py_or (cx_app_address ctx) (JStr ''app'') in
      io_bind (io_lift (py_int (get_or a ''min_count'' (JInt 1)))) (\<lambda>min_count.
      io_bind (io_lift (py_float (get_or a ''poll_interval'' (JInt 3)))) (\<lambda>poll_interval.
      io_bind (io_lift (py_float (get_or a ''poll_timeout'' (JInt 60)))) (\<lambda>poll_timeout.
      io_bind io_now (\<lambda>t0.
      io_bind (io_while (\<lambda>_. False) (t0 + 1000 * poll_timeout)
                 (notice_poll min_count wanted t0 (jsonrpc_rpc_url ctx) app_id poll_interval)
                 \<lparr>nt_before = None, nt_last = 0\<rparr>) (\<lambda>r.
      case r of
        Inr rs \<Rightarrow> io_return rs
      | Inl st \<Rightarrow> io_bind io_now (\<lambda>t. io_lift (notice_timeout min_count wanted poll_timeout st (t - t0)))))))))"

section \<open>chain_tx\<close>

definition ADD_INPUT_SELECTOR :: string where "ADD_INPUT_SELECTOR = ''1789cd63''"
definition SENDER :: string where "SENDER = ''0xf39Fd6e51aad88F6F4ce6aB8827279cffFb92266''"

text \<open>The call data of \<open>InputBox.addInput(address,bytes)\<close>, as hexadecimal ASCII text.\<close>

definition abi_encode_add_input :: "string \<Rightarrow> string \<Rightarrow> string" where
  "abi_encode_add_input app_address payload_hex =
     (let addr = zfill 64 (removeprefix (lower app_address) ''0x'');
          offset = zfill 64 ''40'';
          raw = replace_all '' '' [] (removeprefix (lower payload_hex) ''0x'');
          length_val = length raw div 2;
          length_enc = zfill 64 (hex_digits length_val);
          padded_len = ((length_val + 31) div 32) * 32;
          payload_enc = ljust0 (padded_len * 2) raw
      in ''0x'' @ ADD_INPUT_SELECTOR @ addr @ offset @ length_enc @ payload_enc)"

definition chain_payload :: "json \<Rightarrow> json" where
  "chain_payload raw =
     (case raw of
        JStr s \<Rightarrow> if startswith s ''0x'' then raw else JStr (''0x'' @ to_hex s)
      | _ \<Rightarrow> raw)"

definition submit_v1 :: "json \<Rightarrow> sandbox_context \<Rightarrow> int \<Rightarrow> assertion_result io" where
  "submit_v1 payload ctx t0 =
     (let url = host_url (cx_node_port ctx) ''/box'' in
      io_catch
        (io_bind (http_post url (JObj [(''payload'', payload)])) (\<lambda>resp.
         timed t0 (full_result ''chain_tx'' (h_status resp \<in> {200, 201, 202}) (JStr ''2xx'') (JInt (h_status resp))
           (''POST '' @ url @ '' payload='' @ py_repr payload @ '' '' @ u_arrow @ '' '' @ int_str (h_status resp)))))
        (failed_on ''chain_tx'' t0))"

definition tx_hash_of :: "json \<Rightarrow> json res" where
  "tx_hash_of send_data =
     res_bind (error_in send_data) (\<lambda>e.
     if e then res_bind (py_item send_data (JStr ''error'')) (\<lambda>err.
            Inl (Exc KRuntimeError (''eth_sendTransaction error: '' @ py_str err)))
     else res_bind (jget_or send_data ''result'' JNull) (\<lambda>h.
            if truthy h then Inr h
            else Inl (Exc KRuntimeError (''No tx hash returned: '' @ py_str send_data))))"

definition receipt_judge ::
  "string \<Rightarrow> json \<Rightarrow> json \<Rightarrow> bool \<Rightarrow> json \<Rightarrow> int \<Rightarrow> assertion_result res" where
  "receipt_judge app_addr payload tx_hash expect_revert receipt ms =
     res_bind (jget_or receipt ''status'' (JStr ''0x0'')) (\<lambda>st.
     res_bind (as_str TypeError st) (\<lambda>s.
     case str_int16 s of
       None \<Rightarrow> Inl ValueError
     | Some status \<Rightarrow>
         res_bind (py_slice 12 tx_hash) (\<lambda>short.
         Inr (full_result ''chain_tx'' (status = (if expect_revert then 0 else 1))
                (JStr (if expect_revert then ''tx reverted (status=0)'' else ''tx status=1''))
                (JStr (''tx status='' @ int_str status))
                (''InputBox.addInput(app='' @ str_take 10 app_addr @ u_ellipsis @ '', payload='' @ py_repr payload
                 @ '') '' @ u_arrow @ '' tx='' @ py_str short @ u_ellipsis @ '' status='' @ int_str status) ms))))"

definition receipt_poll ::
  "string \<Rightarrow> string \<Rightarrow> json \<Rightarrow> json \<Rightarrow> bool \<Rightarrow> int \<Rightarrow> unit \<Rightarrow> (unit + assertion_result) io" where
  "receipt_poll url app_addr payload tx_hash expect_revert t0 u =
     io_bind (http_post url (rpc_body (JStr ''eth_getTransactionReceipt'') (JArr [tx_hash]) 2)) (\<lambda>resp.
     io_bind (resp_json resp) (\<lambda>body.
     io_bind (io_lift (jget_or body ''result'' JNull)) (\<lambda>receipt.
     if truthy receipt then
       io_bind io_now (\<lambda>t.
       io_bind (io_lift (receipt_judge app_addr payload tx_hash expect_revert receipt (t - t0))) (\<lambda>r.
       io_return (Inr r)))
     else io_bind (io_sleep 1000) (\<lambda>_. io_return (Inl ())))))"

text \<open>The transaction as sent, in the key order of the source.\<close>

definition send_body :: "json \<Rightarrow> string \<Rightarrow> json" where
  "send_body inputbox calldata =
     rpc_body (JStr ''eth_sendTransaction'')
       (JArr [JObj [(''from'', JStr SENDER), (''to'', inputbox), (''data'', JStr calldata)]]) 1"

definition submit_v2 :: "json \<Rightarrow> json \<Rightarrow> sandbox_context \<Rightarrow> int \<Rightarrow> bool \<Rightarrow> assertion_result io" where
  "submit_v2 payload app_addr ctx t0 expect_revert =
     io_bind (io_lift (as_str AttributeError app_addr)) (\<lambda>addr.
     io_bind (io_lift (as_str AttributeError payload)) (\<lambda>hex.
     let url = anvil_rpc_url ctx in
     io_catch
       (io_bind (http_post url (send_body (cx_inputbox ctx) (abi_encode_add_input addr hex))) (\<lambda>resp.
        io_bind (resp_json resp) (\<lambda>send_data.
        io_bind (io_lift (tx_hash_of send_data)) (\<lambda>tx_hash.
        io_bind io_now (\<lambda>t1.
        io_bind (io_while (\<lambda>_. False) (t1 + 15000)
                   (receipt_poll url addr payload tx_hash expect_revert t0) ()) (\<lambda>r.
        case r of
          Inr res \<Rightarrow> io_return res
        | Inl _ \<Rightarrow> timed t0 (plain_result ''chain_tx'' False
            (''Timeout waiting for receipt of '' @ py_str tx_hash))))))))
       (failed_on ''chain_tx'' t0)))"

record chain_spec =
  ct_payload :: json
  ct_revert :: bool
  ct_repeat :: nat
  ct_app :: json

definition chain_spec_of :: "dict \<Rightarrow> sandbox_context \<Rightarrow> chain_spec res" where
  "chain_spec_of a ctx =
     res_bind (py_int (get_or a ''repeat'' (JInt 1))) (\<lambda>n.
     let given = get_or a ''app_address'' (JStr []);
         fallback = JStr ''0x0000000000000000000000000000000000000001'' in
     Inr \<lparr>ct_payload = chain_payload (get_or a ''payload'' (JStr ''0xdeadbeef'')),
          ct_revert = truthy (get_or a ''expect_revert'' (JBool False)), ct_repeat = nat (max 1 n),
          ct_app = (if cx_node_major ctx \<ge> 2 then py_or (cx_app_address ctx) (py_or given fallback)
                    else py_or given fallback)\<rparr>)"

text \<open>\<open>for i in range(repeat)\<close>: the last result, or the failed one with its position.\<close>

fun submit_loop ::
  "chain_spec \<Rightarrow> sandbox_context \<Rightarrow> int \<Rightarrow> nat \<Rightarrow> nat \<Rightarrow> assertion_result
     \<Rightarrow> (assertion_result + assertion_result) io" where
  "submit_loop c ctx t0 i 0 prev = io_return (Inr prev)"
| "submit_loop c ctx t0 i (Suc n) prev =
     io_bind (submit_v2 (ct_payload c) (ct_app c) ctx t0 (ct_revert c)) (\<lambda>r.
     if ar_passed r then submit_loop c ctx t0 (Suc i) n r
     else io_bind (timed t0 (plain_result ''chain_tx'' False
            (''['' @ int_str (int i + 1) @ ''/'' @ int_str (int (ct_repeat c)) @ ''] '' @ ar_detail r)))
            (\<lambda>x. io_return (Inl x)))"

definition after_poll :: "sandbox_context \<Rightarrow> json \<Rightarrow> json \<Rightarrow> (json + json) io" where
  "after_poll ctx before u =
     io_bind (fetch_input_count (jsonrpc_rpc_url ctx) (py_or (cx_app_address ctx) (JStr ''app''))) (\<lambda>after.
     io_bind (io_lift (py_num after)) (\<lambda>x.
     io_bind (io_lift (py_num before)) (\<lambda>b.
     if x > b then io_return (Inr after)
     else io_bind (io_sleep 2000) (\<lambda>_. io_return (Inl after)))))"

definition chain_summary :: "chain_spec \<Rightarrow> string \<Rightarrow> assertion_result \<Rightarrow> int \<Rightarrow> assertion_result io" where
  "chain_summary c addr r t0 =
     (if ct_repeat c > 1 then
        (let n = int_str (int (ct_repeat c)) in
         timed t0 (full_result ''chain_tx'' True (JStr (''all '' @ n @ '' inputs accepted''))
           (JStr (n @ '' inputs submitted''))
           (''Sent '' @ n @ u_times @ '' InputBox.addInput to '' @ str_take 10 addr @ u_ellipsis)))
      else io_return r)"

definition chain_v2 :: "chain_spec \<Rightarrow> sandbox_context \<Rightarrow> int \<Rightarrow> assertion_result list io" where
  "chain_v2 c ctx t0 =
     io_bind (fetch_input_count (jsonrpc_rpc_url ctx) (py_or (cx_app_address ctx) (JStr ''app''))) (\<lambda>before.
     io_bind (submit_loop c ctx t0 0 (ct_repeat c)
                ((plain_result ''chain_tx'' False ''no iterations'' 0)\<lparr>ar_duration := None\<rparr>)) (\<lambda>sent.
     case sent of
       Inl r \<Rightarrow>
         io_bind (io_lift (py_num before)) (\<lambda>b.
         io_return ((if b \<ge> 0 then [count_before_result ''inputs'' before] else []) @ [r]))
     | Inr r0 \<Rightarrow>
         io_bind (io_lift (as_str AttributeError (ct_app c))) (\<lambda>addr.
         io_bind (chain_summary c addr r0 t0) (\<lambda>r.
         io_bind (io_lift (py_num before)) (\<lambda>b.
         if b \<ge> 0 then
           io_bind io_now (\<lambda>t1.
           io_bind (io_while (\<lambda>_. False) (t1 + 15000) (after_poll ctx before) before) (\<lambda>x.
           let after = (case x of Inl v \<Rightarrow> v | Inr v \<Rightarrow> v) in
           io_bind (io_lift (count_after_result ''inputs'' before after True)) (\<lambda>final.
           io_return [count_before_result ''inputs'' before, r, final])))
         else io_return [r])))))"

definition exec_chain_tx :: executor where
  "exec_chain_tx a ctx =
     io_bind (io_lift (chain_spec_of a ctx)) (\<lambda>c.
     io_bind io_now (\<lambda>t0.
     if cx_node_major ctx \<ge> 2 then chain_v2 c ctx t0
     else single (submit_v1 (ct_payload c) ctx t0)))"

end
