(* ===== verification/Exec_Portal.thy ===== *)
theory Exec_Portal
  imports Exec_Rpc
begin

text \<open>
  \<open>executors/portal_deposit.py\<close> of the test runner: deposits of Ether and of test tokens through the portal
  contracts, by transactions of unlocked Anvil accounts or by a shell script in a Foundry container that
  shares Anvil's network.  The random suffix of the container's name is left out.
\<close>

section \<open>Words and call data\<close>

definition OverflowError :: exc where "OverflowError = Exc KOtherError ''OverflowError''"

text \<open>\<open>n.to_bytes(k, 'big')\<close>, and the left padding of \<open>bytes.rjust(32, b'\x00')\<close>.\<close>

fun be_bytes :: "nat \<Rightarrow> nat \<Rightarrow> string" where
  "be_bytes 0 n = []"
| "be_bytes (Suc k) n = be_bytes k (n div 256) @ [char_of (n mod 256)]"

definition uint_word :: "int \<Rightarrow> string res" where
  "uint_word n = (if n < 0 \<or> 2 ^ 256 \<le> n then Inl OverflowError else Inr (be_bytes 32 (nat n)))"

definition rjust32 :: "string \<Rightarrow> string" where
  "rjust32 b = replicate (32 - length b) (CHR 0x00) @ b"

definition addr_word :: "json \<Rightarrow> string res" where
  \<comment> \<open>\<open>bytes.fromhex(addr[2:]).rjust(32, b'\x00')\<close>\<close>
  "addr_word x = res_bind (as_str TypeError x) (\<lambda>s.
     case fromhex (str_drop 2 s) of None \<Rightarrow> Inl ValueError | Some b \<Rightarrow> Inr (rjust32 b))"

fun abi_words :: "string res list \<Rightarrow> string res" where
  "abi_words [] = Inr []"
| "abi_words (w # ws) = res_bind w (\<lambda>x. res_bind (abi_words ws) (\<lambda>y. Inr (x @ y)))"

definition abi_call :: "string \<Rightarrow> string res list \<Rightarrow> string res" where
  "abi_call selector ws = res_bind (abi_words ws) (\<lambda>b. Inr (''0x'' @ selector @ to_hex b))"

definition pad32 :: "string \<Rightarrow> string" where
  "pad32 v = zfill 64 (removeprefix (lower v) ''0x'')"

definition pad_block :: "string \<Rightarrow> string" where
  "pad_block b = b @ replicate ((32 - length b mod 32) mod 32) (CHR 0x00)"

definition layer_data :: "json \<Rightarrow> string res" where
  "layer_data x =
     (if truthy x \<and> x \<noteq> JStr ''0x''
      then res_bind (as_str AttributeError x) (\<lambda>s.
           case fromhex (removeprefix s ''0x'') of None \<Rightarrow> Inl ValueError | Some b \<Rightarrow> Inr b)
      else Inr [])"

definition abi_encode_deposit_ether :: "json \<Rightarrow> json \<Rightarrow> string res" where
  "abi_encode_deposit_ether app_address exec_layer_data =
     res_bind (as_str AttributeError app_address) (\<lambda>addr.
     res_bind (layer_data exec_layer_data) (\<lambda>b.
     Inr (''0x'' @ ''938c054f'' @ pad32 addr @ pad32 ''40'' @ pad32 (hex_digits (length b)) @ to_hex (pad_block b))))"

definition erc20_mint :: "json \<Rightarrow> int \<Rightarrow> string res" where
  "erc20_mint to n = abi_call ''40c10f19'' [addr_word to, uint_word n]"

definition erc20_approve :: "json \<Rightarrow> int \<Rightarrow> string res" where
  "erc20_approve spender n = abi_call ''095ea7b3'' [addr_word spender, uint_word n]"

definition erc20_deposit :: "json \<Rightarrow> json \<Rightarrow> int \<Rightarrow> string res" where
  "erc20_deposit token app n =
     abi_call ''21425ee0'' [addr_word token, addr_word app, uint_word n, uint_word 128, uint_word 0]"

definition erc721_mint :: "json \<Rightarrow> int \<Rightarrow> string res" where
  "erc721_mint to tid = abi_call ''40c10f19'' [addr_word to, uint_word tid]"

definition erc721_deposit :: "json \<Rightarrow> json \<Rightarrow> int \<Rightarrow> string res" where
  "erc721_deposit token app tid = abi_call ''28911e83''
     [addr_word token, addr_word app, uint_word tid, uint_word 160, uint_word 192, uint_word 0, uint_word 0]"

definition erc1155_mint :: "json \<Rightarrow> int \<Rightarrow> int \<Rightarrow> string res" where
  "erc1155_mint to tid n = abi_call ''156e29f6'' [addr_word to, uint_word tid, uint_word n]"

definition set_approval_for_all :: "json \<Rightarrow> bool \<Rightarrow> string res" where
  "set_approval_for_all operator approved =
     abi_call ''a22cb465'' [addr_word operator, uint_word (of_bool approved)]"

definition erc1155_deposit :: "json \<Rightarrow> json \<Rightarrow> int \<Rightarrow> int \<Rightarrow> string res" where
  "erc1155_deposit token app tid n = abi_call ''dec07dca''
     [addr_word token, addr_word app, uint_word tid, uint_word n, uint_word 192, uint_word 224, uint_word 0, uint_word 0]"

section \<open>Transactions\<close>

definition tx_call :: "string \<Rightarrow> json \<Rightarrow> string \<Rightarrow> dict \<Rightarrow> json" where
  "tx_call sender to data extra =
     rpc_body (JStr ''eth_sendTransaction'')
       (JArr [JObj ([(''from'', JStr sender), (''to'', to), (''data'', JStr data)] @ extra)]) 1"

definition receipt_call :: "json \<Rightarrow> json" where
  "receipt_call tx_hash = rpc_body (JStr ''eth_getTransactionReceipt'') (JArr [tx_hash]) 1"

definition get_code :: "string \<Rightarrow> json \<Rightarrow> json io" where
  "get_code url address =
     io_catch
       (io_bind (http_post url (rpc_body (JStr ''eth_getCode'') (JArr [address, JStr ''latest'']) 1)) (\<lambda>resp.
        io_bind (resp_json resp) (\<lambda>body. io_lift (jget_or body ''result'' (JStr ''0x'')))))
       (\<lambda>e. io_return (JStr ''0x''))"

definition wait_round :: "string \<Rightarrow> json \<Rightarrow> unit \<Rightarrow> (unit + json) io" where
  "wait_round url tx_hash u =
     io_bind (http_post url (receipt_call tx_hash)) (\<lambda>resp.
     io_bind (resp_json resp) (\<lambda>body.
     io_bind (io_lift (jget_or body ''result'' JNull)) (\<lambda>receipt.
     if truthy receipt then io_return (Inr receipt)
     else io_bind (io_sleep 1000) (\<lambda>_. io_return (Inl ())))))"

definition wait_receipt :: "string \<Rightarrow> json \<Rightarrow> json io" where
  "wait_receipt url tx_hash =
     io_bind io_now (\<lambda>t.
     io_bind (io_while (\<lambda>_. False) (t + 20000) (wait_round url tx_hash) ()) (\<lambda>r.
     case r of
       Inr receipt \<Rightarrow> io_return receipt
     | Inl _ \<Rightarrow> io_raise (Exc KRuntimeError (''Timeout waiting for receipt of '' @ py_str tx_hash))))"

definition receipt_status :: "json \<Rightarrow> int res" where
  "receipt_status receipt =
     res_bind (jget_or receipt ''status'' (JStr ''0x0'')) (\<lambda>st.
     res_bind (as_str TypeError st) (\<lambda>s. case str_int16 s of None \<Rightarrow> Inl ValueError | Some n \<Rightarrow> Inr n))"

definition rpc_refused :: "json \<Rightarrow> unit res" where
  \<comment> \<open>\<open>if "error" in data: raise RuntimeError(\<dots>)\<close>\<close>
  "rpc_refused data =
     res_bind (error_in data) (\<lambda>e.
     if e then res_bind (py_item data (JStr ''error'')) (\<lambda>err.
            Inl (Exc KRuntimeError (''eth_sendTransaction error: '' @ py_str err)))
     else Inr ())"

definition send_and_wait :: "string \<Rightarrow> string \<Rightarrow> json \<Rightarrow> string \<Rightarrow> unit io" where
  "send_and_wait url sender to data =
     io_bind (http_post url (tx_call sender to data [])) (\<lambda>resp.
     io_bind (resp_json resp) (\<lambda>result.
     io_bind (io_lift (rpc_refused result)) (\<lambda>_.
     io_bind (io_lift (py_item result (JStr ''result''))) (\<lambda>tx_hash.
     io_bind (wait_receipt url tx_hash) (\<lambda>receipt.
     io_bind (io_lift (receipt_status receipt)) (\<lambda>status.
     if status \<noteq> 1 then io_raise (Exc KRuntimeError (''Transaction reverted: '' @ py_str tx_hash))
     else io_return ()))))))"

text \<open>Consecutive transactions; the data of each is encoded when its turn comes.\<close>

type_synonym tx = "string \<times> json \<times> string res"

fun send_all :: "string \<Rightarrow> tx list \<Rightarrow> unit io" where
  "send_all url [] = io_return ()"
| "send_all url ((sender, to, data) # txs) =
     io_bind (io_lift data) (\<lambda>d. io_bind (send_and_wait url sender to d) (\<lambda>_. send_all url txs))"

section \<open>Scripts\<close>

definition ANVIL_RPC :: string where "ANVIL_RPC = ''http://localhost:8545''"
definition FOUNDRY_IMG :: string where "FOUNDRY_IMG = ''ghcr.io/foundry-rs/foundry:latest''"
definition DEPLOYER_KEY :: string where
  "DEPLOYER_KEY = ''0xac0974bec39a17e36ba4a6b4d238ff944bacb478cbed5efcae784d7bf4f2ff80''"
definition ERC721_KEY :: string where
  "ERC721_KEY = ''0x7c852118294e51e653712a81e05800f419141751be58f605c371e15141b007a6''"
definition ERC721_SENDER :: string where "ERC721_SENDER = ''0x90F79bf6EB2c4f870365E785982E1f101E93b906''"
definition ERC20_E2E_SENDER :: string where "ERC20_E2E_SENDER = ''0x9965507D1a55bcC2695C58ba16FB37d819B0A4dc''"
definition ERC1155_KEY :: string where
  "ERC1155_KEY = ''0xdbda1821b80551c9d65939329250132c444d90ea74307f05f60ce6b0c942d0c8''"
definition ERC1155_SENDER :: string where "ERC1155_SENDER = ''0x23618e81E3f5cdF7f54C3d65f7FBc0aBf5B21E8f''"

definition quoted :: "string \<Rightarrow> string" where "quoted s = squote @ s @ squote"

definition cast_send :: "string \<Rightarrow> string \<Rightarrow> string \<Rightarrow> string \<Rightarrow> string" where
  \<comment> \<open>one line of a script: options, target, signature, and the rest with its leading blanks\<close>
  "cast_send options target signature rest =
     ''cast send '' @ options @ '' --rpc-url '' @ ANVIL_RPC @ ''   '' @ target @ '' '' @ quoted signature @ rest @ '' 2>&1'' @ nl"

definition key_gas :: "string \<Rightarrow> string" where
  "key_gas key = ''--private-key '' @ key @ '' --gas-price 100gwei''"

definition erc20_deposit_script :: "string \<Rightarrow> string \<Rightarrow> string \<Rightarrow> int \<Rightarrow> string" where
  "erc20_deposit_script token portal app amount =
     (let n = int_str amount; opts = key_gas DEPLOYER_KEY in
      ''set -e'' @ nl
      @ cast_send opts token ''mint(address,uint256)'' ('' '' @ SENDER @ '' '' @ n)
      @ cast_send opts token ''approve(address,uint256)'' ('' '' @ portal @ '' '' @ n)
      @ cast_send opts portal ''depositERC20Tokens(address,address,uint256,bytes)''
          (''   '' @ token @ '' '' @ app @ '' '' @ n @ '' 0x''))"

text \<open>\<open>base64.b64encode\<close>.\<close>

definition b64_char :: "nat \<Rightarrow> char" where
  "b64_char n =
     (if n < 26 then char_of (65 + n) else if n < 52 then char_of (71 + n) else if n < 62 then char_of (n - 4)
      else if n = 62 then CHR ''+'' else CHR ''/'')"

fun b64 :: "string \<Rightarrow> string" where
  "b64 [] = []"
| "b64 [a] = [b64_char (ord a div 4), b64_char (ord a mod 4 * 16), CHR ''='', CHR ''='']"
| "b64 [a, b] = [b64_char (ord a div 4), b64_char (ord a mod 4 * 16 + ord b div 16), b64_char (ord b mod 16 * 4), CHR ''='']"
| "b64 (a # b # c # cs) =
     [b64_char (ord a div 4), b64_char (ord a mod 4 * 16 + ord b div 16), b64_char (ord b mod 16 * 4 + ord c div 64),
      b64_char (ord c mod 64)] @ b64 cs"

definition token_source :: "string \<Rightarrow> string \<Rightarrow> string \<Rightarrow> string \<Rightarrow> string" where
  \<comment> \<open>the three Solidity wrappers: standard, constructor arguments, parameters of \<open>mint\<close>, its body\<close>
  "token_source std args params body =
     ''// SPDX-License-Identifier: MIT'' @ nl @ ''pragma solidity ^0.8.20;'' @ nl
     @ ''import '' @ [dquote] @ ''@openzeppelin/contracts/token/'' @ std @ ''/'' @ std @ ''.sol'' @ [dquote] @ '';'' @ nl
     @ ''contract Test'' @ std @ '' is '' @ std @ '' {'' @ nl
     @ ''    constructor() '' @ std @ ''('' @ args @ '') {}'' @ nl
     @ ''    function mint('' @ params @ '') external { '' @ body @ '' }'' @ nl @ ''}'' @ nl"

definition dq :: "string \<Rightarrow> string" where "dq s = [dquote] @ s @ [dquote]"

definition ERC20_SOL :: string where
  "ERC20_SOL = token_source ''ERC20'' (dq ''Test Token'' @ '', '' @ dq ''TST'') ''address to, uint256 amount'' ''_mint(to, amount);''"
definition ERC721_SOL :: string where
  "ERC721_SOL = token_source ''ERC721'' (dq ''Test NFT'' @ '', '' @ dq ''TNFT'') ''address to, uint256 tokenId'' ''_safeMint(to, tokenId);''"
definition ERC1155_SOL :: string where
  "ERC1155_SOL = token_source ''ERC1155'' (dq []) ''address to, uint256 id, uint256 amount''
     (''_mint(to, id, amount, '' @ dq [] @ '');'')"

definition escaped_nl :: string where "escaped_nl = [backslash, CHR ''n'']"

definition deploy_script :: "string \<Rightarrow> string \<Rightarrow> string \<Rightarrow> string" where
  \<comment> \<open>the part of the three fallback scripts that compiles and deploys the token\<close>
  "deploy_script std sol key =
     ''set -e'' @ nl
     @ ''PROJ=/tmp/tokens && mkdir -p $PROJ/src && cd $PROJ'' @ nl
     @ ''printf '' @ quoted (''[profile.default]'' @ escaped_nl @ ''src = '' @ dq ''src'' @ escaped_nl @ ''out = '' @ dq ''out''
                          @ escaped_nl @ ''libs = ['' @ dq ''lib'' @ '']'' @ escaped_nl) @ '' > foundry.toml'' @ nl
     @ ''forge install --no-git OpenZeppelin/openzeppelin-contracts@v5.0.0 2>&1'' @ nl
     @ ''printf '' @ quoted (''@openzeppelin/contracts/=lib/openzeppelin-contracts/contracts/'' @ escaped_nl)
     @ '' > remappings.txt'' @ nl
     @ ''echo '' @ quoted (b64 sol) @ '' | base64 -d > src/Test'' @ std @ ''.sol'' @ nl
     @ ''forge create src/Test'' @ std @ ''.sol:Test'' @ std @ ''   --rpc-url '' @ ANVIL_RPC @ '' --private-key '' @ key
     @ '' --broadcast 2>&1 | tee /tmp/forge_out.txt'' @ nl
     @ ''TOKEN=$(grep '' @ quoted ''Deployed to:'' @ '' /tmp/forge_out.txt | awk '' @ quoted ''{print $3}'' @ '')'' @ nl
     @ ''echo '' @ dq ''DEPLOYED_TOKEN=$TOKEN'' @ nl"

definition erc20_script :: "string \<Rightarrow> string \<Rightarrow> int \<Rightarrow> string" where
  "erc20_script portal app amount =
     (let n = int_str amount; opts = ''--private-key '' @ DEPLOYER_KEY in
      deploy_script ''ERC20'' ERC20_SOL DEPLOYER_KEY
      @ cast_send opts ''$TOKEN'' ''mint(address,uint256)'' ('' '' @ SENDER @ '' '' @ n)
      @ cast_send opts ''$TOKEN'' ''approve(address,uint256)'' ('' '' @ portal @ '' '' @ n)
      @ cast_send opts portal ''depositERC20Tokens(address,address,uint256,bytes)''
          (''   $TOKEN '' @ app @ '' '' @ n @ '' 0x''))"

definition erc721_script :: "string \<Rightarrow> string \<Rightarrow> int \<Rightarrow> string" where
  "erc721_script portal app tid =
     (let n = int_str tid; opts = ''--private-key '' @ ERC721_KEY in
      deploy_script ''ERC721'' ERC721_SOL ERC721_KEY
      @ cast_send opts ''$TOKEN'' ''mint(address,uint256)'' ('' '' @ ERC721_SENDER @ '' '' @ n)
      @ cast_send opts ''$TOKEN'' ''setApprovalForAll(address,bool)'' ('' '' @ portal @ '' true'')
      @ cast_send opts portal ''depositERC721Token(address,address,uint256,bytes,bytes)''
          (''   $TOKEN '' @ app @ '' '' @ n @ '' 0x 0x''))"

definition erc1155_script :: "string \<Rightarrow> string \<Rightarrow> int \<Rightarrow> int \<Rightarrow> string" where
  "erc1155_script portal app tid amount =
     (let n = int_str tid @ '' '' @ int_str amount; opts = ''--private-key '' @ ERC1155_KEY in
      deploy_script ''ERC1155'' ERC1155_SOL ERC1155_KEY
      @ cast_send opts ''$TOKEN'' ''mint(address,uint256,uint256)'' ('' '' @ ERC1155_SENDER @ '' '' @ n)
      @ cast_send opts ''$TOKEN'' ''setApprovalForAll(address,bool)'' ('' '' @ portal @ '' true'')
      @ cast_send opts portal ''depositSingleERC1155Token(address,address,uint256,uint256,bytes,bytes)''
          (''   $TOKEN '' @ app @ '' '' @ n @ '' 0x 0x''))"

section \<open>The Foundry container\<close>

definition anvil_container :: "string \<Rightarrow> string \<Rightarrow> string io" where
  "anvil_container missing sandbox_id =
     io_bind (docker ''ps'' [''rvp.sandbox_id='' @ sandbox_id, ''rvp.component=anvil'']) (\<lambda>a.
     io_bind (io_lift (found_of a)) (\<lambda>ids.
     case ids of [] \<Rightarrow> io_raise (Exc KRuntimeError missing) | i # _ \<Rightarrow> io_return i))"

text \<open>Waiting for the script and reading its output; \<open>failure\<close> words a non-zero exit code.\<close>

definition script_output :: "string \<Rightarrow> nat \<Rightarrow> (int \<Rightarrow> string \<Rightarrow> string) \<Rightarrow> string io" where
  "script_output cname secs failure =
     io_bind (docker ''wait'' [cname, nat_str secs]) (\<lambda>a.
     io_bind (io_lift (exit_of a)) (\<lambda>(rc, _, _).
     io_bind (docker ''logs'' [cname]) (\<lambda>b.
     io_bind (io_lift (log_of b)) (\<lambda>bytes.
     let output = decode_replace bytes in
     if rc \<noteq> 0 then io_raise (Exc KRuntimeError (failure rc output)) else io_return output))))"

definition run_script ::
  "string \<Rightarrow> string \<Rightarrow> nat \<Rightarrow> (int \<Rightarrow> string \<Rightarrow> string) \<Rightarrow> string \<Rightarrow> string \<Rightarrow> string io" where
  "run_script missing cname secs failure script sandbox_id =
     io_bind (anvil_container missing sandbox_id) (\<lambda>anvil.
     io_bind (docker ''rm'' [cname]) (\<lambda>_.
     io_bind (docker ''run'' [FOUNDRY_IMG, cname, ''container:'' @ anvil, script]) (\<lambda>a.
     io_bind (io_lift (done_of a)) (\<lambda>_.
     io_bind (io_catch (io_bind (script_output cname secs failure) (\<lambda>out. io_return (Inr out)))
                (\<lambda>e. io_return (Inl e))) (\<lambda>r.
     io_bind (docker ''rm'' [cname]) (\<lambda>_. io_lift r))))))"

definition run_foundry_script :: "string \<Rightarrow> string \<Rightarrow> string io" where
  "run_foundry_script script sandbox_id =
     run_script (''No running Anvil container found for sandbox '' @ str_take 8 sandbox_id @ '' '' @ u_emdash
                 @ '' is the Docker socket mounted in the test-runner?'')
       ''rvp-portal'' 300
       (\<lambda>rc output. ''Foundry portal script exited '' @ int_str rc @ ''. Output: '' @ str_last 1200 output)
       script sandbox_id"

fun parse_deployed :: "string list \<Rightarrow> string option" where
  "parse_deployed [] = None"
| "parse_deployed (l # ls) =
     (let parts = split_ws l in
      if contains ''Deployed to:'' l \<and> 3 \<le> length parts then Some (strip (last parts)) else parse_deployed ls)"

section \<open>The deposits\<close>

definition portal_failed :: "string \<Rightarrow> int \<Rightarrow> assertion_result io" where
  "portal_failed detail t0 = timed t0 (plain_result ''portal_deposit'' False detail)"

definition portal_app :: "sandbox_context \<Rightarrow> json" where
  "portal_app ctx = py_or (cx_app_address ctx) (JStr ''0x0000000000000000000000000000000000000001'')"

text \<open>A deposit once the portal is known to have code.\<close>

definition with_code :: "string \<Rightarrow> json \<Rightarrow> string \<Rightarrow> int \<Rightarrow> assertion_result io \<Rightarrow> assertion_result io" where
  "with_code url portal complaint t0 m =
     io_bind (get_code url portal) (\<lambda>code. if code = JStr ''0x'' then portal_failed complaint t0 else m)"

definition ether_detail :: "json \<Rightarrow> int \<Rightarrow> json \<Rightarrow> int \<Rightarrow> string res" where
  "ether_detail app amount tx_hash status =
     res_bind (py_slice 10 app) (\<lambda>a. res_bind (py_slice 12 tx_hash) (\<lambda>h.
     Inr (''EtherPortal.depositEther(app='' @ py_str a @ u_ellipsis @ '', 0x) value='' @ int_str amount @ '' wei '' @ u_arrow
          @ '' tx='' @ py_str h @ u_ellipsis @ '' status='' @ int_str status)))"

definition send_ether :: "json \<Rightarrow> json \<Rightarrow> string \<Rightarrow> string \<Rightarrow> int \<Rightarrow> int \<Rightarrow> assertion_result io" where
  "send_ether app portal url calldata amount t0 =
     io_bind (http_post url (tx_call SENDER portal calldata [(''value'', JStr (py_hex amount))])) (\<lambda>resp.
     io_bind (resp_json resp) (\<lambda>data.
     io_bind (io_lift (rpc_refused data)) (\<lambda>_.
     io_bind (io_lift (jget_or data ''result'' JNull)) (\<lambda>tx_hash.
     io_bind (wait_receipt url tx_hash) (\<lambda>receipt.
     io_bind (io_lift (receipt_status receipt)) (\<lambda>status.
     io_bind (io_lift (ether_detail app amount tx_hash status)) (\<lambda>detail.
     timed t0 (full_result ''portal_deposit'' (status = 1) (JStr ''ether deposit tx status=1'')
                 (JStr (''tx status='' @ int_str status)) detail))))))))"

definition deposit_ether :: "dict \<Rightarrow> sandbox_context \<Rightarrow> int \<Rightarrow> int \<Rightarrow> assertion_result io" where
  "deposit_ether a ctx amount t0 =
     (let portal = cx_ether_portal ctx; app = portal_app ctx; url = anvil_rpc_url ctx in
      with_code url portal (''EtherPortal has no bytecode at '' @ py_str portal @ '' '' @ u_emdash
                            @ '' wrong address or not deployed'') t0
        (io_bind (io_lift (abi_encode_deposit_ether app (get_or a ''exec_layer_data'' (JStr ''0x'')))) (\<lambda>calldata.
         io_catch (send_ether app portal url calldata amount t0) (\<lambda>e. portal_failed (exc_str e) t0))))"

text \<open>The direct path, the same for the three standards, and the path through a script.\<close>

definition deposit_confirmed :: "string \<Rightarrow> string \<Rightarrow> int \<Rightarrow> assertion_result io" where
  "deposit_confirmed std detail t0 =
     timed t0 (full_result ''portal_deposit'' True (JStr (std @ '' deposit tx status=1''))
       (JStr ''deposit transaction confirmed'') detail)"

definition direct_deposit :: "string \<Rightarrow> string \<Rightarrow> int \<Rightarrow> tx list \<Rightarrow> string res \<Rightarrow> assertion_result io" where
  "direct_deposit std url t0 txs detail =
     io_catch
       (io_bind (send_all url txs) (\<lambda>_. io_bind (io_lift detail) (\<lambda>d. deposit_confirmed std d t0)))
       (\<lambda>e. portal_failed (std @ '' direct deposit failed: '' @ exc_str e) t0)"

definition script_deposit ::
  "string \<Rightarrow> string \<Rightarrow> sandbox_context \<Rightarrow> int \<Rightarrow> (string \<Rightarrow> string res) \<Rightarrow> assertion_result io" where
  "script_deposit std script ctx t0 detail =
     io_bind (io_catch (io_bind (in_thread (run_foundry_script script (cx_sandbox_id ctx))) (\<lambda>out. io_return (Inr out)))
                (\<lambda>e. io_return (Inl e))) (\<lambda>r.
     case r of
       Inl e \<Rightarrow> portal_failed (std @ '' deposit script failed: '' @ exc_str e) t0
     | Inr output \<Rightarrow> io_bind (io_lift (detail output)) (\<lambda>d. deposit_confirmed std d t0))"

definition token_label :: "json \<Rightarrow> string \<Rightarrow> json" where
  "token_label token output =
     (if truthy token then token
      else (case parse_deployed (splitlines output) of None \<Rightarrow> JStr ''?'' | Some s \<Rightarrow> if s = [] then JStr ''?'' else JStr s))"

definition deposit_detail :: "string \<Rightarrow> json \<Rightarrow> json \<Rightarrow> string \<Rightarrow> string \<Rightarrow> string res" where
  "deposit_detail std token app steps rest =
     res_bind (py_slice 12 token) (\<lambda>t. res_bind (py_slice 10 app) (\<lambda>a.
     Inr (''Test'' @ std @ '' at '' @ py_str t @ u_ellipsis @ ''  '' @ steps @ ''(token, app='' @ py_str a @ u_ellipsis
          @ '', '' @ rest @ '')'')))"

definition erc20_detail :: "json \<Rightarrow> json \<Rightarrow> int \<Rightarrow> string res" where
  "erc20_detail token app amount =
     deposit_detail ''ERC20'' token app (''mint('' @ int_str amount @ '') '' @ u_arrow @ '' approve(ERC20Portal) '' @ u_arrow
       @ '' depositERC20Tokens'') (''amount='' @ int_str amount)"

definition erc20_txs :: "json \<Rightarrow> json \<Rightarrow> json \<Rightarrow> int \<Rightarrow> tx list" where
  "erc20_txs token portal app amount =
     [(SENDER, token, erc20_mint (JStr ERC20_E2E_SENDER) amount),
      (ERC20_E2E_SENDER, token, erc20_approve portal amount),
      (ERC20_E2E_SENDER, portal, erc20_deposit token app amount)]"

definition deposit_erc20 :: "dict \<Rightarrow> sandbox_context \<Rightarrow> int \<Rightarrow> int \<Rightarrow> assertion_result io" where
  "deposit_erc20 a ctx amount t0 =
     (let portal = cx_erc20_portal ctx; app = portal_app ctx; token = cx_erc20_token ctx; url = anvil_rpc_url ctx in
      with_code url portal (''ERC20Portal has no bytecode at '' @ py_str portal) t0
        (if truthy token \<and> truthy (get_or a ''use_alt_sender'' (JBool False))
         then direct_deposit ''ERC20'' url t0 (erc20_txs token portal app amount) (erc20_detail token app amount)
         else script_deposit ''ERC20''
                (if truthy token then erc20_deposit_script (py_str token) (py_str portal) (py_str app) amount
                 else erc20_script (py_str portal) (py_str app) amount)
                ctx t0 (\<lambda>output. erc20_detail (token_label token output) app amount)))"

definition erc721_detail :: "json \<Rightarrow> json \<Rightarrow> int \<Rightarrow> string res" where
  "erc721_detail token app tid =
     deposit_detail ''ERC721'' token app (''mint(id='' @ int_str tid @ '') '' @ u_arrow @ '' setApprovalForAll(ERC721Portal) ''
       @ u_arrow @ '' depositERC721Token'') (''id='' @ int_str tid)"

definition erc721_txs :: "json \<Rightarrow> json \<Rightarrow> json \<Rightarrow> int \<Rightarrow> tx list" where
  "erc721_txs token portal app tid =
     [(ERC721_SENDER, token, erc721_mint (JStr ERC721_SENDER) tid),
      (ERC721_SENDER, token, set_approval_for_all portal True),
      (ERC721_SENDER, portal, erc721_deposit token app tid)]"

text \<open>The token of a direct ERC721 deposit is derived from the clock.\<close>

definition effective_id :: "int \<Rightarrow> int \<Rightarrow> int" where
  "effective_id tid clock = tid + clock mod 10 ^ 9 * 1000"

definition deposit_erc721 :: "sandbox_context \<Rightarrow> int \<Rightarrow> int \<Rightarrow> assertion_result io" where
  "deposit_erc721 ctx tid t0 =
     (let portal = cx_erc721_portal ctx; app = portal_app ctx; token = cx_erc721_token ctx; url = anvil_rpc_url ctx in
      with_code url portal (''ERC721Portal has no bytecode at '' @ py_str portal) t0
        (if truthy token
         then io_bind io_now (\<lambda>t. let eid = effective_id tid t in
                direct_deposit ''ERC721'' url t0 (erc721_txs token portal app eid) (erc721_detail token app eid))
         else script_deposit ''ERC721'' (erc721_script (py_str portal) (py_str app) tid) ctx t0
                (\<lambda>output. erc721_detail (token_label JNull output) app tid)))"

definition erc1155_detail :: "json \<Rightarrow> json \<Rightarrow> int \<Rightarrow> int \<Rightarrow> string res" where
  "erc1155_detail token app tid amount =
     deposit_detail ''ERC1155'' token app (''mint('' @ int_str amount @ u_times @ ''id='' @ int_str tid @ '') '' @ u_arrow
       @ '' setApprovalForAll(ERC1155Portal) '' @ u_arrow @ '' depositSingleERC1155Token'')
       (''id='' @ int_str tid @ '', value='' @ int_str amount)"

definition erc1155_mint_tx :: "json \<Rightarrow> int \<times> int \<Rightarrow> tx" where
  "erc1155_mint_tx token = (\<lambda>(tid, n). (ERC1155_SENDER, token, erc1155_mint (JStr ERC1155_SENDER) tid n))"

definition erc1155_deposit_tx :: "json \<Rightarrow> json \<Rightarrow> json \<Rightarrow> int \<times> int \<Rightarrow> tx" where
  "erc1155_deposit_tx token portal app = (\<lambda>(tid, n). (ERC1155_SENDER, portal, erc1155_deposit token app tid n))"

definition erc1155_txs :: "json \<Rightarrow> json \<Rightarrow> json \<Rightarrow> (int \<times> int) list \<Rightarrow> tx list" where
  "erc1155_txs token portal app items =
     map (erc1155_mint_tx token) items @ [(ERC1155_SENDER, token, set_approval_for_all portal True)]
     @ map (erc1155_deposit_tx token portal app) items"

definition deposit_erc1155 :: "sandbox_context \<Rightarrow> int \<Rightarrow> int \<Rightarrow> int \<Rightarrow> assertion_result io" where
  "deposit_erc1155 ctx tid amount t0 =
     (let portal = cx_erc1155_portal ctx; app = portal_app ctx; token = cx_erc1155_token ctx; url = anvil_rpc_url ctx in
      with_code url portal (''ERC1155SinglePortal has no bytecode at '' @ py_str portal) t0
        (if truthy token
         then direct_deposit ''ERC1155'' url t0 (erc1155_txs token portal app [(tid, amount)])
                (erc1155_detail token app tid amount)
         else script_deposit ''ERC1155'' (erc1155_script (py_str portal) (py_str app) tid amount) ctx t0
                (\<lambda>output. erc1155_detail (token_label JNull output) app tid amount)))"

definition int_list :: "dict \<Rightarrow> string \<Rightarrow> int list \<Rightarrow> int list res" where
  "int_list a k d = res_bind (py_iter (get_or a k (JArr (map JInt d)))) (res_map py_int)"

definition batch_result :: "(int \<times> int) list \<Rightarrow> int \<Rightarrow> assertion_result io" where
  "batch_result items t0 =
     (let n = nat_str (length items) in
      timed t0 (full_result ''portal_deposit'' True
        (JStr (''ERC1155 batch deposit ('' @ n @ '' tokens) via SinglePortal'')) (JStr ''all deposits confirmed'')
        (''Deposited '' @ n @ '' token IDs via ERC1155SinglePortal: ''
         @ join '', '' (map (\<lambda>(t, m). ''id='' @ int_str t @ u_times @ int_str m) items))))"

definition deposit_erc1155_batch :: "dict \<Rightarrow> sandbox_context \<Rightarrow> int \<Rightarrow> assertion_result io" where
  "deposit_erc1155_batch a ctx t0 =
     (let portal = cx_erc1155_portal ctx; app = portal_app ctx; token = cx_erc1155_token ctx; url = anvil_rpc_url ctx in
      io_bind (io_lift (int_list a ''token_ids'' [1, 2])) (\<lambda>token_ids.
      io_bind (io_lift (int_list a ''amounts'' [100, 100])) (\<lambda>amounts.
      if length token_ids \<noteq> length amounts
      then portal_failed ''erc1155_batch: token_ids and amounts must have the same length'' t0
      else with_code url portal (''ERC1155SinglePortal has no bytecode at '' @ py_str portal) t0
        (if \<not> truthy token
         then portal_failed ''erc1155_batch requires a pre-deployed ERC1155 token (erc1155_token_address not set in context)'' t0
         else (let items = zip token_ids amounts in
               io_catch (io_bind (send_all url (erc1155_txs token portal app items)) (\<lambda>_. batch_result items t0))
                 (\<lambda>e. portal_failed (''erc1155_batch deposit failed: '' @ exc_str e) t0))))))"

section \<open>The executor\<close>

text \<open>\<open>type(exc).__name__\<close>, as far as the model keeps the class.\<close>

fun class_name :: "exc_kind \<Rightarrow> string" where
  "class_name KAttributeError = ''AttributeError''"
| "class_name KTypeError = ''TypeError''"
| "class_name KKeyError = ''KeyError''"
| "class_name KIndexError = ''IndexError''"
| "class_name KValueError = ''ValueError''"
| "class_name KRuntimeError = ''RuntimeError''"
| "class_name KHTTPStatusError = ''HTTPStatusError''"
| "class_name KTimeoutExpired = ''TimeoutExpired''"
| "class_name KOtherError = ''Exception''"

definition deposit :: "string \<Rightarrow> dict \<Rightarrow> sandbox_context \<Rightarrow> int \<Rightarrow> int \<Rightarrow> int \<Rightarrow> assertion_result io" where
  "deposit token_type a ctx amount tid t0 =
     (if token_type = ''ether'' then deposit_ether a ctx amount t0
      else if token_type = ''erc20'' then deposit_erc20 a ctx amount t0
      else if token_type = ''erc721'' then deposit_erc721 ctx tid t0
      else if token_type = ''erc1155'' then deposit_erc1155 ctx tid amount t0
      else deposit_erc1155_batch a ctx t0)"

definition counted_deposit :: "sandbox_context \<Rightarrow> json \<Rightarrow> assertion_result \<Rightarrow> assertion_result list io" where
  "counted_deposit ctx before result =
     io_bind (io_lift (py_num before)) (\<lambda>b.
     if b \<ge> 0 then
       io_bind io_now (\<lambda>t.
       io_bind (io_while (\<lambda>_. False) (t + 15000) (after_poll ctx before) before) (\<lambda>x.
       let after = (case x of Inl v \<Rightarrow> v | Inr v \<Rightarrow> v) in
       io_bind (io_lift (count_after_result ''inputs'' before after True)) (\<lambda>final.
       io_return [count_before_result ''inputs'' before, result, final])))
     else io_return [result])"

definition token_types :: "string list" where
  "token_types = [''ether'', ''erc20'', ''erc721'', ''erc1155'', ''erc1155_batch'']"

definition exec_portal_deposit :: executor where
  "exec_portal_deposit a ctx =
     io_bind (io_lift (as_str AttributeError (get_or a ''token_type'' (JStr ''ether'')))) (\<lambda>ty.
     let token_type = lower ty in
     io_bind (io_lift (py_int (get_or a ''amount'' (JInt 1000000000000000000)))) (\<lambda>amount.
     io_bind (io_lift (py_int (get_or a ''token_id'' (JInt 1)))) (\<lambda>tid.
     io_bind io_now (\<lambda>t0.
     io_bind (if cx_node_major ctx \<ge> 2
              then fetch_input_count (jsonrpc_rpc_url ctx) (py_or (cx_app_address ctx) (JStr ''app''))
              else io_return (JInt (- 1))) (\<lambda>before.
     if token_type \<notin> set token_types
     then single (portal_failed (''Unknown token_type: '' @ str_repr token_type
                    @ '' (expected ether|erc20|erc721|erc1155|erc1155_batch)'') t0)
     else
       io_bind (io_catch (io_bind (deposit token_type a ctx amount tid t0) (\<lambda>r. io_return (Inr r)))
                  (\<lambda>e. io_return (Inl e))) (\<lambda>r.
       case r of
         Inl e \<Rightarrow> single (portal_failed (class_name (exc_kind e) @ '': '' @ exc_str e) t0)
       | Inr result \<Rightarrow> counted_deposit ctx before result))))))"

end
