(* ===== verification/Exec_Voucher_V2.thy ===== *)
theory Exec_Voucher_V2
  imports Exec_Portal
begin

text \<open>
  \<open>executors/voucher_v2.py\<close> of the test runner: making the application emit a voucher, waiting for it in
  \<open>cartesi_listOutputs\<close>, and executing it on chain once its epoch is claimed, with the two interventions
  on a stuck node (submitting the claim, restarting the validator).

  The dict of restart times belongs to the process: \<open>peers t\<close> is the time of the last restart of this
  sandbox's validator by other tests, as it stands at time \<open>t\<close> (0 if there was none).  The random suffix of
  the container's name is left out.
\<close>

section \<open>Setup scripts\<close>

definition SETUP_AMOUNT :: int where "SETUP_AMOUNT = 1000"
definition V2_ERC721_TOKEN_ID :: int where "V2_ERC721_TOKEN_ID = 20"
definition V2_ERC1155_TOKEN_ID :: int where "V2_ERC1155_TOKEN_ID = 5"
definition V2_ERC1155_AMOUNT :: int where "V2_ERC1155_AMOUNT = 50"
definition V2_ETHER_AMOUNT :: int where "V2_ETHER_AMOUNT = 10 ^ 18"

definition EXECUTE_OUT_KEY :: string where
  "EXECUTE_OUT_KEY = ''0x47e179ec197488593b187f80a00eb0da91f1b9d0b13f8733639f19c30a34926a''"

definition SETUP_ACCOUNTS :: "(string \<times> string \<times> string) list" where
  "SETUP_ACCOUNTS =
     [(''generate'', ''0x70997970C51812dc3A010C7d01b50e0d17dc79C8'',
         ''0x59c6995e998f97a5a0044966f0945389dc9e86dae88c7a8412f4603b6b78690d''),
      (''execute'', ''0x3C44CdDdB6a900fa2b585dd299e03d12FA4293BC'',
         ''0x5de4111afa1a4b94908f83103eb1f1706367c2e68ca870fc3fb9a804cdab365a'')]"

definition ETHER_VOUCHER_ACCT :: "string \<times> string" where
  "ETHER_VOUCHER_ACCT = (''0x976EA74026E726554dB657fA54763abd0C3a0aa9'',
     ''0x92db14e403b83dfe3df233f83dfa3a0d7096f21ca9b0d6d6b8d88b2b4ec1564e'')"
definition ERC721_VOUCHER_ACCT :: "string \<times> string" where
  "ERC721_VOUCHER_ACCT = (''0x14dC79964da2C08b23698B3D3cc7Ca32193d9955'',
     ''0x4bbbf85ce3377467afe5d46f804f221813b2bb87f24d81f60f1fcdbf7cbf4356'')"
definition ERC1155_VOUCHER_ACCT :: "string \<times> string" where
  "ERC1155_VOUCHER_ACCT = (''0xa0Ee7A142d267C1f36714E4a8F75612F20a79720'',
     ''0x2a871d0798f97d79848a013d4936a73bf4cc922c825d33c1cf7073dff6d409c6'')"

text \<open>\<open>json.dumps(d, separators=(",", ":"))\<close>.\<close>

fun compact_dumps :: "json \<Rightarrow> string" where
  "compact_dumps (JArr xs) = ''['' @ join '','' (map compact_dumps xs) @ '']''"
| "compact_dumps (JObj d) = ''{'' @ join '','' (map (\<lambda>(k, v). dump_str k @ '':'' @ compact_dumps v) d) @ ''}''"
| "compact_dumps j = json_dumps j"

definition withdraw_hex :: "dict \<Rightarrow> string" where
  "withdraw_hex extra = ''0x'' @ to_hex (compact_dumps (JObj ((''action'', JStr ''withdraw'') # extra)))"

definition word_hex :: "int \<Rightarrow> string" where
  "word_hex n = ''0x'' @ zfill 64 (drop 2 (py_hex n))"

text \<open>A line of these scripts: the options in front of the key, then a continued line.\<close>

definition cast_line :: "string \<Rightarrow> string \<Rightarrow> string \<Rightarrow> string \<Rightarrow> string \<Rightarrow> string" where
  "cast_line gas key target signature rest =
     ''cast send --rpc-url '' @ ANVIL_RPC @ '' '' @ gas @ '' --private-key '' @ key @ '' '' @ [backslash] @ nl
     @ ''  '' @ target @ '' '' @ quoted signature @ rest @ '' 2>&1'' @ nl"

definition gas_price :: string where "gas_price = ''--gas-price 100gwei''"
definition gas_limit :: string where "gas_limit = ''--gas-price 100gwei --gas-limit 5000000''"

definition continued :: string where "continued = '' '' @ [backslash] @ nl @ ''  ''"

definition add_input_line :: "string \<Rightarrow> string \<Rightarrow> sandbox_context \<Rightarrow> dict \<Rightarrow> string" where
  "add_input_line gas key ctx extra =
     cast_line gas key (py_str (cx_inputbox ctx)) ''addInput(address,bytes)''
       ('' '' @ py_str (cx_app_address ctx) @ '' '' @ withdraw_hex extra)"

definition setup_script :: "sandbox_context \<Rightarrow> string \<Rightarrow> string" where
  "setup_script ctx mode =
     (let token = py_str (cx_erc20_token ctx); portal = py_str (cx_erc20_portal ctx); app = py_str (cx_app_address ctx);
          n = int_str SETUP_AMOUNT;
          (sender, key) = (case map_of SETUP_ACCOUNTS mode of Some acct \<Rightarrow> acct | None \<Rightarrow> the (map_of SETUP_ACCOUNTS ''generate''))
      in ''set -e'' @ nl
         @ cast_line gas_price key token ''mint(address,uint256)'' ('' '' @ sender @ '' '' @ n)
         @ cast_line gas_price key token ''approve(address,uint256)'' ('' '' @ portal @ '' '' @ n)
         @ cast_line gas_price key portal ''depositERC20Tokens(address,address,uint256,bytes)''
             (continued @ token @ '' '' @ app @ '' '' @ n @ '' 0x'')
         @ add_input_line gas_price key ctx
             [(''asset_type'', JStr ''erc20''), (''token'', cx_erc20_token ctx), (''amount'', JStr n)]
         @ (if mode = ''execute''
            then cast_line gas_price DEPLOYER_KEY token ''mint(address,uint256)'' ('' '' @ app @ '' '' @ n) else []))"

definition ether_setup_script :: "sandbox_context \<Rightarrow> string" where
  "ether_setup_script ctx =
     (let key = snd ETHER_VOUCHER_ACCT; n = int_str V2_ETHER_AMOUNT in
      ''set -e'' @ nl
      @ cast_line gas_price key (py_str (cx_ether_portal ctx)) ''depositEther(address,bytes)''
          ('' '' @ py_str (cx_app_address ctx) @ '' 0x   --value '' @ n)
      @ add_input_line gas_price key ctx [(''asset_type'', JStr ''ether''), (''amount'', JStr n)])"

definition erc721_setup_script :: "sandbox_context \<Rightarrow> string" where
  "erc721_setup_script ctx =
     (let token = py_str (cx_erc721_token ctx); portal = py_str (cx_erc721_portal ctx); app = py_str (cx_app_address ctx);
          n = int_str V2_ERC721_TOKEN_ID; (sender, key) = ERC721_VOUCHER_ACCT
      in ''set -e'' @ nl
         @ cast_line gas_limit DEPLOYER_KEY token ''mint(address,uint256)'' ('' '' @ sender @ '' '' @ n)
         @ cast_line gas_limit key token ''setApprovalForAll(address,bool)'' ('' '' @ portal @ '' true'')
         @ cast_line gas_limit key portal ''depositERC721Token(address,address,uint256,bytes,bytes)''
             (continued @ token @ '' '' @ app @ '' '' @ n @ '' 0x 0x'')
         @ add_input_line gas_limit key ctx
             [(''asset_type'', JStr ''erc721''), (''token'', cx_erc721_token ctx),
              (''token_id'', JStr (word_hex V2_ERC721_TOKEN_ID))])"

definition erc1155_setup_script :: "sandbox_context \<Rightarrow> string" where
  "erc1155_setup_script ctx =
     (let token = py_str (cx_erc1155_token ctx); portal = py_str (cx_erc1155_portal ctx); app = py_str (cx_app_address ctx);
          n = int_str V2_ERC1155_TOKEN_ID @ '' '' @ int_str V2_ERC1155_AMOUNT; (sender, key) = ERC1155_VOUCHER_ACCT
      in ''set -e'' @ nl
         @ cast_line gas_limit DEPLOYER_KEY token ''mint(address,uint256,uint256,bytes)'' (''   '' @ sender @ '' '' @ n @ '' 0x'')
         @ cast_line gas_limit key token ''setApprovalForAll(address,bool)'' ('' '' @ portal @ '' true'')
         @ cast_line gas_limit key portal ''depositSingleERC1155Token(address,address,uint256,uint256,bytes,bytes)''
             (continued @ token @ '' '' @ app @ '' '' @ n @ '' 0x 0x'')
         @ add_input_line gas_limit key ctx
             [(''asset_type'', JStr ''erc1155''), (''token'', cx_erc1155_token ctx),
              (''token_id'', JStr (word_hex V2_ERC1155_TOKEN_ID)), (''amount'', JStr (int_str V2_ERC1155_AMOUNT))])"

definition run_voucher_script :: "string \<Rightarrow> string \<Rightarrow> string io" where
  "run_voucher_script script sandbox_id =
     run_script (''No running Anvil container found for sandbox '' @ str_take 8 sandbox_id) ''rvp-voucher'' 60
       (\<lambda>rc output. ''executeVoucher script exited '' @ int_str rc @ ''. Output: '' @ str_last 800 output)
       script sandbox_id"

definition not_set :: "string \<Rightarrow> 'a res" where
  "not_set t = Inl (Exc KRuntimeError (''ctx.'' @ t))"

definition voucher_script :: "sandbox_context \<Rightarrow> string \<Rightarrow> string \<Rightarrow> string res" where
  "voucher_script ctx mode token_type =
     (if \<not> truthy (cx_app_address ctx) then not_set (''app_address is not set '' @ u_emdash @ '' cannot trigger voucher'')
      else if token_type = ''ether'' then
        (if \<not> truthy (cx_ether_portal ctx) then not_set ''ether_portal_address not set'' else Inr (ether_setup_script ctx))
      else if token_type = ''erc721'' then
        (if \<not> truthy (cx_erc721_token ctx) \<or> \<not> truthy (cx_erc721_portal ctx)
         then not_set ''erc721_token_address / erc721_portal_address not set'' else Inr (erc721_setup_script ctx))
      else if token_type \<in> {''erc1155'', ''erc1155_batch''} then
        (if \<not> truthy (cx_erc1155_token ctx) \<or> \<not> truthy (cx_erc1155_portal ctx)
         then not_set ''erc1155_token_address / erc1155_portal_address not set'' else Inr (erc1155_setup_script ctx))
      else if \<not> truthy (cx_erc20_token ctx)
        then not_set (''erc20_token_address is not set '' @ u_emdash
                      @ '' cannot trigger ERC20 voucher. Ensure the sandbox provisioner deployed test tokens.'')
      else Inr (setup_script ctx mode))"

definition trigger_voucher :: "sandbox_context \<Rightarrow> string \<Rightarrow> string \<Rightarrow> string io" where
  "trigger_voucher ctx mode token_type =
     io_bind (io_lift (voucher_script ctx mode token_type)) (\<lambda>script.
     in_thread (run_voucher_script script (cx_sandbox_id ctx)))"

section \<open>Reading the node\<close>

definition app_or_default :: "sandbox_context \<Rightarrow> json" where
  "app_or_default ctx = py_or (cx_app_address ctx) (JStr ''app'')"

definition node_call :: "sandbox_context \<Rightarrow> string \<Rightarrow> json \<Rightarrow> json io" where
  "node_call ctx meth params =
     io_bind (http_post (jsonrpc_rpc_url ctx) (rpc_body (JStr meth) params 1)) resp_json"

definition list_outputs :: "sandbox_context \<Rightarrow> json io" where
  "list_outputs ctx =
     node_call ctx ''cartesi_listOutputs'' (JObj [(''application'', app_or_default ctx), (''limit'', JInt 1000)])"

definition get_output_count :: "sandbox_context \<Rightarrow> json io" where
  "get_output_count ctx =
     io_catch (io_bind (list_outputs ctx) (\<lambda>body. io_lift (count_in body))) (\<lambda>e. io_return (JInt 0))"

definition epoch_data_of :: "json \<Rightarrow> json res" where
  "epoch_data_of body =
     res_bind (error_in body) (\<lambda>e.
     if e then Inr (JObj [])
     else res_bind (jget_or body ''result'' (JObj [])) (\<lambda>r. jget_or r ''data'' (JObj [])))"

definition get_epoch_data :: "sandbox_context \<Rightarrow> json \<Rightarrow> json io" where
  "get_epoch_data ctx epoch_index =
     io_catch (io_bind (node_call ctx ''cartesi_getEpoch'' (JArr [app_or_default ctx, epoch_index]))
                 (\<lambda>body. io_lift (epoch_data_of body)))
       (\<lambda>e. io_return (JObj []))"

definition authority_of :: "json \<Rightarrow> json res" where
  "authority_of body =
     res_bind (jget_or body ''result'' (JObj [])) (\<lambda>r.
     res_bind (jget_or r ''data'' (JObj [])) (\<lambda>data. jget_or data ''iconsensus_address'' (JStr [])))"

definition get_authority :: "sandbox_context \<Rightarrow> json io" where
  "get_authority ctx =
     io_catch (io_bind (node_call ctx ''cartesi_getApplication'' (JArr [py_or (cx_app_address ctx) (JStr [])]))
                 (\<lambda>body. io_lift (authority_of body)))
       (\<lambda>e. io_return (JStr []))"

section \<open>Submitting a claim\<close>

definition claimed_statuses :: "string list" where
  "claimed_statuses = [''CLAIM_ACCEPTED'', ''SETTLED'', ''CLAIM_SUBMITTED'']"

text \<open>\<open>s.lstrip("0x")\<close> strips characters, not a prefix.\<close>

definition lstrip_0x :: "string \<Rightarrow> string" where
  "lstrip_0x s = dropWhile (\<lambda>c. c = CHR ''0'' \<or> c = CHR ''x'') s"

definition block_number :: "json \<Rightarrow> int res" where
  "block_number x =
     res_bind (as_str AttributeError x) (\<lambda>s.
     case (if startswith s ''0x'' then str_int16 s else str_int s) of None \<Rightarrow> Inl ValueError | Some n \<Rightarrow> Inr n)"

definition claim_calldata :: "json \<Rightarrow> json \<Rightarrow> json \<Rightarrow> string res" where
  "claim_calldata app last_block claim_hash =
     res_bind (as_str AttributeError (py_or app (JStr []))) (\<lambda>a.
     res_bind (block_number last_block) (\<lambda>n.
     res_bind (as_str AttributeError claim_hash) (\<lambda>h.
     Inr (''0x6470af00'' @ zfill 64 (lstrip_0x (lower a)) @ zfill 64 (drop 2 (py_hex n)) @ zfill 64 (lstrip_0x h)))))"

definition claim_script :: "json \<Rightarrow> string \<Rightarrow> string" where
  "claim_script authority calldata =
     ''set -e'' @ nl
     @ ''cast send --rpc-url '' @ ANVIL_RPC @ '' --gas-price 100gwei --private-key '' @ DEPLOYER_KEY @ continued
     @ py_str authority @ continued @ calldata @ '' 2>&1'' @ nl"

text \<open>The status as a member of a set of strings: an unhashable value raises.\<close>

definition hashable :: "json \<Rightarrow> json res" where
  "hashable x = (case x of JArr _ \<Rightarrow> Inl TypeError | JObj _ \<Rightarrow> Inl TypeError | _ \<Rightarrow> Inr x)"

definition is_claimed :: "json \<Rightarrow> bool res" where
  "is_claimed status = res_bind (hashable status) (\<lambda>s. Inr (s \<in> JStr ` set claimed_statuses))"

definition send_claim :: "sandbox_context \<Rightarrow> json \<Rightarrow> bool io" where
  "send_claim ctx epoch_data =
     io_bind (io_lift (jget_or epoch_data ''claim_hash'' (JStr []))) (\<lambda>claim_hash.
     io_bind (io_lift (jget_or epoch_data ''last_block'' (JStr ''0x0''))) (\<lambda>last_block.
     if \<not> truthy claim_hash then io_return False
     else
       io_bind (get_authority ctx) (\<lambda>authority.
       if \<not> truthy authority then io_return False
       else
         io_bind (io_lift (claim_calldata (cx_app_address ctx) last_block claim_hash)) (\<lambda>calldata.
         io_bind (io_lift (py_slice 10 authority)) (\<lambda>_.
         io_catch
           (io_bind (in_thread (run_voucher_script (claim_script authority calldata) (cx_sandbox_id ctx)))
              (\<lambda>_. io_return True))
           (\<lambda>e. io_return False))))))"

definition submit_claim :: "sandbox_context \<Rightarrow> json \<Rightarrow> bool io" where
  "submit_claim ctx epoch_data =
     io_bind (io_lift (jget_or epoch_data ''status'' (JStr []))) (\<lambda>status.
     io_bind (io_lift (is_claimed status)) (\<lambda>c.
     if c then io_return True
     else if status \<noteq> JStr ''CLAIM_COMPUTED'' then io_return False
     else send_claim ctx epoch_data))"

section \<open>Which outputs count\<close>

definition voucher_types :: "string list" where "voucher_types = [''Voucher'', ''voucher'', ''VOUCHER'']"

definition decoded_type :: "json \<Rightarrow> json res" where
  "decoded_type x = res_bind (jget_or x ''decoded_data'' (JObj [])) (\<lambda>d. jget_or d ''type'' JNull)"

definition output_index :: "json \<Rightarrow> int res" where
  "output_index x =
     res_bind (jget_or x ''index'' (JStr ''0x0'')) (\<lambda>i.
     res_bind (as_str TypeError i) (\<lambda>s. case str_int16 s of None \<Rightarrow> Inl ValueError | Some n \<Rightarrow> Inr n))"

definition is_voucher :: "json \<Rightarrow> bool res" where
  "is_voucher x =
     res_bind (decoded_type x) (\<lambda>t. res_bind (hashable t) (\<lambda>t. Inr (t \<in> JStr ` set voucher_types)))"

text \<open>The log line in front of the filters evaluates the types of the first five outputs.\<close>

definition logged_types :: "json \<Rightarrow> unit res" where
  "logged_types data =
     (if truthy data
      then res_bind (py_len data) (\<lambda>_. res_bind (py_slice 5 data) (\<lambda>xs. res_bind (py_iter xs) (\<lambda>ys.
           res_bind (res_map decoded_type ys) (\<lambda>_. Inr ()))))
      else Inr ())"

definition recent :: "json \<Rightarrow> json \<Rightarrow> json list res" where
  "recent min_index data =
     res_bind (py_num min_index) (\<lambda>m. res_bind (py_iter data) (\<lambda>xs.
     if m > 0 then res_filter (\<lambda>x. res_bind (output_index x) (\<lambda>i. Inr (i \<ge> m))) xs else Inr xs))"

text \<open>The vouchers of one answer; None when the poll is repeated without an exception.\<close>

definition candidates :: "json \<Rightarrow> json \<Rightarrow> json list option res" where
  "candidates min_index body =
     res_bind (error_in body) (\<lambda>e.
     if e then res_bind (py_item body (JStr ''error'')) (\<lambda>_. Inr None)
     else res_bind (jget_or body ''result'' (JObj [])) (\<lambda>result.
     case result of
       JObj r \<Rightarrow>
         res_bind (logged_types (get_or r ''data'' (JArr []))) (\<lambda>_.
         res_bind (recent min_index (get_or r ''data'' (JArr []))) (\<lambda>xs.
         res_bind (res_filter is_voucher xs) (\<lambda>vs. Inr (Some vs))))
     | _ \<Rightarrow> Inr None))"

section \<open>Waiting for claimed epochs\<close>

record poll_state =
  ps_submitted :: "json list"
  ps_computed :: "(json \<times> int) list"     \<comment> \<open>when an epoch was first seen as \<open>CLAIM_COMPUTED\<close>\<close>
  ps_processed :: "(json \<times> int) list"    \<comment> \<open>and as \<open>INPUTS_PROCESSED\<close>\<close>
  ps_restart :: int                      \<comment> \<open>the last restart by this test, 0 if none\<close>

definition CLAIM_MANUAL_DELAY :: int where "CLAIM_MANUAL_DELAY = 60000"
definition INPUTS_PROCESSED_RESTART_DELAY :: int where "INPUTS_PROCESSED_RESTART_DELAY = 45000"
definition VALIDATOR_RESTART_COOLDOWN :: int where "VALIDATOR_RESTART_COOLDOWN = 120000"

definition first_seen :: "json \<Rightarrow> int \<Rightarrow> (json \<times> int) list \<Rightarrow> int \<times> (json \<times> int) list" where
  "first_seen k now seen = (case map_of seen k of Some t \<Rightarrow> (t, seen) | None \<Rightarrow> (now, (k, now) # seen))"

definition restart_validator :: "sandbox_context \<Rightarrow> unit io" where
  "restart_validator ctx =
     io_bind (docker ''ps'' [''rvp.sandbox_id='' @ cx_sandbox_id ctx, ''rvp.component=validator'']) (\<lambda>a.
     io_bind (io_lift (found_of a)) (\<lambda>ids.
     case ids of
       [] \<Rightarrow> io_return ()
     | c # _ \<Rightarrow> io_bind (docker ''restart'' [c, ''15'']) (\<lambda>b. io_lift (done_of b))))"

definition maybe_restart :: "(int \<Rightarrow> int) \<Rightarrow> sandbox_context \<Rightarrow> poll_state \<Rightarrow> poll_state io" where
  "maybe_restart peers ctx st =
     io_bind io_now (\<lambda>now.
     if now - max (ps_restart st) (peers now) < VALIDATOR_RESTART_COOLDOWN then io_return st
     else io_bind (io_catch (in_thread (restart_validator ctx)) (\<lambda>e. io_return ()))
            (\<lambda>_. io_return (st\<lparr>ps_restart := now\<rparr>)))"

text \<open>
  One voucher of a poll: the state after it, and whether it is ready or which exception ends the poll.
  What the state has learned stays when the poll ends with an exception.
\<close>

definition visit_computed :: "sandbox_context \<Rightarrow> json \<Rightarrow> json \<Rightarrow> poll_state \<Rightarrow> (poll_state \<times> bool res) io" where
  "visit_computed ctx idx epoch st =
     io_bind io_now (\<lambda>now.
     let (t, seen) = first_seen idx now (ps_computed st); st1 = st\<lparr>ps_computed := seen\<rparr> in
     if idx \<in> set (ps_submitted st1) then io_return (st1, Inr True)
     else if now - t \<ge> CLAIM_MANUAL_DELAY then
       io_bind (io_catch (io_bind (submit_claim ctx epoch) (\<lambda>ok. io_return (Inr ok))) (\<lambda>e. io_return (Inl e))) (\<lambda>r.
       io_return (case r of
          Inl e \<Rightarrow> (st1, Inl e)
        | Inr ok \<Rightarrow> (st1\<lparr>ps_submitted := idx # ps_submitted st1\<rparr>, Inr ok)))
     else io_return (st1, Inr False))"

definition visit_processed ::
  "(int \<Rightarrow> int) \<Rightarrow> sandbox_context \<Rightarrow> json \<Rightarrow> poll_state \<Rightarrow> (poll_state \<times> bool res) io" where
  "visit_processed peers ctx idx st =
     io_bind io_now (\<lambda>now.
     let (t, seen) = first_seen idx now (ps_processed st); st1 = st\<lparr>ps_processed := seen\<rparr> in
     if now - t \<ge> INPUTS_PROCESSED_RESTART_DELAY
     then io_bind (maybe_restart peers ctx st1) (\<lambda>st2. io_return (st2, Inr False))
     else io_return (st1, Inr False))"

definition epoch_status :: "json \<Rightarrow> json res" where
  "epoch_status epoch = res_bind (jget_or epoch ''status'' (JStr [])) hashable"

definition visit_voucher ::
  "(int \<Rightarrow> int) \<Rightarrow> sandbox_context \<Rightarrow> poll_state \<Rightarrow> json \<Rightarrow> (poll_state \<times> bool res) io" where
  "visit_voucher peers ctx st v =
     (case jget_or v ''epoch_index'' (JStr ''0x0'') of
        Inl e \<Rightarrow> io_return (st, Inl e)
      | Inr idx \<Rightarrow>
          io_bind (get_epoch_data ctx idx) (\<lambda>epoch.
          case epoch_status epoch of
            Inl e \<Rightarrow> io_return (st, Inl e)
          | Inr status \<Rightarrow>
              if status \<in> JStr ` set claimed_statuses then io_return (st, Inr True)
              else if status \<in> {JStr ''CLAIM_COMPUTED'', JStr ''INPUTS_PROCESSED''} then
                (case hashable idx of
                   Inl e \<Rightarrow> io_return (st, Inl e)
                 | Inr k \<Rightarrow> if status = JStr ''CLAIM_COMPUTED'' then visit_computed ctx k epoch st
                            else visit_processed peers ctx k st)
              else io_return (st, Inr False)))"

fun claimed_vouchers ::
  "(int \<Rightarrow> int) \<Rightarrow> sandbox_context \<Rightarrow> poll_state \<Rightarrow> json list \<Rightarrow> json list \<Rightarrow> (poll_state \<times> json list res) io" where
  "claimed_vouchers peers ctx st [] acc = io_return (st, Inr acc)"
| "claimed_vouchers peers ctx st (v # vs) acc =
     io_bind (visit_voucher peers ctx st v) (\<lambda>(st', r).
     case r of
       Inl e \<Rightarrow> io_return (st', Inl e)
     | Inr ok \<Rightarrow> claimed_vouchers peers ctx st' vs (if ok then acc @ [v] else acc))"

record poll_spec =
  pl_expect :: int
  pl_interval :: int         \<comment> \<open>seconds\<close>
  pl_claim :: bool
  pl_min :: json

definition poll_answer ::
  "(int \<Rightarrow> int) \<Rightarrow> sandbox_context \<Rightarrow> poll_spec \<Rightarrow> poll_state \<Rightarrow> (poll_state \<times> json list option) io" where
  \<comment> \<open>the body of the \<open>try\<close>: the vouchers when there are enough\<close>
  "poll_answer peers ctx q st =
     io_bind (io_catch (io_bind (list_outputs ctx) (\<lambda>body. io_lift (candidates (pl_min q) body))) (\<lambda>e. io_return None))
       (\<lambda>found.
     case found of
       None \<Rightarrow> io_return (st, None)
     | Some vs \<Rightarrow>
         io_bind (if pl_claim q then claimed_vouchers peers ctx st vs [] else io_return (st, Inr vs)) (\<lambda>(st', r).
         io_return (st', case r of Inl e \<Rightarrow> None | Inr ws \<Rightarrow> if int (length ws) \<ge> pl_expect q then Some ws else None)))"

definition poll_round ::
  "(int \<Rightarrow> int) \<Rightarrow> sandbox_context \<Rightarrow> poll_spec \<Rightarrow> poll_state \<Rightarrow> (poll_state + json list) io" where
  "poll_round peers ctx q st =
     io_bind (poll_answer peers ctx q st) (\<lambda>(st', r).
     case r of
       Some ws \<Rightarrow> io_return (Inr ws)
     | None \<Rightarrow> io_bind (io_sleep (1000 * pl_interval q)) (\<lambda>_. io_return (Inl st')))"

definition no_poll :: poll_state where
  "no_poll = \<lparr>ps_submitted = [], ps_computed = [], ps_processed = [], ps_restart = 0\<rparr>"

text \<open>\<open>timeout\<close> in milliseconds.\<close>

definition poll_vouchers :: "(int \<Rightarrow> int) \<Rightarrow> sandbox_context \<Rightarrow> poll_spec \<Rightarrow> int \<Rightarrow> json list io" where
  "poll_vouchers peers ctx q timeout =
     io_bind io_now (\<lambda>t.
     io_bind (io_while (\<lambda>_. False) (t + timeout) (poll_round peers ctx q) no_poll) (\<lambda>r.
     io_return (case r of Inl _ \<Rightarrow> [] | Inr ws \<Rightarrow> ws)))"

section \<open>Generate mode\<close>

definition v2_failed :: "string \<Rightarrow> int \<Rightarrow> assertion_result io" where
  "v2_failed detail t0 = timed t0 (plain_result ''voucher_v2'' False detail)"

definition setup_or :: "sandbox_context \<Rightarrow> string \<Rightarrow> string \<Rightarrow> int \<Rightarrow> assertion_result list io \<Rightarrow> assertion_result list io" where
  \<comment> \<open>the \<open>try\<close> around the setup and what follows it\<close>
  "setup_or ctx mode token_type t0 m =
     io_bind (io_catch (io_bind (trigger_voucher ctx mode token_type) (\<lambda>_. io_return None)) (\<lambda>e. io_return (Some e))) (\<lambda>r.
     case r of
       Some e \<Rightarrow> single (v2_failed (''Voucher setup failed: '' @ exc_str e) t0)
     | None \<Rightarrow> m)"

definition generation_result :: "int \<Rightarrow> nat \<Rightarrow> int \<Rightarrow> assertion_result" where
  "generation_result expect n ms =
     full_result ''voucher_v2'' (int n \<ge> expect)
       (JStr (''>= '' @ int_str expect @ '' voucher(s) in cartesi_listOutputs'')) (JStr (nat_str n @ '' voucher(s) found''))
       (''Found '' @ nat_str n @ '' new voucher(s) after polling '' @ int_str (ms div 1000) @ ''s'') ms"

definition check_generation ::
  "(int \<Rightarrow> int) \<Rightarrow> sandbox_context \<Rightarrow> string \<Rightarrow> int \<Rightarrow> int \<Rightarrow> int \<Rightarrow> int \<Rightarrow> assertion_result list io" where
  "check_generation peers ctx token_type expect interval timeout t0 =
     io_bind (get_output_count ctx) (\<lambda>before.
     setup_or ctx ''generate'' token_type t0
       (io_bind (poll_vouchers peers ctx \<lparr>pl_expect = expect, pl_interval = interval, pl_claim = False, pl_min = JInt 0\<rparr>
                   (1000 * timeout)) (\<lambda>vouchers.
        let n = length vouchers in
        io_bind (io_lift (py_num before)) (\<lambda>b.
        io_bind (timed t0 (generation_result expect n)) (\<lambda>main.
        io_bind (io_lift (count_after_result ''outputs'' before (JInt (b + int n)) True)) (\<lambda>final.
        io_return [count_before_result ''outputs'' before, main, final]))))))"

section \<open>Execute mode\<close>

definition join_args :: "json \<Rightarrow> string res" where
  \<comment> \<open>\<open>",".join(siblings)\<close>\<close>
  "join_args xs =
     (case xs of
        JStr s \<Rightarrow> Inr (join '','' (chars_of s))
      | _ \<Rightarrow> res_bind (py_iter xs) (\<lambda>ys. res_bind (res_map (as_str TypeError) ys) (\<lambda>ws. Inr (join '','' ws))))"

definition execute_script :: "json \<Rightarrow> json \<Rightarrow> int \<Rightarrow> json \<Rightarrow> string res" where
  "execute_script app raw_data i siblings =
     res_bind (join_args siblings) (\<lambda>sib.
     Inr (''set -e'' @ nl
          @ ''cast send --rpc-url '' @ ANVIL_RPC @ '' --gas-price 100gwei --private-key '' @ EXECUTE_OUT_KEY @ continued
          @ py_str app @ continued @ quoted ''executeOutput(bytes,(uint64,bytes32[]))'' @ continued @ py_str raw_data
          @ continued @ quoted (''('' @ int_str i @ '',['' @ sib @ ''])'') @ '' 2>&1'' @ nl))"

definition execution_result :: "json \<Rightarrow> json \<Rightarrow> int \<Rightarrow> string \<Rightarrow> int \<Rightarrow> assertion_result res" where
  "execution_result app raw_data i output ms =
     (let passed = (contains ''status: 1'' (lower output) \<or> contains ''transactionhash'' (lower output)) in
      res_bind (py_slice 10 raw_data) (\<lambda>raw. res_bind (py_slice 10 app) (\<lambda>a.
      Inr (full_result ''voucher_v2'' passed (JStr ''executeOutput tx status=1'')
             (JStr (if passed then ''output executed on-chain'' else ''execution failed''))
             (''executeOutput(index='' @ int_str i @ '', raw='' @ py_str raw @ u_ellipsis @ '') on CartesiDApp '' @ py_str a
              @ u_ellipsis @ '' '' @ u_emdash @ '' '' @ (if passed then ''SUCCESS'' else ''FAILED'')) ms))))"

text \<open>One voucher: the results of the test, or the word that it was executed before.\<close>

definition try_voucher ::
  "sandbox_context \<Rightarrow> json \<Rightarrow> int \<Rightarrow> json \<Rightarrow> (string + assertion_result list) io" where
  "try_voucher ctx initial t0 v =
     (let app = py_or (cx_app_address ctx) (JStr []) in
      io_bind (io_lift (jget_or v ''raw_data'' (JStr ''0x''))) (\<lambda>raw_data.
      io_bind (io_lift (output_index v)) (\<lambda>i.
      io_bind (io_lift (jget_or v ''output_hashes_siblings'' (JArr []))) (\<lambda>siblings.
      io_bind (io_lift (py_slice 12 raw_data)) (\<lambda>_.
      io_bind (io_lift (execute_script app raw_data i siblings)) (\<lambda>script.
      io_bind (io_catch (io_bind (in_thread (run_voucher_script script (cx_sandbox_id ctx))) (\<lambda>out. io_return (Inr out)))
                 (\<lambda>e. io_return (Inl e))) (\<lambda>r.
      case r of
        Inl e \<Rightarrow>
          if contains ''OutputNotReexecutable'' (exc_str e) \<or> contains ''AlreadyExecuted'' (exc_str e)
          then io_return (Inl (''index='' @ int_str i @ '' OutputNotReexecutable''))
          else io_bind (single (v2_failed (''executeOutput script failed: '' @ str_take 400 (exc_str e)) t0))
                 (\<lambda>rs. io_return (Inr rs))
      | Inr output \<Rightarrow>
          io_bind io_now (\<lambda>t.
          io_bind (io_lift (execution_result app raw_data i output (t - t0))) (\<lambda>main.
          io_bind (get_output_count ctx) (\<lambda>after.
          io_bind (io_lift (count_after_result ''outputs'' initial after False)) (\<lambda>final.
          io_return (Inr [count_before_result ''outputs'' initial, main, final]))))))))))))"

fun try_vouchers ::
  "sandbox_context \<Rightarrow> json \<Rightarrow> int \<Rightarrow> json list \<Rightarrow> string \<Rightarrow> (string + assertion_result list) io" where
  "try_vouchers ctx initial t0 [] last_detail = io_return (Inl last_detail)"
| "try_vouchers ctx initial t0 (v # vs) last_detail =
     io_bind (try_voucher ctx initial t0 v) (\<lambda>r.
     case r of Inr rs \<Rightarrow> io_return (Inr rs) | Inl d \<Rightarrow> try_vouchers ctx initial t0 vs d)"

definition no_claimed_epoch :: "int \<Rightarrow> assertion_result io" where
  "no_claimed_epoch t0 =
     io_bind io_now (\<lambda>t. let secs = (t - t0) div 1000 in
     io_return (plain_result ''voucher_v2'' False
       (''No vouchers with a claimed epoch found after '' @ int_str secs
        @ ''s. Ensure CARTESI_EPOCH_LENGTH is set and the claimer has run.'') (secs * 1000)))"

definition execute_voucher ::
  "(int \<Rightarrow> int) \<Rightarrow> sandbox_context \<Rightarrow> int \<Rightarrow> int \<Rightarrow> int \<Rightarrow> int \<Rightarrow> assertion_result list io" where
  "execute_voucher peers ctx expect interval timeout t0 =
     io_bind (get_output_count ctx) (\<lambda>initial.
     setup_or ctx ''execute'' ''erc20'' t0
       (io_bind (poll_vouchers peers ctx \<lparr>pl_expect = expect, pl_interval = interval, pl_claim = True, pl_min = initial\<rparr>
                   (700 * timeout)) (\<lambda>vouchers.
        if vouchers = [] then single (no_claimed_epoch t0)
        else
          io_bind (try_vouchers ctx initial t0 vouchers ''no vouchers attempted'') (\<lambda>r.
          case r of
            Inr rs \<Rightarrow> io_return rs
          | Inl d \<Rightarrow> single (v2_failed (''All '' @ nat_str (length vouchers) @ '' voucher(s) already executed ('' @ d @ '')'') t0)))))"

section \<open>The executor\<close>

definition exec_voucher_v2 :: "(int \<Rightarrow> int) \<Rightarrow> executor" where
  "exec_voucher_v2 peers a ctx =
     io_bind (io_lift (as_str AttributeError (get_or a ''mode'' (JStr ''generate'')))) (\<lambda>m.
     io_bind (io_lift (as_str AttributeError (get_or a ''token_type'' (JStr ''erc20'')))) (\<lambda>ty.
     io_bind (io_lift (py_int (get_or a ''expect_count'' (JInt 1)))) (\<lambda>expect.
     io_bind (io_lift (py_float (get_or a ''poll_interval'' (JInt 3)))) (\<lambda>interval.
     let mode = lower m; default_to = (if mode = ''generate'' then 90 else 180) in
     io_bind (io_lift (py_int (get_or a ''poll_timeout'' (JInt default_to)))) (\<lambda>timeout.
     io_bind io_now (\<lambda>t0.
     io_catch
       (if mode = ''generate'' then check_generation peers ctx (lower ty) expect interval timeout t0
        else if mode = ''execute'' then execute_voucher peers ctx expect interval timeout t0
        else single (v2_failed (''Unknown mode: '' @ str_repr mode @ '' (expected generate|execute)'') t0))
       (\<lambda>e. single (v2_failed (class_name (exc_kind e) @ '': '' @ exc_str e) t0))))))))"

end
