(* ===== verification/Exec_Docker.thy ===== *)
theory Exec_Docker
  imports Exec_Base
begin

text \<open>
  The executors that talk to the sandbox's containers: \<open>executors/health_check.py\<close>, \<open>service_restart.py\<close>,
  \<open>cli_command.py\<close>, \<open>metrics_check.py\<close> and \<open>log.py\<close> of the test runner.  The first three run in a worker
  thread; the other two call Docker from the event loop, which blocks it, so that a time limit only
  strikes at their next await.

  The regular expression of a log assertion comes from the test definition: \<open>rx_search pattern text\<close>
  is what \<open>re.search(pattern, text, re.IGNORECASE)\<close> finds or raises.
\<close>

definition SERVICE_PORTS :: "(string \<times> int) list" where
  "SERVICE_PORTS = [(''evm-reader'', 10001), (''advancer'', 10002), (''validator'', 10003),
                    (''claimer'', 10004), (''jsonrpc'', 10005)]"

text \<open>\<open>_SERVICE_PORTS.get(service)\<close>, which raises on an unhashable value.\<close>

definition service_port :: "json \<Rightarrow> int option res" where
  "service_port service =
     (case service of JStr s \<Rightarrow> Inr (map_of SERVICE_PORTS s)
      | JArr _ \<Rightarrow> Inl TypeError | JObj _ \<Rightarrow> Inl TypeError | _ \<Rightarrow> Inr None)"

definition unknown_service :: "json \<Rightarrow> string" where
  "unknown_service service =
     ''Unknown service '' @ squote @ py_str service @ squote @ ''. Valid: ''
     @ py_repr (JArr (map (JStr \<circ> fst) SERVICE_PORTS))"

definition service_url :: "json \<Rightarrow> string \<Rightarrow> int \<Rightarrow> string \<Rightarrow> string" where
  "service_url service short port path =
     ''http://rvp-'' @ py_str service @ ''-'' @ short @ '':'' @ int_str port @ path"

definition network_of :: "sandbox_context \<Rightarrow> json" where
  "network_of ctx = py_or (cx_docker_network ctx) (JStr (''rvp-sbx-'' @ short_id ctx))"

definition alpine :: "string \<Rightarrow> string list \<Rightarrow> string list" where
  "alpine network cmd = [''docker'', ''run'', ''--rm'', ''--network'', network, ''alpine:latest''] @ cmd"

section \<open>health_check\<close>

definition health_cmd :: "string \<Rightarrow> string list" where
  "health_cmd url = [''sh'', ''-c'',
     ''wget -qS -O - '' @ squote @ url @ squote @ '' 2>&1 || (echo '' @ squote @ ''EXIT:'' @ squote @ ''$?; exit 1)'']"

definition health_judge ::
  "string \<Rightarrow> int \<Rightarrow> json \<Rightarrow> int \<times> string \<times> string \<Rightarrow> int \<Rightarrow> assertion_result res" where
  "health_judge label expect_status expect_contains answer ms =
     (let (rc, out, err) = answer; output = out @ err; expected = JStr (''HTTP '' @ int_str expect_status) in
      if rc \<noteq> 0 then
        Inr (full_result ''health_check'' (expect_status \<ge> 400) expected (JStr (''exit '' @ int_str rc))
          (label @ '' '' @ u_arrow @ '' wget exit='' @ int_str rc
           @ (case find (contains ''HTTP/'') (splitlines output) of
                None \<Rightarrow> [] | Some l \<Rightarrow> '' ('' @ strip l @ '')'')) ms)
      else res_bind (if truthy expect_contains then map_sum id Not (in_str expect_contains output)
                     else Inr False) (\<lambda>missing.
        Inr (if missing then
               full_result ''health_check'' False (JStr (''body contains '' @ py_repr expect_contains))
                 (JStr (str_take 200 output)) (label @ '' body missing expected substring'') ms
             else full_result ''health_check'' True expected (JStr ''HTTP 200'')
                    (label @ '' '' @ u_arrow @ '' OK'') ms)))"

definition health_failed :: "string \<Rightarrow> int \<Rightarrow> exc \<Rightarrow> assertion_result io" where
  "health_failed label t0 e =
     (if exc_kind e = KTimeoutExpired
      then timed t0 (plain_result ''health_check'' False (label @ '' timed out (30s)''))
      else failed_on ''health_check'' t0 e)"

definition health_run_sync :: "dict \<Rightarrow> sandbox_context \<Rightarrow> assertion_result io" where
  "health_run_sync a ctx =
     (let service = get_or a ''service'' (JStr ''advancer''); path = py_str (get_or a ''path'' (JStr ''/healthz''));
          contains_text = get_or a ''expect_body_contains'' (JStr []); label = py_str service @ path in
      io_bind (io_lift (py_int (get_or a ''expect_status'' (JInt 200)))) (\<lambda>expect_status.
      io_bind io_now (\<lambda>t0.
      io_bind (io_lift (service_port service)) (\<lambda>port.
      case port of
        None \<Rightarrow> timed t0 (plain_result ''health_check'' False (unknown_service service))
      | Some p \<Rightarrow>
          io_catch
            (io_bind (io_lift (as_str TypeError (network_of ctx))) (\<lambda>network.
             io_bind (run_proc (alpine network (health_cmd (service_url service (short_id ctx) p path))) 30)
               (\<lambda>answer.
             io_bind io_now (\<lambda>t. io_lift (health_judge label expect_status contains_text answer (t - t0))))))
            (health_failed label t0)))))"

definition exec_health_check :: executor where
  "exec_health_check a ctx = in_thread (single (health_run_sync a ctx))"

section \<open>service_restart\<close>

definition restart_healthy :: "string \<Rightarrow> string \<Rightarrow> bool io" where
  \<comment> \<open>one health probe; every exception counts as not healthy\<close>
  "restart_healthy network url =
     io_catch (io_bind (run_proc (alpine network [''wget'', ''-q'', ''-O'', ''-'', url]) 10)
                 (\<lambda>(rc, _, _). io_return (rc = 0)))
       (\<lambda>e. io_return False)"

definition restart_poll :: "json \<Rightarrow> string \<Rightarrow> string \<Rightarrow> int \<Rightarrow> unit \<Rightarrow> (unit + assertion_result) io" where
  "restart_poll network service url t0 u =
     io_bind (case network of JStr n \<Rightarrow> restart_healthy n url | _ \<Rightarrow> io_return False) (\<lambda>healthy.
     if healthy then
       io_bind (timed t0 (\<lambda>ms. plain_result ''service_restart'' True
                  (service @ '' restarted and healthy ('' @ int_str ms @ ''ms)'') ms))
         (\<lambda>r. io_return (Inr r))
     else io_bind (io_sleep_blocking 3000) (\<lambda>_. io_return (Inl ())))"

definition restart_container :: "string \<Rightarrow> int \<Rightarrow> assertion_result option io" where
  \<comment> \<open>None when the restart succeeded\<close>
  "restart_container name t0 =
     io_catch
       (io_bind (run_proc [''docker'', ''restart'', name] 30) (\<lambda>(rc, out, err).
        if rc \<noteq> 0 then
          io_bind (timed t0 (plain_result ''service_restart'' False
            (''docker restart '' @ name @ '' failed (exit='' @ int_str rc @ ''): '' @ str_take 200 err)))
            (\<lambda>r. io_return (Some r))
        else io_return None))
       (\<lambda>e. io_bind (timed t0 (plain_result ''service_restart'' False (''restart error: '' @ exc_str e)))
              (\<lambda>r. io_return (Some r)))"

definition restart_run_sync :: "dict \<Rightarrow> sandbox_context \<Rightarrow> assertion_result io" where
  "restart_run_sync a ctx =
     (let service = get_or a ''service'' (JStr ''advancer'');
          verify_path = py_str (get_or a ''verify_path'' (JStr ''/healthz'')) in
      io_bind (io_lift (py_int (get_or a ''verify_timeout'' (JInt 60)))) (\<lambda>verify_timeout.
      io_bind (io_lift (service_port service)) (\<lambda>port.
      case port of
        None \<Rightarrow> io_return ((plain_result ''service_restart'' False (unknown_service service) 0)\<lparr>ar_duration := None\<rparr>)
      | Some p \<Rightarrow>
          io_bind io_now (\<lambda>t0.
          io_bind (restart_container (''rvp-'' @ py_str service @ ''-'' @ short_id ctx) t0) (\<lambda>failed.
          case failed of
            Some r \<Rightarrow> io_return r
          | None \<Rightarrow>
              io_bind io_now (\<lambda>t1.
              io_bind (io_while (\<lambda>_. False) (t1 + 1000 * verify_timeout)
                         (restart_poll (network_of ctx) (py_str service)
                            (service_url service (short_id ctx) p verify_path) t0) ()) (\<lambda>r.
              case r of
                Inr ok \<Rightarrow> io_return ok
              | Inl _ \<Rightarrow> timed t0 (plain_result ''service_restart'' False
                  (py_str service @ '' did not recover within '' @ int_str verify_timeout @ ''s after restart''))))))))) "

definition exec_service_restart :: executor where
  "exec_service_restart a ctx = in_thread (single (restart_run_sync a ctx))"

section \<open>cli_command\<close>

record cli_spec =
  cl_binary :: json
  cl_code :: int
  cl_out :: json
  cl_not :: json
  cl_timeout :: int
  cl_poll_timeout :: int      \<comment> \<open>milliseconds\<close>
  cl_poll_interval :: int     \<comment> \<open>milliseconds\<close>
  cl_args :: "string list"
  cl_container :: string

definition template_vars :: "sandbox_context \<Rightarrow> (string \<times> json) list" where
  "template_vars ctx =
     [(''anvil_rpc_url'', JStr (''http://rvp-anvil-'' @ short_id ctx @ '':8545'')),
      (''app_address'', py_or (cx_app_address ctx) (JStr [])),
      (''inputbox_address'', py_or (cx_inputbox ctx) (JStr [])),
      (''erc20_token_address'', py_or (cx_erc20_token ctx) (JStr [])),
      (''erc721_token_address'', py_or (cx_erc721_token ctx) (JStr [])),
      (''erc1155_token_address'', py_or (cx_erc1155_token ctx) (JStr [])),
      (''jsonrpc_container'', JStr (''rvp-jsonrpc-'' @ short_id ctx))]"

definition fill_template :: "(string \<times> json) list \<Rightarrow> string \<Rightarrow> string res" where
  "fill_template vars s =
     foldl (\<lambda>r (k, v). res_bind r (\<lambda>t. res_bind (as_str TypeError v) (\<lambda>x.
              Inr (replace_all (''{'' @ k @ ''}'') x t))))
       (Inr s) vars"

definition cli_args_of :: "(string \<times> json) list \<Rightarrow> json \<Rightarrow> string list res" where
  "cli_args_of vars raw =
     (case raw of
        JStr s \<Rightarrow> res_bind (fill_template vars s) (\<lambda>t. Inr (split_ws t))
      | _ \<Rightarrow> res_bind (py_iter raw) (\<lambda>xs. Inr (map py_str xs)))"

definition cli_spec_of :: "dict \<Rightarrow> sandbox_context \<Rightarrow> cli_spec res" where
  "cli_spec_of a ctx =
     res_bind (py_int (get_or a ''expect_exit_code'' (JInt 0))) (\<lambda>code.
     res_bind (py_int (get_or a ''timeout'' (JInt 30))) (\<lambda>timeout_s.
     res_bind (py_float (get_or a ''poll_timeout'' (JInt 0))) (\<lambda>poll_timeout.
     res_bind (py_float (get_or a ''poll_interval'' (JInt 15))) (\<lambda>poll_interval.
     res_bind (cli_args_of (template_vars ctx) (get_or a ''args'' (JStr []))) (\<lambda>args.
     res_bind (as_str AttributeError
                 (py_or (get a ''container'')
                    (py_or (cx_cli_container ctx) (JStr (''rvp-cli-'' @ short_id ctx))))) (\<lambda>tpl.
     res_bind (fill_template (template_vars ctx) tpl) (\<lambda>container.
     Inr \<lparr>cl_binary = get_or a ''binary'' (JStr ''cartesi''), cl_code = code,
          cl_out = get_or a ''expect_output_contains'' (JStr []),
          cl_not = get_or a ''expect_output_not_contains'' (JStr []), cl_timeout = timeout_s,
          cl_poll_timeout = 1000 * poll_timeout, cl_poll_interval = 1000 * poll_interval,
          cl_args = args, cl_container = container\<rparr>)))))))"

definition cli_judge :: "cli_spec \<Rightarrow> int \<times> string \<times> string \<Rightarrow> int \<Rightarrow> assertion_result res" where
  "cli_judge c answer ms =
     (let (rc, out, err) = answer; output = out @ err;
          label = py_str (cl_binary c) @ '' '' @ join '' '' (cl_args c);
          code = int_str rc in
      if rc \<noteq> cl_code c then
        Inr (full_result ''cli_command'' False (JStr (''exit '' @ int_str (cl_code c))) (JStr (''exit '' @ code))
               (label @ '': exit='' @ code @ nl @ str_take 300 output) ms)
      else res_bind (if truthy (cl_out c) then map_sum id Not (in_str (cl_out c) output) else Inr False)
        (\<lambda>missing.
        if missing then
          Inr (full_result ''cli_command'' False (JStr (''output contains '' @ py_repr (cl_out c)))
                 (JStr (str_take 300 output)) (label @ '': missing expected output'') ms)
        else res_bind (if truthy (cl_not c) then in_str (cl_not c) output else Inr False) (\<lambda>unwanted.
          Inr (if unwanted then
                 full_result ''cli_command'' False (JStr (''output does NOT contain '' @ py_repr (cl_not c)))
                   (JStr (str_take 300 output)) (label @ '': unexpected string in output'') ms
               else plain_result ''cli_command'' True
                      (label @ '' '' @ u_arrow @ '' exit=0; '' @ str_take 120 output) ms))))"

definition cli_failed :: "cli_spec \<Rightarrow> int \<Rightarrow> exc \<Rightarrow> assertion_result io" where
  "cli_failed c t0 e =
     (if exc_kind e = KTimeoutExpired
      then timed t0 (plain_result ''cli_command'' False
             (py_str (cl_binary c) @ '' '' @ join '' '' (cl_args c) @ '' timed out (''
              @ int_str (cl_timeout c) @ ''s)''))
      else failed_on ''cli_command'' t0 e)"

definition cli_run_once :: "cli_spec \<Rightarrow> int \<Rightarrow> assertion_result io" where
  "cli_run_once c t0 =
     io_catch
       (io_bind (io_lift (as_str TypeError (cl_binary c))) (\<lambda>binary.
        io_bind (run_proc ([''docker'', ''exec'', cl_container c, binary] @ cl_args c) (cl_timeout c))
          (\<lambda>answer.
        io_bind io_now (\<lambda>t. io_lift (cli_judge c answer (t - t0))))))
       (cli_failed c t0)"

definition cli_poll :: "cli_spec \<Rightarrow> int \<Rightarrow> int \<Rightarrow> unit \<Rightarrow> (unit + assertion_result) io" where
  "cli_poll c t0 deadline u =
     io_bind (cli_run_once c t0) (\<lambda>r.
     io_bind io_now (\<lambda>t.
     if ar_passed r \<or> cl_poll_timeout c \<le> 0 \<or> deadline \<le> t then io_return (Inr r)
     else io_bind (io_sleep_blocking (cl_poll_interval c)) (\<lambda>_. io_return (Inl ()))))"

definition cli_run_sync :: "dict \<Rightarrow> sandbox_context \<Rightarrow> assertion_result io" where
  "cli_run_sync a ctx =
     io_bind (io_lift (cli_spec_of a ctx)) (\<lambda>c.
     io_bind io_now (\<lambda>t0.
     let deadline = (if cl_poll_timeout c > 0 then t0 + cl_poll_timeout c else t0) in
     io_bind (io_while (\<lambda>_. True) deadline (cli_poll c t0 deadline) ()) (\<lambda>r.
     case r of Inr x \<Rightarrow> io_return x | Inl _ \<Rightarrow> io_raise OtherError)))"

definition exec_cli_command :: executor where
  "exec_cli_command a ctx = in_thread (single (cli_run_sync a ctx))"

section \<open>metrics_check\<close>

text \<open>
  \<open>float(s)\<close> of a metric value: a decimal numeral (of at most 15 digits, where \<open>str\<close> gives the digits
  back), or an infinity, or not a number.  The sign of zero is not kept.
\<close>

datatype pyfloat = Fin rat | PosInf | NegInf | NotANumber

definition dec_nat :: "string \<Rightarrow> nat option" where
  "dec_nat s = (if s = [] then Some 0 else digits_val 0 False s)"

definition split_at :: "(char \<Rightarrow> bool) \<Rightarrow> string \<Rightarrow> string \<times> string option" where
  "split_at p s =
     (case dropWhile (\<lambda>c. \<not> p c) s of [] \<Rightarrow> (s, None)
      | _ # r \<Rightarrow> (takeWhile (\<lambda>c. \<not> p c) s, Some r))"

definition float_mantissa :: "string \<Rightarrow> rat option" where
  "float_mantissa s =
     (let (ip, fp) = split_at (\<lambda>c. c = CHR ''.'') s; f = (case fp of None \<Rightarrow> [] | Some x \<Rightarrow> x);
          fd = filter is_digit f in
      if ip = [] \<and> f = [] then None
      else (case (dec_nat ip, dec_nat f) of
              (Some a, Some b) \<Rightarrow> Some (of_nat a + of_nat b / 10 ^ length fd)
            | _ \<Rightarrow> None))"

definition float_unsigned :: "string \<Rightarrow> pyfloat option" where
  "float_unsigned s =
     (let t = lower s in
      if t = ''inf'' \<or> t = ''infinity'' then Some PosInf
      else if t = ''nan'' then Some NotANumber
      else (let (m, e) = split_at (\<lambda>c. c = CHR ''e'') t;
                k = (case e of None \<Rightarrow> Some 0
                     | Some x \<Rightarrow> if strip x = x then str_int x else None) in
            case (float_mantissa m, k) of
              (Some r, Some n) \<Rightarrow> Some (Fin (if n \<ge> 0 then r * 10 ^ nat n else r / 10 ^ nat (- n)))
            | _ \<Rightarrow> None))"

definition neg_float :: "pyfloat \<Rightarrow> pyfloat" where
  "neg_float x = (case x of Fin r \<Rightarrow> Fin (- r) | PosInf \<Rightarrow> NegInf | NegInf \<Rightarrow> PosInf | NotANumber \<Rightarrow> NotANumber)"

definition parse_float :: "string \<Rightarrow> pyfloat option" where
  "parse_float s =
     (case strip s of
        [] \<Rightarrow> None
      | c # cs \<Rightarrow> if c = CHR ''-'' then map_option neg_float (float_unsigned cs)
                  else if c = CHR ''+'' then float_unsigned cs
                  else float_unsigned (c # cs))"

definition float_le0 :: "pyfloat \<Rightarrow> bool" where
  "float_le0 x = (case x of Fin r \<Rightarrow> r \<le> 0 | NegInf \<Rightarrow> True | _ \<Rightarrow> False)"

fun dec_digits :: "nat \<Rightarrow> rat \<Rightarrow> string" where
  "dec_digits 0 r = []"
| "dec_digits (Suc n) r =
     (if r = 0 then [] else digit_char (nat \<lfloor>r * 10\<rfloor>) # dec_digits n (r * 10 - of_int \<lfloor>r * 10\<rfloor>))"

definition show_float :: "pyfloat \<Rightarrow> string" where
  "show_float x =
     (case x of
        PosInf \<Rightarrow> ''inf'' | NegInf \<Rightarrow> ''-inf'' | NotANumber \<Rightarrow> ''nan''
      | Fin r \<Rightarrow>
          (let a = abs r; i = \<lfloor>a\<rfloor>; ds = dec_digits 15 (a - of_int i) in
           (if r < 0 then ''-'' else []) @ int_str i @ ''.'' @ (if ds = [] then ''0'' else ds)))"

definition help_line :: rx where
  \<comment> \<open>\<open>^#\s+(HELP|TYPE)\s+\w+\<close>\<close>
  "help_line = Seq Bol (Seq (Chr CHR ''#'') (Seq (Plus Space) (Seq (Alt (Lit ''HELP'') (Lit ''TYPE''))
                 (Seq (Plus Space) (Plus Word)))))"

definition metric_line :: "string \<Rightarrow> rx" where
  \<comment> \<open>\<open>^name(?:\{[^}]*\})?\s+(\S+)\<close>\<close>
  "metric_line name = Seq Bol (Seq (Lit name)
     (Seq (Opt (Seq (Chr CHR ''{'') (Seq (Star (NoneOf ''}'')) (Chr CHR ''}''))))
     (Seq (Plus Space) (Grp (Plus NonSpace)))))"

text \<open>The value of a metric that is present but not positive.\<close>

definition stale_metric :: "string \<Rightarrow> string \<Rightarrow> pyfloat option" where
  "stale_metric name body =
     (case group1 (re_search (metric_line name) body) of
        None \<Rightarrow> None
      | Some v \<Rightarrow> (case parse_float v of None \<Rightarrow> None | Some x \<Rightarrow> if float_le0 x then Some x else None))"

definition metrics_judge ::
  "json \<Rightarrow> json \<Rightarrow> bool \<Rightarrow> bool \<Rightarrow> int \<times> string \<times> string \<Rightarrow> int \<Rightarrow> assertion_result res" where
  "metrics_judge service expect_metric expect_changed expect_format answer ms =
     (let (rc, body, err) = answer; fail = (\<lambda>d. plain_result ''metrics_check'' False (py_str service @ d) ms);
          ok = plain_result ''metrics_check'' True
                 (py_str service @ '' /metrics OK ('' @ int_str (int (str_len body)) @ '' bytes)'') ms in
      if rc \<noteq> 0 \<or> strip body = [] then
        Inr (fail ('' /metrics unreachable: ''
                   @ (if str_take 200 body \<noteq> [] then str_take 200 body else str_take 200 err)))
      else if expect_format \<and> re_search help_line body = None then
        Inr ((fail '' /metrics body missing Prometheus # HELP/# TYPE lines'')\<lparr>ar_actual := JStr (str_take 300 body)\<rparr>)
      else if \<not> truthy expect_metric then Inr ok
      else res_bind (in_str expect_metric body) (\<lambda>found.
        let name = py_str expect_metric in
        if \<not> found then Inr (fail ('' /metrics: metric '' @ squote @ name @ squote @ '' not found''))
        else if \<not> expect_changed then Inr ok
        else (case stale_metric name body of
                None \<Rightarrow> Inr ok
              | Some v \<Rightarrow> Inr (fail ('' '' @ name @ ''='' @ show_float v @ '' (expected > 0)'')))))"

definition metrics_failed :: "json \<Rightarrow> int \<Rightarrow> exc \<Rightarrow> assertion_result io" where
  "metrics_failed service t0 e =
     (if exc_kind e = KTimeoutExpired
      then timed t0 (plain_result ''metrics_check'' False (py_str service @ '' /metrics timed out''))
      else failed_on ''metrics_check'' t0 e)"

definition exec_metrics_check :: executor where
  "exec_metrics_check a ctx =
     (let service = get_or a ''service'' (JStr ''advancer'') in
      io_bind (io_lift (service_port service)) (\<lambda>port.
      let p = (case port of None \<Rightarrow> 10002 | Some p \<Rightarrow> p);
          url = service_url service (short_id ctx) p ''/metrics'' in
      io_bind io_now (\<lambda>t0.
      single (io_catch
        (io_bind (io_lift (as_str TypeError (cx_docker_network ctx))) (\<lambda>network.
         io_bind (run_proc (alpine network [''sh'', ''-c'', ''wget -qO - '' @ squote @ url @ squote @ '' 2>&1'']) 15)
           (\<lambda>answer.
         io_bind io_now (\<lambda>t.
         io_lift (metrics_judge service (get a ''expect_metric'')
                    (truthy (get_or a ''expect_metric_changed'' (JBool False)))
                    (truthy (get_or a ''expect_format_valid'' (JBool True))) answer (t - t0))))))
        (metrics_failed service t0)))))"

section \<open>log_contains\<close>

definition log_container :: "dict \<Rightarrow> sandbox_context \<Rightarrow> string" where
  "log_container a ctx =
     (let component = py_or (get a ''component'') (get_or a ''service'' (JStr ''node''));
          name = (if cx_node_major ctx \<ge> 2 \<and> component = JStr ''node'' then ''advancer'' else py_str component)
      in ''rvp-'' @ name @ ''-'' @ short_id ctx)"

definition logs_match ::
  "(string \<Rightarrow> string \<Rightarrow> bool res) \<Rightarrow> json \<Rightarrow> string \<Rightarrow> int \<Rightarrow> bool io" where
  "logs_match rx_search pattern container n =
     io_bind (container_logs container n) (\<lambda>raw.
     io_bind (io_lift (as_str TypeError pattern)) (\<lambda>p. io_lift (rx_search p (decode_replace raw))))"

definition log_label :: "string \<Rightarrow> json \<Rightarrow> string" where
  "log_label container pattern = ''Container: '' @ container @ '', pattern: '' @ py_repr pattern"

definition log_absence ::
  "(string \<Rightarrow> string \<Rightarrow> bool res) \<Rightarrow> json \<Rightarrow> string \<Rightarrow> int \<Rightarrow> int \<Rightarrow> assertion_result io" where
  "log_absence rx_search pattern container n t0 =
     io_catch
       (io_bind (logs_match rx_search pattern container n) (\<lambda>found.
        timed t0 (full_result ''log_contains'' (\<not> found) (JStr (''pattern absent: '' @ py_repr pattern))
          (JStr (if \<not> found then ''absent'' else ''FOUND (unexpected)''))
          (log_label container pattern @ '' '' @ u_emdash @ '' ''
           @ (if \<not> found then ''absent as expected'' else ''present (expected absent)'')))))
       (failed_on ''log_contains'' t0)"

text \<open>
  One round of the presence check: a match returns; an error is remembered; then the loop goes on
  after a sleep, or breaks.
\<close>

definition log_poll ::
  "(string \<Rightarrow> string \<Rightarrow> bool res) \<Rightarrow> json \<Rightarrow> string \<Rightarrow> int \<Rightarrow> int \<Rightarrow> int \<Rightarrow> int \<Rightarrow> exc option
     \<Rightarrow> (exc option + (assertion_result + exc option)) io" where
  "log_poll rx_search pattern container n timeout_s t0 deadline last_exc =
     io_bind (io_catch (io_bind (logs_match rx_search pattern container n) (\<lambda>found. io_return (Inr found)))
                (\<lambda>e. io_return (Inl e))) (\<lambda>seen.
     if seen = Inr True then
       io_bind (timed t0 (full_result ''log_contains'' True pattern (JStr ''found'') (log_label container pattern)))
         (\<lambda>r. io_return (Inr (Inl r)))
     else
       (let exc = (case seen of Inl e \<Rightarrow> Some e | Inr _ \<Rightarrow> last_exc) in
        io_bind io_now (\<lambda>t.
        if timeout_s > 0 \<and> t + 2000 < deadline
        then io_bind (io_sleep 2000) (\<lambda>_. io_return (Inl exc))
        else io_return (Inr (Inr exc)))))"

definition log_not_found :: "json \<Rightarrow> string \<Rightarrow> int \<Rightarrow> int \<Rightarrow> exc option \<Rightarrow> assertion_result io" where
  "log_not_found pattern container n t0 last_exc =
     (case last_exc of
        Some e \<Rightarrow> failed_on ''log_contains'' t0 e
      | None \<Rightarrow> timed t0 (\<lambda>ms. full_result ''log_contains'' False pattern (JStr ''not found'')
          (log_label container pattern @ '' not found in last '' @ int_str n @ '' lines after ''
           @ int_str (ms div 1000) @ ''s'') ms))"

definition log_presence ::
  "(string \<Rightarrow> string \<Rightarrow> bool res) \<Rightarrow> json \<Rightarrow> string \<Rightarrow> int \<Rightarrow> int \<Rightarrow> int \<Rightarrow> assertion_result io" where
  "log_presence rx_search pattern container n timeout_s t0 =
     (let deadline = t0 + (if timeout_s > 0 then 1000 * timeout_s else 5000) in
      io_bind (io_while (\<lambda>_. False) deadline
                 (log_poll rx_search pattern container n timeout_s t0 deadline) None) (\<lambda>r.
      case r of
        Inl exc \<Rightarrow> log_not_found pattern container n t0 exc
      | Inr (Inl ok) \<Rightarrow> io_return ok
      | Inr (Inr exc) \<Rightarrow> log_not_found pattern container n t0 exc))"

definition exec_log_contains :: "(string \<Rightarrow> string \<Rightarrow> bool res) \<Rightarrow> executor" where
  "exec_log_contains rx_search a ctx =
     (let pattern = py_or (get a ''pattern'') (get_or a ''text'' (JStr [])) in
      io_bind (io_lift (py_int (get_or a ''timeout_seconds'' (JInt 0)))) (\<lambda>timeout_s.
      io_bind (io_lift (py_int (get_or a ''tail'' (JInt 500)))) (\<lambda>n.
      if \<not> truthy pattern then
        io_return [(plain_result ''log_contains'' False
          (''log_contains: empty pattern '' @ u_emdash @ '' definition must specify '' @ squote @ ''pattern''
           @ squote @ '' (or '' @ squote @ ''text'' @ squote @ '') with a non-empty value'') 0)
          \<lparr>ar_duration := None\<rparr>]
      else
        (let container = log_container a ctx in
         io_bind io_now (\<lambda>t0.
         single
           (if truthy (get_or a ''expect_absent'' (JBool False))
            then log_absence rx_search pattern container n t0
            else log_presence rx_search pattern container n timeout_s t0))))))"

end
