(* ===== verification/Test_Executor.thy ===== *)
theory Test_Executor
  imports Exec_Voucher_V2 Exec_Docker Rvp_Db
begin

text \<open>
  \<open>services/test-runner/executor.py\<close>, \<open>loader.py\<close> and \<open>interpreter.py\<close>: running the assertions of a test
  definition in order under its timeout, the cache of active definitions, and the parser of
  definition documents.

  Two things the executors share with the rest of the process are arguments of the registry: the matcher
  of the patterns that log assertions contain, and the validator restarts of other tests.  The YAML parser of the interpreter is not part of the repository: \<open>yaml_load\<close> gives the value of a YAML
  text or the message of its error.
\<close>

section \<open>The registry\<close>

definition EXECUTORS :: "(string \<Rightarrow> string \<Rightarrow> bool res) \<Rightarrow> (int \<Rightarrow> int) \<Rightarrow> (string \<times> executor) list" where
  "EXECUTORS rx_search peers =
     [(''graphql'', exec_graphql), (''http_status'', exec_http_status),
      (''log_contains'', exec_log_contains rx_search), (''chain_tx'', exec_chain_tx),
      (''voucher'', exec_voucher), (''json_rpc'', exec_json_rpc), (''portal_deposit'', exec_portal_deposit),
      (''voucher_v2'', exec_voucher_v2 peers), (''health_check'', exec_health_check),
      (''inspect_query'', exec_inspect_query), (''notice_check'', exec_notice_check),
      (''cli_command'', exec_cli_command), (''service_restart'', exec_service_restart),
      (''metrics_check'', exec_metrics_check)]"

text \<open>\<open>_EXECUTORS.get(atype)\<close>: None for an unknown type, an error for an unhashable one.\<close>

definition find_executor :: "(string \<times> executor) list \<Rightarrow> json \<Rightarrow> executor option res" where
  "find_executor reg atype =
     (case atype of JStr s \<Rightarrow> Inr (map_of reg s)
      | JArr _ \<Rightarrow> Inl TypeError | JObj _ \<Rightarrow> Inl TypeError | _ \<Rightarrow> Inr None)"

section \<open>run_test\<close>

text \<open>How the loop over the assertions ended, with the results collected until then.\<close>

datatype run_end = Finished | Raised exc | TimedOut

definition unknown_result :: "json \<Rightarrow> dict" where
  "unknown_result atype =
     [(''assertion_type'', atype), (''passed'', JBool False),
      (''detail'', JStr (''Unknown assertion type: '' @ py_str atype))]"

definition pick_executor :: "(string \<times> executor) list \<Rightarrow> json \<Rightarrow> (dict \<times> executor option) res" where
  "pick_executor reg x =
     res_bind (as_obj AttributeError x) (\<lambda>a.
     res_bind (find_executor reg (get a ''type'')) (\<lambda>ex. Inr (a, ex)))"

fun run_assertions ::
  "(string \<times> executor) list \<Rightarrow> sandbox_context \<Rightarrow> json list \<Rightarrow> dict list \<Rightarrow> bool \<Rightarrow> env \<Rightarrow> world
     \<Rightarrow> ((dict list \<times> bool) \<times> run_end \<times> world) option" where
  "run_assertions reg ctx [] rs ok env w = Some ((rs, ok), Finished, w)"
| "run_assertions reg ctx (x # xs) rs ok env w =
     (case pick_executor reg x of
        Inl e \<Rightarrow> Some ((rs, ok), Raised e, w)
      | Inr (a, None) \<Rightarrow> run_assertions reg ctx xs (rs @ [unknown_result (get a ''type'')]) False env w
      | Inr (a, Some ex) \<Rightarrow>
          (case ex a ctx env w of
             None \<Rightarrow> None
           | Some (Ok items, w') \<Rightarrow>
               run_assertions reg ctx xs (rs @ map to_dict items) (ok \<and> (\<forall>i\<in>set items. ar_passed i)) env w'
           | Some (Err e, w') \<Rightarrow> Some ((rs, ok), Raised e, w')
           | Some (Cancelled, w') \<Rightarrow> Some ((rs, ok), TimedOut, w')))"

record test_outcome =
  oc_status :: test_status
  oc_duration_ms :: int
  oc_results :: "dict list"
  oc_error :: "string option"

text \<open>The definition as the loader caches it: the columns that running it reads.\<close>

record cached_def =
  cd_id :: string
  cd_slug :: string
  cd_timeout :: int
  cd_parsed :: json

definition assertions_of :: "cached_def \<Rightarrow> json list res" where
  "assertions_of d =
     res_bind (jget_or (cd_parsed d) ''assertions'' (JArr [])) (\<lambda>xs. res_bind (py_len xs) (\<lambda>_. py_iter xs))"

definition outcome_of :: "cached_def \<Rightarrow> dict list \<Rightarrow> bool \<Rightarrow> run_end \<Rightarrow> int \<Rightarrow> test_outcome" where
  "outcome_of d rs ok fin ms =
     (case fin of
        Finished \<Rightarrow> \<lparr>oc_status = (if ok then TPassed else TFailed), oc_duration_ms = ms, oc_results = rs,
                     oc_error = None\<rparr>
      | TimedOut \<Rightarrow> \<lparr>oc_status = TTimeout, oc_duration_ms = ms, oc_results = rs,
                     oc_error = Some (''Test exceeded timeout of '' @ int_str (cd_timeout d) @ ''s'')\<rparr>
      | Raised e \<Rightarrow> \<lparr>oc_status = TError, oc_duration_ms = ms, oc_results = rs, oc_error = Some (exc_str e)\<rparr>)"

definition run_test ::
  "(string \<times> executor) list \<Rightarrow> cached_def \<Rightarrow> sandbox_context \<Rightarrow> test_outcome io" where
  "run_test reg d ctx = (\<lambda>env w.
     case assertions_of d of
       Inl e \<Rightarrow> Some (Err e, w)
     | Inr assertions \<Rightarrow>
         (case run_assertions reg ctx assertions [] True env
                 (w\<lparr>w_deadline := Some (w_clock w + 1000 * cd_timeout d)\<rparr>) of
            None \<Rightarrow> None
          | Some ((rs, ok), fin, w') \<Rightarrow>
              Some (Ok (outcome_of d rs ok fin (w_clock w' - w_clock w)), w'\<lparr>w_deadline := w_deadline w\<rparr>)))"

section \<open>The definition cache\<close>

definition cache_entry :: "def_row \<Rightarrow> string \<times> cached_def" where
  "cache_entry d =
     (d_id d, \<lparr>cd_id = d_id d, cd_slug = d_slug d, cd_timeout = d_timeout_seconds d, cd_parsed = d_parsed d\<rparr>)"

text \<open>
  \<open>_reload\<close>: the new cache of the active definitions; a failed query keeps the old one.  The cache is a
  dict, in which the order of the rows does not matter.
\<close>

definition reload_defs :: "bool \<Rightarrow> db \<Rightarrow> (string \<times> cached_def) list \<Rightarrow> (string \<times> cached_def) list" where
  "reload_defs query_ok db cache =
     (if query_ok then rev (map cache_entry (filter d_active (definitions db))) else cache)"

definition cached :: "(string \<times> cached_def) list \<Rightarrow> json \<Rightarrow> cached_def option" where
  "cached cache did = (case did of JStr s \<Rightarrow> map_of cache s | _ \<Rightarrow> None)"

section \<open>The definition parser\<close>

definition frontmatter_rx :: rx where
  \<comment> \<open>\<open>^---\s*\n(.*?)\n---\s*(?:\n|$)\<close> with \<open>DOTALL\<close>, used with \<open>match\<close> at the start\<close>
  "frontmatter_rx =
     Seq (Lit ''---'') (Seq (Star Space) (Seq (Chr CHR 0x0A) (Seq (Grp (LazyStar AnyDotAll))
       (Seq (Chr CHR 0x0A) (Seq (Lit ''---'') (Seq (Star Space) (Alt (Chr CHR 0x0A) Eos)))))))"

definition required_fields :: "string list" where
  "required_fields = [''id'', ''name'', ''assertions'']"

definition with_defaults :: "string \<Rightarrow> dict \<Rightarrow> dict" where
  "with_defaults body meta =
     setdefault (setdefault (setdefault (setdefault (setdefault (set_key meta ''body'' (JStr (strip body)))
       ''timeout_seconds'' (JInt 120)) ''tags'' (JArr [])) ''inputs'' (JObj [])) ''requires'' (JArr []))
       ''version'' (JInt 1)"

definition value_error :: "string \<Rightarrow> 'a res" where
  "value_error s = Inl (Exc KValueError s)"

definition parse_definition :: "(string \<Rightarrow> string + json) \<Rightarrow> string \<Rightarrow> dict res" where
  "parse_definition yaml_load raw =
     (case re_match frontmatter_rx raw of
        None \<Rightarrow> value_error ''Definition must start with YAML frontmatter (---...---)''
      | Some st \<Rightarrow>
          (case yaml_load (case st_cap st of None \<Rightarrow> [] | Some t \<Rightarrow> t) of
             Inl e \<Rightarrow> value_error (''Invalid YAML frontmatter: '' @ e)
           | Inr (JObj meta) \<Rightarrow>
               (case find (\<lambda>k. \<not> has_key meta k) required_fields of
                  Some k \<Rightarrow> value_error (''Missing required frontmatter field: '' @ squote @ k @ squote)
                | None \<Rightarrow> Inr (with_defaults (st_rest st) meta))
           | Inr _ \<Rightarrow> value_error ''YAML frontmatter must be a mapping''))"

end
