(* ===== verification/Test_Commands.thy ===== *)
theory Test_Commands
  imports Test_Executor Sandbox_Events
begin

text \<open>
  \<open>services/test-runner/consumers/test_commands.py\<close>: handling a test command - cancellation, the cached
  definition with the overrides of an AI session, the running row, the test itself, its log lines,
  the final row and the published result.

  The wall clock is the clock of the world.  \<open>probe_ok\<close> says whether the cancellation query succeeded,
  \<open>uuid\<close> is a fresh id, \<open>tb\<close> the lines of the traceback of an exception.  Inserting a result row fails on
  a known id or an unknown definition; casting the assertion results to JSONB fails where the text
  is not JSON, and no TEXT column takes a NUL character, which an error message can have.
\<close>

record runner =
  rn_db :: db
  rn_cache :: "(string \<times> cached_def) list"
  rn_results :: "json list"     \<comment> \<open>exchange rvp.tests, key tests.results\<close>
  rn_events :: "json list"      \<comment> \<open>exchange rvp.sandbox, key sandbox.events\<close>

definition DbError :: exc where "DbError = Exc KOtherError ''DBAPIError''"

section \<open>The command\<close>

text \<open>\<open>msg[k]\<close>.\<close>

definition msg_item :: "dict \<Rightarrow> string \<Rightarrow> json res" where
  "msg_item msg k = (case map_of msg k of None \<Rightarrow> Inl KeyError | Some v \<Rightarrow> Inr v)"

definition command_keys :: "string list" where
  "command_keys = [''run_id'', ''sandbox_id'', ''definition_id'', ''definition_version'', ''definition_slug'',
                   ''anvil_port'', ''node_port'', ''graphql_port'', ''docker_network'']"

text \<open>The mandatory fields are there and the major version is a number.\<close>

definition check_command :: "dict \<Rightarrow> int res" where
  "check_command msg =
     res_bind (res_map (msg_item msg) command_keys) (\<lambda>_. py_int (get_or msg ''node_major_version'' (JInt 1)))"

text \<open>The typed columns of the result row; another value makes the INSERT fail.\<close>

record command_ids =
  ci_run :: string
  ci_sandbox :: string
  ci_def :: string
  ci_version :: int

definition command_ids_of :: "dict \<Rightarrow> command_ids res" where
  "command_ids_of msg =
     res_bind (as_str DbError (get msg ''run_id'')) (\<lambda>r.
     res_bind (as_str DbError (get msg ''sandbox_id'')) (\<lambda>s.
     res_bind (as_str DbError (get msg ''definition_id'')) (\<lambda>d.
     (case get msg ''definition_version'' of
        JInt v \<Rightarrow> Inr \<lparr>ci_run = r, ci_sandbox = s, ci_def = d, ci_version = v\<rparr>
      | _ \<Rightarrow> Inl DbError))))"

definition context_of :: "dict \<Rightarrow> int \<Rightarrow> command_ids \<Rightarrow> sandbox_context" where
  "context_of msg major ids = init_context
     \<lparr>cx_sandbox_id = ci_sandbox ids, cx_run_id = ci_run ids, cx_anvil_port = get msg ''anvil_port'',
      cx_node_port = get msg ''node_port'', cx_graphql_port = get msg ''graphql_port'',
      cx_docker_network = get msg ''docker_network'', cx_node_major = major,
      cx_cli_container = get msg ''cli_container_name'', cx_app_address = get msg ''app_address'',
      cx_inputbox = get msg ''inputbox_address'', cx_ether_portal = get msg ''ether_portal_address'',
      cx_erc20_portal = get msg ''erc20_portal_address'',
      cx_erc721_portal = get msg ''erc721_portal_address'',
      cx_erc1155_portal = get msg ''erc1155_portal_address'',
      cx_erc20_token = get msg ''erc20_token_address'',
      cx_erc721_token = get msg ''erc721_token_address'',
      cx_erc1155_token = get msg ''erc1155_token_address''\<rparr>"

section \<open>Result rows and messages\<close>

definition new_result_row :: "command_ids \<Rightarrow> string \<Rightarrow> test_status \<Rightarrow> int \<Rightarrow> int option \<Rightarrow> result_row" where
  "new_result_row ids tid st started completed =
     \<lparr>t_id = tid, t_run_id = ci_run ids, t_sandbox_id = ci_sandbox ids, t_def_id = ci_def ids,
      t_def_version = ci_version ids, t_status = st, t_duration_ms = None, t_assertion_results = JNull,
      t_error_message = None, t_started_at = Some started, t_completed_at = completed\<rparr>"

definition insert_result :: "result_row \<Rightarrow> db \<Rightarrow> db res" where
  "insert_result row db =
     (if (\<exists>t\<in>set (results db). t_id t = t_id row) \<or> find_def db (t_def_id row) = None then Inl DbError
      else Inr (db\<lparr>results := results db @ [row]\<rparr>))"

definition result_message :: "string \<Rightarrow> dict \<Rightarrow> test_outcome \<Rightarrow> string \<Rightarrow> int \<Rightarrow> int \<Rightarrow> json" where
  "result_message eid cmd oc tid started completed = JObj
     [(''event_id'', JStr eid), (''run_id'', get cmd ''run_id''), (''sandbox_id'', get cmd ''sandbox_id''),
      (''service'', JStr ''test-runner''), (''ts'', JInt completed), (''result_id'', JStr tid),
      (''definition_id'', get cmd ''definition_id''),
      (''definition_version'', get cmd ''definition_version''),
      (''definition_slug'', get cmd ''definition_slug''), (''status'', JStr (test_status_str (oc_status oc))),
      (''duration_ms'', JInt (oc_duration_ms oc)), (''assertion_results'', JArr (map JObj (oc_results oc))),
      (''error_message'', opt_json (oc_error oc)), (''started_at'', JInt started),
      (''completed_at'', JInt completed)]"

definition publish_result :: "json \<Rightarrow> runner \<Rightarrow> runner" where
  "publish_result m s = s\<lparr>rn_results := rn_results s @ [m]\<rparr>"

definition publish_log_batch :: "string \<Rightarrow> int \<Rightarrow> dict \<Rightarrow> json list \<Rightarrow> runner \<Rightarrow> runner" where
  "publish_log_batch eid now cmd lines s =
     (if lines = [] then s
      else s\<lparr>rn_events := rn_events s @ [JObj
        [(''event_id'', JStr eid), (''run_id'', get cmd ''run_id''), (''sandbox_id'', get cmd ''sandbox_id''),
         (''service'', JStr ''test-runner''), (''ts'', JInt now), (''event_type'', JStr ''log_batch''),
         (''lines'', JArr lines)]]\<rparr>)"

text \<open>\<open>json.dumps(x).replace('\u0000', '')\<close> as text, and the JSONB value that the cast makes of it.\<close>

definition nul_escape :: string where "nul_escape = u_escape 0"

definition stored_results :: "dict list \<Rightarrow> json res" where
  "stored_results rs =
     (case json_loads (replace_all nul_escape [] (json_dumps (JArr (map JObj rs)))) of
        Inl _ \<Rightarrow> Inl DbError | Inr j \<Rightarrow> Inr j)"

section \<open>Overrides of an AI session\<close>

definition set_assertion :: "json \<Rightarrow> string \<Rightarrow> json \<Rightarrow> json" where
  "set_assertion a k v = (case a of JObj d \<Rightarrow> JObj (set_key d k v) | _ \<Rightarrow> a)"

definition is_dict :: "json \<Rightarrow> bool" where
  "is_dict a = (case a of JObj _ \<Rightarrow> True | _ \<Rightarrow> False)"

definition owns :: "string \<Rightarrow> json \<Rightarrow> bool" where
  "owns k a = (case a of JObj d \<Rightarrow> has_key d k \<and> k \<noteq> ''type'' | _ \<Rightarrow> False)"

definition scoped_key :: "string \<Rightarrow> (string \<times> string) option" where
  \<comment> \<open>\<open>_, idx_s, leaf = k.split(".", 2)\<close> of a key under \<open>assertions.\<close> with a second dot\<close>
  "scoped_key k =
     (if startswith k ''assertions.'' then
        (let r = removeprefix k ''assertions.''; i = takeWhile (\<lambda>c. c \<noteq> CHR ''.'') r;
             l = dropWhile (\<lambda>c. c \<noteq> CHR ''.'') r
         in if l = [] then None else Some (i, tl l))
      else None)"

definition apply_override :: "json list \<Rightarrow> string \<times> json \<Rightarrow> json list" where
  "apply_override asserts kv =
     (let (k, v) = kv in
      case scoped_key k of
        Some (i, leaf) \<Rightarrow>
          (case str_int i of
             None \<Rightarrow> asserts
           | Some n \<Rightarrow>
               if 0 \<le> n \<and> n < int (length asserts) \<and> is_dict (asserts ! nat n)
               then asserts[nat n := set_assertion (asserts ! nat n) leaf v] else asserts)
      | None \<Rightarrow>
          if length (filter (owns k) asserts) = 1
          then map (\<lambda>a. if owns k a then set_assertion a k v else a) asserts else asserts)"

text \<open>Over \<open>dp.get("assertions", []) or []\<close>; a dict or string of assertions has nothing to override.\<close>

definition override_assertions :: "dict \<Rightarrow> json \<Rightarrow> json res" where
  "override_assertions overrides asserts =
     (case asserts of
        JArr xs \<Rightarrow> Inr (JArr (foldl apply_override xs overrides))
      | JStr _ \<Rightarrow> Inr asserts
      | JObj d \<Rightarrow>
          if list_ex (\<lambda>(k, v). case scoped_key k of None \<Rightarrow> False
               | Some (i, leaf) \<Rightarrow> (case str_int i of None \<Rightarrow> False | Some n \<Rightarrow> 0 \<le> n \<and> n < int (length d))) overrides
          then Inl KeyError else Inr asserts
      | _ \<Rightarrow> Inl TypeError)"

definition overridden :: "dict \<Rightarrow> json \<Rightarrow> json res" where
  "overridden overrides parsed =
     (let dp = py_or parsed (JObj []) in
      res_bind (jget_or dp ''assertions'' (JArr [])) (\<lambda>asserts.
      if \<not> truthy asserts then Inr dp
      else res_bind (override_assertions overrides asserts) (\<lambda>new.
           Inr (case dp of JObj d \<Rightarrow> JObj (set_key d ''assertions'' new) | _ \<Rightarrow> dp))))"

definition effective_def :: "dict \<Rightarrow> cached_def \<Rightarrow> cached_def res" where
  "effective_def msg d =
     (let overrides = py_or (get msg ''parameter_overrides'') (JObj []);
          parsed = get msg ''definition_parsed_override'' in
      if truthy parsed then
        res_bind (as_obj AttributeError overrides) (\<lambda>_. Inr (d\<lparr>cd_parsed := parsed\<rparr>))
      else if truthy overrides then
        res_bind (as_obj AttributeError overrides) (\<lambda>ov.
        res_bind (overridden ov (cd_parsed d)) (\<lambda>p. Inr (d\<lparr>cd_parsed := p\<rparr>)))
      else Inr d)"

section \<open>Log lines\<close>

definition log_line :: "command_ids \<Rightarrow> string \<Rightarrow> string \<Rightarrow> int \<Rightarrow> json" where
  "log_line ids level m ts = JObj
     [(''source'', JStr (''test:'' @ str_take 8 (ci_def ids))), (''level'', JStr level),
      (''message'', JStr m), (''ts'', JInt ts)]"

definition start_line :: "dict \<Rightarrow> command_ids \<Rightarrow> int \<Rightarrow> json" where
  "start_line msg ids ts = log_line ids ''info''
     (''['' @ py_str (get msg ''definition_slug'') @ ''] Starting test (run='' @ str_take 8 (ci_run ids)
      @ '', sandbox='' @ str_take 8 (ci_sandbox ids) @ '')'') ts"

definition assertion_line :: "command_ids \<Rightarrow> int \<Rightarrow> dict \<Rightarrow> json" where
  "assertion_line ids ts ar =
     (let ok = truthy (get ar ''passed'') in
      log_line ids (if ok then ''info'' else ''error'')
        (''  '' @ (if ok then u_check else u_cross) @ '' ['' @ py_str (get_or ar ''assertion_type'' (JStr ''?''))
         @ ''] '' @ py_str (py_or (get ar ''detail'') (JStr []))) ts)"

definition end_line :: "dict \<Rightarrow> command_ids \<Rightarrow> test_outcome \<Rightarrow> int \<Rightarrow> json" where
  "end_line msg ids oc ts = log_line ids (if oc_status oc = TPassed then ''info'' else ''warn'')
     (''['' @ py_str (get msg ''definition_slug'') @ ''] '' @ upper (test_status_str (oc_status oc))
      @ '' ('' @ int_str (oc_duration_ms oc) @ ''ms)'') ts"

definition outcome_lines :: "dict \<Rightarrow> command_ids \<Rightarrow> test_outcome \<Rightarrow> bool \<Rightarrow> int \<Rightarrow> json list" where
  "outcome_lines msg ids oc has_tb ts =
     map (assertion_line ids ts) (oc_results oc)
     @ (case oc_error oc of
          None \<Rightarrow> [] | Some e \<Rightarrow> if e = [] \<or> has_tb then [] else [log_line ids ''error'' (''  error: '' @ e) ts])
     @ [end_line msg ids oc ts]"

section \<open>The handler\<close>

definition skipped_outcome :: test_outcome where
  "skipped_outcome = \<lparr>oc_status = TSkipped, oc_duration_ms = 0, oc_results = [],
                      oc_error = Some ''Run cancelled''\<rparr>"

definition crash_outcome :: "exc \<Rightarrow> int \<Rightarrow> test_outcome" where
  "crash_outcome e ms = \<lparr>oc_status = TError, oc_duration_ms = ms, oc_results = [],
                         oc_error = Some (str_take 500 (exc_str e))\<rparr>"

definition handle_cancelled :: "(nat \<Rightarrow> string) \<Rightarrow> dict \<Rightarrow> int \<Rightarrow> runner \<Rightarrow> unit res \<times> runner" where
  "handle_cancelled uuid msg now s =
     (case res_bind (command_ids_of msg)
             (\<lambda>ids. insert_result (new_result_row ids (uuid 0) TSkipped now (Some now)) (rn_db s)) of
        Inl e \<Rightarrow> (Inl e, s)
      | Inr db \<Rightarrow>
          (Inr (), publish_result (result_message (uuid 1) msg skipped_outcome (uuid 0) now now) (s\<lparr>rn_db := db\<rparr>)))"

text \<open>\<open>ai_result_id or str(uuid.uuid4())\<close>.\<close>

definition result_id_of :: "(nat \<Rightarrow> string) \<Rightarrow> dict \<Rightarrow> string res" where
  "result_id_of uuid msg = as_str DbError (py_or (get msg ''result_id'') (JStr (uuid 0)))"

text \<open>
  After the test: the final row, whose UPDATE fails on assertion results that are not JSON and on an error
  message with a NUL character; then the log batch and the result.
\<close>

definition storable_error :: "string option \<Rightarrow> bool" where
  "storable_error e = (case e of None \<Rightarrow> True | Some m \<Rightarrow> CHR 0x00 \<notin> set m)"

definition store_outcome :: "string \<Rightarrow> test_outcome \<Rightarrow> int \<Rightarrow> db \<Rightarrow> db res" where
  "store_outcome tid oc completed db =
     (case stored_results (oc_results oc) of
        Inl e \<Rightarrow> Inl e
      | Inr ar \<Rightarrow>
          if storable_error (oc_error oc)
          then Inr (update_result tid (\<lambda>t. t\<lparr>t_status := oc_status oc, t_duration_ms := Some (oc_duration_ms oc),
                      t_assertion_results := ar, t_error_message := oc_error oc,
                      t_completed_at := Some completed\<rparr>) db)
          else Inl DbError)"

definition announce ::
  "(nat \<Rightarrow> string) \<Rightarrow> dict \<Rightarrow> string \<Rightarrow> test_outcome \<Rightarrow> json list \<Rightarrow> int \<Rightarrow> int \<Rightarrow> runner \<Rightarrow> runner" where
  "announce uuid msg tid oc lines started completed s =
     publish_result (result_message (uuid 2) msg oc tid started completed)
       (publish_log_batch (uuid 1) completed msg lines s)"

definition finish_command ::
  "(nat \<Rightarrow> string) \<Rightarrow> dict \<Rightarrow> string \<Rightarrow> test_outcome \<Rightarrow> json list \<Rightarrow> int \<Rightarrow> int \<Rightarrow> runner \<Rightarrow> unit res \<times> runner" where
  "finish_command uuid msg tid oc lines started completed s =
     (case store_outcome tid oc completed (rn_db s) of
        Inl e \<Rightarrow> (Inl e, s)
      | Inr db \<Rightarrow> (Inr (), announce uuid msg tid oc lines started completed (s\<lparr>rn_db := db\<rparr>)))"

text \<open>What the handler makes of the end of the test: the outcome and the log lines.\<close>

definition outcome_and_lines ::
  "(exc \<Rightarrow> string list) \<Rightarrow> dict \<Rightarrow> command_ids \<Rightarrow> int \<Rightarrow> test_outcome outcome \<Rightarrow> int \<Rightarrow> test_outcome \<times> json list" where
  "outcome_and_lines tb msg ids started r t =
     (let (oc, tb_lines) = (case r of
              Ok oc \<Rightarrow> (oc, [])
            | Err e \<Rightarrow> (crash_outcome e (t - started), tb e)
            | Cancelled \<Rightarrow> (crash_outcome OtherError (t - started), tb OtherError))
      in (oc, start_line msg ids started # map (\<lambda>l. log_line ids ''error'' l t) tb_lines
                @ outcome_lines msg ids oc (tb_lines \<noteq> []) t))"

definition run_command ::
  "(string \<times> executor) list \<Rightarrow> (exc \<Rightarrow> string list) \<Rightarrow> (nat \<Rightarrow> string) \<Rightarrow> dict \<Rightarrow> int \<Rightarrow> cached_def \<Rightarrow> command_ids
     \<Rightarrow> string \<Rightarrow> runner \<Rightarrow> env \<Rightarrow> world \<Rightarrow> (unit res \<times> runner \<times> world) option" where
  "run_command reg tb uuid msg major d ids tid s env w =
     (let started = w_clock w in
      case insert_result (new_result_row ids tid TRunning started None) (rn_db s) of
        Inl e \<Rightarrow> Some (Inl e, s, w)
      | Inr db \<Rightarrow>
          (case run_test reg d (context_of msg major ids) env w of
             None \<Rightarrow> None
           | Some (r, w') \<Rightarrow>
               (let (oc, lines) = outcome_and_lines tb msg ids started r (w_clock w');
                    (res, s2) = finish_command uuid msg tid oc lines started (w_clock w') (s\<lparr>rn_db := db\<rparr>)
                in Some (res, s2, w'))))"

text \<open>The definition, the columns of the row and its id, before the row is inserted.\<close>

definition prepare_command ::
  "(nat \<Rightarrow> string) \<Rightarrow> dict \<Rightarrow> cached_def \<Rightarrow> (cached_def \<times> command_ids \<times> string) res" where
  "prepare_command uuid msg d =
     res_bind (effective_def msg d) (\<lambda>d'. res_bind (command_ids_of msg) (\<lambda>ids.
       res_bind (result_id_of uuid msg) (\<lambda>tid. Inr (d', ids, tid))))"

definition handle_command ::
  "(string \<times> executor) list \<Rightarrow> (exc \<Rightarrow> string list) \<Rightarrow> bool \<Rightarrow> (nat \<Rightarrow> string) \<Rightarrow> dict \<Rightarrow> runner \<Rightarrow> env \<Rightarrow> world
     \<Rightarrow> (unit res \<times> runner \<times> world) option" where
  "handle_command reg tb probe_ok uuid msg s env w =
     (case check_command msg of
        Inl e \<Rightarrow> Some (Inl e, s, w)
      | Inr major \<Rightarrow>
          if probe_ok \<and> is_run_cancelled (rn_db s) (key_of (get msg ''run_id'')) then
            (let (r, s') = handle_cancelled uuid msg (w_clock w) s in Some (r, s', w))
          else
            (case cached (rn_cache s) (get msg ''definition_id'') of
               None \<Rightarrow> Some (Inr (), s, w)
             | Some d \<Rightarrow>
                 (case prepare_command uuid msg d of
                    Inl e \<Rightarrow> Some (Inl e, s, w)
                  | Inr (d', ids, tid) \<Rightarrow> run_command reg tb uuid msg major d' ids tid s env w)))"

section \<open>The handler, one await at a time\<close>

text \<open>
  A step per transaction; the test itself, which reads no table, goes with the UPDATE that stores its
  outcome, and the two publications are one step.  Other services can act between two steps.
\<close>

datatype command_pc =
    CmCheck                                       \<comment> \<open>\<open>_is_run_cancelled\<close>\<close>
  | CmSkip                                        \<comment> \<open>the row of a skipped test\<close>
  | CmInsert int                                  \<comment> \<open>cache, overrides, the running row\<close>
  | CmTest int cached_def command_ids string int  \<comment> \<open>the test and its final row\<close>
  | CmAnnounce string test_outcome "json list" int int
  | CmSkipped int
  | CmDone "unit res"

fun command_step ::
  "(string \<times> executor) list \<Rightarrow> (exc \<Rightarrow> string list) \<Rightarrow> bool \<Rightarrow> (nat \<Rightarrow> string) \<Rightarrow> dict \<Rightarrow> env \<Rightarrow> command_pc
     \<Rightarrow> runner \<Rightarrow> world \<Rightarrow> (command_pc \<times> runner \<times> world) option" where
  "command_step reg tb probe_ok uuid msg env CmCheck s w =
     (case check_command msg of
        Inl e \<Rightarrow> Some (CmDone (Inl e), s, w)
      | Inr major \<Rightarrow> Some (if probe_ok \<and> is_run_cancelled (rn_db s) (key_of (get msg ''run_id''))
                          then CmSkip else CmInsert major, s, w))"
| "command_step reg tb probe_ok uuid msg env CmSkip s w =
     (case res_bind (command_ids_of msg)
             (\<lambda>ids. insert_result (new_result_row ids (uuid 0) TSkipped (w_clock w) (Some (w_clock w))) (rn_db s)) of
        Inl e \<Rightarrow> Some (CmDone (Inl e), s, w)
      | Inr db \<Rightarrow> Some (CmSkipped (w_clock w), s\<lparr>rn_db := db\<rparr>, w))"
| "command_step reg tb probe_ok uuid msg env (CmInsert major) s w =
     (case cached (rn_cache s) (get msg ''definition_id'') of
        None \<Rightarrow> Some (CmDone (Inr ()), s, w)
      | Some d \<Rightarrow>
          (case prepare_command uuid msg d of
             Inl e \<Rightarrow> Some (CmDone (Inl e), s, w)
           | Inr (d', ids, tid) \<Rightarrow>
               (case insert_result (new_result_row ids tid TRunning (w_clock w) None) (rn_db s) of
                  Inl e \<Rightarrow> Some (CmDone (Inl e), s, w)
                | Inr db \<Rightarrow> Some (CmTest major d' ids tid (w_clock w), s\<lparr>rn_db := db\<rparr>, w))))"
| "command_step reg tb probe_ok uuid msg env (CmTest major d ids tid started) s w =
     (case run_test reg d (context_of msg major ids) env w of
        None \<Rightarrow> None
      | Some (r, w') \<Rightarrow>
          (let (oc, lines) = outcome_and_lines tb msg ids started r (w_clock w')
           in case store_outcome tid oc (w_clock w') (rn_db s) of
                Inl e \<Rightarrow> Some (CmDone (Inl e), s, w')
              | Inr db \<Rightarrow> Some (CmAnnounce tid oc lines started (w_clock w'), s\<lparr>rn_db := db\<rparr>, w')))"
| "command_step reg tb probe_ok uuid msg env (CmAnnounce tid oc lines started completed) s w =
     Some (CmDone (Inr ()), announce uuid msg tid oc lines started completed s, w)"
| "command_step reg tb probe_ok uuid msg env (CmSkipped t) s w =
     Some (CmDone (Inr ()), publish_result (result_message (uuid 1) msg skipped_outcome (uuid 0) t t) s, w)"
| "command_step reg tb probe_ok uuid msg env (CmDone r) s w = Some (CmDone r, s, w)"

end
