(* ===== verification/Test_Runner_Spec.thy ===== *)
theory Test_Runner_Spec
  imports Test_Commands
begin

text \<open>
  What the test runner guarantees: every test ends with an outcome, within its timeout as far as its
  assertions await, and the outcome says what the assertions' results say.
\<close>

section \<open>Every executor returns\<close>

lemma returns_timed [io_returns]: "returns (timed t0 mk)" "returns (failed_on ty t0 e)"
  unfolding failed_on_def timed_def by (intro io_returns)+

lemma timely_timed [io_timely]: "timely (timed t0 mk)" "timely (failed_on ty t0 e)"
  unfolding failed_on_def timed_def by (intro io_timely)+

lemma returns_single [io_returns]: "returns m \<Longrightarrow> returns (single m)"
  unfolding single_def by (intro io_returns)

lemma timely_single [io_timely]: "timely m \<Longrightarrow> timely (single m)"
  unfolding single_def by (intro io_timely)

lemma fetch_well [io_returns, io_timely]:
  "returns (fetch_input_count url app)" "timely (fetch_input_count url app)"
  unfolding fetch_input_count_def fetch_count_def by (intro io_returns io_timely)+

lemma http_executors_well:
  "returns (exec_graphql a ctx)" "timely (exec_graphql a ctx)"
  "returns (exec_http_status a ctx)" "timely (exec_http_status a ctx)"
  "returns (exec_voucher a ctx)" "timely (exec_voucher a ctx)"
  unfolding exec_graphql_def exec_http_status_def exec_voucher_def Let_def
  by (intro io_returns io_timely)+

lemma inspect_well:
  "returns (exec_inspect_query a ctx)" "timely (exec_inspect_query a ctx)"
proof -
  have m: "returns (inspect_many q url n)" "timely (inspect_many q url n)" for q url n
    unfolding inspect_many_def by (cases "iq_query q"; simp; intro io_returns io_timely conjI impI)+
  have b: "returns (inspect_batch q url t0)" "timely (inspect_batch q url t0)" for q url t0
    unfolding inspect_batch_def Let_def by (intro io_returns io_timely m)+
  have o: "returns (inspect_one q url)" "timely (inspect_one q url)" for q url
    unfolding inspect_one_def by (intro io_returns io_timely)+
  show "returns (exec_inspect_query a ctx)" "timely (exec_inspect_query a ctx)"
    unfolding exec_inspect_query_def Let_def by (intro io_returns io_timely b o)+
qed

text \<open>The executors in a worker thread.\<close>

lemma health_well: "returns (exec_health_check a ctx)" "timely (exec_health_check a ctx)"
  unfolding exec_health_check_def health_run_sync_def health_failed_def Let_def
  by (intro io_returns io_timely)+

lemma restart_well: "returns (exec_service_restart a ctx)" "timely (exec_service_restart a ctx)"
proof -
  have h: "returns (restart_healthy n url)" for n url
    unfolding restart_healthy_def by (intro io_returns)
  have h': "returns (case network of JStr n \<Rightarrow> restart_healthy n url | _ \<Rightarrow> io_return False)" for network url
    by (cases network) (auto intro: io_returns h)
  have p: "returns (restart_poll network service url t0 u)" "advances (restart_poll network service url t0 u)"
    for network service url t0 u
    unfolding restart_poll_def by (intro io_returns io_advances h' | simp)+
  have c: "returns (restart_container name t0)" for name t0
    unfolding restart_container_def by (intro io_returns)
  show "returns (exec_service_restart a ctx)" "timely (exec_service_restart a ctx)"
    unfolding exec_service_restart_def restart_run_sync_def Let_def by (intro io_returns io_timely c p)+
qed

text \<open>Poll intervals of at least a second, where an assertion gives one.\<close>

definition paced :: "dict \<Rightarrow> bool" where
  "paced a = (\<forall>n. has_key a ''poll_interval'' \<longrightarrow> py_float (get a ''poll_interval'') = Inr n \<longrightarrow> 1 \<le> n)"

lemma paced_interval:
  "paced a \<Longrightarrow> 1 \<le> k \<Longrightarrow> py_float (get_or a ''poll_interval'' (JInt k)) = Inr n \<Longrightarrow> 1 \<le> n"
  by (auto simp: paced_def has_key_def get_def get_or_def split: option.splits)

lemma cli_well:
  "paced a \<Longrightarrow> returns (exec_cli_command a ctx)" "timely (exec_cli_command a ctx)"
proof -
  have o: "returns (cli_run_once c t0)" for c t0
    unfolding cli_run_once_def cli_failed_def by (intro io_returns)
  have p: "returns (cli_poll c t0 dl u)" "starts_by dl (cli_poll c t0 dl u)"
    "0 < cl_poll_interval c \<Longrightarrow> advances (cli_poll c t0 dl u)" for c t0 dl u
    unfolding cli_poll_def disj_assoc [symmetric] by (intro io_returns io_advances o | simp)+
  have r: "returns (io_while (\<lambda>_. True) dl (cli_poll c t0 dl) u)" if "0 < cl_poll_interval c" for c t0 dl u
    using that by (intro io_returns p)
  have i: "0 < cl_poll_interval c" if "paced a" "cli_spec_of a ctx = Inr c" for c
    using that paced_interval [of a 15] by (auto simp: cli_spec_of_def res_inv)
  show "timely (exec_cli_command a ctx)"
    unfolding exec_cli_command_def by (intro io_timely)
  assume a: "paced a"
  then have "returns (cli_run_sync a ctx)"
    unfolding cli_run_sync_def Let_def by (intro returns_bind_lift io_returns r i)
  then show "returns (exec_cli_command a ctx)"
    unfolding exec_cli_command_def by (intro io_returns)
qed

lemma log_well: "returns (exec_log_contains rx a ctx)"
proof -
  have m: "returns (logs_match rx pattern c n)" for pattern c n
    unfolding logs_match_def by (intro io_returns)
  have p: "returns (log_poll rx pattern c n ts t0 dl e)" "advances (log_poll rx pattern c n ts t0 dl e)"
    for pattern c n ts t0 dl e
    unfolding log_poll_def Let_def by (intro io_returns io_advances m | simp)+
  have f: "returns (log_not_found pattern c n t0 e)" for pattern c n t0 e
    unfolding log_not_found_def by (intro io_returns)
  show ?thesis
    unfolding exec_log_contains_def log_absence_def log_presence_def Let_def
    by (intro io_returns m p f)
qed

lemma metrics_well: "returns (exec_metrics_check a ctx)"
  unfolding exec_metrics_check_def metrics_failed_def Let_def by (intro io_returns)

lemma rpc_well:
  "paced a \<Longrightarrow> returns (exec_json_rpc a ctx)" "timely (exec_json_rpc a ctx)"
proof -
  have j: "returns (single (io_bind io_now (\<lambda>t. io_lift (f (t - t0)))))"
    "timely (single (io_bind io_now (\<lambda>t. io_lift (f (t - t0)))))" for f :: "int \<Rightarrow> assertion_result res" and t0
    by (intro io_returns io_timely)+
  have e: "returns (epoch_poll url app dl i u)" "starts_by dl (epoch_poll url app dl i u)"
    "0 < i \<Longrightarrow> advances (epoch_poll url app dl i u)" "timely (epoch_poll url app dl i u)" for url app dl i u
    unfolding epoch_poll_def by (intro io_returns io_advances io_timely | simp)+
  have ep: "0 < rq_poll_interval q \<Longrightarrow> returns (epoch_params q url)" "timely (epoch_params q url)" for q url
    unfolding epoch_params_def Let_def by (intro io_returns io_timely e | assumption)+
  have b: "returns (rpc_stress q ps url t0)" "timely (rpc_stress q ps url t0)"
    "returns (rpc_raw q url t0)" "timely (rpc_raw q url t0)"
    "returns (rpc_call q ps url)" "timely (rpc_call q ps url)" for q ps url t0
    unfolding rpc_stress_def rpc_raw_def rpc_call_def Let_def by (intro io_returns io_timely)+
  have f: "returns (field_poll q ps url u)" "timely (field_poll q ps url u)"
    "0 < rq_poll_interval q \<Longrightarrow> advances (field_poll q ps url u)" for q ps url u
    unfolding field_poll_def by (intro io_returns io_timely io_advances b | simp)+
  have cr: "returns (count_round q ps url n)" "timely (count_round q ps url n)" for q ps url n
    unfolding count_round_def by (intro io_returns io_timely)+
  have c: "returns (count_poll q ps url n)" "timely (count_poll q ps url n)"
    "0 < rq_poll_interval q \<Longrightarrow> advances (count_poll q ps url n)" for q ps url n
    unfolding count_poll_def by (intro io_returns io_timely io_advances cr | simp)+
  have rc: "0 < rq_poll_interval q \<Longrightarrow> returns (rpc_count q ps url t0 r)" "timely (rpc_count q ps url t0 r)"
    for q ps url t0 r
    unfolding rpc_count_def by (intro io_returns io_timely c | assumption)+
  have su: "0 < rq_poll_interval q \<Longrightarrow> returns (rpc_success q ps url t0 body)"
    "timely (rpc_success q ps url t0 body)" for q ps url t0 body
    unfolding rpc_success_def Let_def by (intro io_returns io_timely j rc | assumption)+
  have an: "0 < rq_poll_interval q \<Longrightarrow> returns (rpc_answer q ps url t0 body)"
    "timely (rpc_answer q ps url t0 body)" for q ps url t0 body
    unfolding rpc_answer_def Let_def by (intro io_returns io_timely j su f | assumption)+
  have rq: "0 < rq_poll_interval q \<Longrightarrow> returns (rpc_request q ps url t0)" "timely (rpc_request q ps url t0)"
    for q ps url t0
    unfolding rpc_request_def by (intro io_returns io_timely b an | assumption)+
  show "timely (exec_json_rpc a ctx)"
    unfolding exec_json_rpc_def Let_def by (intro io_timely ep rq)
  have i: "0 < rq_poll_interval q" if "paced a" "rpc_spec_of a ctx = Inr q" for q
    using that paced_interval [of a 2] by (auto simp: rpc_spec_of_def res_inv Let_def)
  show "returns (exec_json_rpc a ctx)" if "paced a"
    unfolding exec_json_rpc_def Let_def using that
    by (intro returns_bind_lift io_returns ep rq i)
qed

lemma notice_well:
  "paced a \<Longrightarrow> returns (exec_notice_check a ctx)" "timely (exec_notice_check a ctx)"
proof -
  have p: "returns (notice_poll k x t0 url app i st)" "timely (notice_poll k x t0 url app i st)"
    "0 < i \<Longrightarrow> advances (notice_poll k x t0 url app i st)" for k x t0 url app i st
    unfolding notice_poll_def by (intro io_returns io_timely io_advances | simp)+
  show "timely (exec_notice_check a ctx)"
    unfolding exec_notice_check_def Let_def by (intro io_timely p)
  show "returns (exec_notice_check a ctx)" if "paced a"
    unfolding exec_notice_check_def Let_def
    by (intro returns_bind_lift io_returns p) (use paced_interval [OF that, of 3] in force)
qed

lemma chain_well: "returns (exec_chain_tx a ctx)" "timely (exec_chain_tx a ctx)"
proof -
  have r: "returns (receipt_poll url ad p h e t0 u)" "timely (receipt_poll url ad p h e t0 u)"
    "advances (receipt_poll url ad p h e t0 u)" for url ad p h e t0 u
    unfolding receipt_poll_def by (intro io_returns io_timely io_advances | simp)+
  have v: "returns (submit_v2 p ad ctx t0 e)" "timely (submit_v2 p ad ctx t0 e)"
    "returns (submit_v1 p ctx t0)" "timely (submit_v1 p ctx t0)" for p ad t0 e
    unfolding submit_v2_def submit_v1_def Let_def by (intro io_returns io_timely r)+
  have l: "returns (submit_loop c ctx t0 i n x)" "timely (submit_loop c ctx t0 i n x)" for c t0 i n x
    by (induction n arbitrary: i x) (auto intro!: io_returns io_timely v)
  have a: "returns (after_poll ctx b u)" "timely (after_poll ctx b u)" "advances (after_poll ctx b u)" for b u
    unfolding after_poll_def by (intro io_returns io_timely io_advances fetch_well | simp)+
  have s: "returns (chain_summary c ad x t0)" "timely (chain_summary c ad x t0)" for c ad x t0
    unfolding chain_summary_def Let_def by (intro io_returns io_timely)+
  show "returns (exec_chain_tx a ctx)" "timely (exec_chain_tx a ctx)"
    unfolding exec_chain_tx_def chain_v2_def Let_def
    by (intro io_returns io_timely fetch_well v l a s)+
qed

lemma receipt_well:
  "returns (wait_receipt url h)" "timely (wait_receipt url h)"
proof -
  have r: "returns (wait_round url h u)" "timely (wait_round url h u)" "advances (wait_round url h u)" for u
    unfolding wait_round_def by (intro io_returns io_timely io_advances | simp)+
  show "returns (wait_receipt url h)" "timely (wait_receipt url h)"
    unfolding wait_receipt_def by (intro io_returns io_timely r)+
qed

lemma send_all_well: "returns (send_all url txs)" "timely (send_all url txs)"
proof -
  have s: "returns (send_and_wait url f t d)" "timely (send_and_wait url f t d)" for f t d
    unfolding send_and_wait_def by (intro io_returns io_timely receipt_well)+
  show "returns (send_all url txs)" "timely (send_all url txs)"
    by (induction txs) (auto intro!: io_returns io_timely s)
qed

lemma script_well: "returns (run_script missing cname secs failure script sid)"
  unfolding run_script_def script_output_def anvil_container_def Let_def by (intro io_returns)

lemma deposit_well: "returns (deposit ty a ctx amount tid t0)" "timely (deposit ty a ctx amount tid t0)"
proof -
  have f: "returns (portal_failed d t0)" "timely (portal_failed d t0)"
    "returns (deposit_confirmed std d t0)" "timely (deposit_confirmed std d t0)" for d std t0
    unfolding portal_failed_def deposit_confirmed_def by (intro io_returns io_timely)+
  have c: "returns m \<Longrightarrow> returns (with_code url p s t0 m)" "timely m \<Longrightarrow> timely (with_code url p s t0 m)" for m url p s t0
    unfolding with_code_def get_code_def by (intro io_returns io_timely f | assumption)+
  have d: "returns (direct_deposit std url t0 txs dt)" "timely (direct_deposit std url t0 txs dt)"
    "returns (script_deposit std sc ctx t0 df)" "timely (script_deposit std sc ctx t0 df)" for std url t0 txs dt sc df
    unfolding direct_deposit_def script_deposit_def run_foundry_script_def
    by (intro io_returns io_timely f send_all_well script_well)+
  have e: "returns (send_ether app p url cd n t0)" "timely (send_ether app p url cd n t0)" for app p url cd n t0
    unfolding send_ether_def by (intro io_returns io_timely receipt_well)+
  have b: "returns (batch_result items t0)" "timely (batch_result items t0)" for items t0
    unfolding batch_result_def Let_def by (intro io_returns io_timely)+
  show "returns (deposit ty a ctx amount tid t0)" "timely (deposit ty a ctx amount tid t0)"
    unfolding deposit_def deposit_ether_def deposit_erc20_def deposit_erc721_def deposit_erc1155_def
      deposit_erc1155_batch_def Let_def
    by (intro io_returns io_timely c d e f b send_all_well)+
qed

lemma after_poll_well:
  "returns (after_poll ctx b u)" "timely (after_poll ctx b u)" "advances (after_poll ctx b u)"
  unfolding after_poll_def by (intro io_returns io_timely io_advances fetch_well | simp)+

lemma portal_well: "returns (exec_portal_deposit a ctx)" "timely (exec_portal_deposit a ctx)"
  unfolding exec_portal_deposit_def counted_deposit_def portal_failed_def Let_def
  by (intro io_returns io_timely fetch_well deposit_well after_poll_well)+

lemma node_call_well [io_returns, io_timely]:
  "returns (list_outputs ctx)" "timely (list_outputs ctx)" "returns (get_output_count ctx)" "timely (get_output_count ctx)"
  "returns (get_epoch_data ctx i)" "timely (get_epoch_data ctx i)" "returns (get_authority ctx)" "timely (get_authority ctx)"
  unfolding list_outputs_def get_output_count_def get_epoch_data_def get_authority_def node_call_def
  by (intro io_returns io_timely)+

lemma submit_claim_well: "returns (submit_claim ctx epoch)" "timely (submit_claim ctx epoch)"
  unfolding submit_claim_def send_claim_def run_voucher_script_def by (intro io_returns io_timely script_well)+

lemma visit_well: "returns (visit_voucher peers ctx st v)" "timely (visit_voucher peers ctx st v)"
  unfolding visit_voucher_def visit_computed_def visit_processed_def maybe_restart_def restart_validator_def Let_def
  by (intro io_returns io_timely submit_claim_well)+

lemma poll_round_well:
  "returns (poll_round peers ctx q st)" "timely (poll_round peers ctx q st)"
  "0 < pl_interval q \<Longrightarrow> advances (poll_round peers ctx q st)"
proof -
  have c: "returns (claimed_vouchers peers ctx st vs acc)" "timely (claimed_vouchers peers ctx st vs acc)" for st vs acc
    by (induction vs arbitrary: st acc) (auto intro!: io_returns io_timely visit_well)
  have a: "returns (poll_answer peers ctx q st)" "timely (poll_answer peers ctx q st)"
    unfolding poll_answer_def by (intro io_returns io_timely c)+
  show "returns (poll_round peers ctx q st)" "timely (poll_round peers ctx q st)"
    unfolding poll_round_def by (intro io_returns io_timely a)+
  show "advances (poll_round peers ctx q st)" if "0 < pl_interval q"
    unfolding poll_round_def using that by (intro io_advances io_returns a) simp
qed

lemma poll_vouchers_well:
  "0 < pl_interval q \<Longrightarrow> returns (poll_vouchers peers ctx q to)" "timely (poll_vouchers peers ctx q to)"
  unfolding poll_vouchers_def by (intro io_returns io_timely poll_round_well | assumption)+

lemma voucher_v2_well:
  "paced a \<Longrightarrow> returns (exec_voucher_v2 peers a ctx)" "timely (exec_voucher_v2 peers a ctx)"
proof -
  have f: "returns (v2_failed d t0)" "timely (v2_failed d t0)" for d t0
    unfolding v2_failed_def by (intro io_returns io_timely)+
  have s: "returns m \<Longrightarrow> returns (setup_or ctx md ty t0 m)" "timely m \<Longrightarrow> timely (setup_or ctx md ty t0 m)" for m md ty t0
    unfolding setup_or_def trigger_voucher_def run_voucher_script_def
    by (intro io_returns io_timely script_well f | assumption)+
  have t: "returns (try_voucher ctx i t0 v)" "timely (try_voucher ctx i t0 v)" for i t0 v
    unfolding try_voucher_def run_voucher_script_def Let_def by (intro io_returns io_timely script_well f)+
  have ts: "returns (try_vouchers ctx i t0 vs d)" "timely (try_vouchers ctx i t0 vs d)" for i t0 vs d
    by (induction vs arbitrary: d) (auto intro!: io_returns io_timely t)
  have g: "0 < i \<Longrightarrow> returns (check_generation peers ctx ty e i to t0)" "timely (check_generation peers ctx ty e i to t0)"
    for ty e i to t0
    unfolding check_generation_def Let_def by (intro io_returns io_timely s poll_vouchers_well | simp)+
  have x: "0 < i \<Longrightarrow> returns (execute_voucher peers ctx e i to t0)" "timely (execute_voucher peers ctx e i to t0)"
    for e i to t0
    unfolding execute_voucher_def no_claimed_epoch_def Let_def
    by (intro io_returns io_timely s f ts poll_vouchers_well | simp)+
  show "timely (exec_voucher_v2 peers a ctx)"
    unfolding exec_voucher_v2_def Let_def by (intro io_timely f g x)
  show "returns (exec_voucher_v2 peers a ctx)" if "paced a"
  proof -
    have i: "0 < i" if "py_float (get_or a ''poll_interval'' (JInt 3)) = Inr i" for i
      using paced_interval [OF \<open>paced a\<close>, of 3 i] that by simp
    show ?thesis
      unfolding exec_voucher_v2_def Let_def by (intro returns_bind_lift io_returns f g x i) 
  qed
qed

section \<open>The registry as an interface\<close>

text \<open>
  What \<open>run_test\<close> needs of the registered executors: on the assertions that \<open>ok\<close> admits they return,
  and the ones whose type \<open>awaits\<close> respect the deadline.
\<close>

locale test_registry =
  fixes reg :: "(string \<times> executor) list" and ok :: "dict \<Rightarrow> bool"
  assumes reg_returns: "map_of reg k = Some ex \<Longrightarrow> get a ''type'' = JStr k \<Longrightarrow> ok a \<Longrightarrow> returns (ex a ctx)"
begin

lemma picked:
  "pick_executor reg x = Inr (a, Some ex) \<Longrightarrow> x = JObj a \<and> (\<exists>k. get a ''type'' = JStr k \<and> map_of reg k = Some ex)"
  by (auto simp: pick_executor_def find_executor_def res_inv split: json.splits)

lemma assertions_end:
  assumes "\<And>a. JObj a \<in> set xs \<Longrightarrow> ok a"
  shows "\<exists>out fin w'. run_assertions reg ctx xs rs b env w = Some (out, fin, w') \<and> w_clock w \<le> w_clock w'"
  using assms
proof (induction xs arbitrary: rs b w)
  case (Cons x xs)
  have IH: "\<exists>out fin w'. run_assertions reg ctx xs rs b env w = Some (out, fin, w') \<and> w_clock w \<le> w_clock w'"
    for rs b w
    using Cons by simp
  show ?case
  proof (cases "pick_executor reg x")
    case (Inr p)
    then obtain a ex where p: "pick_executor reg x = Inr (a, ex)" by (cases p) auto
    show ?thesis
    proof (cases ex)
      case (Some e)
      have "returns (e a ctx)"
        using picked [of x a e] p Some reg_returns Cons.prems by auto
      then obtain r w1 where "e a ctx env w = Some (r, w1)" "w_clock w \<le> w_clock w1"
        by (rule returnsE)
      then show ?thesis
        using IH [of "rs @ map to_dict (case r of Ok is \<Rightarrow> is | _ \<Rightarrow> [])"
            "b \<and> (\<forall>i\<in>set (case r of Ok is \<Rightarrow> is | _ \<Rightarrow> []). ar_passed i)" w1]
        by (cases r) (use p Some in force)+
    qed (use p IH in simp)
  qed simp
qed simp

end

text \<open>The executors whose effects are all awaited, by their types.\<close>

locale timely_registry = test_registry +
  fixes awaits :: "string \<Rightarrow> bool"
  assumes reg_timely: "map_of reg k = Some ex \<Longrightarrow> awaits k \<Longrightarrow> get a ''type'' = JStr k \<Longrightarrow> ok a \<Longrightarrow> timely (ex a ctx)"
begin

lemma assertions_timely:
  assumes "run_assertions reg ctx xs rs b env w = Some (out, fin, w')" and "kept_by dl w"
    and "\<And>a k. JObj a \<in> set xs \<Longrightarrow> ok a \<and> (get a ''type'' = JStr k \<longrightarrow> awaits k)"
  shows "kept_by dl w'"
  using assms
proof (induction xs arbitrary: rs b w)
  case (Cons x xs)
  show ?case
  proof (cases "pick_executor reg x")
    case (Inr p)
    then obtain a ex where p: "pick_executor reg x = Inr (a, ex)" by (cases p) auto
    show ?thesis
    proof (cases ex)
      case (Some e)
      have t: "timely (e a ctx)"
        using picked [of x a e] p Some reg_timely [of _ e a ctx] Cons.prems(3) by fastforce
      obtain r w1 where e: "e a ctx env w = Some (r, w1)"
        using Cons.prems(1) p Some by (cases "e a ctx env w") auto
      have k: "kept_by dl w1" using t e Cons.prems(2) unfolding timely_kept by blast
      show ?thesis
      proof (cases r)
        case (Ok items)
        then have "run_assertions reg ctx xs (rs @ map to_dict items) (b \<and> (\<forall>i\<in>set items. ar_passed i)) env w1
                     = Some (out, fin, w')"
          using Cons.prems(1) p Some e by simp
        then show ?thesis using k Cons.prems(3) by (intro Cons.IH) auto
      qed (use Cons.prems(1) p Some e k in auto)
    next
      case None
      then have "run_assertions reg ctx xs (rs @ [unknown_result (get a ''type'')]) False env w
                   = Some (out, fin, w')"
        using Cons.prems(1) p by simp
      then show ?thesis using Cons.prems(2,3) by (intro Cons.IH) auto
    qed
  qed (use Cons.prems in simp)
qed simp

end

text \<open>The code's registry.\<close>

definition awaits :: "string \<Rightarrow> bool" where
  "awaits k = (k \<noteq> ''metrics_check'' \<and> k \<noteq> ''log_contains'')"

interpretation runner: timely_registry "EXECUTORS rx peers" paced awaits
  for rx peers
proof
  fix k ex a ctx
  assume k: "map_of (EXECUTORS rx peers) k = Some ex" and a: "paced a"
  then show "returns (ex a ctx)"
    by (auto simp: EXECUTORS_def split: if_splits
      intro: http_executors_well inspect_well health_well restart_well cli_well log_well metrics_well
        rpc_well notice_well chain_well portal_well voucher_v2_well)
  assume "awaits k"
  with k show "timely (ex a ctx)"
    by (auto simp: EXECUTORS_def awaits_def split: if_splits
      intro: http_executors_well inspect_well health_well restart_well cli_well
        rpc_well notice_well chain_well portal_well voucher_v2_well)
qed

section \<open>Properties of run_test\<close>

lemma run_test_total:
  assumes "assertions_of d = Inr xs" and "\<And>a. JObj a \<in> set xs \<Longrightarrow> paced a"
  obtains oc w' where "run_test (EXECUTORS rx peers) d ctx env w = Some (Ok oc, w')"
    "oc_duration_ms oc = w_clock w' - w_clock w" "w_clock w \<le> w_clock w'"
proof -
  obtain out fin w' where "run_assertions (EXECUTORS rx peers) ctx xs [] True env
       (w\<lparr>w_deadline := Some (w_clock w + 1000 * cd_timeout d)\<rparr>) = Some (out, fin, w')" "w_clock w \<le> w_clock w'"
    using runner.assertions_end [OF assms(2), where w = "w\<lparr>w_deadline := Some (w_clock w + 1000 * cd_timeout d)\<rparr>"]
    by fastforce
  then show ?thesis
    using assms(1) that by (cases out) (auto simp: run_test_def outcome_of_def split: run_end.splits)
qed

text \<open>
  C6: a test always ends, whatever the world answers: when its assertions are a list and their poll
  intervals are at least a second, \<open>run_test\<close> returns an outcome (it neither diverges nor raises) whose
  duration is the time that passed.
\<close>

theorem run_test_always_ends:
  assumes "assertions_of d = Inr xs" and "\<And>a. JObj a \<in> set xs \<Longrightarrow> paced a"
  shows "\<exists>oc w'. run_test (EXECUTORS rx peers) d ctx env w = Some (Ok oc, w')
           \<and> oc_duration_ms oc = w_clock w' - w_clock w \<and> 0 \<le> oc_duration_ms oc"
  using run_test_total [OF assms, where rx = rx and ctx = ctx and env = env and w = w]
  by (metis diff_ge_0_iff_ge)

text \<open>
  C27: a test whose assertions only await is over by its timeout.  The two types excluded read metrics
  and container logs from the event loop itself, so that a hanging Docker daemon holds up the timeout.
\<close>

theorem run_test_within_timeout:
  assumes "run_test (EXECUTORS rx peers) d ctx env w = Some (Ok oc, w')" and "0 \<le> cd_timeout d"
    and "assertions_of d = Inr xs"
    and "\<And>a k. JObj a \<in> set xs \<Longrightarrow> paced a \<and> (get a ''type'' = JStr k \<longrightarrow> awaits k)"
  shows "oc_duration_ms oc \<le> 1000 * cd_timeout d"
proof -
  let ?dl = "w_clock w + 1000 * cd_timeout d"
  obtain out fin w2 where r: "run_assertions (EXECUTORS rx peers) ctx xs [] True env
       (w\<lparr>w_deadline := Some ?dl\<rparr>) = Some (out, fin, w2)"
    and oc: "oc = outcome_of d (fst out) (snd out) fin (w_clock w2 - w_clock w)"
    using assms(1,3) by (auto simp: run_test_def split: option.splits)
  have "kept_by ?dl w2"
    using runner.assertions_timely [OF r _ assms(4)] assms(2) by (auto simp: kept_by_def)
  then show ?thesis by (simp add: oc kept_by_def outcome_of_def split: run_end.splits)
qed

text \<open>What the collected results say of the flag.\<close>

definition passed_entry :: "dict \<Rightarrow> bool" where
  "passed_entry r = (get r ''passed'' = JBool True)"

lemma passed_entry_simps [simp]:
  "passed_entry (to_dict i) = ar_passed i" "\<not> passed_entry (unknown_result t)"
  by (simp_all add: passed_entry_def to_dict_def unknown_result_def get_def get_or_def)

lemma run_assertions_flag:
  "run_assertions reg ctx xs rs b env w = Some ((rs', b'), fin, w') \<Longrightarrow> b = (\<forall>r\<in>set rs. passed_entry r)
     \<Longrightarrow> b' = (\<forall>r\<in>set rs'. passed_entry r)"
proof (induction xs arbitrary: rs b w)
  case (Cons x xs)
  show ?case
  proof (cases "pick_executor reg x")
    case (Inr p)
    then obtain a ex where p: "pick_executor reg x = Inr (a, ex)" by (cases p) auto
    show ?thesis
    proof (cases ex)
      case None
      then have "run_assertions reg ctx xs (rs @ [unknown_result (get a ''type'')]) False env w
                   = Some ((rs', b'), fin, w')"
        using Cons.prems(1) p by simp
      then show ?thesis by (rule Cons.IH) simp
    next
      case (Some e)
      obtain r w1 where e: "e a ctx env w = Some (r, w1)"
        using Cons.prems(1) p Some by (cases "e a ctx env w") auto
      show ?thesis
      proof (cases r)
        case (Ok items)
        then have "run_assertions reg ctx xs (rs @ map to_dict items) (b \<and> (\<forall>i\<in>set items. ar_passed i)) env w1
                     = Some ((rs', b'), fin, w')"
          using Cons.prems(1) p Some e by simp
        then show ?thesis by (rule Cons.IH) (simp add: Cons.prems(2) ball_Un)
      qed (use Cons.prems(1) p Some e in \<open>auto simp: Cons.prems(2)\<close>)
    qed
  qed (use Cons.prems(1) in \<open>auto simp: Cons.prems(2)\<close>)
qed simp

text \<open>
  C15: the outcome of a test says what its results say.  Without an error message the test passed
  exactly when every recorded result passed (so a test without assertions passes); with one it is an
  error or a timeout.  An assertion of an unknown type never lets a test pass.
\<close>

theorem outcome_matches_results:
  assumes "run_test reg d ctx env w = Some (Ok oc, w')"
  shows "(oc_error oc = None \<longrightarrow>
             oc_status oc = (if \<forall>r\<in>set (oc_results oc). get r ''passed'' = JBool True then TPassed else TFailed))
       \<and> (oc_error oc \<noteq> None \<longrightarrow> oc_status oc = TError \<or> oc_status oc = TTimeout)"
proof -
  obtain xs rs ok fin w2 where r: "run_assertions reg ctx xs [] True env
       (w\<lparr>w_deadline := Some (w_clock w + 1000 * cd_timeout d)\<rparr>) = Some ((rs, ok), fin, w2)"
    and oc: "oc = outcome_of d rs ok fin (w_clock w2 - w_clock w)"
    using assms by (auto simp: run_test_def simp del: run_assertions.simps split: option.splits sum.splits)
  from run_assertions_flag [OF r] show ?thesis
    by (simp add: oc outcome_of_def passed_entry_def split: run_end.splits)
qed

section \<open>A sample test\<close>

text \<open>A node that answers every request with an empty result after 100 ms, and a test of three assertions.\<close>

definition demo_env :: env where
  "demo_env tr e = (Replied \<lparr>h_status = 200, h_json = Inr (JObj [(''result'', JObj [])]), h_text = []\<rparr>, 100)"

definition demo_world :: world where
  "demo_world = \<lparr>w_clock = 1000, w_deadline = None, w_trace = []\<rparr>"

definition demo_assertions :: "dict list" where
  "demo_assertions =
     [[(''type'', JStr ''http_status''), (''expect'', JInt 200)],
      [(''type'', JStr ''json_rpc''), (''expect_count'', JInt 1), (''poll_interval'', JInt 2)],
      [(''type'', JStr ''nonsense'')]]"

definition demo_test :: cached_def where
  "demo_test = \<lparr>cd_id = ''d1'', cd_slug = ''sample'', cd_timeout = 60,
     cd_parsed = JObj [(''assertions'', JArr (map JObj demo_assertions))]\<rparr>"

definition demo_ctx :: sandbox_context where
  "demo_ctx = init_context
     \<lparr>cx_sandbox_id = ''0123456789'', cx_run_id = ''r1'', cx_anvil_port = JInt 8545, cx_node_port = JInt 10011,
      cx_graphql_port = JInt 10012, cx_docker_network = JStr ''net'', cx_node_major = 2,
      cx_cli_container = JNull, cx_app_address = JNull, cx_inputbox = JNull, cx_ether_portal = JNull,
      cx_erc20_portal = JNull, cx_erc721_portal = JNull, cx_erc1155_portal = JNull, cx_erc20_token = JNull,
      cx_erc721_token = JNull, cx_erc1155_token = JNull\<rparr>"

lemma demo_facts:
  "assertions_of demo_test = Inr (map JObj demo_assertions)"
  "JObj a \<in> set (map JObj demo_assertions) \<Longrightarrow>
     (paced a) \<and> (get a ''type'' = JStr k \<longrightarrow> awaits k)"
  by (auto simp: assertions_of_def demo_test_def demo_assertions_def get_or_def paced_def has_key_def
        get_def awaits_def)

abbreviation demo_run :: "(test_outcome outcome \<times> world) option" where
  "demo_run \<equiv> run_test (EXECUTORS (\<lambda>_ _. Inr False) (\<lambda>_. 0)) demo_test demo_ctx demo_env demo_world"

lemma demo_ends: obtains oc w' where "demo_run = Some (Ok oc, w')"
  using run_test_total [OF demo_facts(1)] demo_facts(2) by metis

theorem run_test_always_ends_witness:
  "\<exists>oc w'. demo_run = Some (Ok oc, w')
     \<and> oc_duration_ms oc = w_clock w' - w_clock demo_world \<and> 0 \<le> oc_duration_ms oc"
  by (rule run_test_always_ends [OF demo_facts(1)]) (use demo_facts(2) in blast)

theorem run_test_within_timeout_witness:
  "\<exists>oc w'. demo_run = Some (Ok oc, w') \<and> oc_duration_ms oc \<le> 1000 * cd_timeout demo_test"
proof -
  obtain oc w' where r: "demo_run = Some (Ok oc, w')" by (rule demo_ends)
  have "oc_duration_ms oc \<le> 1000 * cd_timeout demo_test"
    by (rule run_test_within_timeout [OF r _ demo_facts(1)])
       (use demo_facts(2) in \<open>simp_all add: demo_test_def\<close>)
  with r show ?thesis by blast
qed

theorem outcome_matches_results_witness:
  "\<exists>oc w'. demo_run = Some (Ok oc, w')
     \<and> (oc_error oc = None \<longrightarrow>
          oc_status oc = (if \<forall>r\<in>set (oc_results oc). get r ''passed'' = JBool True then TPassed else TFailed))"
proof -
  obtain oc w' where r: "demo_run = Some (Ok oc, w')" by (rule demo_ends)
  show ?thesis
    by (intro exI conjI, rule r, rule outcome_matches_results [OF r, THEN conjunct1])
qed

end
