(* ===== verification/Rvp_Uuid.thy ===== *)
theory Rvp_Uuid
  imports Rvp_Strings
begin

text \<open>
  Hexadecimal numerals and UUIDs: the constructor \<open>uuid.UUID(s)\<close> of the standard library, which the
  routes call on every id of a path, the canonical text of a UUID, and the lemmas on hexadecimal digits
  that this and the encoding of payloads share.
\<close>

section \<open>Hexadecimal text\<close>

lemma digit_char_val: "d < 16 \<Longrightarrow> hex_val (digit_char d) = Some d"
  by (auto simp: digit_char_def hex_val_def is_digit_def ord_def of_char_of)

lemma digit_char_not_space: "d < 16 \<Longrightarrow> \<not> is_space (digit_char d)"
  by (auto simp: digit_char_def is_space_def ord_def of_char_of)

lemma hex_nat_append: "hex_nat acc (s @ t) = (case hex_nat acc s of None \<Rightarrow> None | Some a \<Rightarrow> hex_nat a t)"
  by (induction s arbitrary: acc) (auto split: option.splits)

lemma hex_nat_digits: "hex_nat 0 (hex_digits n) = Some n"
proof (induction n rule: hex_digits.induct)
  case (1 n)
  then show ?case
    by (subst hex_digits.simps) (auto simp: hex_nat_append digit_char_val)
qed

lemma hex_nat_zeros: "hex_nat 0 (replicate k CHR ''0'' @ s) = hex_nat 0 s"
  by (induction k) (simp_all add: hex_val_def is_digit_def ord_def)

lemma length_hex_digits: "n < 16 ^ k \<Longrightarrow> 0 < k \<Longrightarrow> length (hex_digits n) \<le> k"
proof (induction n arbitrary: k rule: hex_digits.induct)
  case (1 n)
  show ?case
  proof (cases "n < 16")
    case True
    then show ?thesis using 1 by (subst hex_digits.simps) auto
  next
    case False
    then obtain j where k: "k = Suc j" "0 < j" using "1.prems" by (cases k; cases "k - 1") auto
    then have "n div 16 < 16 ^ j" using "1.prems" by (auto simp: less_mult_imp_div_less)
    from "1.IH" [OF False this k(2)] show ?thesis using False k by (subst hex_digits.simps) auto
  qed
qed

text \<open>A string of hexadecimal digits.\<close>

definition hex_text_ok :: "string \<Rightarrow> bool" where
  "hex_text_ok s = (\<forall>c\<in>set s. hex_val c \<noteq> None)"

lemma hex_digits_ok: "hex_text_ok (hex_digits n)"
proof (induction n rule: hex_digits.induct)
  case (1 n)
  then show ?case by (subst hex_digits.simps) (auto simp: hex_text_ok_def digit_char_val)
qed

lemma hex_val_0: "hex_val CHR ''0'' = Some 0"
  by (simp add: hex_val_def is_digit_def ord_def)

lemma zfill_ok: "hex_text_ok s \<Longrightarrow> hex_text_ok (zfill k s)"
  by (auto simp: hex_text_ok_def zfill_def hex_val_0)

lemma replace_char: "replace_all [c] [] s = filter (\<lambda>x. x \<noteq> c) s"
proof (induction s)
  case (Cons x s)
  then show ?case by (subst replace_all.simps) (simp add: startswith_def)
qed (simp add: replace_all.simps)

text \<open>Replacing a text whose first character does not occur.\<close>

lemma replace_absent: "c \<notin> set s \<Longrightarrow> replace_all (c # cs) new s = s"
proof (induction s)
  case (Cons x s)
  then show ?case by (subst replace_all.simps) (auto simp: startswith_def)
qed (simp add: replace_all.simps)

section \<open>UUIDs\<close>

text \<open>Digits to base 16 with single underscores between them, as \<open>int(s, 16)\<close> reads them.\<close>

fun hex_digits_val :: "nat \<Rightarrow> bool \<Rightarrow> string \<Rightarrow> nat option" where
  "hex_digits_val acc prev [] = (if prev then Some acc else None)"
| "hex_digits_val acc prev (c # cs) =
     (case hex_val c of
        Some d \<Rightarrow> hex_digits_val (16 * acc + d) True cs
      | None \<Rightarrow> if c = CHR ''_'' \<and> prev then hex_digits_val acc False cs else None)"

definition hex_unsigned :: "string \<Rightarrow> nat option" where
  \<comment> \<open>an optional prefix \<open>0x\<close>, after which an underscore is allowed\<close>
  "hex_unsigned s = (if startswith (lower s) ''0x'' then hex_digits_val 0 True (drop 2 s) else hex_digits_val 0 False s)"

definition int_base16 :: "string \<Rightarrow> int option" where
  "int_base16 s =
     (case strip s of
        [] \<Rightarrow> None
      | c # cs \<Rightarrow>
          if c = CHR ''-'' then map_option (\<lambda>n. - int n) (hex_unsigned cs)
          else if c = CHR ''+'' then map_option int (hex_unsigned cs)
          else map_option int (hex_unsigned (c # cs)))"

definition strip_braces :: "string \<Rightarrow> string" where
  "strip_braces s =
     (let braces = (\<lambda>c. c = CHR ''{'' \<or> c = CHR ''}'')
      in rev (dropWhile braces (rev (dropWhile braces s))))"

text \<open>\<open>uuid.UUID(s)\<close>: the 128-bit number, or \<open>ValueError\<close>.\<close>

definition uuid_num :: "string \<Rightarrow> nat option" where
  "uuid_num s =
     (let h = replace_all ''-'' [] (strip_braces (replace_all ''uuid:'' [] (replace_all ''urn:'' [] s)))
      in if str_len h \<noteq> 32 then None
         else (case int_base16 h of
                 None \<Rightarrow> None
               | Some n \<Rightarrow> if 0 \<le> n \<and> n < 2 ^ 128 then Some (nat n) else None))"

text \<open>\<open>str(u)\<close>.\<close>

definition uuid_str :: "nat \<Rightarrow> string" where
  "uuid_str n =
     (let h = zfill 32 (hex_digits n)
      in take 8 h @ ''-'' @ take 4 (drop 8 h) @ ''-'' @ take 4 (drop 12 h) @ ''-'' @ take 4 (drop 16 h)
         @ ''-'' @ drop 20 h)"

definition uuid_of :: "string \<Rightarrow> string option" where
  "uuid_of s = map_option uuid_str (uuid_num s)"

section \<open>Canonical ids\<close>

lemma hex_not_char:
  assumes "hex_text_ok s" and "hex_val c = None"
  shows "c \<notin> set s"
  using assms by (auto simp: hex_text_ok_def)

lemma hex_val_none:
  "hex_val CHR ''u'' = None" "hex_val CHR ''-'' = None" "hex_val CHR ''+'' = None"
  "hex_val CHR ''{'' = None" "hex_val CHR ''}'' = None" "hex_val CHR ''x'' = None" "hex_val CHR ''X'' = None"
  by (simp_all add: hex_val_def is_digit_def ord_def)

lemma hex_not_space: "hex_val c \<noteq> None \<Longrightarrow> \<not> is_space c"
  by (auto simp: hex_val_def is_digit_def is_space_def split: if_splits)

lemma dropWhile_none: "\<forall>x\<in>set xs. \<not> P x \<Longrightarrow> dropWhile P xs = xs"
  by (cases xs) auto

lemma hex_strip: "hex_text_ok s \<Longrightarrow> strip s = s"
  using hex_not_space by (simp add: strip_def hex_text_ok_def dropWhile_none)

lemma hex_digits_val_text: "hex_text_ok s \<Longrightarrow> s \<noteq> [] \<or> p \<Longrightarrow> hex_digits_val acc p s = hex_nat acc s"
  by (induction s arbitrary: acc p) (auto simp: hex_text_ok_def)

lemma lower_hex_char:
  assumes "hex_val c \<noteq> None"
  shows "lower_char c \<noteq> CHR ''x''"
proof
  assume "lower_char c = CHR ''x''"
  then have "of_char (lower_char c) = (120 :: nat)" by simp
  with assms show False
    by (auto simp: lower_char_def hex_val_def is_digit_def ord_def split: if_splits)
qed

lemma hex_unsigned_text:
  assumes "hex_text_ok s" and "s \<noteq> []"
  shows "hex_unsigned s = hex_nat 0 s"
proof -
  have "\<not> startswith (lower s) ''0x''"
  proof
    assume st: "startswith (lower s) ''0x''"
    then obtain a b r where s: "s = a # b # r"
      by (cases s; cases "tl s") (auto simp: startswith_def lower_def)
    with st have "lower_char b = CHR ''x''" by (simp add: startswith_def lower_def)
    with lower_hex_char [of b] assms(1) show False by (simp add: s hex_text_ok_def)
  qed
  then show ?thesis using assms by (simp add: hex_unsigned_def hex_digits_val_text)
qed

lemma int_base16_text:
  assumes "hex_text_ok s" and "s \<noteq> []"
  shows "int_base16 s = map_option int (hex_nat 0 s)"
proof -
  obtain c r where s: "s = c # r" using assms(2) by (cases s) auto
  then have "c \<noteq> CHR ''-''" "c \<noteq> CHR ''+''"
    using assms(1) hex_val_none by (auto simp: hex_text_ok_def)
  then show ?thesis
    using assms hex_unsigned_text [OF assms] by (simp add: int_base16_def hex_strip s)
qed

lemma ascii_len: "\<forall>c\<in>set s. ord c < 128 \<Longrightarrow> str_len s = length s"
  by (simp add: str_len_def chars_of_ascii)

lemma hex_ascii: "hex_val c \<noteq> None \<Longrightarrow> ord c < 128"
  by (auto simp: hex_val_def is_digit_def split: if_splits)

lemma hex_str_len: "hex_text_ok s \<Longrightarrow> str_len s = length s"
  by (rule ascii_len) (auto simp: hex_text_ok_def intro: hex_ascii)

text \<open>
  The canonical text of a number below \<open>2 ^ 128\<close> has 36 characters and reads back as that number; so
  the id that an accepted text stands for is accepted again, as itself.
\<close>

lemma uuid_num_str:
  assumes "n < 2 ^ 128"
  shows "uuid_num (uuid_str n) = Some n" and "length (uuid_str n) = 36"
proof -
  define h where "h = zfill 32 (hex_digits n)"
  have b: "n < 16 ^ 32" using assms by simp
  have l: "length h = 32" unfolding h_def by (rule length_zfill) (rule length_hex_digits [OF b]; simp)
  have ok: "hex_text_ok h" unfolding h_def by (intro zfill_ok hex_digits_ok)
  have val: "hex_nat 0 h = Some n" by (simp add: h_def zfill_def hex_nat_zeros hex_nat_digits)
  have u: "uuid_str n = take 8 h @ ''-'' @ take 4 (drop 8 h) @ ''-'' @ take 4 (drop 12 h) @ ''-''
             @ take 4 (drop 16 h) @ ''-'' @ drop 20 h"
    by (simp add: uuid_str_def h_def Let_def)
  have chars: "c \<in> set (uuid_str n) \<Longrightarrow> c = CHR ''-'' \<or> c \<in> set h" for c
    by (auto simp: u dest: in_set_takeD in_set_dropD)
  then have no: "c \<notin> set (uuid_str n)" if "hex_val c = None" "c \<noteq> CHR ''-''" for c
    using chars [of c] hex_not_char [OF ok that(1)] that(2) by blast
  have braces: "strip_braces (uuid_str n) = uuid_str n"
  proof -
    have nb: "\<forall>c\<in>set (uuid_str n). \<not> (c = CHR ''{'' \<or> c = CHR ''}'')"
      using no [of "CHR ''{''"] no [of "CHR ''}''"] hex_val_none by auto
    then have "dropWhile (\<lambda>c. c = CHR ''{'' \<or> c = CHR ''}'') (rev (uuid_str n)) = rev (uuid_str n)"
      by (intro dropWhile_none) simp
    with dropWhile_none [OF nb] show ?thesis by (simp add: strip_braces_def)
  qed
  have part: "filter (\<lambda>x. x \<noteq> CHR ''-'') t = t" if "set t \<subseteq> set h" for t
    using that hex_not_char [OF ok hex_val_none(2)] by (auto simp: filter_id_conv)
  have cut: "take k (drop j h) @ drop (j + k) h = drop j h" for j k
    using append_take_drop_id [of k "drop j h"] by (simp add: add.commute)
  have "filter (\<lambda>x. x \<noteq> CHR ''-'') (uuid_str n)
      = take 8 h @ take 4 (drop 8 h) @ take 4 (drop 12 h) @ take 4 (drop 16 h) @ drop 20 h"
    unfolding u by (simp add: part set_take_subset set_drop_subset order_trans [OF set_take_subset])
  also have "\<dots> = h"
    using cut [of 4 16] cut [of 4 12] cut [of 4 8] append_take_drop_id [of 8 h] by simp
  finally have "replace_all ''-'' [] (uuid_str n) = h" by (simp add: replace_char)
  moreover have "h \<noteq> []" using l by auto
  ultimately show "uuid_num (uuid_str n) = Some n"
    using no [of "CHR ''u''"] hex_val_none assms
    by (simp add: uuid_num_def replace_absent braces hex_str_len ok l int_base16_text val)
  show "length (uuid_str n) = 36" by (simp add: u l)
qed

lemma uuid_num_bound: "uuid_num s = Some n \<Longrightarrow> n < 2 ^ 128"
  by (auto simp: uuid_num_def Let_def split: if_splits option.splits)

lemma uuid_of_canonical: "uuid_of s = Some k \<Longrightarrow> uuid_of k = Some k \<and> length k = 36"
  using uuid_num_str uuid_num_bound by (auto simp: uuid_of_def)

end
