(* ===== verification/Exec_Spec.thy ===== *)
theory Exec_Spec
  imports Test_Runner_Spec Rvp_Uuid
begin

text \<open>
  What single executors do with the data: hexadecimal payloads, the ABI encoding of an input, the
  verdicts of the health check and of the counting assertions.
\<close>

section \<open>Hexadecimal text\<close>

lemma fromhex_to_hex: "fromhex (to_hex s) = Some s"
proof (induction s)
  case (Cons c s)
  have o: "ord c < 256" by (simp add: ord_def)
  then have d: "ord c div 16 < 16" "ord c mod 16 < 16" by auto
  have e: "char_of (16 * (ord c div 16) + ord c mod 16) = c"
    by (simp add: ord_def)
  show ?case
    using Cons d e by (simp add: to_hex_def digit_char_val digit_char_not_space)
qed (simp add: to_hex_def)

lemma ord_lower: "ord (lower_char c) = (if 65 \<le> ord c \<and> ord c \<le> 90 then ord c + 32 else ord c)"
  by (simp add: lower_char_def ord_def)

lemma hex_no_space: "hex_text_ok s \<Longrightarrow> filter (\<lambda>x. x \<noteq> CHR '' '') (lower s) = lower s"
proof -
  have "hex_val c \<noteq> None \<Longrightarrow> lower_char c \<noteq> CHR '' ''" for c
  proof
    assume h: "hex_val c \<noteq> None" and "lower_char c = CHR '' ''"
    then have "ord (lower_char c) = 32" by (simp add: ord_def)
    with h show False by (auto simp: ord_lower hex_val_def is_digit_def split: if_splits)
  qed
  then show "hex_text_ok s \<Longrightarrow> filter (\<lambda>x. x \<noteq> CHR '' '') (lower s) = lower s"
    by (auto simp: hex_text_ok_def lower_def filter_id_conv)
qed

lemma lower_0x: "removeprefix (lower (''0x'' @ s)) ''0x'' = lower s"
  by (simp add: lower_def lower_char_def ord_def removeprefix_def startswith_def)

section \<open>The call data of an input\<close>

text \<open>
  Reading such call data back, as the ABI specification says: after the selector, words of 32 bytes; the
  second word is the offset of the byte string, which starts with its length and is padded.
\<close>

definition abi_decode_add_input :: "string \<Rightarrow> (string \<times> string) option" where
  "abi_decode_add_input cd =
     (let b = removeprefix cd ''0x''; args = drop 8 b in
      if take 8 b \<noteq> ''1789cd63'' then None
      else (case hex_nat 0 (take 64 (drop 64 args)) of
              None \<Rightarrow> None
            | Some off \<Rightarrow>
                (let tail = drop (2 * off) args in
                 case hex_nat 0 (take 64 tail) of
                   None \<Rightarrow> None
                 | Some n \<Rightarrow>
                     if length tail \<noteq> 64 + 64 * ((n + 31) div 32) then None
                     else Some (drop 24 (take 64 args), take (2 * n) (drop 64 tail)))))"

text \<open>
  C16: the encoding of an input decodes to the address and the payload.  For an address of 40 and an even
  number of payload digits in either case, the call data has the selector of \<open>addInput\<close>, a length of
  whole 32-byte words, and an ABI reader gets the two back in lower case.
\<close>

theorem add_input_roundtrip:
  assumes "hex_text_ok a" and "length a = 40" and "hex_text_ok p" and "even (length p)"
    and "length p div 2 < 16 ^ 64"
  shows "abi_decode_add_input (abi_encode_add_input (''0x'' @ a) (''0x'' @ p)) = Some (lower a, lower p)
       \<and> length (abi_encode_add_input (''0x'' @ a) (''0x'' @ p)) = 202 + 64 * ((length p div 2 + 31) div 32)"
proof -
  define n where "n = length p div 2"
  have ll: "length (lower s) = length s" for s by (simp add: lower_def)
  have n: "length p = 2 * n" using assms(4) by (simp add: n_def)
  define m where "m = (n + 31) div 32"
  have m: "n \<le> 32 * m" unfolding m_def by linarith
  define pad where "pad = replicate (64 * m - 2 * n) CHR ''0''"
  define len where "len = zfill 64 (hex_digits n)"
  have len: "length len = 64" "hex_nat 0 len = Some n"
    using length_hex_digits [of n 64] assms(5)
    by (simp_all add: len_def n_def length_zfill) (simp add: zfill_def hex_nat_zeros hex_nat_digits)
  define off where "off = zfill 64 ''40''"
  have off: "length off = 64" "hex_nat 0 off = Some 64"
    by (simp add: off_def length_zfill)
       (simp add: off_def zfill_def hex_nat_zeros hex_val_def is_digit_def ord_def)
  have enc: "abi_encode_add_input (''0x'' @ a) (''0x'' @ p)
      = ''0x'' @ ''1789cd63'' @ replicate 24 CHR ''0'' @ lower a @ off @ len @ lower p @ pad"
    using lower_0x [of a] lower_0x [of p] hex_no_space [OF assms(3)] assms(2) n
    by (simp add: abi_encode_add_input_def Let_def replace_char ADD_INPUT_SELECTOR_def zfill_def [of 64 "lower a"]
      ljust0_def ll pad_def m_def len_def off_def mult.commute)
  have "length (lower p @ pad) = 64 * m" using m n by (simp add: ll pad_def)
  then show ?thesis
    unfolding enc using len off assms(2) n m
    by (simp add: abi_decode_add_input_def Let_def removeprefix_def startswith_def ll m_def [symmetric])
qed

section \<open>Notices\<close>

lemma decode_ascii: "(\<And>c. c \<in> set s \<Longrightarrow> ord c < 128) \<Longrightarrow> decode_replace s = s"
  by (induction s) (simp_all add: utf8_head_def Let_def)

text \<open>
  An input sent as plain text is found in the notice that echoes it.  The executor of \<open>chain_tx\<close> turns
  the text into a hexadecimal payload; \<open>notice_check\<close> decodes the payload of the notice to the same text
  and finds every part of it.
\<close>

theorem plain_text_found_in_notice:
  assumes "\<not> startswith s ''0x''" and "contains needle (decode_replace s)" and "needle \<noteq> []"
  shows "(let notice = JObj [(''__typename'', JStr ''Notice''), (''payload'', chain_payload (JStr s))] in
          matching_notices (JStr needle) (JObj [(''result'', JObj [(''data'', JArr [notice])])]) = Inr [notice])"
  using assms
  by (simp add: chain_payload_def matching_notices_def res_filter_def is_notice_def res_or_def str_is_def
      get_or_def notice_matches_def notice_payload_def hex_text_def removeprefix_def startswith_def
      fromhex_to_hex in_str_def)

section \<open>The health check\<close>

text \<open>
  The health check does not compare the status.  Without an expected substring it passes when the
  probe succeeds, whatever status the assertion expects, and otherwise when the expected status is 400
  or more, whatever made the probe fail.
\<close>

theorem health_check_ignores_status:
  "\<exists>r. health_judge label expect_status (JStr []) (rc, out, err) ms = Inr r
     \<and> ar_passed r = (rc = 0 \<or> expect_status \<ge> 400)"
  by (simp add: health_judge_def Let_def full_result_def)

section \<open>Transactions of a chain_tx assertion\<close>

definition is_send :: "effect \<Rightarrow> bool" where
  "is_send e = (case e of
      Http _ _ (JObj d) \<Rightarrow> get d ''method'' = JStr ''eth_sendTransaction''
    | HttpMany _ _ _ _ \<Rightarrow> True
    | _ \<Rightarrow> False)"

lemma not_send:
  "m \<noteq> JStr ''eth_sendTransaction'' \<Longrightarrow> \<not> is_send (Http meth url (rpc_body m ps i))"
  "\<not> is_send (Sleep k)" "\<not> is_send (Http meth url (JObj [(''payload'', p)]))"
  by (simp_all add: is_send_def rpc_body_def get_def get_or_def)

lemma fetch_no_send [io_silent]: "at_most is_send 0 (fetch_input_count url app)"
  unfolding fetch_input_count_def fetch_count_def by (intro io_silent not_send) simp

lemma timed_silent [io_silent]: "at_most P 0 (timed t0 mk)" "at_most P 0 (failed_on ty t0 e)"
  unfolding failed_on_def timed_def by (intro io_silent)+

lemma receipt_no_send: "at_most is_send 0 (receipt_poll url ad p h e t0 u)"
  unfolding receipt_poll_def by (intro io_silent not_send | simp)+

lemma at_most_first:
  "at_most P 1 m \<Longrightarrow> (\<And>x. at_most P 0 (f x)) \<Longrightarrow> at_most P 1 (io_bind m f)"
  "at_most P 1 m \<Longrightarrow> (\<And>e. at_most P 0 (h e)) \<Longrightarrow> at_most P 1 (io_catch m h)"
  using at_most_bind [of P 1 m 0 f] at_most_catch [of P 1 m 0 h] by simp_all

lemma at_most_second:
  "at_most P 0 m \<Longrightarrow> (\<And>x. at_most P k (f x)) \<Longrightarrow> at_most P k (io_bind m f)"
  using at_most_bind [of P 0 m k f] by simp

lemma submit_v2_sends: "at_most is_send 1 (submit_v2 p ad ctx t0 e)"
proof -
  have post: "at_most is_send 1 (http_post url body)" for url body
    by (rule at_most_weaken [OF http_post_at_most]) simp
  show ?thesis
    unfolding submit_v2_def Let_def
    by (rule at_most_second, rule io_silent)+
       (intro at_most_first post io_silent receipt_no_send)
qed

lemma submit_loop_sends: "at_most is_send n (submit_loop c ctx t0 i n x)"
proof (induction n arbitrary: i x)
  case (Suc n)
  have "at_most is_send (1 + n) (submit_loop c ctx t0 i (Suc n) x)"
    unfolding submit_loop.simps
    by (intro at_most_bind submit_v2_sends silent_branch Suc.IH at_most_weaken [OF silent_bind, of _ _ _ n] io_silent) simp_all
  then show ?case by simp
qed (simp add: io_silent)

text \<open>
  A \<open>chain_tx\<close> assertion sends at most as many transactions as it repeats (one by default, none at
  all on a v1 node), whatever the node and Anvil answer: nothing that polls sends again.
\<close>

theorem chain_tx_sends_at_most_repeat:
  assumes "exec_chain_tx a ctx env w = Some (r, w')" and "chain_spec_of a ctx = Inr c"
  shows "\<exists>new. w_trace w' = new @ w_trace w
     \<and> length (filter is_send new) \<le> (if cx_node_major ctx \<ge> 2 then ct_repeat c else 0)"
proof -
  have after: "at_most is_send 0 (after_poll ctx b u)" for b u
    unfolding after_poll_def by (intro io_silent not_send)
  have summary: "at_most is_send 0 (chain_summary c ad x t0)" for ad x t0
    unfolding chain_summary_def Let_def by (intro io_silent)
  have v2: "at_most is_send (0 + (ct_repeat c + 0)) (chain_v2 c ctx t0)" for t0
    unfolding chain_v2_def Let_def
    by (intro at_most_bind submit_loop_sends io_silent after summary)
  have v1: "at_most is_send 0 (single (submit_v1 p ctx t0))" for p t0
    unfolding single_def submit_v1_def Let_def by (intro io_silent not_send)
  have "at_most is_send (if cx_node_major ctx \<ge> 2 then ct_repeat c else 0)
     (io_bind (io_lift (Inr c)) (\<lambda>c'. io_bind io_now (\<lambda>t0.
        if cx_node_major ctx \<ge> 2 then chain_v2 c ctx t0 else single (submit_v1 (ct_payload c) ctx t0))))"
    using v1 v2 by (intro at_most_second io_silent(1-4)) auto
  then have "at_most is_send (if cx_node_major ctx \<ge> 2 then ct_repeat c else 0) (exec_chain_tx a ctx)"
    by (simp add: exec_chain_tx_def assms(2) io_lift_def io_bind_def io_return_def)
  then show ?thesis
    using assms(1) unfolding at_most_def few_def by blast
qed

section \<open>Witnesses\<close>

theorem add_input_roundtrip_witness:
  "(let a = concat (replicate 20 ''aB''); p = ''deadBEEF'' in
    abi_decode_add_input (abi_encode_add_input (''0x'' @ a) (''0x'' @ p)) = Some (lower a, lower p)
    \<and> length (abi_encode_add_input (''0x'' @ a) (''0x'' @ p)) = 202 + 64 * ((length p div 2 + 31) div 32))"
  unfolding Let_def
  by (rule add_input_roundtrip)
     (auto simp: hex_text_ok_def hex_val_def is_digit_def ord_def length_concat sum_list_replicate split: if_splits)

theorem plain_text_found_in_notice_witness:
  "(let notice = JObj [(''__typename'', JStr ''Notice''), (''payload'', chain_payload (JStr ''mint 42''))] in
    matching_notices (JStr ''42'') (JObj [(''result'', JObj [(''data'', JArr [notice])])]) = Inr [notice])"
proof -
  have d: "decode_replace ''mint 42'' = ''mint 42''" by (rule decode_ascii) (auto simp: ord_def)
  have "contains ''42'' (decode_replace ''mint 42'')" unfolding d by simp
  then show ?thesis by (rule plain_text_found_in_notice [rotated]) (simp_all add: startswith_def)
qed

theorem chain_tx_sends_at_most_repeat_witness:
  "\<exists>r w' new. exec_chain_tx [(''repeat'', JInt 3)] demo_ctx demo_env demo_world = Some (r, w')
     \<and> w_trace w' = new @ w_trace demo_world \<and> length (filter is_send new) \<le> 3"
proof -
  obtain r w' where e: "exec_chain_tx [(''repeat'', JInt 3)] demo_ctx demo_env demo_world = Some (r, w')"
    using chain_well(1) by (rule returnsE)
  obtain c where c: "chain_spec_of [(''repeat'', JInt 3)] demo_ctx = Inr c" "ct_repeat c = 3"
    by (simp add: chain_spec_of_def get_or_def Let_def)
  have "cx_node_major demo_ctx \<ge> 2" by (simp add: demo_ctx_def init_context_def)
  with chain_tx_sends_at_most_repeat [OF e c(1)] c(2) e show ?thesis by auto
qed

end
