(* ===== verification/Test_Commands_Spec.thy ===== *)
theory Test_Commands_Spec
  imports Test_Runner_Spec
begin

text \<open>What handling a test command does to the tables and the queues.\<close>

section \<open>Inserting and finishing a row\<close>

definition find_result :: "db \<Rightarrow> string \<Rightarrow> result_row option" where
  "find_result db tid = find (\<lambda>t. t_id t = tid) (results db)"

interpretation result_table: keyed_table find_result update_result t_id
  by unfold_locales (auto simp: find_result_def update_result_def find_map_upd dest: find_pred)

lemma find_result_insert:
  assumes "insert_result row db = Inr db'"
  shows "find_result db' tid = (if tid = t_id row then Some row else find_result db tid)"
    and "runs db' = runs db" and "definitions db' = definitions db"
proof -
  from assms have new: "\<forall>t\<in>set (results db). t_id t \<noteq> t_id row" and db': "db' = db\<lparr>results := results db @ [row]\<rparr>"
    by (auto simp: insert_result_def split: if_splits)
  then have "find (\<lambda>t. t_id t = t_id row) (results db) = None" by (simp add: find_None_iff)
  with db' show "find_result db' tid = (if tid = t_id row then Some row else find_result db tid)"
    by (auto simp: find_result_def find_append split: option.splits dest: find_pred)
  show "runs db' = runs db" "definitions db' = definitions db" by (simp_all add: db')
qed

lemma update_result_other [simp]:
  "runs (update_result tid f db) = runs db" "definitions (update_result tid f db) = definitions db"
  by (simp_all add: update_result_def)

definition final_status_of :: "test_status \<Rightarrow> bool" where
  "final_status_of st = (st \<noteq> TPending \<and> st \<noteq> TRunning)"

text \<open>What one command keeps, and the result that it may report.\<close>

definition frame :: "runner \<Rightarrow> runner \<Rightarrow> bool" where
  "frame s s' = (runs (rn_db s') = runs (rn_db s) \<and> definitions (rn_db s') = definitions (rn_db s)
     \<and> (\<forall>k t. find_result (rn_db s) k = Some t \<longrightarrow> find_result (rn_db s') k = Some t))"

lemma frame_refl [simp]: "frame s s" by (simp add: frame_def)

definition reported :: "runner \<Rightarrow> runner \<Rightarrow> json \<Rightarrow> string \<Rightarrow> result_row \<Rightarrow> bool" where
  "reported s s' m tid t =
     (rn_results s' = rn_results s @ [m] \<and> meta_get m ''result_id'' = JStr tid
      \<and> meta_get m ''status'' = JStr (test_status_str (t_status t)) \<and> final_status_of (t_status t)
      \<and> find_result (rn_db s) tid = None \<and> find_result (rn_db s') tid = Some t)"

lemma message_fields:
  "meta_get (result_message eid cmd oc tid a b) ''result_id'' = JStr tid"
  "meta_get (result_message eid cmd oc tid a b) ''status'' = JStr (test_status_str (oc_status oc))"
  by (simp_all add: result_message_def meta_get_def get_def get_or_def)

lemma insert_fresh: "insert_result row db = Inr db' \<Longrightarrow> find_result db (t_id row) = None"
  by (auto simp: insert_result_def find_result_def find_None_iff split: if_splits)

lemma new_row_fields [simp]:
  "t_id (new_result_row ids tid st a b) = tid" "t_status (new_result_row ids tid st a b) = st"
  by (simp_all add: new_result_row_def)

lemma publish_frame [simp]:
  "rn_db (publish_result m s) = rn_db s" "rn_results (publish_result m s) = rn_results s @ [m]"
  "rn_db (publish_log_batch e t c l s) = rn_db s" "rn_results (publish_log_batch e t c l s) = rn_results s"
  "rn_events (publish_result m s) = rn_events s"
  by (simp_all add: publish_result_def publish_log_batch_def)

lemma cancelled_effect:
  assumes "handle_cancelled uuid msg now s = (res, s')"
  shows "s' = s \<or> (\<exists>m tid t. res = Inr () \<and> reported s s' m tid t \<and> t_status t = TSkipped
           \<and> rn_events s' = rn_events s \<and> frame s s')"
proof (cases res)
  case (Inr u)
  let ?row = "\<lambda>ids. new_result_row ids (uuid 0) TSkipped now (Some now)"
  let ?m = "result_message (uuid 1) msg skipped_outcome (uuid 0) now now"
  obtain ids db where i: "insert_result (?row ids) (rn_db s) = Inr db"
    and s': "s' = publish_result ?m (s\<lparr>rn_db := db\<rparr>)"
    using assms Inr by (auto simp: handle_cancelled_def res_inv split: sum.splits)
  have "reported s s' ?m (uuid 0) (?row ids)"
    using insert_fresh [OF i] by (simp add: s' reported_def message_fields find_result_insert(1) [OF i]
      skipped_outcome_def final_status_of_def)
  moreover have "frame s s'"
    using insert_fresh [OF i] by (auto simp: s' frame_def find_result_insert [OF i])
  moreover have "res = Inr ()" "rn_events s' = rn_events s" by (simp_all add: s' Inr)
  moreover have "t_status (?row ids) = TSkipped" by simp
  ultimately show ?thesis by blast
qed (use assms in \<open>auto simp: handle_cancelled_def split: sum.splits\<close>)

lemma run_test_final:
  "run_test reg d ctx env w = Some (Ok oc, w') \<Longrightarrow> final_status_of (oc_status oc)"
  by (auto simp: run_test_def outcome_of_def final_status_of_def split: option.splits sum.splits run_end.splits if_splits)

lemma outcome_final:
  assumes "run_test reg d ctx env w = Some (r, w')" and "outcome_and_lines tb msg ids started r t = (oc, lines)"
  shows "final_status_of (oc_status oc)"
  using assms run_test_final [of reg d ctx env w _ w']
  by (cases r) (auto simp: outcome_and_lines_def crash_outcome_def final_status_of_def)

lemma run_command_cases:
  assumes "run_command reg tb uuid msg major d ids tid s env w = Some (res, s', w')"
  shows "s' = s \<or> (\<exists>db oc lines. insert_result (new_result_row ids tid TRunning (w_clock w) None) (rn_db s) = Inr db
           \<and> final_status_of (oc_status oc)
           \<and> finish_command uuid msg tid oc lines (w_clock w) (w_clock w') (s\<lparr>rn_db := db\<rparr>) = (res, s'))"
proof (cases "insert_result (new_result_row ids tid TRunning (w_clock w) None) (rn_db s)")
  case (Inr db)
  obtain r w1 where t: "run_test reg d (context_of msg major ids) env w = Some (r, w1)"
    using assms Inr by (auto simp: run_command_def Let_def split: option.splits)
  obtain oc lines where o: "outcome_and_lines tb msg ids (w_clock w) r (w_clock w1) = (oc, lines)" by fastforce
  from outcome_final [OF t o] show ?thesis
    using assms Inr t o by (auto simp: run_command_def Let_def split: prod.splits)
qed (use assms in \<open>simp add: run_command_def\<close>)

lemma handle_command_cases:
  assumes h: "handle_command reg tb probe uuid msg s env w = Some (res, s', w')"
  shows "s' = s \<or> (handle_cancelled uuid msg (w_clock w) s = (res, s') \<and> w' = w)
    \<or> (\<exists>major d ids tid. run_command reg tb uuid msg major d ids tid s env w = Some (res, s', w'))"
proof (cases "check_command msg")
  case (Inr major)
  consider (cancelled) "probe \<and> is_run_cancelled (rn_db s) (key_of (get msg ''run_id''))"
    | (miss) "\<not> (probe \<and> is_run_cancelled (rn_db s) (key_of (get msg ''run_id'')))"
        "cached (rn_cache s) (get msg ''definition_id'') = None"
    | (hit) d where "\<not> (probe \<and> is_run_cancelled (rn_db s) (key_of (get msg ''run_id'')))"
        "cached (rn_cache s) (get msg ''definition_id'') = Some d"
    by blast
  then show ?thesis
  proof cases
    case cancelled
    with h Inr show ?thesis
      by (cases "handle_cancelled uuid msg (w_clock w) s") (simp add: handle_command_def)
  next
    case miss
    with h Inr show ?thesis by (simp add: handle_command_def)
  next
    case hit
    with h Inr show ?thesis
      by (cases "prepare_command uuid msg d") (auto simp: handle_command_def)
  qed
qed (use h in \<open>simp add: handle_command_def\<close>)

text \<open>
  C8: a published result is final and names its row.  Handling one command publishes at most one
  result; the row that it names was not there before, has the published status afterwards and is not
  in flight.  Rows of other results, the runs and the definitions stay as they are.
\<close>

theorem published_result_is_final:
  assumes "handle_command reg tb probe uuid msg s env w = Some (res, s', w')"
  shows "(rn_results s' = rn_results s \<or> (\<exists>m tid t. res = Inr () \<and> reported s s' m tid t)) \<and> frame s s'"
proof -
  consider "s' = s" | "handle_cancelled uuid msg (w_clock w) s = (res, s')"
    | major d ids tid where "run_command reg tb uuid msg major d ids tid s env w = Some (res, s', w')"
    using handle_command_cases [OF assms] by blast
  then show ?thesis
  proof cases
    case 1
    then show ?thesis by simp
  next
  case 2
  from cancelled_effect [OF this] show ?thesis by auto
next
  case (3 major d ids tid)
  show ?thesis
  proof (cases "s' = s")
    case False
    then obtain db oc lines where
      i: "insert_result (new_result_row ids tid TRunning (w_clock w) None) (rn_db s) = Inr db"
      and oc: "final_status_of (oc_status oc)"
      and f: "finish_command uuid msg tid oc lines (w_clock w) (w_clock w') (s\<lparr>rn_db := db\<rparr>) = (res, s')"
      using run_command_cases [OF 3] by blast
    have fr: "find_result (rn_db s) tid = None" using insert_fresh [OF i] by simp
    from fr have "frame s (s\<lparr>rn_db := db\<rparr>)" by (auto simp: frame_def find_result_insert [OF i])
    then show ?thesis
      using f oc fr
      by (auto simp: finish_command_def store_outcome_def announce_def reported_def frame_def message_fields result_table.look_upd
            find_result_insert [OF i] split: sum.splits if_splits)
  qed simp
  qed
qed

text \<open>
  A command of a cancelled run is skipped: no effect is performed and no log batch is published;
  either its insertion fails and nothing happens, or a skipped row and its result are recorded.
\<close>

theorem cancelled_command_is_skipped:
  assumes "handle_command reg tb True uuid msg s env w = Some (res, s', w')"
    and "check_command msg = Inr major" and "is_run_cancelled (rn_db s) (key_of (get msg ''run_id''))"
  shows "w' = w \<and> (s' = s \<and> res \<noteq> Inr ()
           \<or> (\<exists>m tid t. reported s s' m tid t \<and> t_status t = TSkipped \<and> rn_events s' = rn_events s))"
proof -
  have h: "handle_cancelled uuid msg (w_clock w) s = (res, s')" and w: "w' = w"
    using assms by (auto simp: handle_command_def split: prod.splits)
  have "s' = s \<Longrightarrow> res \<noteq> Inr ()"
    using h by (auto simp: handle_cancelled_def publish_result_def split: sum.splits dest: arg_cong [of _ _ rn_results])
  then show ?thesis using cancelled_effect [OF h] w by blast
qed

section \<open>The handler and its steps\<close>

text \<open>
  Undisturbed, the steps of a command are the handler: at most four of them, and they end with its result
  and in its state.
\<close>

definition undisturbed ::
  "(string \<times> executor) list \<Rightarrow> (exc \<Rightarrow> string list) \<Rightarrow> bool \<Rightarrow> (nat \<Rightarrow> string) \<Rightarrow> dict \<Rightarrow> env
     \<Rightarrow> command_pc \<times> runner \<times> world \<Rightarrow> (command_pc \<times> runner \<times> world) option" where
  "undisturbed reg tb probe uuid msg env x = (case x of (pc, s, w) \<Rightarrow> command_step reg tb probe uuid msg env pc s w)"

lemma command_by_steps:
  assumes "handle_command reg tb probe uuid msg s env w = Some (res, s', w')"
  shows "((\<lambda>x. Option.bind x (undisturbed reg tb probe uuid msg env)) ^^ 4) (Some (CmCheck, s, w)) = Some (CmDone res, s', w')"
  using assms
  by (auto simp: numeral_eq_Suc undisturbed_def handle_command_def handle_cancelled_def run_command_def finish_command_def
        Let_def split: sum.splits option.splits if_splits prod.splits)

section \<open>Overrides\<close>

lemma owner_update:
  assumes "length (filter (owns k) xs) = 1"
  shows "\<exists>n d. n < length xs \<and> xs ! n = JObj d \<and> has_key d k \<and> k \<noteq> ''type''
           \<and> map (\<lambda>a. if owns k a then set_assertion a k v else a) xs = xs[n := JObj (set_key d k v)]"
  using assms
proof (induction xs)
  case (Cons x xs)
  show ?case
  proof (cases "owns k x")
    case True
    then obtain d where d: "x = JObj d" "has_key d k" "k \<noteq> ''type''" by (auto simp: owns_def split: json.splits)
    have none: "a \<in> set xs \<Longrightarrow> \<not> owns k a" for a using Cons.prems True by (auto simp: filter_empty_conv)
    then have "map (\<lambda>a. if owns k a then set_assertion a k v else a) xs = xs" by (intro map_idI) simp
    then show ?thesis using True d by (intro exI [of _ 0]) (auto simp: set_assertion_def)
  next
    case False
    then have "length (filter (owns k) xs) = 1" using Cons.prems by simp
    then obtain n d where "n < length xs" "xs ! n = JObj d" "has_key d k" "k \<noteq> ''type''"
      "map (\<lambda>a. if owns k a then set_assertion a k v else a) xs = xs[n := JObj (set_key d k v)]"
      using Cons.IH by blast
    then show ?thesis using False by (intro exI [of _ "Suc n"]) auto
  qed
qed simp

text \<open>
  An override touches at most one field of one assertion.  It leaves the list as it is, or it sets
  one key of one assertion that is a mapping; a bare key only does so when it is not the type and that
  assertion is the only one that has it.
\<close>

theorem override_touches_one_field:
  "apply_override asserts (k, v) = asserts
   \<or> (\<exists>n leaf d. n < length asserts \<and> asserts ! n = JObj d
        \<and> apply_override asserts (k, v) = asserts[n := JObj (set_key d leaf v)]
        \<and> (scoped_key k = None \<longrightarrow> leaf = k \<and> k \<noteq> ''type'' \<and> length (filter (owns k) asserts) = 1))"
proof (cases "scoped_key k")
  case None
  show ?thesis
  proof (cases "length (filter (owns k) asserts) = 1")
    case True
    from owner_update [OF True, of v] None True show ?thesis by (auto simp: apply_override_def)
  qed (use None in \<open>simp add: apply_override_def\<close>)
next
  case (Some p)
  then obtain i leaf where p: "scoped_key k = Some (i, leaf)" by (cases p) auto
  show ?thesis
  proof (cases "str_int i")
    case (Some n)
    show ?thesis
    proof (cases "0 \<le> n \<and> n < int (length asserts) \<and> is_dict (asserts ! nat n)")
      case True
      then obtain d where "asserts ! nat n = JObj d" by (auto simp: is_dict_def split: json.splits)
      with True p Some show ?thesis
        by (intro disjI2 exI [of _ "nat n"] exI [of _ leaf] exI [of _ d])
           (auto simp: apply_override_def set_assertion_def)
    qed (use p Some in \<open>auto simp: apply_override_def\<close>)
  qed (use p in \<open>simp add: apply_override_def\<close>)
qed

section \<open>A NUL in an answer\<close>

text \<open>A node whose only output holds a NUL character, and the command that queries it.\<close>

definition nul_env :: env where
  "nul_env tr e = (Replied \<lparr>h_status = 200, h_json = Inr (JObj [(''result'', JStr [CHR 0x00])]), h_text = []\<rparr>, 5)"

definition nul_def :: cached_def where
  "nul_def = \<lparr>cd_id = ''d1'', cd_slug = ''nul'', cd_timeout = 60,
     cd_parsed = JObj [(''assertions'', JArr [JObj [(''type'', JStr ''json_rpc'')]])]\<rparr>"

definition sample_command :: dict where
  "sample_command =
     [(''run_id'', JStr ''r1''), (''sandbox_id'', JStr ''s1''), (''definition_id'', JStr ''d1''),
      (''definition_version'', JInt 1), (''definition_slug'', JStr ''nul''), (''anvil_port'', JInt 8545),
      (''node_port'', JInt 10011), (''graphql_port'', JInt 10012), (''docker_network'', JStr ''net''),
      (''node_major_version'', JInt 2)]"

definition def1 :: def_row where
  "def1 = \<lparr>d_id = ''d1'', d_slug = ''nul'', d_name = ''nul'', d_version = 1, d_tags = Some [], d_category = None,
     d_phase = None, d_active = True, d_min_node_major = 2, d_timeout_seconds = 60,
     d_parsed = cd_parsed nul_def\<rparr>"

definition no_db :: db where
  "no_db = \<lparr>runs = [], run_events = [], run_logs = [], log_seq = 0, definitions = [def1], results = [],
     sandboxes = [], applications = [], sessions = [], release_catalog = [], cli_catalog = [],
     devnet_catalog = []\<rparr>"

definition nul_runner :: runner where
  "nul_runner = \<lparr>rn_db = no_db, rn_cache = reload_defs True no_db [], rn_results = [], rn_events = []\<rparr>"

definition world0 :: world where "world0 = \<lparr>w_clock = 0, w_deadline = None, w_trace = []\<rparr>"

lemma nul_escape_text: "nul_escape = [CHR 0x5C, CHR ''u'', CHR ''0'', CHR ''0'', CHR ''0'', CHR ''0'']"
  by (simp add: nul_escape_def u_escape_def hex4_def backslash_def digit_char_def char_of_def bit_0)

lemma nul_dump: "dump_str [CHR 0x00] = [CHR 0x22, CHR 0x5C, CHR ''u'', CHR ''0'', CHR ''0'', CHR ''0'', CHR ''0'', CHR 0x22]"
  by (simp add: dump_str_def utf8_head_def ord_def escape_code_def nul_escape_text dquote_def)
     (simp add: u_escape_def hex4_def backslash_def digit_char_def char_of_def bit_0)

definition nul_result :: assertion_result where
  "nul_result = full_result ''json_rpc'' True JNull
     (JStr [CHR 0x22, CHR 0x5C, CHR ''u'', CHR ''0'', CHR ''0'', CHR ''0'', CHR ''0'', CHR 0x22])
     ''cartesi_listApplications succeeded'' 5"

definition nul_text :: string where
  "nul_text = ''[{'' @ [CHR 0x22] @ ''assertion_type'' @ [CHR 0x22] @ '': '' @ [CHR 0x22] @ ''json_rpc'' @ [CHR 0x22]
   @ '', '' @ [CHR 0x22] @ ''passed'' @ [CHR 0x22] @ '': true, '' @ [CHR 0x22] @ ''expected'' @ [CHR 0x22]
   @ '': null, '' @ [CHR 0x22] @ ''actual'' @ [CHR 0x22] @ '': '' 
   @ [CHR 0x22, CHR 0x5C, CHR 0x22,  CHR 0x5C, CHR 0x5C, CHR ''u'', CHR ''0'', CHR ''0'', CHR ''0'', CHR ''0'', CHR 0x5C,CHR 0x22, CHR 0x22]
   @ '', '' @ [CHR 0x22] @ ''detail'' @ [CHR 0x22] @ '': '' @ [CHR 0x22] @ ''cartesi_listApplications succeeded''
   @ [CHR 0x22] @ '', '' @ [CHR 0x22] @ ''duration_ms'' @ [CHR 0x22] @ '': 5}]''"

lemma nul_results_text: "json_dumps (JArr (map JObj [to_dict nul_result])) = nul_text"
  by (simp add: nul_result_def full_result_def to_dict_def opt_int_def dump_str_def utf8_head_def ord_def
       escape_code_def dquote_def backslash_def char_of_def bit_0 int_str_def nat_str.simps digit_char_def nul_text_def)

lemma nul_not_json: "stored_results [to_dict nul_result] = Inl DbError"
  unfolding stored_results_def nul_results_text
  by (simp add: nul_text_def nul_escape_text replace_all.simps startswith_def
      json_loads_def numeral_eq_Suc dquote_def backslash_def skip_ws_def is_ws_def ord_def simple_escape_def)

lemma nul_assertions: "assertions_of nul_def = Inr [JObj [(''type'', JStr ''json_rpc'')]]"
  by (simp add: assertions_of_def nul_def_def get_or_def)

lemma nul_executor: "pick_executor (EXECUTORS rx peers) (JObj [(''type'', JStr ''json_rpc'')])
   = Inr ([(''type'', JStr ''json_rpc'')], Some exec_json_rpc)"
  by (simp add: pick_executor_def find_executor_def EXECUTORS_def get_def get_or_def Let_def)

lemma nul_spec:
  "\<exists>q. rpc_spec_of [(''type'', JStr ''json_rpc'')] ctx = Inr q \<and> rq_method q = JStr ''cartesi_listApplications''
     \<and> \<not> rq_last_epoch q \<and> rq_stress q = JNull \<and> rq_raw_body q = JNull \<and> \<not> rq_error q
     \<and> rq_error_code q = JNull \<and> rq_has_field q = JNull \<and> rq_count q = JNull \<and> rq_count_exact q = JNull
     \<and> rq_path q = JNull"
  by (simp add: rpc_spec_of_def rpc_params_def get_def get_or_def Let_def)

lemma nul_query:
  assumes "w_clock w = 0" and "w_deadline w = Some 60000"
  shows "\<exists>w'. exec_json_rpc [(''type'', JStr ''json_rpc'')] ctx nul_env w = Some (Ok [nul_result], w') \<and> w_clock w' = 5"
proof -
  obtain q where q: "rpc_spec_of [(''type'', JStr ''json_rpc'')] ctx = Inr q" "rq_method q = JStr ''cartesi_listApplications''"
    "\<not> rq_last_epoch q" "rq_stress q = JNull" "rq_raw_body q = JNull" "\<not> rq_error q"
     "rq_error_code q = JNull" "rq_has_field q = JNull" "rq_count q = JNull" "rq_count_exact q = JNull"
     "rq_path q = JNull"
    using nul_spec by blast
  then show ?thesis
    using assms
    by (simp add: exec_json_rpc_def io_defs epoch_params_def rpc_request_def http_post_def perform_def nul_env_def
       await_until_def raise_for_status_def resp_json_def rpc_answer_def error_in_def has_key_def rpc_success_def
       get_or_def single_def timed_def nul_dump nul_result_def Let_def)
qed

text \<open>
  A NUL in an answer loses the result.  The executor quotes the answer with \<open>json.dumps\<close>, which
  escapes the NUL; quoting the results again escapes that backslash, and removing the escape leaves a
  lone backslash before a quote, so the text is not JSON and the cast fails.  The test passed, but its row
  stays running, no result and no logs are published, and the run never completes.
\<close>

theorem nul_in_answer_loses_result:
  "\<exists>s' w' t. handle_command (EXECUTORS rx peers) tb probe uuid sample_command nul_runner nul_env world0
       = Some (Inl DbError, s', w')
     \<and> rn_results s' = [] \<and> rn_events s' = []
     \<and> find_result (rn_db s') (uuid 0) = Some t \<and> t_status t = TRunning"
proof -
  let ?ids = "\<lparr>ci_run = ''r1'', ci_sandbox = ''s1'', ci_def = ''d1'', ci_version = 1\<rparr>"
  let ?row = "new_result_row ?ids (uuid 0) TRunning 0 None"
  have c: "check_command sample_command = Inr 2"
    by (simp add: check_command_def command_keys_def msg_item_def sample_command_def get_or_def)
  have m: "get sample_command ''definition_id'' = JStr ''d1''" "get sample_command ''run_id'' = JStr ''r1''"
    by (simp_all add: sample_command_def get_def get_or_def)
  have d: "cached (rn_cache nul_runner) (JStr ''d1'') = Some nul_def"
    by (simp add: nul_runner_def reload_defs_def no_db_def def1_def cache_entry_def cached_def nul_def_def)
  have e: "effective_def sample_command nul_def = Inr nul_def"
    by (simp add: effective_def_def sample_command_def get_def get_or_def py_or_def)
  have i: "command_ids_of sample_command = Inr ?ids" "result_id_of uuid sample_command = Inr (uuid 0)"
    by (simp_all add: command_ids_of_def result_id_of_def sample_command_def get_def get_or_def py_or_def)
  have n: "\<not> is_run_cancelled (rn_db nul_runner) r" for r
    by (simp add: is_run_cancelled_def nul_runner_def no_db_def find_run_def)
  obtain db where db: "insert_result ?row (rn_db nul_runner) = Inr db"
    by (simp add: insert_result_def nul_runner_def no_db_def def1_def find_def_def new_result_row_def)
  obtain w1 where w1: "exec_json_rpc [(''type'', JStr ''json_rpc'')] (context_of sample_command 2 ?ids) nul_env
       (world0\<lparr>w_deadline := Some 60000\<rparr>) = Some (Ok [nul_result], w1)" "w_clock w1 = 5"
    using nul_query [of "world0\<lparr>w_deadline := Some 60000\<rparr>"] by (auto simp: world0_def)
  have run: "\<exists>w2. run_test (EXECUTORS rx peers) nul_def (context_of sample_command 2 ?ids) nul_env world0
      = Some (Ok \<lparr>oc_status = TPassed, oc_duration_ms = 5, oc_results = [to_dict nul_result], oc_error = None\<rparr>, w2)"
    using w1 nul_assertions nul_executor [of rx peers]
    by (simp add: run_test_def nul_def_def world0_def outcome_of_def nul_result_def full_result_def)
  then show ?thesis
    using c m d e i n db
    by (auto simp: handle_command_def run_command_def prepare_command_def outcome_and_lines_def finish_command_def
          store_outcome_def nul_not_json world0_def
          find_result_insert nul_runner_def)
qed

section \<open>Witnesses\<close>

text \<open>A definition without assertions, and a cancelled run.\<close>

definition empty_def :: cached_def where
  "empty_def = nul_def\<lparr>cd_parsed := JObj [(''assertions'', JArr [])]\<rparr>"

definition empty_runner :: runner where
  "empty_runner = nul_runner\<lparr>rn_cache := [(''d1'', empty_def)]\<rparr>"

definition cancelled_run :: run_row where
  "cancelled_run = \<lparr>r_id = ''r1'', r_release_tag = ''v2.0.0'', r_image_tag = ''2.0.0'', r_suite_ids = [],
     r_status = RCancelled, r_priority = 5, r_triggered_by = ''manual'', r_triggered_by_user = None,
     r_queued_at = 0, r_started_at = None, r_completed_at = None, r_pass_rate = None, r_metadata = JNull,
     r_app_id = None, r_app_address = JNull\<rparr>"

definition cancelled_runner :: runner where
  "cancelled_runner = nul_runner\<lparr>rn_db := no_db\<lparr>runs := [cancelled_run]\<rparr>\<rparr>"

lemma sample_command_fields:
  "check_command sample_command = Inr 2"
  "get sample_command ''definition_id'' = JStr ''d1''" "get sample_command ''run_id'' = JStr ''r1''"
  "command_ids_of sample_command = Inr \<lparr>ci_run = ''r1'', ci_sandbox = ''s1'', ci_def = ''d1'', ci_version = 1\<rparr>"
  "result_id_of uuid sample_command = Inr (uuid 0)"
  "effective_def sample_command d = Inr d"
  by (simp_all add: check_command_def command_keys_def msg_item_def sample_command_def get_or_def get_def
        command_ids_of_def result_id_of_def effective_def_def py_or_def)

lemma empty_command:
  "\<exists>s' w'. handle_command [] (\<lambda>_. []) True (\<lambda>n. ''u'') sample_command empty_runner nul_env world0
     = Some (Inr (), s', w') \<and> length (rn_results s') = 1"
proof -
  have "stored_results [] = Inr (JArr [])"
    by (simp add: stored_results_def replace_all.simps nul_escape_text startswith_def json_loads_def
        numeral_eq_Suc skip_ws_def is_ws_def dquote_def)
  then show ?thesis
    by (simp add: handle_command_def sample_command_fields empty_runner_def nul_runner_def cached_def
        is_run_cancelled_def no_db_def find_run_def run_command_def insert_result_def find_def_def def1_def
        new_result_row_def run_test_def assertions_of_def empty_def_def get_or_def outcome_of_def Let_def
        prepare_command_def outcome_and_lines_def
        finish_command_def store_outcome_def storable_error_def announce_def publish_result_def publish_log_batch_def)
qed

theorem published_result_is_final_witness:
  "\<exists>s' w' m tid t. handle_command [] (\<lambda>_. []) True (\<lambda>n. ''u'') sample_command empty_runner nul_env world0
     = Some (Inr (), s', w') \<and> reported empty_runner s' m tid t \<and> frame empty_runner s'"
proof -
  obtain s' w' where h: "handle_command [] (\<lambda>_. []) True (\<lambda>n. ''u'') sample_command empty_runner nul_env world0
     = Some (Inr (), s', w')" "length (rn_results s') = 1"
    using empty_command by blast
  moreover have "rn_results s' \<noteq> rn_results empty_runner"
    using h(2) by (auto simp: empty_runner_def nul_runner_def)
  ultimately show ?thesis using published_result_is_final [OF h(1)] by blast
qed

theorem cancelled_command_is_skipped_witness:
  "\<exists>s' w' m tid t. handle_command [] (\<lambda>_. []) True (\<lambda>n. ''u'') sample_command cancelled_runner nul_env world0
     = Some (Inr (), s', w') \<and> w' = world0 \<and> reported cancelled_runner s' m tid t \<and> t_status t = TSkipped"
proof -
  have c: "is_run_cancelled (rn_db cancelled_runner) (key_of (get sample_command ''run_id''))"
    by (simp add: is_run_cancelled_def cancelled_runner_def sample_command_fields key_of_def find_run_def
        cancelled_run_def)
  obtain s' where h: "handle_command [] (\<lambda>_. []) True (\<lambda>n. ''u'') sample_command cancelled_runner nul_env world0
     = Some (Inr (), s', world0)"
    using c by (simp add: handle_command_def sample_command_fields handle_cancelled_def insert_result_def
        cancelled_runner_def no_db_def find_def_def def1_def new_result_row_def)
  from cancelled_command_is_skipped [OF h sample_command_fields(1) c] h show ?thesis by blast
qed

theorem override_touches_one_field_witness:
  "(let xs = [JObj [(''type'', JStr ''a''), (''limit'', JInt 1)], JObj [(''limit'', JInt 2)], JObj [(''path'', JNull)]] in
    apply_override xs (''limit'', JInt 9) = xs \<and> apply_override xs (''type'', JInt 9) = xs
    \<and> apply_override xs (''path'', JInt 9) = xs[2 := JObj [(''path'', JInt 9)]])"
proof -
  have s: "scoped_key ''limit'' = None" "scoped_key ''type'' = None" "scoped_key ''path'' = None"
    by (simp_all add: scoped_key_def startswith_def)
  show ?thesis
    using override_touches_one_field [of "[JObj [(''type'', JStr ''a''), (''limit'', JInt 1)], JObj [(''limit'', JInt 2)],
        JObj [(''path'', JNull)]]" "''limit''" "JInt 9"] s
    by (auto simp: apply_override_def owns_def has_key_def set_assertion_def)
qed

end
