(* ===== verification/Runs_Api.thy ===== *)
theory Runs_Api
  imports Releases_Consumer Test_Results Rvp_Uuid
begin

text \<open>
  \<open>services/orchestrator/api/routes/runs.py\<close>: triggering, listing, reading and cancelling runs, and the
  pages of their logs.

  A request arrives as its validated fields; a route answers with its value or with an error: an
  \<open>HTTPException\<close>, or an exception that the framework turns into a 500.  \<open>eid\<close> numbers the fresh UUIDs,
  \<open>up\<close> says whether the broker accepts the request.  Generated ids of event rows are left out.
\<close>

datatype http_error = HTTPError int string | Crash exc

type_synonym 'a api = "http_error + 'a"

definition api_bind :: "'a api \<Rightarrow> ('a \<Rightarrow> 'b api) \<Rightarrow> 'b api" where
  "api_bind r f = (case r of Inl e \<Rightarrow> Inl e | Inr x \<Rightarrow> f x)"

lemma api_bind_simps [simp]: "api_bind (Inl e) f = Inl e" "api_bind (Inr x) f = f x"
  by (simp_all add: api_bind_def)

lemma api_bind_Inr [res_inv]: "api_bind r f = Inr y \<longleftrightarrow> (\<exists>x. r = Inr x \<and> f x = Inr y)"
  by (cases r) auto

definition SqlError :: exc where "SqlError = Exc KOtherError ''DBAPIError''"

text \<open>\<open>uuid.UUID(x)\<close> inside the handler's \<open>try\<close>, and the run of the id.\<close>

definition path_id :: "string \<Rightarrow> string api" where
  "path_id x = (case uuid_of x of None \<Rightarrow> Inl (HTTPError 400 ''Invalid run_id'') | Some k \<Rightarrow> Inr k)"

definition run_at :: "string \<Rightarrow> db \<Rightarrow> run_row api" where
  "run_at x db =
     api_bind (path_id x) (\<lambda>k.
     case find_run db k of
       None \<Rightarrow> Inl (HTTPError 404 (''Run '' @ x @ '' not found''))
     | Some r \<Rightarrow> Inr r)"

section \<open>Triggering a run\<close>

record trigger_body =
  tr_release_tag :: string
  tr_image_tag :: string
  tr_suite_ids :: "string list option"
  tr_run_tags :: "string list option"
  tr_category_filter :: "string list option"
  tr_priority :: int
  tr_triggered_by :: string
  tr_user :: "string option"
  tr_app_id :: "string option"
  tr_sdk :: "string option"
  tr_cli :: "string option"
  tr_node_major :: "int option"

definition given :: "string option \<Rightarrow> string option" where
  \<comment> \<open>an optional text that is not falsy\<close>
  "given x = (case x of Some s \<Rightarrow> if s = [] then None else Some s | None \<Rightarrow> None)"

definition resolve_app :: "string option \<Rightarrow> db \<Rightarrow> request_app api" where
  "resolve_app app_id db =
     (case given app_id of
        None \<Rightarrow> Inr no_app
      | Some x \<Rightarrow>
          (case uuid_of x of
             None \<Rightarrow> Inl (HTTPError 400 (''Invalid app_id: '' @ str_repr x))
           | Some k \<Rightarrow>
               (case find (\<lambda>a. a_id a = k) (applications db) of
                  None \<Rightarrow> Inl (HTTPError 404 (''Application '' @ x @ '' not found''))
                | Some a \<Rightarrow>
                    if \<not> a_is_active a then Inl (HTTPError 409 (''Application '' @ x @ '' is inactive''))
                    else Inr \<lparr>q_app_id = Some k, q_app_name = Some (a_name a), q_app_url = Some (a_github_url a)\<rparr>)))"

definition opt_texts :: "string list option \<Rightarrow> json" where
  "opt_texts x = (case x of None \<Rightarrow> JNull | Some xs \<Rightarrow> JArr (map JStr xs))"

definition run_meta :: "trigger_body \<Rightarrow> json" where
  "run_meta body =
     (let m = (if truthy (opt_texts (tr_run_tags body)) then [(''tags_filter'', opt_texts (tr_run_tags body))] else [])
              @ (if truthy (opt_texts (tr_category_filter body))
                 then [(''category_filter'', opt_texts (tr_category_filter body))] else [])
      in if m = [] then JNull else JObj m)"

fun suite_uuids :: "string list \<Rightarrow> string list api" where
  "suite_uuids [] = Inr []"
| "suite_uuids (x # xs) =
     (case uuid_of x of
        None \<Rightarrow> Inl (Crash ValueError)
      | Some k \<Rightarrow> api_bind (suite_uuids xs) (\<lambda>ks. Inr (k # ks)))"

definition triggered_run :: "string \<Rightarrow> int \<Rightarrow> trigger_body \<Rightarrow> request_app \<Rightarrow> string list \<Rightarrow> run_row" where
  "triggered_run rid now body app suites =
     \<lparr>r_id = rid, r_release_tag = tr_release_tag body, r_image_tag = tr_image_tag body, r_suite_ids = suites,
      r_status = RQueued, r_priority = tr_priority body, r_triggered_by = tr_triggered_by body,
      r_triggered_by_user = tr_user body, r_queued_at = now, r_started_at = None, r_completed_at = None,
      r_pass_rate = None, r_metadata = run_meta body, r_app_id = q_app_id app, r_app_address = JNull\<rparr>"

definition triggered_event :: "string \<Rightarrow> int \<Rightarrow> trigger_body \<Rightarrow> request_app \<Rightarrow> event_row" where
  "triggered_event rid now body app =
     \<lparr>ev_run_id = rid, ev_type = ''run.queued'',
      ev_payload = JObj [(''release_tag'', JStr (tr_release_tag body)), (''priority'', JInt (tr_priority body)),
                         (''app_id'', opt_json (q_app_id app)), (''app_name'', opt_json (q_app_name app)),
                         (''run_tags'', opt_texts (tr_run_tags body))],
      ev_ts = now\<rparr>"

text \<open>The columns that a request can fill with a value outside their type.\<close>

definition row_typed :: "trigger_body \<Rightarrow> bool" where
  "row_typed body =
     (tr_triggered_by body \<in> {''github_release'', ''user'', ''scheduled''}
      \<and> - 32768 \<le> tr_priority body \<and> tr_priority body \<le> 32767)"

definition request_versions_of :: "db \<Rightarrow> trigger_body \<Rightarrow> request_versions" where
  "request_versions_of db body =
     (let catalog = lookup_catalog db (tr_release_tag body);
          (sdk, cli, devnet, contracts) = (case catalog of None \<Rightarrow> (None, None, None, None) | Some ci \<Rightarrow> ci_versions ci);
          or_else = (\<lambda>a b. case given a of None \<Rightarrow> b | Some x \<Rightarrow> Some x)
      in \<lparr>q_sdk = or_else (tr_sdk body) sdk, q_cli = or_else (tr_cli body) cli, q_devnet = devnet,
          q_contracts = contracts,
          q_node_major =
            (case tr_node_major body of
               Some n \<Rightarrow> if n \<noteq> 0 then Some n
                         else (case catalog of None \<Rightarrow> Some (node_major_version (tr_release_tag body))
                               | Some ci \<Rightarrow> ci_node_major ci)
             | None \<Rightarrow> (case catalog of None \<Rightarrow> Some (node_major_version (tr_release_tag body))
                         | Some ci \<Rightarrow> ci_node_major ci))\<rparr>)"

definition trigger_run ::
  "bool \<Rightarrow> (nat \<Rightarrow> string) \<Rightarrow> int \<Rightarrow> trigger_body \<Rightarrow> orch \<Rightarrow> run_row api \<times> orch" where
  "trigger_run up eid now body s =
     (case resolve_app (tr_app_id body) (o_db s) of
        Inl e \<Rightarrow> (Inl e, s)
      | Inr app \<Rightarrow>
          (case suite_uuids (case tr_suite_ids body of None \<Rightarrow> [] | Some xs \<Rightarrow> xs) of
             Inl e \<Rightarrow> (Inl e, s)
           | Inr suites \<Rightarrow>
               if \<not> row_typed body then (Inl (Crash SqlError), s)
               else
                 (let run = triggered_run (eid 0) now body app suites
                  in case insert_run run (triggered_event (eid 0) now body app) s of
                       (Inl e, s1) \<Rightarrow> (Inl (Crash e), s1)
                     | (Inr _, s1) \<Rightarrow>
                         (case publish_sandbox_request up (eid 1) now (eid 0) (tr_release_tag body) (tr_image_tag body)
                                 (tr_priority body) (tr_user body) (request_versions_of (o_db s1) body) app s1 of
                            (Inl e, s2) \<Rightarrow> (Inl (Crash e), s2)
                          | (Inr _, s2) \<Rightarrow> (Inr run, s2)))))"

section \<open>Reading runs\<close>

definition all_run_status :: "run_status list" where
  "all_run_status = [RQueued, RProvisioning, RRunning, RCompleted, RFailed, RWarning, RCancelled]"

definition run_status_of :: "string \<Rightarrow> run_status option" where
  "run_status_of x = find (\<lambda>st. run_status_str st = x) all_run_status"

text \<open>
  Newest first; rows of the same instant in the order of the table.  A status that the enumeration does
  not have, a negative limit and a negative offset are errors of the database layer.
\<close>

definition list_runs :: "string option \<Rightarrow> int \<Rightarrow> int \<Rightarrow> db \<Rightarrow> run_row list api" where
  "list_runs status limit offset db =
     (if limit > 100 then Inl (HTTPError 422 ''limit'')
      else
        (let newest = sort_key (\<lambda>r. - r_queued_at r);
             page = (\<lambda>rs. if limit < 0 \<or> offset < 0 then Inl (Crash SqlError)
                          else Inr (take (nat limit) (drop (nat offset) (newest rs))))
         in case given status of
              None \<Rightarrow> page (runs db)
            | Some x \<Rightarrow>
                (case run_status_of x of
                   None \<Rightarrow> Inl (Crash SqlError)
                 | Some st \<Rightarrow> page (filter (\<lambda>r. r_status r = st) (runs db)))))"

definition get_run :: "string \<Rightarrow> db \<Rightarrow> run_row api" where
  "get_run run_id db = run_at run_id db"

definition event_json :: "event_row \<Rightarrow> json" where
  "event_json e = JObj
     [(''run_id'', JStr (ev_run_id e)), (''event_type'', JStr (ev_type e)),
      (''payload'', py_or (ev_payload e) (JObj [])), (''ts'', JInt (ev_ts e))]"

definition get_run_events :: "string \<Rightarrow> db \<Rightarrow> json list api" where
  "get_run_events run_id db =
     api_bind (path_id run_id) (\<lambda>k.
       Inr (map event_json (sort_key ev_ts (filter (\<lambda>e. ev_run_id e = k) (run_events db)))))"

section \<open>Reading logs\<close>

definition level_order :: "(string \<times> nat) list" where
  "level_order = [(''error'', 0), (''warn'', 1), (''info'', 2), (''debug'', 3)]"

definition level_filter :: "string option \<Rightarrow> log_row \<Rightarrow> bool" where
  "level_filter level l =
     (case Option.bind level (map_of level_order) of
        None \<Rightarrow> True
      | Some threshold \<Rightarrow> lg_level l \<in> set (map fst (filter (\<lambda>p. snd p \<le> threshold) level_order)))"

definition source_names :: "string option \<Rightarrow> string list" where
  "source_names source =
     (case given source of
        None \<Rightarrow> [] | Some x \<Rightarrow> filter (\<lambda>w. w \<noteq> []) (map strip (split_on CHR '','' x)))"

definition source_filter :: "string option \<Rightarrow> log_row \<Rightarrow> bool" where
  "source_filter source l = (source_names source = [] \<or> lg_source l \<in> set (source_names source))"

definition wanted_logs :: "string \<Rightarrow> string option \<Rightarrow> string option \<Rightarrow> int option \<Rightarrow> db \<Rightarrow> log_row list" where
  \<comment> \<open>the WHERE and ORDER BY of the page\<close>
  "wanted_logs rid source level after db =
     sort_key lg_id
       (filter (\<lambda>l. lg_run_id l = rid \<and> (case after of None \<Rightarrow> True | Some a \<Rightarrow> lg_id l > a)
                    \<and> source_filter source l \<and> level_filter level l) (run_logs db))"

text \<open>One page and the cursor of the next.  \<open>rows[-1]\<close> of no rows raises.\<close>

definition get_run_logs ::
  "string \<Rightarrow> string option \<Rightarrow> string option \<Rightarrow> int option \<Rightarrow> int \<Rightarrow> db \<Rightarrow> (log_row list \<times> int option) api" where
  "get_run_logs run_id source level after limit db =
     (if limit > 500 then Inl (HTTPError 422 ''limit'')
      else
        api_bind (path_id run_id) (\<lambda>rid.
        if limit < 0 then Inl (Crash SqlError)
        else
          (let rows = take (nat limit) (wanted_logs rid source level after db)
           in if length rows \<noteq> nat limit then Inr (rows, None)
              else if rows = [] then Inl (Crash IndexError)
              else
                (let last_id = lg_id (List.last rows)
                 in Inr (rows, if \<exists>l \<in> set (run_logs db). lg_run_id l = rid \<and> lg_id l > last_id
                               then Some last_id else None)))))"

definition get_run_log_sources :: "(string \<Rightarrow> string \<Rightarrow> bool) \<Rightarrow> string \<Rightarrow> db \<Rightarrow> string list api" where
  \<comment> \<open>\<open>le\<close> is the collation of the database\<close>
  "get_run_log_sources le run_id db =
     api_bind (path_id run_id) (\<lambda>rid.
       Inr (sort_by le (remdups (map lg_source (filter (\<lambda>l. lg_run_id l = rid) (run_logs db))))))"

text \<open>\<open>stamp\<close> is the text of the time of a line.\<close>

definition download_line :: "(json \<Rightarrow> string) \<Rightarrow> log_row \<Rightarrow> string" where
  "download_line stamp l =
     (if truthy (lg_ts l) then stamp (lg_ts l) else ''?'') @ '' ['' @ lg_source l @ ''] '' @ upper (lg_level l)
     @ '' '' @ lg_message l"

definition download_run_logs :: "(json \<Rightarrow> string) \<Rightarrow> string \<Rightarrow> string option \<Rightarrow> db \<Rightarrow> (string \<times> string) api" where
  \<comment> \<open>the content and the file name\<close>
  "download_run_logs stamp run_id source db =
     api_bind (path_id run_id) (\<lambda>rid.
       Inr (join nl (map (download_line stamp) (wanted_logs rid source None None db)),
            ''run-'' @ str_take 8 run_id @ ''-logs.txt''))"

section \<open>Cancelling\<close>

text \<open>
  The handler reads the run and writes its status in one session but without a lock, so that another
  handler can run in between: the check and the write are separate steps.
\<close>

definition cancel_check :: "string \<Rightarrow> db \<Rightarrow> string api" where
  "cancel_check run_id db =
     api_bind (run_at run_id db) (\<lambda>r.
     if r_status r \<in> {RCompleted, RFailed, RCancelled}
     then Inl (HTTPError 400 (''Run is already '' @ run_status_str (r_status r)))
     else Inr (r_id r))"

definition cancel_write :: "int \<Rightarrow> string \<Rightarrow> orch \<Rightarrow> orch" where
  "cancel_write now rid s =
     s\<lparr>o_db := (let db = update_run rid (\<lambda>r. r\<lparr>r_status := RCancelled\<rparr>) (o_db s)
                in db\<lparr>run_events := run_events db
                     @ [\<lparr>ev_run_id = rid, ev_type = ''run.cancelled'', ev_payload = JObj [], ev_ts = now\<rparr>]\<rparr>)\<rparr>"

definition cancel_run :: "int \<Rightarrow> string \<Rightarrow> orch \<Rightarrow> json api \<times> orch" where
  "cancel_run now run_id s =
     (case cancel_check run_id (o_db s) of
        Inl e \<Rightarrow> (Inl e, s)
      | Inr rid \<Rightarrow> (Inr (JObj [(''status'', JStr ''cancelled''), (''run_id'', JStr run_id)]), cancel_write now rid s))"

end
