(* ===== verification/Runs_Api_Spec.thy ===== *)
theory Runs_Api_Spec
  imports Runs_Api
begin

text \<open>
  The pages of a log cover it, whatever their size; what the routes do to the tables; and the priority
  that no request is checked for.
\<close>

section \<open>Log pages\<close>

text \<open>A client that follows the cursor, at most \<open>k\<close> pages.\<close>

fun follow_pages ::
  "nat \<Rightarrow> string \<Rightarrow> string option \<Rightarrow> string option \<Rightarrow> int option \<Rightarrow> int \<Rightarrow> db \<Rightarrow> (log_row list \<times> bool) api" where
  \<comment> \<open>the lines, and whether the last page had no successor\<close>
  "follow_pages 0 run_id source level after limit db = Inr ([], False)"
| "follow_pages (Suc k) run_id source level after limit db =
     api_bind (get_run_logs run_id source level after limit db) (\<lambda>(rows, cursor).
     case cursor of
       None \<Rightarrow> Inr (rows, True)
     | Some c \<Rightarrow> api_bind (follow_pages k run_id source level (Some c) limit db)
                   (\<lambda>(more_rows, fin). Inr (rows @ more_rows, fin)))"

definition past :: "int option \<Rightarrow> log_row \<Rightarrow> bool" where
  "past after l = (case after of None \<Rightarrow> True | Some a \<Rightarrow> lg_id l > a)"

definition run_lines :: "string \<Rightarrow> string option \<Rightarrow> string option \<Rightarrow> db \<Rightarrow> log_row list" where
  "run_lines rid source level db =
     filter (\<lambda>l. lg_run_id l = rid \<and> source_filter source l \<and> level_filter level l) (run_logs db)"

lemma wanted_logs_past:
  assumes "sorted_wrt (<) (map lg_id (run_logs db))"
  shows "wanted_logs rid source level after db = filter (past after) (run_lines rid source level db)"
proof -
  have "sorted (map lg_id (filter P (run_logs db)))" for P
    using assms by (simp add: sorted_wrt_map sorted_wrt_filter sorted_map less_le)
      (metis (no_types, lifting) assms less_le sorted_wrt_filter sorted_wrt_map sorted_wrt_mono_rel)
  then show ?thesis
    unfolding wanted_logs_def run_lines_def past_def
    by (subst sort_key_id_if_sorted) (auto intro: filter_cong split: option.splits)
qed

text \<open>Taking a page of an ascending list and going on after its last element.\<close>

lemma page_split:
  assumes "sorted_wrt (<) (map key xs)" and "0 < n" and "n \<le> length xs"
  shows "take n xs @ filter (\<lambda>x. key x > (key (List.last (take n xs)) :: int)) xs = xs"
proof -
  let ?c = "key (List.last (take n xs))"
  have last: "List.last (take n xs) = xs ! (n - 1)"
    using assms(2,3) by (subst last_conv_nth) auto
  have lt: "i < j \<Longrightarrow> j < length xs \<Longrightarrow> key (xs ! i) < key (xs ! j)" for i j
    using assms(1) by (simp add: sorted_wrt_iff_nth_less)
  have "\<forall>x\<in>set (take n xs). \<not> key x > ?c"
  proof
    fix x assume "x \<in> set (take n xs)"
    then obtain i where "i < n" "i < length xs" "x = xs ! i" by (auto simp: in_set_conv_nth)
    then have "i = n - 1 \<or> key x < key (xs ! (n - 1))"
      using lt [of i "n - 1"] assms(2,3) by (cases "i = n - 1") simp_all
    with \<open>x = xs ! i\<close> show "\<not> key x > ?c" unfolding last by auto
  qed
  moreover have "\<forall>x\<in>set (drop n xs). key x > ?c"
  proof
    fix x assume "x \<in> set (drop n xs)"
    then obtain i where "i < length (drop n xs)" "x = drop n xs ! i" unfolding in_set_conv_nth by blast
    then have "n + i < length xs" "x = xs ! (n + i)" by simp_all
    then show "key x > ?c" using lt [of "n - 1" "n + i"] assms(2) last by auto
  qed
  ultimately have "filter (\<lambda>x. key x > ?c) (take n xs @ drop n xs) = drop n xs"
    by (simp only: filter_append filter_False filter_True append_Nil)
  then show ?thesis by simp
qed

lemma filter_past:
  assumes "sorted_wrt (<) (map lg_id xs)" and "0 < n" and "n \<le> length (filter (past after) xs)"
  shows "take n (filter (past after) xs)
           @ filter (past (Some (lg_id (List.last (take n (filter (past after) xs)))))) xs
         = filter (past after) xs"
proof -
  let ?ys = "filter (past after) xs"
  let ?c = "lg_id (List.last (take n ?ys))"
  have "sorted_wrt (<) (map lg_id ?ys)" using assms(1) by (simp add: sorted_wrt_map sorted_wrt_filter)
  from page_split [OF this assms(2,3)]
  have p: "take n ?ys @ filter (past (Some ?c)) ?ys = ?ys" by (simp add: past_def)
  have "take n ?ys \<noteq> []" using assms(2,3) by auto
  then have "List.last (take n ?ys) \<in> set ?ys" by (rule in_set_takeD [OF last_in_set])
  then have l: "past after (List.last (take n ?ys))" by simp
  have "past after x" if "past (Some ?c) x" for x
    using l that by (cases after) (simp_all add: past_def)
  then have "past after x \<and> past (Some ?c) x \<longleftrightarrow> past (Some ?c) x" for x by blast
  then have "filter (past (Some ?c)) ?ys = filter (past (Some ?c)) xs" by (simp add: filter_filter)
  with p show ?thesis by simp
qed

lemma get_run_logs_page:
  assumes "sorted_wrt (<) (map lg_id (run_logs db))" and "path_id x = Inr rid" and "0 < limit" and "limit \<le> 500"
    and "page = take (nat limit) (filter (past after) (run_lines rid source level db))"
  shows "get_run_logs x source level after limit db
           = Inr (page, if length page = nat limit
                          \<and> (\<exists>l \<in> set (run_logs db). lg_run_id l = rid \<and> lg_id l > lg_id (List.last page))
                        then Some (lg_id (List.last page)) else None)"
proof -
  have "length page = nat limit \<Longrightarrow> page \<noteq> []" "\<not> 500 < limit" "\<not> limit < 0" using assms(3,4) by auto
  moreover have "take (nat limit) (wanted_logs rid source level after db) = page"
    by (simp add: wanted_logs_past [OF assms(1)] assms(5))
  ultimately show ?thesis by (cases "length page = nat limit") (simp_all add: get_run_logs_def assms(2) Let_def del: length_take)
qed

lemma pages_from:
  assumes "sorted_wrt (<) (map lg_id (run_logs db))" and "path_id x = Inr rid" and "0 < limit" and "limit \<le> 500"
    and "length (filter (past after) (run_lines rid source level db)) < k"
  shows "follow_pages k x source level after limit db
           = Inr (filter (past after) (run_lines rid source level db), True)"
  using assms(5)
proof (induction k arbitrary: after)
  case (Suc k)
  let ?xs = "run_lines rid source level db"
  let ?ys = "filter (past after) ?xs"
  define page where "page = take (nat limit) ?ys"
  let ?c = "lg_id (List.last page)"
  note get = get_run_logs_page [OF assms(1-4) page_def]
  have srt: "sorted_wrt (<) (map lg_id ?xs)" using assms(1) by (simp add: run_lines_def sorted_wrt_map sorted_wrt_filter)
  have pos: "0 < nat limit" using assms(3) by simp
  show ?case
  proof (cases "length page = nat limit")
    case False
    then have "page = ?ys" by (auto simp: page_def)
    with False show ?thesis by (simp add: get)
  next
    case True
    then have "nat limit \<le> length ?ys" by (simp add: page_def)
    from filter_past [OF srt pos this] have cut: "page @ filter (past (Some ?c)) ?xs = ?ys"
      by (simp only: page_def)
    show ?thesis
    proof (cases "\<exists>l \<in> set (run_logs db). lg_run_id l = rid \<and> lg_id l > ?c")
      case succ: True
      have "length ?ys = length page + length (filter (past (Some ?c)) ?xs)"
        using arg_cong [OF cut, of length] by simp
      then have "length (filter (past (Some ?c)) ?xs) < k" using Suc.prems True pos by linarith
      from Suc.IH [OF this] succ True cut show ?thesis by (simp add: get)
    next
      case none: False
      then have "filter (past (Some ?c)) ?xs = []"
        by (auto simp: filter_empty_conv run_lines_def past_def)
      then have "page = ?ys" using cut by simp
      moreover have "get_run_logs x source level after limit db = Inr (page, None)"
        using none by (auto simp: get)
      ultimately show ?thesis by simp
    qed
  qed
qed simp

text \<open>
  C9: following the cursor returns every line.  For an accepted id and a page size between 1 and 500, a
  client that follows the cursor reaches a last page, and the pages together are exactly the lines of the
  run that pass the filters, each once and in the order of the ids.
\<close>

theorem paging_returns_every_line:
  assumes "logs_ok db" and "uuid_of x = Some rid" and "1 \<le> limit" and "limit \<le> 500"
    and "length (run_logs db) < k"
  shows "follow_pages k x source level None limit db = Inr (run_lines rid source level db, True)"
proof -
  have "length (run_lines rid source level db) < k"
    using assms(5) by (simp add: run_lines_def le_less_trans [OF length_filter_le])
  moreover have "filter (past None) (run_lines rid source level db) = run_lines rid source level db"
    by (simp add: past_def)
  ultimately show ?thesis
    using pages_from [of db x rid limit None source level k] assms by (simp add: logs_ok_def path_id_def)
qed

definition logged_db :: db where
  "logged_db = (o_db sample_orch)\<lparr>runs := [sample_run (uuid_str 7) RRunning],
     run_logs := map (\<lambda>i. \<lparr>lg_id = i, lg_run_id = uuid_str 7, lg_source = ''anvil'',
                        lg_level = (if i = 2 then ''debug'' else ''info''), lg_message = [], lg_ts = JInt i\<rparr>) [1, 2, 5],
     log_seq := 5\<rparr>"

theorem paging_returns_every_line_witness:
  "follow_pages 4 (uuid_str 7) None (Some ''info'') None 1 logged_db
     = Inr (run_lines (uuid_str 7) None (Some ''info'') logged_db, True)
   \<and> map lg_id (run_lines (uuid_str 7) None (Some ''info'') logged_db) = [1, 5]"
proof -
  have "logs_ok logged_db" by (simp add: logs_ok_def logged_db_def find_run_def sample_run_def str_len_def utf8_head_def ord_def)
  moreover have "uuid_of (uuid_str 7) = Some (uuid_str 7)" by (simp add: uuid_of_def uuid_num_str)
  moreover have "length (run_logs logged_db) < 4" by (simp add: logged_db_def)
  moreover have "map lg_id (run_lines (uuid_str 7) None (Some ''info'') logged_db) = [1, 5]"
    by (simp add: run_lines_def logged_db_def source_filter_def source_names_def given_def level_filter_def level_order_def)
  ultimately show ?thesis using paging_returns_every_line [of logged_db "uuid_str 7" "uuid_str 7" 1 4] by simp
qed

end
