(* ===== verification/Agent_Db.thy ===== *)
theory Agent_Db
  imports Rvp_Db Rvp_Json
begin

text \<open>
  The tables of the AI agent (\<open>infra/postgres/init.sql\<close>, schema \<open>ai\<close>) with the columns that its code
  reads and writes, and the conversions between Python values and columns: what a JSONB, an INTEGER
  and a TEXT parameter accept, \<open>isoformat\<close> of a timestamp and \<open>json.dumps\<close> texts.
\<close>

section \<open>Rows\<close>

datatype ai_status = AStarting | AActive | APaused | ACompleted | AFailed | AAborted

record ai_session =
  sn_id :: string
  sn_run :: "string option"
  sn_sandbox :: "string option"
  sn_mode :: string
  sn_status :: ai_status
  sn_goal :: "string option"
  sn_history :: json
  sn_findings :: json
  sn_created_by :: json
  sn_created_at :: int
  sn_closed_at :: "int option"
  sn_tokens :: "int option"
  sn_tool_calls :: "int option"
  sn_model :: "string option"
  sn_exec_mode :: string
  sn_selected :: "string list option"

record inv_row =
  iv_id :: string
  iv_session :: string
  iv_tool :: string
  iv_input :: json
  iv_output :: json
  iv_status :: string
  iv_duration :: int
  iv_slug :: "string option"
  iv_verdict :: "string option"
  iv_at :: int

record verdict_row =
  vd_id :: string
  vd_session :: string
  vd_sandbox :: "string option"
  vd_slug :: string
  vd_verdict :: string
  vd_reasoning :: string
  vd_inputs :: json
  vd_evidence :: json
  vd_duration :: "int option"
  vd_confidence :: "rat option"
  vd_observations :: json
  vd_validated :: bool
  vd_notes :: "string option"
  vd_downgraded :: "string option"
  vd_steps :: "nat option"
  vd_mutating :: "nat option"
  vd_truncated :: bool
  vd_snapshot :: json
  vd_model :: json
  vd_params :: json
  vd_release :: "string option"
  vd_image :: "string option"
  vd_contracts :: json
  vd_at :: int

record plan_row =
  pl_id :: string
  pl_session :: string
  pl_slug :: string
  pl_objective :: string
  pl_success :: json
  pl_failure :: json
  pl_steps :: json
  pl_at :: int

text \<open>The columns of a test definition that only the agent and its sessions use.\<close>

record ai_def_row = def_row +
  d_component :: json
  d_priority :: string
  d_ai_allowed :: bool

record ai_db =
  ai_sessions :: "ai_session list"
  invocations :: "inv_row list"
  verdicts :: "verdict_row list"
  plans :: "plan_row list"
  ai_defs :: "ai_def_row list"
  core :: db

definition find_session :: "ai_db \<Rightarrow> string \<Rightarrow> ai_session option" where
  "find_session db sid = find (\<lambda>s. sn_id s = sid) (ai_sessions db)"

definition update_session :: "string \<Rightarrow> (ai_session \<Rightarrow> ai_session) \<Rightarrow> ai_db \<Rightarrow> ai_db" where
  "update_session sid f db =
     db\<lparr>ai_sessions := map (\<lambda>s. if sn_id s = sid then f s else s) (ai_sessions db)\<rparr>"

definition find_verdict :: "ai_db \<Rightarrow> string \<Rightarrow> string \<Rightarrow> verdict_row option" where
  "find_verdict db sid slug = find (\<lambda>v. vd_session v = sid \<and> vd_slug v = slug) (verdicts db)"

definition find_ai_def :: "ai_db \<Rightarrow> string \<Rightarrow> ai_def_row option" where
  "find_ai_def db slug = find (\<lambda>d. d_slug d = slug) (ai_defs db)"

interpretation session_table: keyed_table find_session update_session sn_id
  by unfold_locales (auto simp: find_session_def update_session_def find_map_upd dest: find_pred)

section \<open>Parameters of a statement\<close>

text \<open>
  A parameter cast to \<open>jsonb\<close>: PostgreSQL stores an object with its keys ordered by length and then
  by bytes, and refuses a text with the escape of a NUL character.
\<close>

fun json_nul :: "json \<Rightarrow> bool" where
  "json_nul (JStr s) = (CHR 0x00 \<in> set s)"
| "json_nul (JArr xs) = (\<exists>x\<in>set xs. json_nul x)"
| "json_nul (JObj d) = (\<exists>p\<in>set d. CHR 0x00 \<in> set (fst p) \<or> json_nul (snd p))"
| "json_nul _ = False"

fun bytes_less :: "string \<Rightarrow> string \<Rightarrow> bool" where
  "bytes_less _ [] = False"
| "bytes_less [] (y # ys) = True"
| "bytes_less (x # xs) (y # ys) = (ord x < ord y \<or> x = y \<and> bytes_less xs ys)"

definition key_less :: "string \<Rightarrow> string \<Rightarrow> bool" where
  "key_less a b = (length a < length b \<or> length a = length b \<and> bytes_less a b)"

fun insert_key :: "string \<times> json \<Rightarrow> dict \<Rightarrow> dict" where
  "insert_key p [] = [p]"
| "insert_key p (q # d) = (if key_less (fst p) (fst q) then p # q # d else q # insert_key p d)"

fun jsonb :: "json \<Rightarrow> json" where
  "jsonb (JArr xs) = JArr (map jsonb xs)"
| "jsonb (JObj d) = JObj (foldr insert_key (map (\<lambda>(k, v). (k, jsonb v)) d) [])"
| "jsonb j = j"

definition DataError :: exc where "DataError = Exc KOtherError ''DataError''"

definition jsonb_param :: "json \<Rightarrow> json res" where
  \<comment> \<open>\<open>json.dumps(v) if v is not None else None\<close>, cast to \<open>jsonb\<close>\<close>
  "jsonb_param v = (if json_nul v then Inl DataError else Inr (jsonb v))"

text \<open>
  \<open>json.dumps(v)[:n]\<close> cast to \<open>jsonb\<close>.  The text is ASCII; a proper prefix of the text of an object,
  an array or a string is not JSON, and the shortest texts of the other values are not cut.
\<close>

definition jsonb_cut :: "nat \<Rightarrow> json \<Rightarrow> json res" where
  "jsonb_cut n v = (if n < length (json_dumps v) then Inl DataError else jsonb_param v)"

fun int_param :: "json \<Rightarrow> int option res" where
  \<comment> \<open>a parameter of an INTEGER column\<close>
  "int_param JNull = Inr None"
| "int_param (JInt n) = (if - (2 ^ 31) \<le> n \<and> n < 2 ^ 31 then Inr (Some n) else Inl DataError)"
| "int_param (JBool b) = Inr (Some (of_bool b))"
| "int_param _ = Inl DataError"

fun text_param :: "json \<Rightarrow> string option res" where
  \<comment> \<open>a parameter of a TEXT column; the protocol has no NUL byte in a text\<close>
  "text_param JNull = Inr None"
| "text_param (JStr s) = (if CHR 0x00 \<in> set s then Inl DataError else Inr (Some s))"
| "text_param _ = Inl DataError"

section \<open>Python helpers\<close>

definition null_or :: "('a \<Rightarrow> json) \<Rightarrow> 'a option \<Rightarrow> json" where
  "null_or f x = (case x of None \<Rightarrow> JNull | Some y \<Rightarrow> f y)"

definition utf8_valid :: "string \<Rightarrow> bool" where
  "utf8_valid s = list_all (\<lambda>c. snd (utf8_head (hd c) (tl c))) (chars_of s)"

definition as_dict :: "json \<Rightarrow> dict" where
  \<comment> \<open>a value that is used as a dict only when it is one\<close>
  "as_dict j = (case j of JObj d \<Rightarrow> d | _ \<Rightarrow> [])"

text \<open>\<open>isoformat\<close> of a UTC timestamp, given in milliseconds since the epoch.\<close>

definition civil_date :: "int \<Rightarrow> int \<times> int \<times> int" where
  "civil_date days =
     (let z = days + 719468; era = z div 146097; doe = z - era * 146097;
          yoe = (doe - doe div 1460 + doe div 36524 - doe div 146096) div 365;
          doy = doe - (365 * yoe + yoe div 4 - yoe div 100);
          mp = (5 * doy + 2) div 153;
          d = doy - (153 * mp + 2) div 5 + 1;
          m = (if mp < 10 then mp + 3 else mp - 9)
      in (yoe + era * 400 + (if m \<le> 2 then 1 else 0), m, d))"

definition pad :: "nat \<Rightarrow> int \<Rightarrow> string" where "pad n i = zfill n (int_str i)"

definition isoformat :: "int \<Rightarrow> string" where
  "isoformat t =
     (let (y, m, d) = civil_date (t div 86400000); s = t mod 86400000; ms = t mod 1000
      in pad 4 y @ ''-'' @ pad 2 m @ ''-'' @ pad 2 d @ ''T'' @ pad 2 (s div 3600000) @ '':'' @
         pad 2 (s div 60000 mod 60) @ '':'' @ pad 2 (s div 1000 mod 60) @
         (if ms = 0 then [] else ''.'' @ pad 3 ms @ ''000'') @ ''+00:00'')"

text \<open>The text of a string takes at most twelve characters per character and two quotes.\<close>

lemma length_escape_code: "length (escape_code n) \<le> 12"
  by (simp add: escape_code_def u_escape_def hex4_def)

lemma length_dump_str: "length (dump_str s) \<le> 12 * length s + 2"
proof -
  have "length (concat (map (escape_code \<circ> code_point) cs)) \<le> 12 * length cs" for cs
    by (induction cs) (use length_escape_code in \<open>auto simp: add_mono\<close>)
  from this [of "chars_of s"] have "length (dump_str s) \<le> 12 * str_len s + 2"
    by (simp add: dump_str_def str_len_def)
  with str_len_le [of s] show ?thesis by simp
qed

end
