(* ===== verification/Agent_Verdicts.thy ===== *)
theory Agent_Verdicts
  imports Agent_Db
begin

text \<open>
  What the AI agent leaves on record: \<open>tools/audit.py\<close> (one row per tool call) and \<open>tools/verdicts.py\<close>
  (the plan and the verdict of a manually executed test, with the trail of calls that the verdict
  claims, the validation gate and the check of the cited evidence).  The connection pool exists; a call
  that raises inside a transaction leaves the tables as they were.
\<close>

section \<open>\<open>record_invocation\<close>\<close>

text \<open>
  The row and the live counter of the session are two statements, and both are skipped when the first
  one fails; every failure is logged only.  \<open>iid\<close> is the UUID that the database generates.
\<close>

definition invocation_row ::
  "int \<Rightarrow> string \<Rightarrow> string \<Rightarrow> string \<Rightarrow> json \<Rightarrow> json \<Rightarrow> string \<Rightarrow> int \<Rightarrow> json \<Rightarrow> inv_row res" where
  "invocation_row now iid sid tool inp out status ms slug =
     res_bind (jsonb_cut 50000 inp) (\<lambda>i.
     res_bind (if out = JNull then Inr JNull else jsonb_cut 200000 out) (\<lambda>ou.
     res_bind (text_param slug) (\<lambda>sl.
       Inr \<lparr>iv_id = iid, iv_session = sid, iv_tool = tool, iv_input = i, iv_output = ou, iv_status = status,
            iv_duration = ms, iv_slug = sl, iv_verdict = None, iv_at = now\<rparr>)))"

definition record_invocation ::
  "int \<Rightarrow> string \<Rightarrow> string option \<Rightarrow> string \<Rightarrow> json \<Rightarrow> json \<Rightarrow> string \<Rightarrow> int \<Rightarrow> json \<Rightarrow> ai_db \<Rightarrow> ai_db" where
  "record_invocation now iid sid tool inp out status ms slug db =
     (case sid of
        None \<Rightarrow> db
      | Some s \<Rightarrow>
          (case invocation_row now iid s tool inp out status ms slug of
             Inl _ \<Rightarrow> db
           | Inr r \<Rightarrow>
               if s = [] \<or> find_session db s = None then db
               else update_session s (\<lambda>x. x\<lparr>sn_tool_calls :=
                        Some ((case sn_tool_calls x of None \<Rightarrow> 0 | Some n \<Rightarrow> n) + 1)\<rparr>)
                      (db\<lparr>invocations := invocations db @ [r]\<rparr>)))"

section \<open>The digest of a tool call\<close>

definition valid_verdicts :: "string list" where
  "valid_verdicts = [''passed'', ''failed'', ''blocked'', ''skipped'', ''inconclusive'']"

definition trail_cap :: nat where "trail_cap = 400"

definition mutating_tools :: "string list" where
  "mutating_tools = [''send_advance_input'', ''advance_time'', ''restart_component'', ''pause_network'']"

definition cli_mutating_hints :: "string list" where
  "cli_mutating_hints = [''send'', ''deploy'', ''execute'', ''register'', ''db init'', ''remove'', ''set'']"

definition is_mutating :: "string \<Rightarrow> dict \<Rightarrow> bool" where
  "is_mutating tool inp =
     (if tool \<in> set mutating_tools then True
      else if tool = ''run_cast_command'' then
        (let cmd = py_str (get_or inp ''command'' (JStr [])) in
         (case split_ws (strip cmd) of [] \<Rightarrow> False | w # _ \<Rightarrow> w = ''send'' \<or> w = ''publish'')
         \<or> contains ''anvil_mine'' cmd \<or> contains ''anvil_set'' cmd)
      else if tool = ''run_cli_command'' then
        (let blob = lower (py_str (get_or inp ''binary'' (JStr [])) @ '' '' @ py_str (get_or inp ''args'' (JStr [])))
         in \<exists>h\<in>set cli_mutating_hints. contains h blob)
      else False)"

definition short_hex :: "json \<Rightarrow> json" where
  "short_hex v =
     (case v of
        JStr s \<Rightarrow>
          if startswith s ''0x'' \<and> 48 + 16 + 12 < str_len s
          then JStr (str_take 48 s @ u_ellipsis @ str_last 16 s @ '' (len '' @ nat_str (str_len s) @ '')'')
          else v
      | _ \<Rightarrow> v)"

definition short_text :: "nat \<Rightarrow> json \<Rightarrow> json" where
  \<comment> \<open>\<open>str(v)[:n]\<close>\<close>
  "short_text n v = JStr (str_take n (py_str v))"

definition short_dump :: "nat \<Rightarrow> json \<Rightarrow> json" where
  \<comment> \<open>\<open>_short_hex(json.dumps(v, default=str)[:n])\<close>\<close>
  "short_dump n v = short_hex (JStr (take n (json_dumps v)))"

definition tx_of :: "string \<Rightarrow> string option" where
  "tx_of out =
     (case filter (\<lambda>l. startswith l ''transactionHash'') (splitlines out) of
        [] \<Rightarrow> None | l # _ \<Rightarrow> Some (List.last (split_ws l)))"

definition digest_cast :: "dict \<Rightarrow> dict \<Rightarrow> dict" where
  "digest_cast inp out =
     (let cmd = py_str (get_or inp ''command'' (JStr [])); so = py_str (get_or out ''stdout'' (JStr [])) in
      [(''target'', JStr (if take 1 (split_ws cmd) = [''send''] then ''anvil (L1 tx)'' else ''anvil'')),
       (''input'', short_hex (JStr (str_take 220 cmd))),
       (''output'', JObj ([(''exit'', get out ''returncode'')]
          @ (case tx_of so of None \<Rightarrow> [] | Some t \<Rightarrow> [(''tx_hash'', JStr t)])
          @ [(''stdout_head'', short_hex (JStr (str_take 160 so)))]))])"

definition digest_inspect_input :: "string \<Rightarrow> json" where
  "digest_inspect_input payload =
     (case fromhex (str_drop 2 payload) of
        None \<Rightarrow> JObj [(''payload'', short_hex (JStr payload))]
      | Some b \<Rightarrow>
          if utf8_valid b
          then JObj [(''payload'', JStr (str_take 80 payload)), (''route'', JStr (str_take 60 b))]
          else JObj [(''payload'', short_hex (JStr payload))])"

definition logs_text :: "dict \<Rightarrow> string res" where
  "logs_text out =
     (let logs = py_or (py_or (get out ''logs'') (get out ''lines'')) (JStr []) in
      case logs of
        JArr xs \<Rightarrow> res_bind (res_map (as_str TypeError) xs) (\<lambda>ls. Inr (join nl ls))
      | _ \<Rightarrow> Inr (py_str logs))"

definition digest_logs :: "dict \<Rightarrow> dict \<Rightarrow> dict res" where
  "digest_logs inp out =
     res_bind (logs_text out) (\<lambda>t. Inr
       [(''target'', JStr (''container:'' @ py_str (get_or inp ''component'' (JStr ''?'')))),
        (''input'', JObj [(''tail'', get inp ''tail'')]),
        (''output'', JObj
          [(''lines'', JInt (if t = [] then 0 else int (length (filter (\<lambda>c. c = CHR 0x0A) t)) + 1)),
           (''last_line'', JStr (if strip t = [] then [] else str_take 160 (List.last (splitlines (strip t)))))])])"

definition digest_cli :: "dict \<Rightarrow> dict \<Rightarrow> dict" where
  "digest_cli inp out =
     [(''target'', JStr (''container:'' @ py_str (py_or (get out ''container'') (get_or inp ''binary'' (JStr ''?''))))),
      (''input'', JStr (py_str (get_or inp ''binary'' (JStr [])) @ '' ''
                      @ str_take 160 (py_str (get_or inp ''args'' (JStr []))))),
      (''output'', JObj [(''exit'', get_or out ''exit_code'' (get out ''returncode'')),
                       (''stdout_head'', short_text 160 (get_or out ''stdout'' (JStr [])))])]"

definition digest_query_db :: "dict \<Rightarrow> dict \<Rightarrow> dict" where
  "digest_query_db inp out =
     [(''target'', JStr ''platform-db''), (''input'', short_text 160 (get_or inp ''sql'' (JStr []))),
      (''output'', JObj [(''row_count'', case get out ''rows'' of JArr xs \<Rightarrow> JInt (int (length xs))
                                        | _ \<Rightarrow> get out ''row_count'')])]"

text \<open>The part of the step after tool and status, by the tool.\<close>

definition digest_of :: "string \<Rightarrow> dict \<Rightarrow> dict \<Rightarrow> string \<Rightarrow> dict res" where
  "digest_of tool inp out status =
     (if tool = ''run_cast_command'' then Inr (digest_cast inp out)
      else if tool = ''send_advance_input'' then Inr
        [(''target'', JStr ''application (advance)''),
         (''input'', JObj [(''payload'', short_hex (get inp ''payload'')), (''app_address'', get inp ''app_address'')]),
         (''output'', JObj [(''status_code'', get out ''status_code''),
                          (''body_head'', short_text 120 (get_or out ''body'' (JStr [])))])]
      else if tool = ''call_jsonrpc'' then Inr
        [(''target'', JStr ''node:jsonrpc-api''),
         (''input'', JObj [(''method'', get inp ''method''), (''params'', get inp ''params'')]),
         (''output'', if get out ''result'' \<noteq> JNull then short_dump 300 (get out ''result'')
                    else JObj [(''error'', short_text 160 (get_or out ''error'' (JStr [])))])]
      else if tool = ''call_inspect'' then Inr
        [(''target'', JStr ''node:inspect''),
         (''input'', digest_inspect_input (py_str (get_or inp ''payload'' (JStr [])))),
         (''output'', short_dump 240 (get_or out ''body'' (JObj out)))]
      else if tool = ''read_logs'' then digest_logs inp out
      else if tool = ''run_cli_command'' then Inr (digest_cli inp out)
      else if tool = ''query_db'' then Inr (digest_query_db inp out)
      else if tool = ''query_graphql'' then Inr
        [(''target'', JStr ''node:graphql''), (''input'', short_text 120 (get_or inp ''query'' (JStr []))),
         (''output'', short_dump 200 (JObj out))]
      else if tool = ''advance_time'' then Inr
        [(''target'', JStr ''anvil''), (''input'', JObj [(''blocks'', get inp ''blocks'')]),
         (''output'', JObj [(''ok'', JBool (truthy (get_or out ''success'' (JBool True))))])]
      else if tool = ''verify_voucher'' then Inr
        [(''target'', JStr ''node:outputs''),
         (''input'', JObj [(''input_index'', get inp ''input_index''), (''voucher_index'', get inp ''voucher_index'')]),
         (''output'', short_dump 200 (JObj out))]
      else Inr
        ([(''target'', JStr ''local''), (''input'', short_dump 160 (JObj inp))]
         @ (if status \<noteq> ''ok''
            then [(''output'', JObj [(''error'', short_text 160 (get_or out ''error'' (JStr [])))])] else [])))"

definition digest_step :: "inv_row \<Rightarrow> dict res" where
  "digest_step r =
     (let inp = as_dict (iv_input r); out = as_dict (iv_output r) in
      res_bind (digest_of (iv_tool r) inp out (iv_status r)) (\<lambda>d. Inr
        ([(''tool'', JStr (iv_tool r)), (''status'', JStr (iv_status r))] @ d
         @ [(''invocation_id'', JStr (iv_id r)), (''duration_ms'', JInt (iv_duration r)),
            (''at'', JStr (isoformat (iv_at r)))])))"

section \<open>Claiming the trail\<close>

text \<open>
  The rows of the session that no verdict has claimed, oldest first.  Calls of one session run one after
  the other, so the order of their timestamps is the order of the table.
\<close>

definition bookkeeping_tools :: "string list" where
  "bookkeeping_tools = [''read_test_definition'', ''record_test_verdict'', ''record_test_plan'']"

definition unclaimed :: "ai_db \<Rightarrow> string \<Rightarrow> inv_row list" where
  "unclaimed db sid =
     filter (\<lambda>r. iv_session r = sid \<and> iv_verdict r = None \<and> iv_tool r \<notin> set bookkeeping_tools) (invocations db)"

record claim =
  cm_trail :: "dict list"
  cm_ids :: "string list"
  cm_truncated :: bool
  cm_mutating :: nat

definition no_claim :: claim where
  "no_claim = \<lparr>cm_trail = [], cm_ids = [], cm_truncated = False, cm_mutating = 0\<rparr>"

definition claim_trail :: "ai_db \<Rightarrow> string \<Rightarrow> claim res" where
  "claim_trail db sid =
     (let rows = take (trail_cap + 1) (unclaimed db sid); kept = take trail_cap rows in
      res_bind (res_map digest_step kept) (\<lambda>trail. Inr
        \<lparr>cm_trail = trail, cm_ids = map iv_id kept, cm_truncated = trail_cap < length rows,
         cm_mutating = length (filter (\<lambda>r. is_mutating (iv_tool r) (as_dict (iv_input r))) kept)\<rparr>))"

definition claim_or_none :: "ai_db \<Rightarrow> string \<Rightarrow> claim" where
  \<comment> \<open>an exception while gathering the trail is logged\<close>
  "claim_or_none db sid = (case claim_trail db sid of Inl _ \<Rightarrow> no_claim | Inr c \<Rightarrow> c)"

section \<open>The check of the cited evidence\<close>

definition hex_class :: rx where "hex_class = Cls (\<lambda>c. hex_val c \<noteq> None)"

fun times :: "nat \<Rightarrow> rx \<Rightarrow> rx" where
  "times 0 r = Eps"
| "times (Suc n) r = Seq r (times n r)"

definition hex_literal :: rx where
  \<comment> \<open>\<open>0x[0-9a-fA-F]{8,}\<close>\<close>
  "hex_literal = Seq (Lit ''0x'') (Seq (times 8 hex_class) (Star hex_class))"

definition long_number :: rx where
  \<comment> \<open>\<open>\b\d{4,}\b\<close>\<close>
  "long_number = Seq Wordb (Seq (times 4 Digit) (Seq (Star Digit) Wordb))"

definition cited :: "string \<Rightarrow> json \<Rightarrow> json \<Rightarrow> string list" where
  "cited reasoning evidence observations =
     (let t = join '' '' [reasoning, json_dumps (py_or evidence (JObj [])), json_dumps (py_or observations (JArr []))]
      in find_all hex_literal None t @ find_all long_number None t)"

definition evidence_validated :: "string \<Rightarrow> json \<Rightarrow> json \<Rightarrow> dict list \<Rightarrow> bool" where
  "evidence_validated reasoning evidence observations trail =
     (\<exists>c\<in>set (cited reasoning evidence observations). contains c (json_dumps (JArr (map JObj trail))))"

section \<open>\<open>record_test_verdict\<close>\<close>

text \<open>
  The arguments as the model's tool call gives them.  The confidence is what \<open>float\<close> makes of the
  argument: not given, refused, or a number.
\<close>

datatype conf_arg = NoConf | BadConf | Conf rat

record verdict_args =
  va_slug :: json
  va_verdict :: json
  va_reasoning :: json
  va_inputs :: json
  va_evidence :: json
  va_duration :: json
  va_confidence :: conf_arg
  va_observations :: json

record provenance =
  pv_model :: json
  pv_params :: json
  pv_release :: "string option"
  pv_image :: "string option"
  pv_contracts :: json

definition clamp_conf :: "conf_arg \<Rightarrow> rat option" where
  "clamp_conf c = (case c of Conf x \<Rightarrow> Some (max 0 (min 1 x)) | _ \<Rightarrow> None)"

definition tool_failure :: "string \<Rightarrow> json" where
  "tool_failure msg = JObj [(''success'', JBool False), (''error'', JStr msg)]"

text \<open>\<open>not s or not s.strip()\<close> on a value that need not be a string.\<close>

definition blank :: "json \<Rightarrow> bool res" where
  "blank v = (if \<not> truthy v then Inr True
              else (case v of JStr s \<Rightarrow> Inr (strip s = []) | _ \<Rightarrow> Inl AttributeError))"

definition verdict_tuple :: string where
  "verdict_tuple = ''('' @ join '', '' (map str_repr valid_verdicts) @ '')''"

text \<open>The checks before the transaction: an error message, or none.\<close>

definition check_verdict :: "string \<Rightarrow> verdict_args \<Rightarrow> string option res" where
  "check_verdict sid a =
     (if \<not> (\<exists>v\<in>set valid_verdicts. va_verdict a = JStr v)
      then Inr (Some (''verdict must be one of '' @ verdict_tuple @ '', got '' @ py_repr (va_verdict a)))
      else res_bind (blank (va_slug a)) (\<lambda>b. if b then Inr (Some ''definition_slug must not be empty'')
      else res_bind (blank (va_reasoning a)) (\<lambda>b. if b then Inr (Some ''reasoning must not be empty'')
      else if sid = [] then Inr (Some ''no session_id on this executor'')
      else Inr None)))"

text \<open>The validation gate: the verdict that is stored, and the notes.\<close>

definition gate :: "string \<Rightarrow> dict list \<Rightarrow> string" where
  "gate verdict trail =
     (if verdict \<in> {''passed'', ''failed''} \<and> trail = [] then ''inconclusive'' else verdict)"

definition gate_notes :: "string \<Rightarrow> dict list \<Rightarrow> bool \<Rightarrow> rat option \<Rightarrow> string list" where
  "gate_notes original trail validated conf =
     (let v = gate original trail in
      (if v \<noteq> original
       then [''Auto-downgraded from '' @ squote @ original @ squote @ '': no execution trail '' @ u_emdash
             @ '' a verdict cannot be passed/failed without at least one tool call attributable to this test.'']
       else [])
      @ (if v \<in> {''passed'', ''failed''} \<and> \<not> validated
         then [''Evidence not corroborated: no concrete literal (tx hash / value) in the reasoning or evidence was found in the captured trail.'']
         else [])
      @ (if v \<in> {''passed'', ''failed''} \<and> conf = None then [''No confidence score provided.''] else []))"

definition snapshot_of :: "ai_db \<Rightarrow> string \<Rightarrow> json" where
  "snapshot_of db slug =
     (case find_ai_def db slug of
        None \<Rightarrow> JNull
      | Some d \<Rightarrow>
          (case py_or (d_parsed d) (JObj []) of
             JObj p \<Rightarrow> JObj [(''name'', JStr (d_name d)), (''version'', JInt (d_version d)),
                            (''assertions'', get p ''assertions''),
                            (''expected_behaviour'', py_or (get p ''expected_behaviour'') (get p ''expected'')),
                            (''steps'', get p ''steps'')]
           | _ \<Rightarrow> JNull))"

fun dict_arg :: "json \<Rightarrow> dict res" where
  \<comment> \<open>\<open>dict(evidence or {})\<close>\<close>
  "dict_arg (JObj d) = Inr d"
| "dict_arg v = (if truthy v then Inl TypeError else Inr [])"

definition merged_evidence :: "verdict_args \<Rightarrow> dict list \<Rightarrow> json res" where
  "merged_evidence a trail =
     res_bind (dict_arg (va_evidence a)) (\<lambda>d.
       let m = (if trail = [] then d else set_key d ''execution_trail'' (JArr (map JObj trail)))
       in Inr (if m = [] then JNull else JObj m))"

text \<open>The row of the INSERT; \<open>vid\<close> is the UUID that the database generates for a new one.\<close>

definition verdict_row_of ::
  "int \<Rightarrow> string \<Rightarrow> provenance \<Rightarrow> string \<Rightarrow> string option \<Rightarrow> verdict_args \<Rightarrow> string \<Rightarrow> string \<Rightarrow> string \<Rightarrow>
   claim \<Rightarrow> ai_db \<Rightarrow> verdict_row res" where
  "verdict_row_of now vid pv sid sbx a slug original reasoning c db =
     (let validated = evidence_validated reasoning (va_evidence a) (va_observations a) (cm_trail c);
          conf = clamp_conf (va_confidence a);
          verdict = gate original (cm_trail c);
          notes = join '' '' (gate_notes original (cm_trail c) validated conf)
      in res_bind (merged_evidence a (cm_trail c)) (\<lambda>ev0.
         res_bind (jsonb_param (va_inputs a)) (\<lambda>inputs.
         res_bind (jsonb_param ev0) (\<lambda>ev.
         res_bind (int_param (va_duration a)) (\<lambda>dur.
         res_bind (jsonb_param (va_observations a)) (\<lambda>obs.
         res_bind (text_param (JStr slug)) (\<lambda>_.
         res_bind (text_param (JStr reasoning)) (\<lambda>_.
         res_bind (jsonb_param (snapshot_of db slug)) (\<lambda>snap. Inr
           \<lparr>vd_id = vid, vd_session = sid, vd_sandbox = sbx, vd_slug = slug, vd_verdict = verdict,
            vd_reasoning = reasoning, vd_inputs = inputs, vd_evidence = ev, vd_duration = dur,
            vd_confidence = conf, vd_observations = obs, vd_validated = validated,
            vd_notes = (if notes = [] then None else Some notes),
            vd_downgraded = (if verdict \<noteq> original then Some original else None),
            vd_steps = Some (length (cm_trail c)), vd_mutating = Some (cm_mutating c),
            vd_truncated = cm_truncated c, vd_snapshot = snap, vd_model = pv_model pv,
            vd_params = (if truthy (pv_params pv) then pv_params pv else JNull),
            vd_release = pv_release pv, vd_image = pv_image pv, vd_contracts = pv_contracts pv,
            vd_at = now\<rparr>)))))))))"

text \<open>\<open>INSERT \<dots> ON CONFLICT (session_id, definition_slug) DO UPDATE\<close>: id and sandbox of a row stay.\<close>

definition upsert_verdict :: "verdict_row \<Rightarrow> ai_db \<Rightarrow> ai_db \<times> string" where
  "upsert_verdict v db =
     (case find_verdict db (vd_session v) (vd_slug v) of
        None \<Rightarrow> (db\<lparr>verdicts := verdicts db @ [v]\<rparr>, vd_id v)
      | Some old \<Rightarrow>
          (db\<lparr>verdicts := map (\<lambda>w. if vd_session w = vd_session v \<and> vd_slug w = vd_slug v
                                   then v\<lparr>vd_id := vd_id w, vd_sandbox := vd_sandbox w\<rparr> else w) (verdicts db)\<rparr>,
           vd_id old))"

definition claim_row :: "string \<Rightarrow> string \<Rightarrow> string list \<Rightarrow> inv_row \<Rightarrow> inv_row" where
  "claim_row vid slug ids r =
     (if iv_id r \<in> set ids \<and> iv_verdict r = None then r\<lparr>iv_verdict := Some vid, iv_slug := Some slug\<rparr> else r)"

definition link_claim :: "string \<Rightarrow> string \<Rightarrow> string list \<Rightarrow> ai_db \<Rightarrow> ai_db" where
  "link_claim vid slug ids db = db\<lparr>invocations := map (claim_row vid slug ids) (invocations db)\<rparr>"

definition verdict_reply :: "verdict_row \<Rightarrow> string \<Rightarrow> json" where
  "verdict_reply v vid =
     JObj ([(''success'', JBool True), (''verdict_id'', JStr vid), (''definition_slug'', JStr (vd_slug v)),
            (''verdict'', JStr (vd_verdict v)),
            (''trail_steps_captured'', null_or (\<lambda>n. JInt (int n)) (vd_steps v)),
            (''evidence_validated'', JBool (vd_validated v))]
           @ (case vd_downgraded v of
                None \<Rightarrow> []
              | Some orig \<Rightarrow> [(''auto_downgraded_from'', JStr orig), (''validation_notes'', null_or JStr (vd_notes v))])
           @ [(''created_at'', JStr (isoformat (vd_at v)))])"

definition store_verdict :: "verdict_row \<Rightarrow> claim \<Rightarrow> ai_db \<Rightarrow> json \<times> ai_db" where
  "store_verdict v c db =
     (let (db', vid) = upsert_verdict v db
      in (verdict_reply v vid, link_claim vid (vd_slug v) (cm_ids c) db'))"

definition record_test_verdict ::
  "int \<Rightarrow> string \<Rightarrow> provenance \<Rightarrow> string \<Rightarrow> string option \<Rightarrow> verdict_args \<Rightarrow> ai_db \<Rightarrow> (json \<times> ai_db) res" where
  "record_test_verdict now vid pv sid sbx a db =
     res_bind (check_verdict sid a) (\<lambda>err.
       case err of
         Some msg \<Rightarrow> Inr (tool_failure msg, db)
       | None \<Rightarrow>
           (let c = claim_or_none db sid in
            res_bind (as_str TypeError (va_slug a)) (\<lambda>slug.
            res_bind (as_str TypeError (va_verdict a)) (\<lambda>verdict.
            res_bind (as_str TypeError (va_reasoning a)) (\<lambda>reasoning.
            res_bind (verdict_row_of now vid pv sid sbx a slug verdict reasoning c db) (\<lambda>v.
              if find_session db sid = None then Inl DataError else Inr (store_verdict v c db)))))))"

section \<open>\<open>record_test_plan\<close>\<close>

record plan_args =
  pa_slug :: json
  pa_objective :: json
  pa_success :: json
  pa_failure :: json
  pa_steps :: json

definition upsert_plan :: "plan_row \<Rightarrow> ai_db \<Rightarrow> ai_db \<times> string" where
  "upsert_plan p db =
     (case find (\<lambda>q. pl_session q = pl_session p \<and> pl_slug q = pl_slug p) (plans db) of
        None \<Rightarrow> (db\<lparr>plans := plans db @ [p]\<rparr>, pl_id p)
      | Some old \<Rightarrow>
          (db\<lparr>plans := map (\<lambda>q. if pl_session q = pl_session p \<and> pl_slug q = pl_slug p
                               then p\<lparr>pl_id := pl_id q\<rparr> else q) (plans db)\<rparr>, pl_id old))"

definition plan_row_of :: "int \<Rightarrow> string \<Rightarrow> string \<Rightarrow> plan_args \<Rightarrow> plan_row res" where
  "plan_row_of now pid sid a =
     res_bind (text_param (pa_slug a)) (\<lambda>slug.
     res_bind (text_param (pa_objective a)) (\<lambda>obj.
     res_bind (text_param (pa_success a)) (\<lambda>_.
     res_bind (text_param (pa_failure a)) (\<lambda>_.
     res_bind (jsonb_param (pa_steps a)) (\<lambda>steps. Inr
       \<lparr>pl_id = pid, pl_session = sid, pl_slug = (case slug of None \<Rightarrow> [] | Some s \<Rightarrow> s),
        pl_objective = (case obj of None \<Rightarrow> [] | Some s \<Rightarrow> s), pl_success = pa_success a,
        pl_failure = pa_failure a, pl_steps = steps, pl_at = now\<rparr>)))))"

definition record_test_plan ::
  "int \<Rightarrow> string \<Rightarrow> string \<Rightarrow> plan_args \<Rightarrow> ai_db \<Rightarrow> (json \<times> ai_db) res" where
  "record_test_plan now pid sid a db =
     (if sid = [] then Inr (tool_failure ''no session_id on this executor'', db)
      else res_bind (blank (pa_slug a)) (\<lambda>b. if b then Inr (tool_failure ''definition_slug must not be empty'', db)
      else res_bind (blank (pa_objective a)) (\<lambda>b. if b then Inr (tool_failure ''objective must not be empty'', db)
      else (case (if find_session db sid = None then Inl DataError else plan_row_of now pid sid a) of
              Inl e \<Rightarrow> Inr (tool_failure (''insert failed: '' @ exc_str e), db)
            | Inr p \<Rightarrow>
                (let (db', i) = upsert_plan p db in
                 Inr (JObj [(''success'', JBool True), (''plan_id'', JStr i), (''definition_slug'', pa_slug a)], db'))))))"

section \<open>\<open>_record_missing_verdicts\<close>\<close>

text \<open>
  \<open>session_manager.py\<close>: when a manual session ends, every selected test without a verdict becomes
  blocked, in one transaction.  \<open>vid i\<close> is the UUID of the i-th new row.
\<close>

definition blocked_row :: "int \<Rightarrow> string \<Rightarrow> string \<Rightarrow> string option \<Rightarrow> string \<Rightarrow> verdict_row" where
  "blocked_row now vid sid sbx slug =
     \<lparr>vd_id = vid, vd_session = sid, vd_sandbox = sbx, vd_slug = slug, vd_verdict = ''blocked'',
      vd_reasoning = ''Auto-recorded: the session ended (tool/time budget or failure) before the agent reached this test.'',
      vd_inputs = JNull, vd_evidence = JNull, vd_duration = None, vd_confidence = None, vd_observations = JNull,
      vd_validated = False, vd_notes = None, vd_downgraded = None, vd_steps = None, vd_mutating = None,
      vd_truncated = False, vd_snapshot = JNull, vd_model = JNull, vd_params = JNull, vd_release = None,
      vd_image = None, vd_contracts = JNull, vd_at = now\<rparr>"

definition insert_blocked :: "verdict_row \<Rightarrow> ai_db \<Rightarrow> ai_db" where
  \<comment> \<open>\<open>ON CONFLICT (session_id, definition_slug) DO NOTHING\<close>\<close>
  "insert_blocked v db =
     (if find_verdict db (vd_session v) (vd_slug v) = None then db\<lparr>verdicts := verdicts db @ [v]\<rparr> else db)"

definition missing_tests :: "ai_db \<Rightarrow> string \<Rightarrow> string list \<Rightarrow> string list" where
  "missing_tests db sid selected =
     (let recorded = map vd_slug (filter (\<lambda>v. vd_session v = sid) (verdicts db))
      in filter (\<lambda>s. s \<notin> set recorded) selected)"

definition record_missing ::
  "int \<Rightarrow> (nat \<Rightarrow> string) \<Rightarrow> string \<Rightarrow> string option \<Rightarrow> bool \<Rightarrow> string list \<Rightarrow> ai_db \<Rightarrow> ai_db \<times> nat" where
  "record_missing now vid sid sbx manual selected db =
     (let ms = missing_tests db sid selected in
      if \<not> manual \<or> selected = [] then (db, 0)
      else if ms \<noteq> [] \<and> find_session db sid = None \<or> (\<exists>s\<in>set ms. CHR 0x00 \<in> set s) then (db, 0)
      else (foldl (\<lambda>d (i, slug). insert_blocked (blocked_row now (vid i) sid sbx slug) d) db (enumerate 0 ms),
            length ms))"

end
