(* ===== verification/Agent_Tools.thy ===== *)
theory Agent_Tools
  imports Agent_Verdicts Test_Commands
begin

text \<open>
  The tools of the AI agent that work on the platform itself: \<open>tools/test_trigger.py\<close> (running one test of
  the catalogue with parameters chosen by the agent), \<open>tools/reporting.py\<close>, and the guard of \<open>tools/db_query.py\<close>.
\<close>

section \<open>\<open>_apply_overrides\<close>\<close>

definition bad_override :: "string \<Rightarrow> exc" where "bad_override m = Exc KValueError m"

text \<open>One override on a list of assertions; the update is in place, so the next one sees it.\<close>

definition agent_override :: "json list \<Rightarrow> string \<times> json \<Rightarrow> json list res" where
  "agent_override asserts kv =
     (let (k, v) = kv in
      case scoped_key k of
        Some (i, leaf) \<Rightarrow>
          (case str_int i of
             None \<Rightarrow> Inl (bad_override (''override path '' @ str_repr k @ '': index must be an integer''))
           | Some n \<Rightarrow>
               if 0 \<le> n \<and> n < int (length asserts) \<and> is_dict (asserts ! nat n)
               then Inr (asserts[nat n := set_assertion (asserts ! nat n) leaf v])
               else Inl (bad_override (''override path '' @ str_repr k @ '': no assertion at index '' @ int_str n)))
      | None \<Rightarrow>
          (let owners = filter (owns k) asserts in
           if owners = []
           then Inl (bad_override (''override '' @ str_repr k @ '' matches no assertion leaf; use a path form ''
                      @ squote @ ''assertions.<N>.'' @ k @ squote @ '' or check the key name''))
           else if 1 < length owners
           then Inl (bad_override (''override '' @ str_repr k @ '' is ambiguous: '' @ nat_str (length owners)
                      @ '' assertions have it. Use a path form '' @ squote @ ''assertions.<N>.'' @ k @ squote
                      @ '' to target one.''))
           else Inr (map (\<lambda>a. if owns k a then set_assertion a k v else a) asserts)))"

fun agent_overrides :: "json list \<Rightarrow> dict \<Rightarrow> json list res" where
  "agent_overrides asserts [] = Inr asserts"
| "agent_overrides asserts (kv # ov) = res_bind (agent_override asserts kv) (\<lambda>a. agent_overrides a ov)"

text \<open>
  What an override meets when the assertions are not a list: the characters of a string and the keys of a
  dict are no dicts, a dict has no integer keys, a number has no length and is not iterable.
\<close>

definition odd_override :: "json \<Rightarrow> string \<times> json \<Rightarrow> exc" where
  "odd_override asserts kv =
     (case asserts of
        JStr s \<Rightarrow> (case agent_override (map JStr (chars_of s)) kv of Inl e \<Rightarrow> e | Inr _ \<Rightarrow> ValueError)
      | JObj d \<Rightarrow>
          (case scoped_key (fst kv) of
             Some (i, leaf) \<Rightarrow>
               (case str_int i of
                  Some n \<Rightarrow> if 0 \<le> n \<and> n < int (length d) then KeyError
                            else (case agent_override [] kv of Inl e \<Rightarrow> e | Inr _ \<Rightarrow> ValueError)
                | None \<Rightarrow> (case agent_override [] kv of Inl e \<Rightarrow> e | Inr _ \<Rightarrow> ValueError))
           | None \<Rightarrow> (case agent_override [] kv of Inl e \<Rightarrow> e | Inr _ \<Rightarrow> ValueError))
      | _ \<Rightarrow>
          (case scoped_key (fst kv) of
             Some (i, leaf) \<Rightarrow>
               (case str_int i of
                  Some n \<Rightarrow> if 0 \<le> n then TypeError
                            else (case agent_override [] kv of Inl e \<Rightarrow> e | Inr _ \<Rightarrow> ValueError)
                | None \<Rightarrow> (case agent_override [] kv of Inl e \<Rightarrow> e | Inr _ \<Rightarrow> ValueError))
           | None \<Rightarrow> TypeError))"

definition apply_overrides :: "json \<Rightarrow> json \<Rightarrow> json res" where
  "apply_overrides parsed overrides =
     (if \<not> truthy overrides then Inr parsed
      else res_bind (jget_or parsed ''assertions'' JNull) (\<lambda>found.
           res_bind (as_obj AttributeError overrides) (\<lambda>ov.
             let asserts = py_or found (JArr []) in
             case asserts of
               JArr xs \<Rightarrow>
                 res_bind (agent_overrides xs ov) (\<lambda>new.
                   Inr (case parsed of JObj d \<Rightarrow> JObj (set_key d ''assertions'' (JArr new)) | _ \<Rightarrow> parsed))
             | _ \<Rightarrow> (case ov of [] \<Rightarrow> Inr parsed | kv # _ \<Rightarrow> Inl (odd_override asserts kv)))))"

section \<open>\<open>read_test_definition\<close>\<close>

definition read_test_definition :: "json \<Rightarrow> ai_db \<Rightarrow> json res" where
  "read_test_definition slug db =
     res_bind (text_param slug) (\<lambda>p.
       case (case p of None \<Rightarrow> None | Some s \<Rightarrow> find_ai_def db s) of
         None \<Rightarrow> Inr (tool_failure (''Definition '' @ py_repr slug @ '' not found''))
       | Some d \<Rightarrow>
           if \<not> d_ai_allowed d
           then Inr (JObj [(''success'', JBool False),
                           (''error'', JStr (''Definition '' @ py_repr slug @ '' is not ai_allowed (whitelist)'')),
                           (''ai_allowed'', JBool False)])
           else Inr (JObj [(''success'', JBool True), (''id'', JStr (d_id d)), (''slug'', JStr (d_slug d)),
                  (''name'', JStr (d_name d)), (''version'', JInt (d_version d)),
                  (''tags'', JArr (map JStr (case d_tags d of None \<Rightarrow> [] | Some ts \<Rightarrow> ts))), (''component'', d_component d),
                  (''priority'', JStr (d_priority d)), (''timeout_seconds'', JInt (d_timeout_seconds d)),
                  (''is_active'', JBool (d_active d)), (''definition_parsed'', d_parsed d)]))"

section \<open>\<open>trigger_test\<close>\<close>

text \<open>\<open>_load_sandbox\<close>: the metadata may be a JSON text inside the JSONB value.\<close>

definition load_meta :: "json \<Rightarrow> json res" where
  "load_meta m = (case py_or m (JObj []) of JStr s \<Rightarrow> json_loads s | j \<Rightarrow> Inr j)"

definition load_sandbox :: "string option \<Rightarrow> ai_db \<Rightarrow> (sandbox_row \<times> json) option res" where
  "load_sandbox sid db =
     (case (case sid of None \<Rightarrow> None | Some s \<Rightarrow> find_sandbox (core db) s) of
        None \<Rightarrow> Inr None
      | Some r \<Rightarrow> res_bind (load_meta (s_metadata r)) (\<lambda>m. Inr (Some (r, m))))"

definition box_address_keys :: "string list" where
  "box_address_keys = [''cli_container_name'', ''app_address'', ''inputbox_address'', ''ether_portal_address'',
     ''erc20_portal_address'', ''erc721_portal_address'', ''erc1155_portal_address'', ''erc20_token_address'',
     ''erc721_token_address'', ''erc1155_token_address'']"

definition ai_command ::
  "string \<Rightarrow> string \<Rightarrow> json \<Rightarrow> json \<Rightarrow> sandbox_row \<Rightarrow> dict \<Rightarrow> int \<Rightarrow> dict \<Rightarrow> json \<Rightarrow> dict" where
  "ai_command tid sid slug overrides r meta major info parsed =
     [(''run_id'', JStr (if s_run_id r = [] then sid else s_run_id r)), (''sandbox_id'', JStr (s_id r)),
      (''definition_id'', get info ''id''), (''definition_version'', get info ''version''),
      (''definition_slug'', get info ''slug''),
      (''anvil_port'', py_or (s_anvil_port r) (JInt 8545)), (''node_port'', py_or (s_node_port r) (JInt 5004)),
      (''graphql_port'', py_or (s_graphql_port r) (JInt 4000)),
      (''docker_network'', py_or (s_docker_network r) (JStr ''bridge'')), (''node_major_version'', JInt major)]
     @ map (\<lambda>k. (k, get meta k)) box_address_keys
     @ [(''session_id'', JStr sid), (''result_id'', JStr tid), (''parameter_overrides'', overrides),
        (''definition_parsed_override'', parsed)]"

text \<open>
  Everything up to the message: an answer to the model, or the command with the definition's fields.
  \<open>tid\<close> is the new result id.
\<close>

definition build_command ::
  "string \<Rightarrow> string \<Rightarrow> json \<Rightarrow> dict \<Rightarrow> sandbox_row \<Rightarrow> json \<Rightarrow> (json + dict \<times> dict) res" where
  "build_command tid sid overrides info r meta0 =
     (case apply_overrides (get info ''definition_parsed'') overrides of
        Inl e \<Rightarrow>
          if exc_kind e = KValueError
          then Inr (Inl (tool_failure (''invalid parameter_overrides: '' @ exc_str e))) else Inl e
      | Inr parsed \<Rightarrow>
          res_bind (as_obj AttributeError (py_or meta0 (JObj []))) (\<lambda>meta.
          res_bind (py_int (get_or meta ''node_major_version'' (JInt 2))) (\<lambda>major.
            Inr (Inr (ai_command tid sid (get info ''slug'') overrides r meta major info parsed, info)))))"

definition prepare_test ::
  "string \<Rightarrow> string \<Rightarrow> string option \<Rightarrow> json \<Rightarrow> json \<Rightarrow> ai_db \<Rightarrow> (json + dict \<times> dict) res" where
  "prepare_test tid sid sbx slug overrides db =
     res_bind (read_test_definition slug db) (\<lambda>info.
       if \<not> truthy (get (as_dict info) ''success'') then Inr (Inl info)
       else res_bind (load_sandbox sbx db) (\<lambda>found.
         case found of
           None \<Rightarrow> Inr (Inl (tool_failure (''Sandbox '' @ py_repr (null_or JStr sbx) @ '' not found'')))
         | Some (r, meta) \<Rightarrow> build_command tid sid (py_or overrides (JObj [])) (as_dict info) r meta))"

text \<open>Waiting for the result: a poll after every second until the deadline, and one more after it.\<close>

definition finished :: "result_row option \<Rightarrow> bool" where
  "finished r = (case r of None \<Rightarrow> False | Some t \<Rightarrow> t_status t \<notin> {TPending, TRunning})"

function await_result :: "(nat \<Rightarrow> nat) \<Rightarrow> (nat \<Rightarrow> result_row option) \<Rightarrow> int \<Rightarrow> int \<Rightarrow> nat \<Rightarrow> result_row option" where
  "await_result delay view now deadline k =
     (if now < deadline
      then (if finished (view k) then view k
            else await_result delay view (now + 1000 + int (delay k)) deadline (Suc k))
      else if finished (view k) then view k else None)"
  by pat_completeness auto
termination by (relation "measure (\<lambda>(delay, view, now, deadline, k). nat (deadline - now))") auto

declare await_result.simps [simp del]

definition done_reply :: "string \<Rightarrow> dict \<Rightarrow> json \<Rightarrow> result_row \<Rightarrow> json" where
  "done_reply tid info overrides t = JObj
     [(''success'', JBool (t_status t = TPassed)), (''result_id'', JStr tid), (''definition_id'', get info ''id''),
      (''definition_slug'', get info ''slug''), (''status'', JStr (test_status_str (t_status t))),
      (''duration_ms'', null_or JInt (t_duration_ms t)), (''assertion_results'', t_assertion_results t),
      (''error_message'', null_or JStr (t_error_message t)), (''overrides_applied'', overrides)]"

definition timeout_reply :: "string \<Rightarrow> dict \<Rightarrow> int \<Rightarrow> json" where
  "timeout_reply tid info wait = JObj
     [(''success'', JBool False), (''result_id'', JStr tid), (''definition_id'', get info ''id''),
      (''definition_slug'', get info ''slug''), (''status'', JStr ''timeout''),
      (''error_message'', JStr (''No result within '' @ int_str wait @ ''s. The test may still be running '' @ u_emdash
         @ '' query tests.results WHERE id='' @ squote @ tid @ squote @ '' to check.''))]"

definition queued_reply :: "string \<Rightarrow> dict \<Rightarrow> json" where
  "queued_reply tid info = JObj
     [(''success'', JBool True), (''result_id'', JStr tid), (''definition_id'', get info ''id''),
      (''definition_slug'', get info ''slug''), (''status'', JStr ''queued'')]"

text \<open>
  The result and the messages put on \<open>tests.commands.ai\<close>.  \<open>broker\<close> is the exception of the publisher, if it
  raises one; \<open>delay\<close> and \<open>view\<close> are what the polls meet, \<open>now\<close> the clock after publishing.
\<close>

definition trigger_test ::
  "exc option \<Rightarrow> (nat \<Rightarrow> nat) \<Rightarrow> (nat \<Rightarrow> result_row option) \<Rightarrow> int \<Rightarrow> string \<Rightarrow> string \<Rightarrow> string option \<Rightarrow> json \<Rightarrow> json
     \<Rightarrow> int \<Rightarrow> ai_db \<Rightarrow> json res \<times> json list" where
  "trigger_test broker delay view now tid sid sbx slug overrides wait db =
     (case prepare_test tid sid sbx slug overrides db of
        Inl e \<Rightarrow> (Inl e, [])
      | Inr (Inl reply) \<Rightarrow> (Inr reply, [])
      | Inr (Inr (cmd, info)) \<Rightarrow>
          (case broker of
             Some e \<Rightarrow> (Inr (tool_failure (''publish failed: '' @ exc_str e)), [])
           | None \<Rightarrow>
               (Inr (if 0 < wait
                     then (case await_result delay view now (now + wait * 1000) 0 of
                             Some t \<Rightarrow> done_reply tid info (py_or overrides (JObj [])) t
                           | None \<Rightarrow> timeout_reply tid info wait)
                     else queued_reply tid info),
                [JObj cmd])))"

section \<open>\<open>report_finding\<close>\<close>

text \<open>
  The list of findings is a global of the process.  The entry is appended before the reply is built, which
  raises for a severity that is not a string.
\<close>

definition report_finding :: "string \<Rightarrow> int \<Rightarrow> dict \<Rightarrow> json list \<Rightarrow> json res \<times> json list" where
  "report_finding fid now inp fs =
     (let f = JObj [(''id'', JStr fid), (''title'', get inp ''title''), (''severity'', get inp ''severity''),
                    (''component'', get inp ''component''), (''description'', get inp ''description''),
                    (''evidence'', py_or (get inp ''evidence'') (JObj [])),
                    (''reproduction_steps'', py_or (get inp ''reproduction_steps'') (JArr [])),
                    (''reported_at'', JStr (isoformat now))];
          fs' = fs @ [f] in
      (case get inp ''severity'' of
         JStr sev \<Rightarrow> Inr (JObj [(''success'', JBool True), (''finding_id'', JStr fid),
                               (''total_findings'', JInt (int (length fs'))),
                               (''message'', JStr (''Finding recorded: ['' @ upper sev @ ''] '' @ py_str (get inp ''title'')))])
       | _ \<Rightarrow> Inl AttributeError, fs'))"

section \<open>The guard of \<open>query_db\<close>\<close>

definition word_of :: "string list \<Rightarrow> rx" where
  "word_of ws = foldr (\<lambda>w r. Alt (ILit w) r) (butlast ws) (ILit (List.last ws))"

definition forbidden_sql :: rx where
  "forbidden_sql = Seq Wordb (Seq (word_of [''insert'', ''update'', ''delete'', ''drop'', ''alter'', ''truncate'',
     ''grant'', ''revoke'', ''create'', ''copy'']) Wordb)"

definition select_start :: rx where
  "select_start = Seq (Star Space) (Seq (word_of [''select'', ''with'']) Wordb)"

definition rstrip_semicolons :: "string \<Rightarrow> string" where
  "rstrip_semicolons s = rev (dropWhile (\<lambda>c. c = CHR '';'') (rev s))"

text \<open>The answer without a query, or the text that is sent.\<close>

definition query_guard :: "json \<Rightarrow> (json + string) res" where
  "query_guard sql =
     res_bind (blank sql) (\<lambda>b. if b then Inr (Inl (tool_failure ''empty query''))
     else res_bind (as_str AttributeError sql) (\<lambda>s.
       let t = rstrip_semicolons (strip s) in
       if re_search forbidden_sql t \<noteq> None then Inr (Inl (tool_failure ''Only SELECT statements are allowed.''))
       else if re_match select_start t = None
       then Inr (Inl (tool_failure ''Only SELECT or WITH ... SELECT queries allowed.''))
       else Inr (Inr t)))"

text \<open>The reply on the fetched rows, at most 200 of them; \<open>fetch\<close> is the database under the reader role.\<close>

definition query_db :: "(string \<Rightarrow> json list res) \<Rightarrow> json \<Rightarrow> json res" where
  "query_db fetch sql =
     res_bind (query_guard sql) (\<lambda>g.
       case g of
         Inl reply \<Rightarrow> Inr reply
       | Inr t \<Rightarrow>
           (case fetch t of
              Inl e \<Rightarrow> Inr (tool_failure (exc_str e))
            | Inr rows \<Rightarrow>
                (let kept = take 200 rows in
                 Inr (JObj [(''success'', JBool True), (''row_count'', JInt (int (length kept))),
                            (''truncated'', JBool (200 < length rows)), (''rows'', JArr kept)]))))"

end
