(* ===== verification/Agent_Executor.thy ===== *)
theory Agent_Executor
  imports Agent_Tools
begin

text \<open>
  \<open>tool_executor.py\<close>: one tool call of the model is dispatched, audited, and tracked for the test that the
  agent works on.  The tools on the platform are those of \<open>Agent_Tools\<close> and \<open>Agent_Verdicts\<close>; the tools that
  talk to the sandbox (Docker, the chain, the node) are an argument of the environment that answers a
  name and its input.
\<close>

section \<open>State and environment\<close>

record agent_state =
  ag_db :: ai_db
  ag_findings :: "json list"
  ag_commands :: "json list"     \<comment> \<open>queue tests.commands.ai\<close>
  ag_slug :: json                \<comment> \<open>\<open>current_test_slug\<close>\<close>

record executor_ctx =
  ex_session :: "string option"
  ex_sandbox :: "string option"
  ex_provenance :: provenance

text \<open>What the n-th call of the process meets: fresh ids, the clock, the sandbox's tools, the database reader,
  the broker and the polls of a triggered test.\<close>

record tool_env =
  te_id :: "nat \<Rightarrow> string"
  te_row :: "nat \<Rightarrow> string"
  te_now :: "nat \<Rightarrow> int"
  te_ms :: "nat \<Rightarrow> int"
  te_tool :: "nat \<Rightarrow> string \<Rightarrow> dict \<Rightarrow> json res"
  te_fetch :: "nat \<Rightarrow> string \<Rightarrow> json list res"
  te_broker :: "nat \<Rightarrow> exc option"
  te_delay :: "nat \<Rightarrow> nat \<Rightarrow> nat"
  te_view :: "nat \<Rightarrow> nat \<Rightarrow> result_row option"

section \<open>\<open>_dispatch\<close>\<close>

text \<open>The tools outside the platform, and the arguments that a tool reads with \<open>inp[key]\<close>.\<close>

definition sandbox_tools :: "string list" where
  "sandbox_tools = [''send_advance_input'', ''query_graphql'', ''call_inspect'', ''read_logs'', ''run_cast_command'',
     ''generate_payload'', ''get_node_state'', ''verify_voucher'', ''advance_time'', ''run_cli_command'',
     ''call_jsonrpc'', ''provision_sandbox'', ''teardown_sandbox'', ''lookup_skill'', ''restart_component'',
     ''pause_network'']"

definition required_args :: "(string \<times> string list) list" where
  "required_args =
     [(''send_advance_input'', [''payload'']), (''query_graphql'', [''query'']), (''call_inspect'', [''payload'']),
      (''run_cast_command'', [''command'']), (''verify_voucher'', [''input_index'', ''voucher_index'']),
      (''advance_time'', [''blocks'']), (''report_finding'', [''title'', ''severity'', ''component'', ''description'']),
      (''trigger_test'', [''definition_slug'']), (''read_test_definition'', [''definition_slug'']),
      (''record_test_verdict'', [''definition_slug'', ''verdict'', ''reasoning'']),
      (''record_test_plan'', [''definition_slug'', ''objective'']), (''run_cli_command'', [''binary'', ''args'']),
      (''call_jsonrpc'', [''method'']), (''query_db'', [''sql'']), (''teardown_sandbox'', [''run_id'']),
      (''lookup_skill'', [''skill_name''])]"

definition lacks_arg :: "string \<Rightarrow> dict \<Rightarrow> bool" where
  "lacks_arg tool inp =
     (case map_of required_args tool of None \<Rightarrow> False | Some ks \<Rightarrow> \<exists>k\<in>set ks. \<not> has_key inp k)"

definition conf_of :: "json \<Rightarrow> conf_arg" where
  "conf_of v = (if v = JNull then NoConf
                else (case py_float v of Inl _ \<Rightarrow> BadConf | Inr n \<Rightarrow> Conf (of_int n)))"

definition verdict_args_of :: "dict \<Rightarrow> verdict_args" where
  "verdict_args_of inp =
     \<lparr>va_slug = get inp ''definition_slug'', va_verdict = get inp ''verdict'', va_reasoning = get inp ''reasoning'',
      va_inputs = get inp ''inputs_used'', va_evidence = get inp ''evidence'', va_duration = get inp ''duration_ms'',
      va_confidence = conf_of (get inp ''confidence''), va_observations = get inp ''observations''\<rparr>"

definition plan_args_of :: "dict \<Rightarrow> plan_args" where
  "plan_args_of inp =
     \<lparr>pa_slug = get inp ''definition_slug'', pa_objective = get inp ''objective'', pa_success = get inp ''success_criteria'',
      pa_failure = get inp ''failure_criteria'', pa_steps = get inp ''planned_steps''\<rparr>"

definition with_db :: "(json \<times> ai_db) res \<Rightarrow> agent_state \<Rightarrow> json res \<times> agent_state" where
  "with_db r st = (case r of Inl e \<Rightarrow> (Inl e, st) | Inr (j, db) \<Rightarrow> (Inr j, st\<lparr>ag_db := db\<rparr>))"

text \<open>\<open>self.session_id or ""\<close>.\<close>

definition session_key :: "executor_ctx \<Rightarrow> string" where
  "session_key ex = (case ex_session ex of None \<Rightarrow> [] | Some s \<Rightarrow> s)"

definition dispatch :: "tool_env \<Rightarrow> nat \<Rightarrow> executor_ctx \<Rightarrow> string \<Rightarrow> dict \<Rightarrow> agent_state \<Rightarrow> json res \<times> agent_state" where
  "dispatch env n ex tool inp st =
     (if lacks_arg tool inp then (Inl KeyError, st)
      else if tool = ''report_finding'' then
        (let (r, fs) = report_finding (te_id env n) (te_now env n) inp (ag_findings st) in (r, st\<lparr>ag_findings := fs\<rparr>))
      else if tool = ''trigger_test'' then
        (case py_int (get_or inp ''wait_seconds'' (JInt 90)) of
           Inl e \<Rightarrow> (Inl e, st)
         | Inr w \<Rightarrow>
             (let (r, qs) = trigger_test (te_broker env n) (te_delay env n) (te_view env n) (te_now env n) (te_id env n)
                              (session_key ex) (ex_sandbox ex) (get inp ''definition_slug'')
                              (py_or (get inp ''parameter_overrides'') (JObj [])) w (ag_db st)
              in (r, st\<lparr>ag_commands := ag_commands st @ qs\<rparr>)))
      else if tool = ''read_test_definition'' then (read_test_definition (get inp ''definition_slug'') (ag_db st), st)
      else if tool = ''record_test_verdict'' then
        with_db (record_test_verdict (te_now env n) (te_id env n) (ex_provenance ex) (session_key ex) (ex_sandbox ex)
                   (verdict_args_of inp) (ag_db st)) st
      else if tool = ''record_test_plan'' then
        with_db (record_test_plan (te_now env n) (te_id env n) (session_key ex) (plan_args_of inp) (ag_db st)) st
      else if tool = ''query_db'' then (query_db (te_fetch env n) (get inp ''sql''), st)
      else if tool \<in> set sandbox_tools then (te_tool env n tool inp, st)
      else (Inr (tool_failure (''Unknown tool: '' @ tool)), st))"

section \<open>\<open>execute\<close>\<close>

definition track_slug :: "string \<Rightarrow> dict \<Rightarrow> json \<Rightarrow> json" where
  "track_slug tool inp cur =
     (if tool \<in> {''read_test_definition'', ''record_test_plan''}
      then (let s = py_or (get inp ''definition_slug'') (get inp ''slug'') in if truthy s then s else cur)
      else cur)"

text \<open>The result that the model sees and the status of the audit row.\<close>

definition call_outcome :: "json res \<Rightarrow> json \<times> string" where
  "call_outcome r =
     (case r of
        Inl e \<Rightarrow> (tool_failure (''Internal error: '' @ exc_str e), ''error'')
      | Inr j \<Rightarrow> (j, if is_dict j \<and> get (as_dict j) ''success'' = JBool False then ''error'' else ''ok''))"

definition close_slug :: "string \<Rightarrow> dict \<Rightarrow> json \<Rightarrow> json \<Rightarrow> json" where
  "close_slug tool inp result cur =
     (if tool = ''record_test_verdict'' \<and> is_dict result \<and> truthy (get (as_dict result) ''success'')
         \<and> py_eq (get inp ''definition_slug'') cur
      then JNull else cur)"

definition execute :: "tool_env \<Rightarrow> nat \<Rightarrow> executor_ctx \<Rightarrow> string \<Rightarrow> dict \<Rightarrow> agent_state \<Rightarrow> json \<times> agent_state" where
  "execute env n ex tool inp st =
     (let slug = track_slug tool inp (ag_slug st);
          row_slug = (if tool \<in> {''record_test_verdict'', ''record_test_plan''} then get inp ''definition_slug'' else slug);
          (r, st1) = dispatch env n ex tool inp (st\<lparr>ag_slug := slug\<rparr>);
          (result, status) = call_outcome r;
          db = record_invocation (te_now env n) (te_row env n) (ex_session ex) tool (JObj inp) result status (te_ms env n)
                 row_slug (ag_db st1)
      in (result, st1\<lparr>ag_db := db, ag_slug := close_slug tool inp result slug\<rparr>))"

end
