(* ===== verification/Agent_Loop.thy ===== *)
theory Agent_Loop
  imports Agent_Executor
begin

text \<open>
  \<open>agent_loop.py\<close>: the conversation with the model.  Every turn sends the messages, retries transient
  errors, executes the tool calls of the answer and appends their results; limits, compression of old
  turns, and the transcript.  The API is an environment that answers the n-th request; times are in seconds,
  and every wait and call takes the time that the environment says.
\<close>

section \<open>Tool results for the model\<close>

definition is_hex_tail :: "string \<Rightarrow> bool" where
  "is_hex_tail s = (\<forall>c\<in>set s. hex_val c \<noteq> None)"

fun shape_value :: "json \<Rightarrow> json" where
  "shape_value (JStr s) =
     (if startswith s ''0x'' \<and> 200 < str_len s \<and> is_hex_tail (drop 2 s)
      then JStr (take 96 s @ u_ellipsis @ drop (length s - 24) s @ '' [hex truncated, total '' @ nat_str (length s)
                 @ '' chars '' @ u_emdash @ '' full value in audit panel]'')
      else JStr s)"
| "shape_value (JArr xs) = JArr (map shape_value xs)"
| "shape_value (JObj d) = JObj (map (\<lambda>(k, v). (k, shape_value v)) d)"
| "shape_value j = j"

text \<open>\<open>_bounded_tool_content\<close> for the limit \<open>cap\<close>, 5000 by default; the serialisation is ASCII.\<close>

definition bounded_content :: "nat \<Rightarrow> json \<Rightarrow> string" where
  "bounded_content cap result =
     (let s = json_dumps (shape_value result); n = length s; head = cap * 7 div 10; tail = cap * 2 div 10 in
      if n \<le> cap then s
      else take head s @ '' '' @ u_ellipsis @ ''[TRUNCATED '' @ int_str (int n - int head - int tail) @ '' chars ''
           @ u_emdash @ '' full output is in the tool audit panel]'' @ u_ellipsis @ '' ''
           @ (if tail = 0 then s else drop (n - tail) s))"

section \<open>Messages\<close>

datatype block =
    TextBlock string
  | ToolUse (use_id: string) (use_name: string) (use_input: dict)
  | ToolResult (result_id: string) (result_text: string)

datatype role = User | Assistant

text \<open>A content is a text, or a list of blocks, each with its cache marker.\<close>

datatype content = Plain string | Blocks "(block \<times> bool) list"

record message =
  m_role :: role
  m_content :: content

definition user_text :: "string \<Rightarrow> message" where
  "user_text t = \<lparr>m_role = User, m_content = Plain t\<rparr>"

definition unmark :: "message \<Rightarrow> message" where
  "unmark m = (case m_content m of Plain _ \<Rightarrow> m | Blocks bs \<Rightarrow> m\<lparr>m_content := Blocks (map (\<lambda>(b, _). (b, False)) bs)\<rparr>)"

text \<open>Marking the last block of the last message that has one; \<open>mark_last\<close> works on the reversed list.\<close>

fun mark_last :: "message list \<Rightarrow> message list" where
  "mark_last [] = []"
| "mark_last (m # ms) =
     (case m_content m of
        Blocks bs \<Rightarrow> (if bs = [] then m # mark_last ms
                      else m\<lparr>m_content := Blocks (butlast bs @ [(fst (List.last bs), True)])\<rparr> # ms)
      | Plain _ \<Rightarrow> m # mark_last ms)"

definition cache_breakpoint :: "message list \<Rightarrow> message list" where
  "cache_breakpoint ms = rev (mark_last (rev (map unmark ms)))"

section \<open>The API\<close>

record api_reply =
  rp_content :: "block list"
  rp_input :: int
  rp_output :: int
  rp_cache_read :: "int option"
  rp_cache_write :: "int option"

datatype attempt_end = Final api_reply | Transient | Fatal exc

text \<open>One streamed request: its text deltas, its stop reasons, how it ends and how long it takes.\<close>

record attempt =
  at_texts :: "string list"
  at_stops :: "string option list"
  at_end :: attempt_end
  at_time :: nat

record model_env =
  me_stream :: "nat \<Rightarrow> message list \<Rightarrow> attempt"
  me_summary :: "nat \<Rightarrow> message list \<Rightarrow> string res \<times> nat"
  me_tool_time :: "nat \<Rightarrow> nat"
  me_tools :: tool_env

section \<open>The state of the loop\<close>

record agent_loop =
  lp_mode :: string
  lp_max_calls :: "nat option"
  lp_max_duration :: "nat option"
  lp_executor :: executor_ctx
  lp_messages :: "message list"
  lp_summaries :: "(nat \<times> string) list"
  lp_calls :: nat
  lp_total :: int
  lp_cache_read :: int
  lp_context :: int
  lp_start :: nat
  lp_clock :: nat
  lp_requests :: nat
  lp_events :: "json list"
  lp_state :: agent_state

definition emit :: "string \<Rightarrow> dict \<Rightarrow> agent_loop \<Rightarrow> agent_loop" where
  "emit ty kvs l = l\<lparr>lp_events := lp_events l @ [JObj ((''type'', JStr ty) # kvs)]\<rparr>"

definition LIMITS :: "(string \<times> nat \<times> nat) list" where
  "LIMITS = [(''autonomous'', 50, 600), (''collaborative'', 200, 3600), (''interactive'', 200, 3600), (''chaos'', 100, 1800)]"

definition limits_of :: "agent_loop \<Rightarrow> nat \<times> nat" where
  "limits_of l =
     (let (c, d) = (case map_of LIMITS (lp_mode l) of None \<Rightarrow> (50, 600) | Some p \<Rightarrow> p)
      in (case lp_max_calls l of Some n \<Rightarrow> if n = 0 then c else n | None \<Rightarrow> c,
          case lp_max_duration l of Some n \<Rightarrow> if n = 0 then d else n | None \<Rightarrow> d))"

definition elapsed :: "agent_loop \<Rightarrow> nat" where "elapsed l = lp_clock l - lp_start l"

definition over_limit :: "agent_loop \<Rightarrow> string option" where
  "over_limit l =
     (let (c, d) = limits_of l in
      if c \<le> lp_calls l then Some (''Tool call limit reached ('' @ nat_str c @ '')'')
      else if d \<le> elapsed l then Some (''Time limit reached ('' @ nat_str d @ ''s)'')
      else None)"

section \<open>Requests with retries\<close>

definition retry_delays :: "nat list" where "retry_delays = [5, 15, 30]"

definition stop_after :: "string \<Rightarrow> string option list \<Rightarrow> string" where
  "stop_after cur stops = foldl (\<lambda>_ s. case s of None \<Rightarrow> ''end_turn'' | Some t \<Rightarrow> if t = [] then ''end_turn'' else t) cur stops"

text \<open>
  The attempts that are left, each after its delay; the stop reason of a broken stream stays until a later
  one sets it.  The last transient error is raised.
\<close>

definition TransientError :: exc where "TransientError = Exc KOtherError ''APIConnectionError''"

definition before_attempt :: "nat \<Rightarrow> nat \<Rightarrow> agent_loop \<Rightarrow> agent_loop" where
  "before_attempt k d l =
     (if d = 0 then l else emit ''ai.retry'' [(''delay_s'', JInt (int d)), (''attempt'', JInt (int k + 1))] l)"

definition after_attempt :: "nat \<Rightarrow> attempt \<Rightarrow> agent_loop \<Rightarrow> agent_loop" where
  "after_attempt d a l =
     foldl (\<lambda>l t. emit ''text_delta'' [(''text'', JStr t)] l)
       (l\<lparr>lp_clock := lp_clock l + d + at_time a, lp_requests := lp_requests l + 1\<rparr>) (at_texts a)"

fun request_turn :: "model_env \<Rightarrow> nat \<Rightarrow> nat list \<Rightarrow> string \<Rightarrow> agent_loop \<Rightarrow> (string \<times> api_reply) res \<times> agent_loop" where
  "request_turn env k [] stop l = (Inl TransientError, l)"
| "request_turn env k (d # ds) stop l =
     (let l1 = before_attempt k d l; a = me_stream env (lp_requests l1) (lp_messages l1);
          l2 = after_attempt d a l1; stop' = stop_after stop (at_stops a)
      in (case at_end a of
            Final r \<Rightarrow> (Inr (stop', r), l2)
          | Transient \<Rightarrow> request_turn env (Suc k) ds stop' l2
          | Fatal e \<Rightarrow> (Inl e, l2)))"

definition count_usage :: "api_reply \<Rightarrow> agent_loop \<Rightarrow> agent_loop" where
  "count_usage r l =
     (let cr = (case rp_cache_read r of None \<Rightarrow> 0 | Some n \<Rightarrow> n);
          cw = (case rp_cache_write r of None \<Rightarrow> 0 | Some n \<Rightarrow> n)
      in l\<lparr>lp_total := lp_total l + rp_input r + rp_output r + cw, lp_cache_read := lp_cache_read l + cr,
           lp_context := rp_input r + cr + cw\<rparr>)"

section \<open>The tool calls of a turn\<close>

definition ws_preview :: "json \<Rightarrow> json" where
  "ws_preview result =
     (let s = json_dumps result in
      if 3000 < length s then JObj [(''truncated'', JBool True), (''preview'', JStr (take 3000 s))] else result)"

definition finding_event :: "dict \<Rightarrow> dict" where
  "finding_event inp =
     [(''severity'', get_or inp ''severity'' (JStr ''info'')), (''title'', get_or inp ''title'' (JStr [])),
      (''description'', get_or inp ''description'' (JStr []))]"

definition verdict_event :: "dict \<Rightarrow> dict" where
  "verdict_event inp =
     [(''definition_slug'', get_or inp ''definition_slug'' (JStr [])), (''verdict'', get_or inp ''verdict'' (JStr [])),
      (''reasoning'', JStr (str_take 500 (py_str (get_or inp ''reasoning'' (JStr [])))))]"

definition succeeded :: "json \<Rightarrow> bool" where
  "succeeded r = (is_dict r \<and> truthy (get (as_dict r) ''success''))"

text \<open>One call: the events, the execution, and the result block; \<open>cap\<close> is the limit of its text.\<close>

definition run_tool :: "model_env \<Rightarrow> nat \<Rightarrow> string \<times> string \<times> dict \<Rightarrow> agent_loop \<Rightarrow> (block \<times> bool) \<times> agent_loop" where
  "run_tool env cap call l =
     (let (cid, name, inp) = call;
          l1 = l\<lparr>lp_calls := lp_calls l + 1\<rparr>;
          l2 = emit ''tool_call'' [(''tool_name'', JStr name), (''tool_input'', JObj inp),
                                 (''call_number'', JInt (int (lp_calls l1)))] l1;
          (result, st) = execute (me_tools env) (lp_calls l1) (lp_executor l) name inp (lp_state l2);
          l3 = l2\<lparr>lp_state := st, lp_clock := lp_clock l2 + me_tool_time env (lp_calls l1)\<rparr>;
          l4 = emit ''tool_result'' [(''tool_name'', JStr name), (''tool_output'', ws_preview result)] l3;
          l5 = (if name = ''report_finding'' \<and> succeeded result then emit ''finding'' (finding_event inp) l4 else l4);
          l6 = (if name = ''record_test_verdict'' \<and> succeeded result then emit ''verdict'' (verdict_event inp) l5 else l5)
      in ((ToolResult cid (bounded_content cap result), False), l6))"

fun run_tools :: "model_env \<Rightarrow> nat \<Rightarrow> (string \<times> string \<times> dict) list \<Rightarrow> agent_loop \<Rightarrow> (block \<times> bool) list \<times> agent_loop" where
  "run_tools env cap [] l = ([], l)"
| "run_tools env cap (c # cs) l =
     (let (b, l1) = run_tool env cap c l; (bs, l2) = run_tools env cap cs l1 in (b # bs, l2))"

text \<open>The content that is kept of an answer, and its calls.\<close>

definition kept_blocks :: "block list \<Rightarrow> (block \<times> bool) list" where
  "kept_blocks bs = map (\<lambda>b. (b, False)) (filter (\<lambda>b. case b of ToolResult _ _ \<Rightarrow> False | _ \<Rightarrow> True) bs)"

definition calls_of :: "block list \<Rightarrow> (string \<times> string \<times> dict) list" where
  "calls_of bs = List.map_filter (\<lambda>b. case b of ToolUse i n d \<Rightarrow> Some (i, n, d) | _ \<Rightarrow> None) bs"

definition stream_turn :: "model_env \<Rightarrow> nat \<Rightarrow> agent_loop \<Rightarrow> (string \<times> message list) res \<times> agent_loop" where
  "stream_turn env cap l =
     (case request_turn env 0 (0 # retry_delays) ''end_turn'' (l\<lparr>lp_messages := cache_breakpoint (lp_messages l)\<rparr>) of
        (Inl e, l1) \<Rightarrow> (Inl e, l1)
      | (Inr (stop, r), l1) \<Rightarrow>
          (let l2 = count_usage r l1; calls = calls_of (rp_content r);
               answer = \<lparr>m_role = Assistant, m_content = Blocks (kept_blocks (rp_content r))\<rparr>
           in if calls = [] then (Inr (stop, [answer]), l2)
              else (let (bs, l3) = run_tools env cap calls l2
                    in (Inr (stop, [answer, \<lparr>m_role = User, m_content = Blocks bs\<rparr>]), l3))))"

section \<open>Compression\<close>

definition summary_note :: "string \<Rightarrow> message list" where
  "summary_note s =
     [user_text (''[Context summary from earlier in this session]'' @ nl @ s),
      \<lparr>m_role = Assistant, m_content = Plain (''Understood. I'' @ squote @ ''ll continue from where we left off.'')\<rparr>]"

definition compress_context :: "model_env \<Rightarrow> agent_loop \<Rightarrow> unit res \<times> agent_loop" where
  "compress_context env l =
     (let n = length (lp_messages l) in
      if n \<le> 6 then (Inr (), l)
      else (case me_summary env (lp_requests l) (take (n - 4) (lp_messages l)) of
              (Inl e, t) \<Rightarrow> (Inl e, l\<lparr>lp_requests := lp_requests l + 1, lp_clock := lp_clock l + t\<rparr>)
            | (Inr s, t) \<Rightarrow>
                (Inr (), emit ''context_compressed'' [(''summary_length'', JInt (int (str_len s)))]
                   (l\<lparr>lp_requests := lp_requests l + 1, lp_clock := lp_clock l + t,
                      lp_summaries := lp_summaries l @ [(n - 4, s)],
                      lp_messages := summary_note s @ drop (n - 4) (lp_messages l),
                      lp_context := lp_context l * 4 div 10\<rparr>))))"

section \<open>The loop\<close>

text \<open>\<open>context_tokens > CONTEXT_WINDOW * COMPRESS_THRESHOLD\<close>.\<close>

definition near_window :: "agent_loop \<Rightarrow> bool" where
  "near_window l = (160000 < lp_context l)"

text \<open>
  One pass of \<open>while True\<close>: an exception, the end, or another pass.
\<close>

datatype pass = Stop | Continue

definition loop_pass :: "model_env \<Rightarrow> nat \<Rightarrow> agent_loop \<Rightarrow> pass res \<times> agent_loop" where
  "loop_pass env cap l =
     (case over_limit l of
        Some reason \<Rightarrow> (Inr Stop, emit ''limit_reached'' [(''reason'', JStr reason)] l)
      | None \<Rightarrow>
          (case (if near_window l then compress_context env l else (Inr (), l)) of
             (Inl e, l1) \<Rightarrow> (Inl e, l1)
           | (Inr _, l1) \<Rightarrow>
               (case stream_turn env cap l1 of
                  (Inl e, l2) \<Rightarrow> (Inl e, l2)
                | (Inr (stop, new), l2) \<Rightarrow>
                    (let l3 = l2\<lparr>lp_messages := lp_messages l2 @ new\<rparr> in
                     if stop = ''end_turn'' then (Inr Stop, emit ''session_complete'' [] l3)
                     else if stop \<noteq> ''tool_use'' then (Inr Stop, l3)
                     else (Inr Continue, l3)))))"

text \<open>The loop with fuel; None when the fuel does not suffice.\<close>

fun run_passes :: "model_env \<Rightarrow> nat \<Rightarrow> nat \<Rightarrow> agent_loop \<Rightarrow> (unit res \<times> agent_loop) option" where
  "run_passes env cap 0 l = None"
| "run_passes env cap (Suc n) l =
     (case loop_pass env cap l of
        (Inl e, l') \<Rightarrow> Some (Inl e, l')
      | (Inr Stop, l') \<Rightarrow> Some (Inr (), l')
      | (Inr Continue, l') \<Rightarrow> run_passes env cap n l')"

definition begin_loop :: "string \<Rightarrow> agent_loop \<Rightarrow> agent_loop" where
  "begin_loop msg l =
     emit ''session_started'' [(''mode'', JStr (lp_mode l))]
       (l\<lparr>lp_messages := [user_text msg], lp_start := lp_clock l\<rparr>)"

definition loop_summary :: "agent_loop \<Rightarrow> dict" where
  "loop_summary l =
     [(''tool_call_count'', JInt (int (lp_calls l))), (''total_tokens'', JInt (lp_total l)),
      (''cache_read_tokens'', JInt (lp_cache_read l)), (''elapsed_seconds'', JInt (int (elapsed l))),
      (''findings'', JArr (ag_findings (lp_state l))),
      (''findings_count'', JInt (int (length (ag_findings (lp_state l))))), (''mode'', JStr (lp_mode l))]"

definition run_loop :: "model_env \<Rightarrow> nat \<Rightarrow> nat \<Rightarrow> string \<Rightarrow> agent_loop \<Rightarrow> (dict res \<times> agent_loop) option" where
  "run_loop env cap fuel msg l =
     (case run_passes env cap fuel (begin_loop msg l) of
        None \<Rightarrow> None
      | Some (Inl e, l') \<Rightarrow> Some (Inl e, l')
      | Some (Inr _, l') \<Rightarrow> Some (Inr (loop_summary l'), l'))"

definition send_user_message :: "model_env \<Rightarrow> nat \<Rightarrow> string \<Rightarrow> agent_loop \<Rightarrow> string res \<times> agent_loop" where
  "send_user_message env cap msg l =
     (case stream_turn env cap (l\<lparr>lp_messages := lp_messages l @ [user_text msg]\<rparr>) of
        (Inl e, l1) \<Rightarrow> (Inl e, l1)
      | (Inr (stop, new), l1) \<Rightarrow> (Inr stop, l1\<lparr>lp_messages := lp_messages l1 @ new\<rparr>))"

section \<open>The transcript\<close>

fun block_json :: "block \<Rightarrow> json" where
  "block_json (TextBlock t) = JObj [(''type'', JStr ''text''), (''text'', JStr t)]"
| "block_json (ToolUse i n d) = JObj [(''type'', JStr ''tool_use''), (''id'', JStr i), (''name'', JStr n), (''input'', JObj d)]"
| "block_json (ToolResult i t) = JObj [(''type'', JStr ''tool_result''), (''tool_use_id'', JStr i), (''content'', JStr t)]"

text \<open>\<open>_clean\<close> drops the cache markers, and every other key of that name.\<close>

fun clean_json :: "json \<Rightarrow> json" where
  "clean_json (JObj d) = JObj (map (\<lambda>(k, v). (k, clean_json v)) (filter (\<lambda>(k, v). k \<noteq> ''cache_control'') d))"
| "clean_json (JArr xs) = JArr (map clean_json xs)"
| "clean_json j = j"

definition message_json :: "message \<Rightarrow> json" where
  "message_json m = JObj
     [(''role'', JStr (case m_role m of User \<Rightarrow> ''user'' | Assistant \<Rightarrow> ''assistant'')),
      (''content'', case m_content m of Plain t \<Rightarrow> JStr t | Blocks bs \<Rightarrow> JArr (map (clean_json \<circ> block_json \<circ> fst) bs))]"

definition transcript :: "nat \<Rightarrow> agent_loop \<Rightarrow> json" where
  "transcript max_chars l =
     (let msgs = JArr (map message_json (lp_messages l)); s = json_dumps msgs; cut = max_chars < length s in
      JObj [(''messages'', if cut then JNull else msgs),
            (''tail_raw'', if cut then JStr (drop (length s - max_chars) s) else JNull),
            (''truncated'', JBool cut),
            (''compression_summaries'', JArr (map (\<lambda>(i, t). JObj [(''at_message_index'', JInt (int i)), (''summary'', JStr t)])
                                              (lp_summaries l)))])"

end
