(* ===== verification/Agent_Session.thy ===== *)
theory Agent_Session
  imports Agent_Loop
begin

text \<open>
  \<open>session_manager.py\<close> and \<open>consumers/session_requests.py\<close>: one AI session from its request to its last
  statement.  Between two statements of a session the other sessions and services may write the tables:
  \<open>sv_others n\<close> is what they do before the n-th statement.  UUIDs of the request are valid.  The generated
  event ids and the times of the events, the system prompt, the decrypted API key and the deployment manifest
  are left out; the opening texts for the model are a parameter where they carry no state.
\<close>

section \<open>State and environment\<close>

record session =
  sm_id :: string
  sm_run :: "string option"
  sm_sandbox :: "string option"
  sm_mode :: string
  sm_goal :: "string option"
  sm_exec :: string
  sm_selected :: "string list"
  sm_bootstrap :: bool
  sm_base :: "string option"
  sm_release :: string
  sm_by :: json
  sm_anvil :: json
  sm_node :: json
  sm_graphql :: json
  sm_network :: json
  sm_metadata :: json
  sm_events :: "json list"
  sm_stmt :: nat
  sm_state :: agent_state

record session_env =
  sv_others :: "nat \<Rightarrow> agent_state \<Rightarrow> agent_state"
  sv_now :: "nat \<Rightarrow> int"
  sv_vid :: "nat \<Rightarrow> string"
  sv_poll :: "nat \<Rightarrow> nat"                          \<comment> \<open>seconds that the k-th poll takes\<close>
  sv_logs :: "nat \<Rightarrow> (string \<times> string) list"       \<comment> \<open>new log lines at the k-th poll, at most 8\<close>
  sv_snapshot :: "string \<Rightarrow> string"                 \<comment> \<open>\<open>resolve_model_snapshot\<close>\<close>
  sv_params :: json
  sv_text :: "session \<Rightarrow> string"                    \<comment> \<open>the initial message of an autonomous session\<close>
  sv_model :: model_env

definition others :: "session_env \<Rightarrow> session \<Rightarrow> session" where
  "others env m = m\<lparr>sm_state := sv_others env (sm_stmt m) (sm_state m), sm_stmt := sm_stmt m + 1\<rparr>"

definition tables :: "session \<Rightarrow> ai_db" where "tables m = ag_db (sm_state m)"

definition set_tables :: "ai_db \<Rightarrow> session \<Rightarrow> session" where
  "set_tables db m = m\<lparr>sm_state := (sm_state m)\<lparr>ag_db := db\<rparr>\<rparr>"

text \<open>The request as \<open>create_session\<close> publishes it; a key that is not sent is None.\<close>

record session_msg =
  sq_id :: "string option"
  sq_run :: "string option"
  sq_sandbox :: "string option"
  sq_mode :: string
  sq_goal :: "string option"
  sq_exec :: "string option"
  sq_selected :: "string list option"
  sq_bootstrap :: bool
  sq_base :: "string option"
  sq_release :: "string option"

definition text_or :: "string option \<Rightarrow> string \<Rightarrow> string" where
  "text_or x d = (case x of None \<Rightarrow> d | Some s \<Rightarrow> if s = [] then d else s)"

definition session_of :: "string \<Rightarrow> session_msg \<Rightarrow> agent_state \<Rightarrow> session" where
  "session_of uuid q st =
     \<lparr>sm_id = text_or (sq_id q) uuid, sm_run = sq_run q, sm_sandbox = sq_sandbox q, sm_mode = sq_mode q, sm_goal = sq_goal q,
      sm_exec = text_or (sq_exec q) ''runner'', sm_selected = (case sq_selected q of None \<Rightarrow> [] | Some ts \<Rightarrow> ts),
      sm_bootstrap = sq_bootstrap q, sm_base = sq_base q, sm_release = text_or (sq_release q) ''unknown'', sm_by = JNull,
      sm_anvil = JInt 8545, sm_node = JInt 5004, sm_graphql = JInt 4000, sm_network = JNull, sm_metadata = JObj [],
      sm_events = [], sm_stmt = 0, sm_state = st\<rparr>"

section \<open>Events\<close>

definition event_names :: "(string \<times> string) list" where
  "event_names = [(''text_delta'', ''ai.token''), (''tool_call'', ''ai.tool_call''), (''tool_result'', ''ai.tool_result''),
     (''finding'', ''ai.finding''), (''verdict'', ''ai.verdict''), (''session_complete'', ''ai.completed''),
     (''limit_reached'', ''ai.limit_reached'')]"

definition payload_keys :: "(string \<times> string) list" where
  "payload_keys = [(''tool_name'', ''tool''), (''tool_input'', ''input''), (''tool_output'', ''result'')]"

definition renamed :: "(string \<times> string) list \<Rightarrow> string \<Rightarrow> string" where
  "renamed names k = (case map_of names k of None \<Rightarrow> k | Some k' \<Rightarrow> k')"

definition session_event :: "string \<Rightarrow> dict \<Rightarrow> session \<Rightarrow> session" where
  "session_event ty kvs m = m\<lparr>sm_events := sm_events m @
     [JObj [(''session_id'', JStr (sm_id m)), (''run_id'', null_or JStr (sm_run m)), (''service'', JStr ''ai-agent''),
            (''event_type'', JStr (renamed event_names ty)),
            (''payload'', JObj (map (\<lambda>(k, v). (renamed payload_keys k, v)) kvs))]]\<rparr>"

text \<open>\<open>on_event\<close> of the loop.\<close>

definition relay :: "json list \<Rightarrow> session \<Rightarrow> session" where
  "relay evs m = foldl (\<lambda>m e. session_event (py_str (get_or (as_dict e) ''type'' (JStr ''unknown'')))
                              (filter (\<lambda>(k, _). k \<noteq> ''type'') (as_dict e)) m) m evs"

section \<open>Budgets and schemas\<close>

definition manual :: "session \<Rightarrow> bool" where
  "manual m = (sm_exec m = ''ai_manual'' \<and> sm_selected m \<noteq> [])"

definition manual_max_calls :: "session \<Rightarrow> nat option" where
  "manual_max_calls m = (if manual m then Some (min 200 (max 60 (15 * length (sm_selected m) + 15))) else None)"

definition manual_max_duration :: "session \<Rightarrow> nat option" where
  "manual_max_duration m = (if manual m then Some (min 3600 (max 600 (180 * length (sm_selected m)))) else None)"

definition no_sandbox :: "session \<Rightarrow> bool" where
  "no_sandbox m = (case sm_sandbox m of None \<Rightarrow> True | Some s \<Rightarrow> s = [])"

definition excluded_tools :: "session \<Rightarrow> string list" where
  "excluded_tools m =
     (if sm_exec m = ''ai_manual'' then [''trigger_test''] else [])
     @ (if sm_bootstrap m \<or> \<not> no_sandbox m then [''provision_sandbox'', ''teardown_sandbox''] else [])"

section \<open>Reading the sandbox and the run\<close>

definition loaded_meta :: "json \<Rightarrow> json" where
  "loaded_meta v =
     (case py_or v (JObj []) of
        JStr s \<Rightarrow> (case json_loads s of Inl _ \<Rightarrow> JObj [] | Inr j \<Rightarrow> j)
      | j \<Rightarrow> j)"

definition load_ports :: "session_env \<Rightarrow> session \<Rightarrow> session" where
  "load_ports env m =
     (case sm_sandbox m of
        None \<Rightarrow> m
      | Some sid \<Rightarrow>
          if sid = [] then m
          else (let m1 = others env m in
                case find_sandbox (core (tables m1)) sid of
                  None \<Rightarrow> m1
                | Some r \<Rightarrow> m1\<lparr>sm_anvil := py_or (s_anvil_port r) (sm_anvil m1), sm_node := py_or (s_node_port r) (sm_node m1),
                              sm_graphql := py_or (s_graphql_port r) (sm_graphql m1),
                              sm_network := py_or (s_docker_network r) (sm_network m1),
                              sm_metadata := loaded_meta (s_metadata r)\<rparr>))"

definition default_model :: string where "default_model = ''claude-opus-4-6''"

definition load_model :: "session_env \<Rightarrow> session \<Rightarrow> string \<times> session" where
  "load_model env m =
     (let m1 = others env m in
      (case find_session (tables m1) (sm_id m) of
         None \<Rightarrow> default_model
       | Some s \<Rightarrow> text_or (sn_model s) default_model, m1))"

definition load_provenance :: "session_env \<Rightarrow> string \<Rightarrow> session \<Rightarrow> provenance \<times> session" where
  "load_provenance env model m =
     (let m1 = (case sm_run m of None \<Rightarrow> m | Some r \<Rightarrow> if r = [] then m else others env m);
          row = (case sm_run m of None \<Rightarrow> None | Some r \<Rightarrow> if r = [] then None else find_run (core (tables m1)) r);
          cv = get (as_dict (sm_metadata m)) ''contracts_version''
      in (\<lparr>pv_model = JStr model, pv_params = sv_params env,
           pv_release = Some (case row of None \<Rightarrow> sm_release m
                              | Some r \<Rightarrow> if r_release_tag r = [] then sm_release m else r_release_tag r),
           pv_image = (case row of None \<Rightarrow> None | Some r \<Rightarrow> Some (r_image_tag r)),
           pv_contracts = (if truthy cv then cv else JNull)\<rparr>, m1))"

section \<open>\<open>_save_session\<close>\<close>

text \<open>What the statement refuses: a NUL in a text or a JSON text, an integer out of range, an unknown mode.\<close>

definition save_refused :: "json \<Rightarrow> json option \<Rightarrow> int \<Rightarrow> int \<Rightarrow> session \<Rightarrow> bool" where
  "save_refused fnd tr calls toks m =
     (json_nul fnd \<or> (case tr of None \<Rightarrow> False | Some t \<Rightarrow> json_nul t)
      \<or> \<not> (- (2 ^ 31) \<le> calls \<and> calls < 2 ^ 31) \<or> \<not> (- (2 ^ 31) \<le> toks \<and> toks < 2 ^ 31)
      \<or> (case sm_goal m of None \<Rightarrow> False | Some g \<Rightarrow> CHR 0x00 \<in> set g) \<or> (\<exists>s\<in>set (sm_selected m). CHR 0x00 \<in> set s)
      \<or> sm_mode m \<notin> {''autonomous'', ''collaborative'', ''interactive''} \<or> sm_exec m \<notin> {''runner'', ''ai_manual''})"

definition wanted_tests :: "session \<Rightarrow> string list option" where
  "wanted_tests m = (if sm_selected m = [] then None else Some (sm_selected m))"

definition new_session_row :: "ai_status \<Rightarrow> int \<Rightarrow> json \<Rightarrow> json option \<Rightarrow> int \<Rightarrow> int \<Rightarrow> session \<Rightarrow> ai_session" where
  "new_session_row status now fnd tr calls toks m =
     \<lparr>sn_id = sm_id m, sn_run = sm_run m, sn_sandbox = sm_sandbox m, sn_mode = sm_mode m, sn_status = status,
      sn_goal = sm_goal m, sn_history = (case tr of None \<Rightarrow> JArr [] | Some t \<Rightarrow> jsonb t), sn_findings = jsonb fnd,
      sn_created_by = sm_by m, sn_created_at = now, sn_closed_at = None, sn_tokens = Some toks, sn_tool_calls = Some calls,
      sn_model = Some default_model, sn_exec_mode = sm_exec m, sn_selected = wanted_tests m\<rparr>"

definition saved_row :: "ai_status \<Rightarrow> int \<Rightarrow> json \<Rightarrow> json option \<Rightarrow> int \<Rightarrow> int \<Rightarrow> session \<Rightarrow> ai_session \<Rightarrow> ai_session" where
  "saved_row status now fnd tr calls toks m s =
     s\<lparr>sn_status := status, sn_findings := jsonb fnd,
       sn_history := (case tr of None \<Rightarrow> sn_history s | Some t \<Rightarrow> jsonb t),
       sn_tool_calls := Some calls, sn_tokens := Some toks, sn_exec_mode := sm_exec m,
       sn_selected := (case sn_selected s of None \<Rightarrow> wanted_tests m | Some ts \<Rightarrow> Some ts), sn_closed_at := Some now\<rparr>"

definition save_session ::
  "session_env \<Rightarrow> ai_status \<Rightarrow> int \<times> int \<Rightarrow> json option \<Rightarrow> session \<Rightarrow> unit res \<times> session" where
  "save_session env status counts tr m =
     (let (calls, toks) = counts; m1 = others env m; fnd = JArr (ag_findings (sm_state m)); db = tables m1;
          now = sv_now env (sm_stmt m)
      in if save_refused fnd tr calls toks m then (Inl DataError, m1)
         else (Inr (), set_tables
                 (if find_session db (sm_id m) = None
                  then db\<lparr>ai_sessions := ai_sessions db @ [new_session_row status now fnd tr calls toks m]\<rparr>
                  else update_session (sm_id m) (saved_row status now fnd tr calls toks m) db) m1))"

section \<open>\<open>_bootstrap_environment\<close>\<close>

fun box_status_str :: "sandbox_status \<Rightarrow> string" where
  "box_status_str SRequested = ''requested''"
| "box_status_str SQueued = ''queued''"
| "box_status_str SProvisioning = ''provisioning''"
| "box_status_str SReady = ''ready''"
| "box_status_str SRunning = ''running''"
| "box_status_str STeardown = ''teardown''"
| "box_status_str SClosed = ''closed''"
| "box_status_str SFailed = ''failed''"

text \<open>\<open>ORDER BY provisioned_at DESC NULLS LAST LIMIT 1\<close>.\<close>

definition newer :: "sandbox_row \<Rightarrow> sandbox_row \<Rightarrow> bool" where
  "newer a b = (case (s_provisioned_at a, s_provisioned_at b) of
     (Some x, Some y) \<Rightarrow> y < x | (Some _, None) \<Rightarrow> True | (None, _) \<Rightarrow> False)"

definition newest_box :: "db \<Rightarrow> string \<Rightarrow> sandbox_row option" where
  "newest_box db rid =
     foldl (\<lambda>best s. case best of None \<Rightarrow> Some s | Some b \<Rightarrow> if newer s b then Some s else Some b)
       None (filter (\<lambda>s. s_run_id s = rid) (sandboxes db))"

datatype boot = BootReady | BootAborted | BootFailed exc

definition RuntimeError :: "string \<Rightarrow> exc" where "RuntimeError t = Exc KRuntimeError t"

definition boot_ready :: "session_env \<Rightarrow> nat \<Rightarrow> sandbox_row \<Rightarrow> session \<Rightarrow> boot \<times> session" where
  "boot_ready env t b m =
     (let m1 = others env (m\<lparr>sm_sandbox := Some (s_id b)\<rparr>);
          m2 = set_tables (update_session (sm_id m) (\<lambda>s. s\<lparr>sn_sandbox := Some (s_id b), sn_status := AActive\<rparr>) (tables m1)) m1
      in case loaded_meta (s_metadata b) of
           JObj d \<Rightarrow> (BootReady, session_event ''bootstrap_ready''
                        [(''sandbox_id'', JStr (s_id b)), (''app_address'', get d ''app_address''), (''elapsed_s'', JInt (int t)),
                         (''message'', JStr (''Sandbox ready in '' @ nat_str t @ ''s '' @ u_emdash @ '' starting agent.''))] m2)
         | _ \<Rightarrow> (BootFailed AttributeError, m2))"

definition boot_progress :: "sandbox_row option \<Rightarrow> nat \<Rightarrow> dict" where
  "boot_progress box t =
     [(''sandbox_status'', JStr (case box of None \<Rightarrow> ''queued'' | Some b \<Rightarrow> box_status_str (s_status b))),
      (''sandbox_id'', null_or (\<lambda>b. JStr (s_id b)) box), (''elapsed_s'', JInt (int t))]"

definition is_aborted :: "ai_db \<Rightarrow> string \<Rightarrow> bool" where
  "is_aborted db sid = (case find_session db sid of None \<Rightarrow> False | Some s \<Rightarrow> sn_status s = AAborted)"

definition boot_poll ::
  "session_env \<Rightarrow> string \<Rightarrow> nat \<Rightarrow> nat \<Rightarrow> sandbox_status option \<Rightarrow> session \<Rightarrow> (boot option \<times> sandbox_status option) \<times> session" where
  "boot_poll env rid k t seen m =
     (let m1 = others env m in
      if is_aborted (tables m1) (sm_id m) then ((Some BootAborted, seen), m1)
      else
        (let box = newest_box (core (tables m1)) rid; status = map_option s_status box;
             m2 = foldl (\<lambda>m (src, msg). session_event ''bootstrap_log'' [(''source'', JStr src), (''message'', JStr (str_take 300 msg))] m)
                    m1 (sv_logs env k);
             m3 = (if status = seen then m2 else session_event ''bootstrap_progress'' (boot_progress box t) m2)
         in case box of
              None \<Rightarrow> ((None, status), m3)
            | Some b \<Rightarrow>
                if s_status b = SReady then (let (r, m4) = boot_ready env t b m3 in ((Some r, status), m4))
                else if s_status b = SFailed
                then ((Some (BootFailed (RuntimeError (''Sandbox provisioning failed: '' @
                         str_take 400 (text_or (s_failure_reason b) ''unknown'')))), status), m3)
                else ((None, status), m3)))"

definition boot_timeout :: nat where "boot_timeout = 900"

function boot_loop ::
  "session_env \<Rightarrow> string \<Rightarrow> nat \<Rightarrow> nat \<Rightarrow> sandbox_status option \<Rightarrow> session \<Rightarrow> boot \<times> session" where
  "boot_loop env rid k t seen m =
     (if t < boot_timeout
      then (case boot_poll env rid k (t + sv_poll env k) seen m of
              ((Some r, _), m') \<Rightarrow> (r, m')
            | ((None, status), m') \<Rightarrow> boot_loop env rid (Suc k) (t + sv_poll env k + 5) status m')
      else (BootFailed (RuntimeError (''Bootstrap timed out after '' @ nat_str boot_timeout @ ''s waiting for a ready sandbox'')), m))"
  by pat_completeness auto
termination by (relation "measure (\<lambda>(env, rid, k, t, seen, m). boot_timeout - t)") auto

declare boot_loop.simps [simp del]

definition bootstrap :: "session_env \<Rightarrow> session \<Rightarrow> boot \<times> session" where
  "bootstrap env m =
     (case sm_run m of
        None \<Rightarrow> (BootFailed (RuntimeError ''bootstrap requested but the session has no run_id''), m)
      | Some rid \<Rightarrow>
          if rid = [] then (BootFailed (RuntimeError ''bootstrap requested but the session has no run_id''), m)
          else boot_loop env rid 0 0 None
                 (session_event ''bootstrap_started''
                    [(''run_id'', JStr rid), (''release_tag'', JStr (sm_release m)),
                     (''message'', JStr (''Provisioning sandbox environment (contracts, tokens, node, app)'' @ u_ellipsis))] m))"

section \<open>The beginning that all modes share\<close>

text \<open>\<open>asyncio.CancelledError\<close> is not caught by \<open>except Exception\<close>.\<close>

definition CancelledError :: exc where "CancelledError = Exc KOtherError ''session aborted during bootstrap''"

definition session_loop :: "string option \<Rightarrow> nat option \<Rightarrow> nat option \<Rightarrow> provenance \<Rightarrow> session \<Rightarrow> agent_loop" where
  "session_loop sandbox calls secs prov m =
     \<lparr>lp_mode = sm_mode m, lp_max_calls = calls, lp_max_duration = secs,
      lp_executor = \<lparr>ex_session = Some (sm_id m), ex_sandbox = sandbox, ex_provenance = prov\<rparr>, lp_messages = [],
      lp_summaries = [], lp_calls = 0, lp_total = 0, lp_cache_read = 0, lp_context = 0, lp_start = 0, lp_clock = 0,
      lp_requests = 0, lp_events = [], lp_state = (sm_state m)\<lparr>ag_slug := JNull\<rparr>\<rparr>"

definition booted :: "session_env \<Rightarrow> session \<Rightarrow> unit res \<times> session" where
  "booted env m =
     (if sm_bootstrap m \<and> no_sandbox m
      then (case bootstrap env m of
              (BootReady, m1) \<Rightarrow> (Inr (), m1)
            | (BootAborted, m1) \<Rightarrow> (Inl CancelledError, m1)
            | (BootFailed e, m1) \<Rightarrow>
                (case save_session env AFailed (0, 0) None m1 of
                   (Inl e', m2) \<Rightarrow> (Inl e', m2)
                 | (Inr _, m2) \<Rightarrow>
                     (Inl e, session_event ''session_failed'' [(''error'', JStr (str_take 500 (''bootstrap: '' @ exc_str e)))] m2)))
      else (Inr (), m))"

definition prepare :: "session_env \<Rightarrow> bool \<Rightarrow> session \<Rightarrow> agent_loop res \<times> session" where
  "prepare env budgeted m =
     (case booted env (m\<lparr>sm_state := (sm_state m)\<lparr>ag_findings := []\<rparr>\<rparr>) of
        (Inl e, m1) \<Rightarrow> (Inl e, m1)
      | (Inr _, m1) \<Rightarrow>
          (let m2 = load_ports env m1; (model, m3) = load_model env m2;
               (prov, m4) = load_provenance env (sv_snapshot env model) m3
           in case save_session env AActive (0, 0) None m4 of
                (Inl e, m5) \<Rightarrow> (Inl e, m5)
              | (Inr _, m5) \<Rightarrow>
                  (Inr (session_loop (sm_sandbox m5) (if budgeted then manual_max_calls m5 else None)
                          (if budgeted then manual_max_duration m5 else None) prov m5), m5)))"

section \<open>Autonomous sessions\<close>

definition block_missing :: "session_env \<Rightarrow> session \<Rightarrow> session" where
  "block_missing env m =
     (let m1 = (if manual m then others env m else m); db = tables m1;
          (db', n) = record_missing (sv_now env (sm_stmt m)) (sv_vid env) (sm_id m) (sm_sandbox m)
                       (sm_exec m = ''ai_manual'') (sm_selected m) db
      in foldl (\<lambda>m slug. session_event ''verdict''
                  [(''definition_slug'', JStr slug), (''verdict'', JStr ''blocked''),
                   (''reasoning'', JStr ''Auto-recorded: session ended before this test was reached.'')] m)
           (set_tables db' m1) (take n (missing_tests db (sm_id m) (sm_selected m))))"

definition after_loop :: "agent_loop \<Rightarrow> session \<Rightarrow> session" where
  "after_loop l m = relay (lp_events l) (m\<lparr>sm_state := lp_state l\<rparr>)"

definition loop_counts :: "agent_loop \<Rightarrow> int \<times> int" where
  "loop_counts l = (int (lp_calls l), lp_total l)"

definition transcript_of :: "agent_loop \<Rightarrow> json" where
  "transcript_of l = transcript 400000 l"

definition end_autonomous :: "session_env \<Rightarrow> dict res \<Rightarrow> agent_loop \<Rightarrow> session \<Rightarrow> dict res \<times> session" where
  "end_autonomous env r l m =
     (let m1 = block_missing env (after_loop l m);
          status = (case r of Inl _ \<Rightarrow> AFailed | Inr _ \<Rightarrow> ACompleted)
      in case save_session env status (loop_counts l) (Some (transcript_of l)) m1 of
           (Inl e, m2) \<Rightarrow> (Inl e, m2)
         | (Inr _, m2) \<Rightarrow>
             (r, case r of
                   Inl e \<Rightarrow> session_event ''session_failed'' [(''error'', JStr (str_take 500 (exc_str e)))] m2
                 | Inr d \<Rightarrow> session_event ''session_completed''
                     [(''total_tokens'', get d ''total_tokens''), (''tool_call_count'', get d ''tool_call_count''),
                      (''findings_count'', get d ''findings_count'')] m2))"

definition run_autonomous :: "session_env \<Rightarrow> nat \<Rightarrow> nat \<Rightarrow> session \<Rightarrow> (dict res \<times> session) option" where
  "run_autonomous env cap fuel m =
     (case prepare env True m of
        (Inl e, m1) \<Rightarrow> Some (Inl e, m1)
      | (Inr l, m1) \<Rightarrow>
          (case run_loop (sv_model env) cap fuel (sv_text env m1) l of
             None \<Rightarrow> None
           | Some (r, l') \<Rightarrow> Some (end_autonomous env r l' m1)))"

section \<open>Collaborative and interactive sessions\<close>

text \<open>What the queue of the session gives: a message, or nothing for an hour; the end of the list is silence.\<close>

datatype user_input = Said string | Silence

fun chat :: "model_env \<Rightarrow> nat \<Rightarrow> user_input list \<Rightarrow> agent_loop \<Rightarrow> unit res \<times> agent_loop" where
  "chat env cap [] l = (Inr (), l)"
| "chat env cap (Silence # us) l = (Inr (), l)"
| "chat env cap (Said t # us) l =
     (if t \<in> {''__done__'', ''__timeout__''} then (Inr (), l)
      else (case send_user_message env cap t l of
              (Inl e, l1) \<Rightarrow> (Inl e, l1)
            | (Inr _, l1) \<Rightarrow> chat env cap us l1))"

definition kickoff :: "session \<Rightarrow> string" where
  "kickoff m = ''I'' @ squote @ ''d like to work with you on validating release '' @ sm_release m @ ''. '' @
     (case sm_base m of
        None \<Rightarrow> ''Let'' @ squote @ ''s start with an overview of what we should test.''
      | Some b \<Rightarrow> if b = [] then ''Let'' @ squote @ ''s start with an overview of what we should test.''
                  else ''Start from the test: `'' @ b @ ''`.'')"

definition chat_summary :: "agent_loop \<Rightarrow> dict" where
  "chat_summary l =
     [(''tool_call_count'', JInt (int (lp_calls l))), (''total_tokens'', JInt (lp_total l)),
      (''findings'', JArr (ag_findings (lp_state l))), (''findings_count'', JInt (int (length (ag_findings (lp_state l)))))]"

definition end_chat :: "session_env \<Rightarrow> unit res \<Rightarrow> agent_loop \<Rightarrow> session \<Rightarrow> dict res \<times> session" where
  "end_chat env r l m =
     (let m1 = after_loop l m in
      case r of
        Inl e \<Rightarrow> (Inl e, m1)
      | Inr _ \<Rightarrow>
          (case save_session env ACompleted (loop_counts l) (Some (transcript_of l)) m1 of
             (Inl e, m2) \<Rightarrow> (Inl e, m2)
           | (Inr _, m2) \<Rightarrow> (Inr (chat_summary l), session_event ''session_completed'' (chat_summary l) m2)))"

definition run_collaborative :: "session_env \<Rightarrow> nat \<Rightarrow> user_input list \<Rightarrow> session \<Rightarrow> dict res \<times> session" where
  "run_collaborative env cap us m =
     (case prepare env False m of
        (Inl e, m1) \<Rightarrow> (Inl e, m1)
      | (Inr l, m1) \<Rightarrow>
          (case send_user_message (sv_model env) cap (kickoff m1) l of
             (Inl e, l1) \<Rightarrow> end_chat env (Inl e) l1 m1
           | (Inr _, l1) \<Rightarrow> (let (r, l2) = chat (sv_model env) cap us l1 in end_chat env r l2 m1)))"

definition run_interactive :: "session_env \<Rightarrow> nat \<Rightarrow> user_input list \<Rightarrow> session \<Rightarrow> dict res \<times> session" where
  "run_interactive env cap us m =
     (case prepare env False m of
        (Inl e, m1) \<Rightarrow> (Inl e, m1)
      | (Inr l, m1) \<Rightarrow>
          (let (r, l1) = chat (sv_model env) cap us l
           in end_chat env r l1 (session_event ''session_started''
                 [(''message'', JStr ''Interactive session ready. Type a command or ask a question.'')] m1)))"

section \<open>The consumer of \<open>ai.requests\<close>\<close>

text \<open>The live sessions with the messages that wait for them.  A request starts a task, or finds no mode.\<close>

datatype ai_message = NewSession session_msg | UserMessage string string

type_synonym live = "(string \<times> string list) list"

definition deliver_text :: "string \<Rightarrow> string \<Rightarrow> live \<Rightarrow> live" where
  "deliver_text sid t live = map (\<lambda>(k, q). if k = sid then (k, q @ [t]) else (k, q)) live"

definition open_queue :: "string \<Rightarrow> live \<Rightarrow> live" where
  "open_queue sid live = (sid, []) # filter (\<lambda>(k, _). k \<noteq> sid) live"

definition close_queue :: "string \<Rightarrow> live \<Rightarrow> live" where
  "close_queue sid live = filter (\<lambda>(k, _). k \<noteq> sid) live"

definition handle_request :: "string \<Rightarrow> ai_message \<Rightarrow> agent_state \<Rightarrow> live \<Rightarrow> session option \<times> live" where
  "handle_request uuid msg st live =
     (case msg of
        UserMessage sid t \<Rightarrow> (None, deliver_text sid t live)
      | NewSession q \<Rightarrow>
          (let m = session_of uuid q st in
           if sm_mode m = ''autonomous'' then (Some m, live)
           else if sm_mode m \<in> {''collaborative'', ''interactive''} then (Some m, open_queue (sm_id m) live)
           else (None, live)))"

definition run_session :: "session_env \<Rightarrow> nat \<Rightarrow> nat \<Rightarrow> user_input list \<Rightarrow> session \<Rightarrow> (dict res \<times> session) option" where
  "run_session env cap fuel us m =
     (if sm_mode m = ''autonomous'' then run_autonomous env cap fuel m
      else if sm_mode m = ''collaborative'' then Some (run_collaborative env cap us m)
      else Some (run_interactive env cap us m))"

end
