(* ===== verification/Sessions_Api.thy ===== *)
theory Sessions_Api
  imports Runs_Api Agent_Session
begin

text \<open>
  \<open>services/orchestrator/api/routes/sessions.py\<close>: creating, reading, cancelling and talking to AI sessions.
  A request arrives as its validated fields (the literals of the mode and of the execution mode, the length
  of the key).  The run tables are those of \<open>o_db\<close>; the \<open>ai\<close> tables are an \<open>ai_db\<close>, whose \<open>core\<close> is not read
  here.  \<open>up_run\<close> and \<open>up_ai\<close> say whether the broker accepts the two requests; the encryption of a key is an
  argument that may raise.  The list of suggestions and the serialisation of tools, verdicts and plans are
  left out.
\<close>

section \<open>Creating a session\<close>

record session_body =
  sb_mode :: string
  sb_run :: "string option"
  sb_sandbox :: "string option"
  sb_goal :: "string option"
  sb_exec :: string
  sb_selected :: "string list option"
  sb_phases :: "string list option"
  sb_bootstrap :: bool
  sb_key :: "string option"
  sb_model :: string

definition allowed_models :: "string list" where
  "allowed_models = [''claude-haiku-4-5-20251001'', ''claude-opus-4-6'', ''claude-sonnet-4-6'']"

definition bootstrap_release_tag :: string where "bootstrap_release_tag = ''v2.0.0-alpha.11''"
definition bootstrap_image_tag :: string where "bootstrap_image_tag = ''cartesi/rollups-runtime:0.12.0-alpha.39''"
definition manual_max_phases :: nat where "manual_max_phases = 2"

definition list_repr :: "string list \<Rightarrow> string" where
  "list_repr xs = ''['' @ join '', '' (map str_repr xs) @ '']''"

definition refuse :: "string \<Rightarrow> 'a api" where "refuse t = Inl (HTTPError 422 t)"

definition no_target :: "session_body \<Rightarrow> bool" where
  "no_target body = (given (sb_sandbox body) = None \<and> \<not> sb_bootstrap body)"

definition stripped :: "string list option \<Rightarrow> string list" where
  \<comment> \<open>\<open>[s.strip() for s in (xs or []) if s and s.strip()]\<close>\<close>
  "stripped xs = (case xs of None \<Rightarrow> [] | Some ys \<Rightarrow> filter (\<lambda>s. s \<noteq> []) (map strip ys))"

text \<open>The runnable tests of some phases; \<open>ORDER BY phase, slug\<close> in the order of bytes.\<close>

definition before_def :: "ai_def_row \<Rightarrow> ai_def_row \<Rightarrow> bool" where
  "before_def d e =
     (let p = text_or (d_phase d) []; q = text_or (d_phase e) []
      in bytes_less p q \<or> p = q \<and> bytes_less (d_slug d) (d_slug e))"

definition phase_tests :: "ai_db \<Rightarrow> string list \<Rightarrow> ai_def_row list" where
  "phase_tests db phases =
     sort_by before_def
       (filter (\<lambda>d. (case d_phase d of None \<Rightarrow> False | Some p \<Rightarrow> p \<in> set phases) \<and> d_active d \<and> d_ai_allowed d) (ai_defs db))"

definition select_phases :: "ai_db \<Rightarrow> string list \<Rightarrow> string list \<Rightarrow> string list api" where
  "select_phases db phases selected =
     (if manual_max_phases < length phases
      then refuse (''At most '' @ nat_str manual_max_phases @ '' phases per manual session (got '' @ nat_str (length phases)
                   @ '') '' @ u_emdash @ '' split across sessions'')
      else if phases = [] then Inr selected
      else
        (let rows = phase_tests db phases;
             missing = filter (\<lambda>p. Some p \<notin> set (map d_phase rows)) phases
         in if missing \<noteq> [] then refuse (''No ai-runnable tests in phases: '' @ list_repr missing)
            else Inr (if selected = [] then map d_slug rows else selected)))"

definition check_slugs :: "ai_db \<Rightarrow> string list \<Rightarrow> string list api" where
  "check_slugs db selected =
     (let unknown = filter (\<lambda>s. find_ai_def db s = None) selected;
          denied = filter (\<lambda>s. case find_ai_def db s of None \<Rightarrow> False | Some d \<Rightarrow> \<not> d_ai_allowed d) selected
      in if unknown \<noteq> [] then refuse (''Unknown test slugs: '' @ list_repr unknown)
         else if denied \<noteq> [] then refuse (''Tests not ai_allowed: '' @ list_repr denied)
         else Inr selected)"

text \<open>The checks of the request; the selected tests when it passes.\<close>

definition check_session :: "ai_db \<Rightarrow> session_body \<Rightarrow> string list api" where
  "check_session db body =
     (let selected = stripped (sb_selected body); phases = stripped (sb_phases body) in
      if sb_model body \<notin> set allowed_models then refuse (''model_id must be one of '' @ list_repr allowed_models)
      else if sb_mode body = ''autonomous'' \<and> no_target body
      then refuse ''autonomous mode requires sandbox_id (or bootstrap: true)''
      else if sb_mode body = ''autonomous'' \<and> sb_exec body = ''runner''
              \<and> (case sb_goal body of None \<Rightarrow> True | Some g \<Rightarrow> strip g = [])
      then refuse ''autonomous mode requires a non-empty goal''
      else if sb_exec body \<noteq> ''ai_manual'' then Inr selected
      else if no_target body then refuse ''ai_manual execution requires sandbox_id (or bootstrap: true)''
      else api_bind (select_phases db phases selected) (\<lambda>chosen.
           if chosen = [] then refuse ''ai_manual execution requires selected_tests or selected_phases''
           else check_slugs db chosen))"

definition bootstrap_body :: trigger_body where
  "bootstrap_body =
     \<lparr>tr_release_tag = bootstrap_release_tag, tr_image_tag = bootstrap_image_tag, tr_suite_ids = None, tr_run_tags = None,
      tr_category_filter = None, tr_priority = 8, tr_triggered_by = ''user'', tr_user = Some ''ai-session-bootstrap'',
      tr_app_id = None, tr_sdk = None, tr_cli = None, tr_node_major = None\<rparr>"

definition tag_run :: "string \<Rightarrow> string \<Rightarrow> orch \<Rightarrow> orch" where
  "tag_run rid sid s = s\<lparr>o_db := update_run rid (\<lambda>r. r\<lparr>r_metadata :=
     meta_merge (meta_merge (r_metadata r) ''ai_session'' (JBool True)) ''session_id'' (JStr sid)\<rparr>) (o_db s)\<rparr>"

definition wants_bootstrap :: "session_body \<Rightarrow> bool" where
  "wants_bootstrap body = (sb_bootstrap body \<and> given (sb_sandbox body) = None)"

text \<open>The provisioning run of a bootstrap: its id and the state after it.\<close>

definition bootstrap_run :: "bool \<Rightarrow> (nat \<Rightarrow> string) \<Rightarrow> string \<Rightarrow> int \<Rightarrow> session_body \<Rightarrow> orch \<Rightarrow> string option api \<times> orch" where
  "bootstrap_run up eid sid now body s =
     (if wants_bootstrap body
      then (case trigger_run up eid now bootstrap_body s of
              (Inl e, s1) \<Rightarrow> (Inl e, s1)
            | (Inr run, s1) \<Rightarrow> (Inr (Some (r_id run)), tag_run (r_id run) sid s1))
      else (Inr (sb_run body), s))"

text \<open>A parameter of a UUID column.\<close>

definition uuid_param :: "string option \<Rightarrow> string option api" where
  "uuid_param x = (case x of None \<Rightarrow> Inr None | Some t \<Rightarrow>
     (case uuid_of t of None \<Rightarrow> Inl (Crash SqlError) | Some k \<Rightarrow> Inr (Some k)))"

definition created_row :: "string \<Rightarrow> int \<Rightarrow> string option \<Rightarrow> string list \<Rightarrow> session_body \<Rightarrow> ai_session api" where
  "created_row sid now run selected body =
     api_bind (uuid_param run) (\<lambda>r. api_bind (uuid_param (sb_sandbox body)) (\<lambda>b.
     if (case sb_goal body of None \<Rightarrow> False | Some g \<Rightarrow> CHR 0x00 \<in> set g) \<or> (\<exists>t\<in>set selected. CHR 0x00 \<in> set t)
     then Inl (Crash SqlError)
     else Inr \<lparr>sn_id = sid, sn_run = r, sn_sandbox = b, sn_mode = sb_mode body,
               sn_status = (if wants_bootstrap body then AStarting else AActive), sn_goal = sb_goal body,
               sn_history = JArr [], sn_findings = JArr [], sn_created_by = JNull, sn_created_at = now, sn_closed_at = None,
               sn_tokens = None, sn_tool_calls = Some 0, sn_model = Some (sb_model body), sn_exec_mode = sb_exec body,
               sn_selected = (if selected = [] then None else Some selected)\<rparr>))"

definition session_request :: "string \<Rightarrow> string option \<Rightarrow> string list \<Rightarrow> session_body \<Rightarrow> session_msg" where
  "session_request sid run selected body =
     \<lparr>sq_id = Some sid, sq_run = run, sq_sandbox = sb_sandbox body, sq_mode = sb_mode body, sq_goal = sb_goal body,
      sq_exec = Some (sb_exec body), sq_selected = Some selected, sq_bootstrap = wants_bootstrap body, sq_base = None,
      sq_release = (if wants_bootstrap body then Some bootstrap_release_tag else None)\<rparr>"

definition created_event :: "string \<Rightarrow> string \<Rightarrow> int \<Rightarrow> session_body \<Rightarrow> json" where
  "created_event eid sid now body = JObj
     [(''event_id'', JStr eid), (''session_id'', JStr sid), (''run_id'', opt_json (sb_run body)),
      (''service'', JStr ''orchestrator''), (''ts'', JStr (isoformat now)), (''event_type'', JStr ''ai.session_created''),
      (''payload'', JObj [(''mode'', JStr (sb_mode body)), (''goal'', opt_json (sb_goal body)), (''model'', JStr (sb_model body)),
                        (''execution_mode'', JStr (sb_exec body))])]"

text \<open>
  The state of the route: the run side, the \<open>ai\<close> tables and the queue \<open>ai.requests\<close>.
\<close>

record session_sys =
  sy_orch :: orch
  sy_ai :: ai_db
  sy_requests :: "ai_message list"

definition create_session ::
  "(string \<Rightarrow> unit res) \<Rightarrow> bool \<Rightarrow> bool \<Rightarrow> (nat \<Rightarrow> string) \<Rightarrow> int \<Rightarrow> session_body \<Rightarrow> session_sys \<Rightarrow> session_msg api \<times> session_sys" where
  "create_session encrypt up_run up_ai eid now body y =
     (case check_session (sy_ai y) body of
        Inl e \<Rightarrow> (Inl e, y)
      | Inr selected \<Rightarrow>
          (case (case given (sb_key body) of None \<Rightarrow> Inr () | Some k \<Rightarrow> encrypt k) of
             Inl e \<Rightarrow> (Inl (if exc_kind e = KRuntimeError then HTTPError 500 (exc_str e) else Crash e), y)
           | Inr _ \<Rightarrow>
               (case bootstrap_run up_run (\<lambda>i. eid (i + 1)) (eid 0) now body (sy_orch y) of
                  (Inl e, s1) \<Rightarrow> (Inl e, y\<lparr>sy_orch := s1\<rparr>)
                | (Inr run, s1) \<Rightarrow>
                    (case created_row (eid 0) now run selected body of
                       Inl e \<Rightarrow> (Inl e, y\<lparr>sy_orch := s1\<rparr>)
                     | Inr row \<Rightarrow>
                         (let y1 = y\<lparr>sy_orch := s1, sy_ai := (sy_ai y)\<lparr>ai_sessions := ai_sessions (sy_ai y) @ [row]\<rparr>\<rparr>;
                              q = session_request (eid 0) run selected body
                          in if \<not> up_ai then (Inl (Crash (Exc KOtherError ''AMQPConnectionError'')), y1)
                             else (Inr q, y1\<lparr>sy_requests := sy_requests y1 @ [NewSession q],
                                            sy_orch := publish_live (created_event (eid 3) (eid 0) now body) s1\<rparr>))))))"

section \<open>Reading, talking to and cancelling a session\<close>

definition session_at :: "string \<Rightarrow> ai_db \<Rightarrow> ai_session api" where
  "session_at x db =
     (case uuid_of x of
        None \<Rightarrow> Inl (Crash SqlError)
      | Some k \<Rightarrow> (case find_session db k of None \<Rightarrow> Inl (HTTPError 404 ''Session not found'') | Some s \<Rightarrow> Inr s))"

fun ai_status_str :: "ai_status \<Rightarrow> string" where
  "ai_status_str AStarting = ''starting''"
| "ai_status_str AActive = ''active''"
| "ai_status_str APaused = ''paused''"
| "ai_status_str ACompleted = ''completed''"
| "ai_status_str AFailed = ''failed''"
| "ai_status_str AAborted = ''aborted''"

definition count_or_0 :: "int option \<Rightarrow> json" where
  "count_or_0 x = JInt (case x of None \<Rightarrow> 0 | Some n \<Rightarrow> n)"

definition session_json :: "ai_session \<Rightarrow> dict" where
  "session_json s =
     [(''session_id'', JStr (sn_id s)), (''run_id'', opt_json (sn_run s)), (''sandbox_id'', opt_json (sn_sandbox s)),
      (''mode'', JStr (sn_mode s)), (''status'', JStr (ai_status_str (sn_status s))), (''goal'', opt_json (sn_goal s)),
      (''execution_mode'', JStr (text_or (Some (sn_exec_mode s)) ''runner'')),
      (''selected_tests'', JArr (map JStr (case sn_selected s of None \<Rightarrow> [] | Some ts \<Rightarrow> ts))),
      (''model'', JStr (text_or (sn_model s) default_model)), (''tool_calls_used'', count_or_0 (sn_tool_calls s)),
      (''input_tokens'', count_or_0 (sn_tokens s)), (''output_tokens'', JInt 0),
      (''findings'', py_or (sn_findings s) (JArr [])), (''created_at'', JStr (isoformat (sn_created_at s))),
      (''completed_at'', null_or (\<lambda>t. JStr (isoformat t)) (sn_closed_at s))]"

definition get_session :: "string \<Rightarrow> ai_db \<Rightarrow> dict api" where
  "get_session x db = api_bind (session_at x db) (\<lambda>s. Inr (session_json s))"

definition list_sessions :: "int \<Rightarrow> int \<Rightarrow> ai_db \<Rightarrow> (dict list \<times> nat) api" where
  "list_sessions page per db =
     (let off = (page - 1) * per in
      if per < 0 \<or> off < 0 then Inl (Crash SqlError)
      else Inr (map session_json (take (nat per) (drop (nat off) (sort_key (\<lambda>s. - sn_created_at s) (ai_sessions db)))),
                length (ai_sessions db)))"

definition send_message :: "bool \<Rightarrow> string \<Rightarrow> string \<Rightarrow> session_sys \<Rightarrow> unit api \<times> session_sys" where
  "send_message up x t y =
     (case session_at x (sy_ai y) of
        Inl e \<Rightarrow> (Inl e, y)
      | Inr s \<Rightarrow>
          if sn_status s \<noteq> AActive then (Inl (HTTPError 409 ''Session is not active''), y)
          else if sn_mode s \<notin> {''collaborative'', ''interactive''}
          then (Inl (HTTPError 409 ''Message injection only supported for collaborative/interactive sessions''), y)
          else if \<not> up then (Inl (Crash (Exc KOtherError ''AMQPConnectionError'')), y)
          else (Inr (), y\<lparr>sy_requests := sy_requests y @ [UserMessage x t]\<rparr>))"

definition cancel_session :: "int \<Rightarrow> string \<Rightarrow> ai_db \<Rightarrow> unit api \<times> ai_db" where
  "cancel_session now x db =
     (case uuid_of x of
        None \<Rightarrow> (Inl (Crash SqlError), db)
      | Some k \<Rightarrow>
          (case find_session db k of
             Some s \<Rightarrow>
               if sn_status s \<in> {AStarting, AActive}
               then (Inr (), update_session k (\<lambda>s. s\<lparr>sn_status := AAborted, sn_closed_at := Some now\<rparr>) db)
               else (Inl (HTTPError 404 ''Active session not found''), db)
           | None \<Rightarrow> (Inl (HTTPError 404 ''Active session not found''), db)))"

end
