(* ===== verification/Run_Lifecycle.thy ===== *)
theory Run_Lifecycle
  imports Runs_Api_Spec Test_Results_Spec Sessions_Api
begin

text \<open>
  The orchestrator as one system: its consumers and its API as steps on the shared tables, in any order,
  and the life of one run as an automaton that they implement.

  Every step is one transaction.  The consumers of sandbox events and of results handle one message at a
  time, each a program counter (\<open>event_pc\<close>, \<open>result_pc\<close>); cancelling checks and writes without a lock
  (\<open>cancel_check\<close>, \<open>cancel_write\<close>), so the checked and not yet written cancellations are part of the state.
  The transactions that insert a run may have looked at the tables long before.
\<close>

record orch_sys =
  sys_orch :: orch
  sys_event :: "((nat \<Rightarrow> string) \<times> dict \<times> event_pc) option"  \<comment> \<open>the sandbox event in hand\<close>
  sys_result :: "(dict \<times> result_pc) option"                \<comment> \<open>the result in hand\<close>
  sys_cancelling :: "string set"

inductive orch_step :: "orch_sys \<Rightarrow> orch_sys \<Rightarrow> bool" where
  take_event: "sys_event y = None \<Longrightarrow> orch_step y (y\<lparr>sys_event := Some (eid, msg, EvCheck)\<rparr>)"
| by_event: "sys_event y = Some (eid, msg, pc) \<Longrightarrow> event_step row_ok eid now msg pc (sys_orch y) = (pc', s)
    \<Longrightarrow> orch_step y (y\<lparr>sys_orch := s, sys_event := Some (eid, msg, pc')\<rparr>)"
| ack_event: "sys_event y = Some (eid, msg, EvDone r) \<Longrightarrow> orch_step y (y\<lparr>sys_event := None\<rparr>)"
| take_result: "sys_result y = None \<Longrightarrow> orch_step y (y\<lparr>sys_result := Some (msg, ReCount)\<rparr>)"
| by_result: "sys_result y = Some (msg, pc) \<Longrightarrow> result_step le c w now msg pc (sys_orch y) = (pc', rep, s)
    \<Longrightarrow> orch_step y (y\<lparr>sys_orch := s, sys_result := Some (msg, pc')\<rparr>)"
| ack_result: "sys_result y = Some (msg, ReDone) \<Longrightarrow> orch_step y (y\<lparr>sys_result := None\<rparr>)"
| by_release: "orch_step y (y\<lparr>sys_orch := snd (create_release_run eid now tag url (sys_orch y))\<rparr>)"
| by_trigger: "orch_step y (y\<lparr>sys_orch := snd (insert_run (triggered_run rid now body app suites)
                                               (triggered_event rid now body app) (sys_orch y))\<rparr>)"
| by_check: "cancel_check x (o_db (sys_orch y)) = Inr rid
    \<Longrightarrow> orch_step y (y\<lparr>sys_cancelling := insert rid (sys_cancelling y)\<rparr>)"
| by_cancel: "rid \<in> sys_cancelling y
    \<Longrightarrow> orch_step y (y\<lparr>sys_orch := cancel_write now rid (sys_orch y), sys_cancelling := sys_cancelling y - {rid}\<rparr>)"
| by_session: "orch_step y (y\<lparr>sys_orch := tag_run rid sid (sys_orch y)\<rparr>)"
| by_manager: \<comment> \<open>the sandbox manager notes the application's address\<close>
    "orch_step y (y\<lparr>sys_orch := (sys_orch y)\<lparr>o_db := update_run rid (\<lambda>r. r\<lparr>r_app_address := addr\<rparr>) (o_db (sys_orch y))\<rparr>\<rparr>)"
| by_others: \<comment> \<open>queues, and the tables other than the runs\<close>
    "runs (o_db s) = runs (o_db (sys_orch y)) \<Longrightarrow> orch_step y (y\<lparr>sys_orch := s\<rparr>)"

section \<open>The life of a run\<close>

text \<open>
  The automaton on two components: the status of one run, None before it exists, and the status that an
  event owes it which found the run not cancelled and has not written yet.
\<close>

inductive moves :: "run_status option \<Rightarrow> run_status option \<Rightarrow> bool" where
  stays: "moves q q"
| created: "moves None (Some RQueued)"
| verdict: "st \<in> {RCompleted, RWarning, RFailed} \<Longrightarrow> moves (Some RRunning) (Some st)"
| cancelled: "moves (Some st) (Some RCancelled)"

inductive life :: "run_status option \<times> run_status option \<Rightarrow> run_status option \<times> run_status option \<Rightarrow> bool" where
  moved: "moves q q' \<Longrightarrow> life (q, owes) (q', owes)"
| checked: "q \<noteq> Some RCancelled \<Longrightarrow> st \<in> {RRunning, RFailed} \<Longrightarrow> life (q, None) (q, Some st)"
| written: "life (q, Some st) (map_option (\<lambda>_. st) q, None)"

text \<open>What never changes about a run, and the abstraction of a state.\<close>

definition run_core :: "run_row \<Rightarrow> string \<times> string \<times> string list \<times> int \<times> string \<times> string option \<times> int \<times> string option" where
  "run_core r = (r_release_tag r, r_image_tag r, r_suite_ids r, r_priority r, r_triggered_by r,
                 r_triggered_by_user r, r_queued_at r, r_app_id r)"

definition status_of :: "string \<Rightarrow> orch \<Rightarrow> run_status option" where
  "status_of rid s = map_option r_status (find_run (o_db s) rid)"

definition owed_by :: "string \<Rightarrow> dict \<Rightarrow> event_pc \<Rightarrow> run_status option" where
  "owed_by rid msg pc =
     (if pc = EvEffect \<and> get msg ''run_id'' = JStr rid
      then (if get msg ''event_type'' = JStr ''ready'' then Some RRunning
            else if get msg ''event_type'' = JStr ''failed'' then Some RFailed else None)
      else None)"

definition owed :: "string \<Rightarrow> orch_sys \<Rightarrow> run_status option" where
  "owed rid y = (case sys_event y of None \<Rightarrow> None | Some (eid, msg, pc) \<Rightarrow> owed_by rid msg pc)"

definition life_of :: "string \<Rightarrow> orch_sys \<Rightarrow> run_status option \<times> run_status option" where
  "life_of rid y = (status_of rid (sys_orch y), owed rid y)"

definition keeps_core :: "string \<Rightarrow> orch \<Rightarrow> orch \<Rightarrow> bool" where
  "keeps_core rid s s' = (\<forall>r. find_run (o_db s) rid = Some r \<longrightarrow>
                            (\<exists>r'. find_run (o_db s') rid = Some r' \<and> run_core r' = run_core r))"

definition lives :: "string \<Rightarrow> orch \<Rightarrow> orch \<Rightarrow> bool" where
  "lives rid s s' = (moves (status_of rid s) (status_of rid s') \<and> keeps_core rid s s')"

lemma lives_same: "find_run (o_db s') rid = find_run (o_db s) rid \<Longrightarrow> lives rid s s'"
  by (simp add: lives_def status_of_def keeps_core_def moves.stays)

lemma lives_changed:
  assumes "find_run (o_db s) rid = Some r" and "find_run (o_db s') rid = Some r'"
    and "moves (Some (r_status r)) (Some (r_status r'))" and "run_core r' = run_core r"
  shows "lives rid s s'"
  using assms by (simp add: lives_def status_of_def keeps_core_def)

lemma lives_inserted:
  assumes "find_run (o_db s) (r_id row) = None" and "r_status row = RQueued"
    and "runs (o_db s') = runs (o_db s) @ [row]"
  shows "lives rid s s'"
proof (cases "find_run (o_db s) rid")
  case (Some r)
  with assms(3) show ?thesis by (intro lives_same) (simp add: find_run_def find_append)
next
  case None
  with assms(2,3) show ?thesis
    by (auto simp: lives_def status_of_def keeps_core_def find_run_def find_append intro: moves.intros)
qed

section \<open>Every step follows the automaton\<close>

lemma core_updates [simp]:
  "run_core (r\<lparr>r_status := st\<rparr>) = run_core r" "run_core (r\<lparr>r_started_at := t\<rparr>) = run_core r"
  "run_core (r\<lparr>r_metadata := m\<rparr>) = run_core r" "run_core (r\<lparr>r_pass_rate := p\<rparr>) = run_core r"
  "run_core (r\<lparr>r_completed_at := t\<rparr>) = run_core r" "run_core (r\<lparr>r_app_address := a\<rparr>) = run_core r"
  by (simp_all add: run_core_def)

text \<open>An UPDATE of one run, whichever run it is.\<close>

lemma find_run_updated:
  assumes "\<And>r. r_id (f r) = r_id r"
  shows "find_run (update_run k f db) rid = (if rid = k then map_option f (find_run db rid) else find_run db rid)"
  using run_table.look_upd [of f k db rid] assms by auto

lemma lives_updated:
  assumes "o_db s' = update_run k f (o_db s)" and "\<And>r. r_id (f r) = r_id r"
    and "\<And>r. moves (Some (r_status r)) (Some (r_status (f r)))" and "\<And>r. run_core (f r) = run_core r"
  shows "lives rid s s'"
proof (cases "find_run (o_db s) rid")
  case None
  then show ?thesis by (intro lives_same) (auto simp: assms(1) find_run_updated [OF assms(2)])
next
  case (Some r)
  have "find_run (o_db s') rid = Some (if rid = k then f r else r)"
    using Some by (auto simp: assms(1) find_run_updated [OF assms(2)])
  from lives_changed [OF Some this] show ?thesis using assms(3,4) by (simp add: moves.stays)
qed

lemma lives_record: "lives rid s (record_dispatched j sel s)"
  by (rule lives_updated [where k = "key_of j" and
        f = "\<lambda>r. r\<lparr>r_metadata := meta_merge (r_metadata r) ''dispatched_count'' (JInt (int (length (sel_definitions sel))))\<rparr>"])
     (simp_all add: record_dispatched_def set_dispatched_def moves.stays)

text \<open>A step of an event handler: the first write of its branch pays what was owed, the others move nothing.\<close>

lemma event_step_quiet:
  assumes "event_step row_ok eid now msg pc s = (pc', s')" and "pc \<noteq> EvEffect"
  shows "lives rid s s'"
proof (cases "\<exists>sel. pc = EvRecord sel")
  case True
  with assms(1) show ?thesis by (auto simp: lives_record)
next
  case False
  then show ?thesis
    using assms
    by (cases pc) (auto simp: orch_status publish_one_def Let_def intro!: lives_same split: sum.splits if_splits)
qed

lemma event_step_owes:
  assumes "event_step row_ok eid now msg pc s = (pc', s')" and "pc \<noteq> EvEffect" and "rid \<noteq> []"
  shows "life (status_of rid s, owed_by rid msg pc) (status_of rid s', owed_by rid msg pc')"
proof (cases "pc = EvCheck \<and> owed_by rid msg pc' \<noteq> None")
  case True
  then have s: "s' = s" and pc': "pc' = EvEffect" and id: "get msg ''run_id'' = JStr rid"
    using assms(1) by (auto simp: owed_by_def split: if_splits)
  have "status_of rid s \<noteq> Some RCancelled"
    using assms(1,3) True pc' id
    by (auto simp: is_run_cancelled_def key_of_def status_of_def Let_def split: if_splits option.splits)
  moreover have "owed_by rid msg pc' \<in> {Some RRunning, Some RFailed}"
    using True by (auto simp: owed_by_def split: if_splits)
  ultimately show ?thesis
    using True life.checked [of "status_of rid s"] by (auto simp: s owed_by_def split: if_splits)
next
  case False
  have "owed_by rid msg pc = None" using assms(2) by (simp add: owed_by_def)
  moreover have "owed_by rid msg pc' = None"
    using False assms(1,2) by (cases pc) (auto simp: owed_by_def Let_def split: if_splits sum.splits)
  ultimately show ?thesis
    using event_step_quiet [OF assms(1,2), of rid] by (simp add: lives_def life.moved)
qed

lemma event_effect_writes:
  assumes "event_effect row_ok eid now msg s = (pc', s')" and "rid \<noteq> []"
  shows "life (status_of rid s, owed_by rid msg EvEffect) (status_of rid s', owed_by rid msg pc')
       \<and> keeps_core rid s s'"
proof -
  have pc': "owed_by rid msg pc' = None"
    using assms(1) by (auto simp: owed_by_def event_effect_def Let_def split: if_splits prod.splits)
  have key: "key_of (get msg ''run_id'') = rid \<longleftrightarrow> get msg ''run_id'' = JStr rid"
    using assms(2) by (auto simp: key_of_def split: json.splits)
  show ?thesis
  proof (cases "get msg ''event_type'' = JStr ''ready'' \<or> get msg ''event_type'' = JStr ''failed''")
    case True
    define f where "f = (\<lambda>r :: run_row. if get msg ''event_type'' = JStr ''ready''
        then r\<lparr>r_status := RRunning, r_started_at := Some now\<rparr> else r\<lparr>r_status := RFailed\<rparr>)"
    have id: "r_id (f r) = r_id r" "run_core (f r) = run_core r" for r by (simp_all add: f_def)
    have "o_db s' = update_run (key_of (get msg ''run_id'')) f (o_db s)"
      using assms(1) True
      by (auto simp: event_effect_def mark_running_def mark_failed_def f_def Let_def split: if_splits)
    then have run: "find_run (o_db s') rid
        = (if get msg ''run_id'' = JStr rid then map_option f (find_run (o_db s) rid) else find_run (o_db s) rid)"
      using find_run_updated [of f "key_of (get msg ''run_id'')" "o_db s" rid] id(1) key by auto
    then have "keeps_core rid s s'" by (simp add: keeps_core_def id(2))
    moreover have "life (status_of rid s, owed_by rid msg EvEffect) (status_of rid s', None)"
    proof (cases "get msg ''run_id'' = JStr rid")
      case same: True
      have "map_option (r_status \<circ> f) q = map_option (\<lambda>_. if get msg ''event_type'' = JStr ''ready'' then RRunning else RFailed)
              (map_option r_status q)" for q
        by (cases q) (simp_all add: f_def)
      then show ?thesis
        using run same True life.written [of "status_of rid s"]
        by (auto simp: owed_by_def status_of_def option.map_comp o_def)
    qed (use run in \<open>simp add: owed_by_def status_of_def life.moved moves.stays\<close>)
    ultimately show ?thesis by (simp add: pc')
  next
    case False
    then have "find_run (o_db s') = find_run (o_db s)"
      using assms(1)
      by (auto simp: event_effect_def Let_def orch_status split: if_splits prod.splits)
         (metis handle_log_batch_status handle_step_status snd_conv)+
    then have "lives rid s s'" by (simp add: lives_same)
    then show ?thesis using False pc' by (simp add: lives_def owed_by_def life.moved)
  qed
qed

lemma lives_close: "lives rid s (s\<lparr>o_db := snd (close_run k (final_status c w x) x now (o_db s))\<rparr>)"
proof (cases "find_run (o_db s) k")
  case None
  then show ?thesis by (intro lives_same) (simp add: close_run_def)
next
  case (Some q)
  let ?fin = "final_status c w x"
  let ?q = "q\<lparr>r_status := ?fin, r_pass_rate := Some (numeric2 x), r_completed_at := Some now\<rparr>"
  show ?thesis
  proof (cases "r_status q = RRunning \<and> rid = k")
    case True
    have "find_run (update_run k (\<lambda>_. ?q) (o_db s)) rid = Some ?q"
      using Some find_run_id [OF Some] True by (simp add: find_run_def update_run_def find_map_const)
    with Some True have "find_run (o_db (s\<lparr>o_db := snd (close_run k ?fin x now (o_db s))\<rparr>)) rid = Some ?q"
      by (simp add: close_run_def Let_def)
    from lives_changed [OF _ this] Some True show ?thesis
      using moves.verdict [of ?fin] by (simp add: final_status_def)
  next
    case False
    show ?thesis
      using Some False find_run_id [OF Some] find_map_other [of k rid ?q "runs (o_db s)"]
      by (intro lives_same) (auto simp: close_run_def Let_def find_run_def update_run_def)
  qed
qed

lemma lives_result:
  assumes "result_step le c w now msg pc s = (pc', rep, s')"
  shows "lives rid s s'"
proof (cases pc)
  case ReCount
  with assms show ?thesis
    by (intro lives_same) (auto simp: publish_live_def Let_def split: option.splits)
next
  case (ReClose ts)
  let ?k = "key_of (get msg ''run_id'')" and ?x = "percentage (passed_in ts) (length ts)"
  have "s' = s\<lparr>o_db := snd (close_run ?k (final_status c w ?x) ?x now (o_db s))\<rparr> \<or> s' = s"
    using assms by (auto simp: ReClose Let_def split: prod.splits option.splits)
  then show ?thesis using lives_close [of rid s ?k c w ?x now] by (auto simp: lives_same)
qed (use assms in \<open>auto intro: lives_same\<close>)

text \<open>What a request to trigger a run does to the tables.\<close>

lemma versions_keep_inserted:
  "request_versions_of (db\<lparr>runs := a, run_events := b\<rparr>) body = request_versions_of db body"
proof -
  have "find_cli (db\<lparr>runs := a, run_events := b\<rparr>) = find_cli db"
    "find_devnet (db\<lparr>runs := a, run_events := b\<rparr>) = find_devnet db"
    by (auto simp: find_cli_def find_devnet_def fun_eq_iff split: option.splits)
  then have "lookup_catalog (db\<lparr>runs := a, run_events := b\<rparr>) = lookup_catalog db"
    by (simp add: lookup_catalog_def fun_eq_iff cong: option.case_cong)
  then show ?thesis by (simp add: request_versions_of_def)
qed

lemma insert_run_cases:
  "insert_run r e s = (Inl (Exc KOtherError ''IntegrityError''), s) \<or>
   find_run (o_db s) (r_id r) = None \<and>
   insert_run r e s = (Inr (), s\<lparr>o_db := (o_db s)\<lparr>runs := runs (o_db s) @ [r], run_events := run_events (o_db s) @ [e]\<rparr>\<rparr>)"
  by (simp add: insert_run_def)

definition trigger_request :: "(nat \<Rightarrow> string) \<Rightarrow> int \<Rightarrow> trigger_body \<Rightarrow> db \<Rightarrow> request_app \<Rightarrow> int \<times> json" where
  "trigger_request eid now body db app =
     (tr_priority body, sandbox_request (eid 1) now (eid 0) (tr_release_tag body) (tr_image_tag body)
        (tr_priority body) (tr_user body) (request_versions_of db body) app)"

lemma trigger_run_cases:
  obtains e where "trigger_run up eid now body s = (Inl e, s)"
  | app suites s1 where "find_run (o_db s) (eid 0) = None"
      "o_db s1 = (o_db s)\<lparr>runs := runs (o_db s) @ [triggered_run (eid 0) now body app suites],
                          run_events := run_events (o_db s) @ [triggered_event (eid 0) now body app]\<rparr>"
      "trigger_run up eid now body s
         = (if up then Inr (triggered_run (eid 0) now body app suites)
            else Inl (Crash (Exc KOtherError ''AMQPConnectionError'')), s1)"
      "o_sandbox_reqs s1 = o_sandbox_reqs s @ (if up then [trigger_request eid now body (o_db s) app] else [])"
proof (cases "resolve_app (tr_app_id body) (o_db s)")
  case app: (Inr app)
  show ?thesis
  proof (cases "suite_uuids (case tr_suite_ids body of None \<Rightarrow> [] | Some xs \<Rightarrow> xs)")
    case suites: (Inr suites)
    let ?run = "triggered_run (eid 0) now body app suites" and ?event = "triggered_event (eid 0) now body app"
    have id: "r_id ?run = eid 0" by (simp add: triggered_run_def)
    show ?thesis
    proof (cases "row_typed body")
      case True
      from insert_run_cases [of ?run ?event s] show ?thesis
      proof
        assume "insert_run ?run ?event s = (Inl (Exc KOtherError ''IntegrityError''), s)"
        with app suites True have "trigger_run up eid now body s
            = (Inl (Crash (Exc KOtherError ''IntegrityError'')), s)"
          by (simp add: trigger_run_def Let_def)
        then show ?thesis by (rule that(1))
      next
        let ?s1 = "s\<lparr>o_db := (o_db s)\<lparr>runs := runs (o_db s) @ [?run], run_events := run_events (o_db s) @ [?event]\<rparr>\<rparr>"
        let ?req = "trigger_request eid now body (o_db s) app"
        assume i: "find_run (o_db s) (r_id ?run) = None \<and> insert_run ?run ?event s = (Inr (), ?s1)"
        have pub: "trigger_run up eid now body s
            = (case publish_sandbox_request up (eid 1) now (eid 0) (tr_release_tag body) (tr_image_tag body)
                 (tr_priority body) (tr_user body) (request_versions_of (o_db ?s1) body) app ?s1 of
                 (Inl e, s2) \<Rightarrow> (Inl (Crash e), s2) | (Inr _, s2) \<Rightarrow> (Inr ?run, s2))"
          using i by (simp add: trigger_run_def app suites True Let_def)
        have "request_versions_of (o_db ?s1) body = request_versions_of (o_db s) body"
          using versions_keep_inserted [where db = "o_db s"] by simp
        then have "publish_sandbox_request up (eid 1) now (eid 0) (tr_release_tag body) (tr_image_tag body)
                 (tr_priority body) (tr_user body) (request_versions_of (o_db ?s1) body) app ?s1
               = (if up then (Inr (), ?s1\<lparr>o_sandbox_reqs := o_sandbox_reqs s @ [?req]\<rparr>)
                  else (Inl (Exc KOtherError ''AMQPConnectionError''), ?s1))"
          by (simp add: publish_sandbox_request_def trigger_request_def)
        then have eq: "trigger_run up eid now body s
               = (if up then (Inr ?run, ?s1\<lparr>o_sandbox_reqs := o_sandbox_reqs s @ [?req]\<rparr>)
                  else (Inl (Crash (Exc KOtherError ''AMQPConnectionError'')), ?s1))"
          by (simp add: pub)
        define s1 where "s1 = (if up then ?s1\<lparr>o_sandbox_reqs := o_sandbox_reqs s @ [?req]\<rparr> else ?s1)"
        have run: "trigger_run up eid now body s
             = (if up then Inr ?run else Inl (Crash (Exc KOtherError ''AMQPConnectionError'')), s1)"
          by (simp add: eq s1_def)
        have free: "find_run (o_db s) (eid 0) = None" using i id by simp
        show ?thesis by (rule that(2) [OF free _ run]) (simp_all add: s1_def)
      qed
    next
      case False
      then have "trigger_run up eid now body s = (Inl (Crash SqlError), s)"
        by (simp add: trigger_run_def app suites)
      then show ?thesis by (rule that(1))
    qed
  next
    case (Inl e)
    then have "trigger_run up eid now body s = (Inl e, s)" by (simp add: trigger_run_def app)
    then show ?thesis by (rule that(1))
  qed
next
  case (Inl e)
  then have "trigger_run up eid now body s = (Inl e, s)" by (simp add: trigger_run_def)
  then show ?thesis by (rule that(1))
qed

lemma lives_insert: "r_status row = RQueued \<Longrightarrow> lives rid s (snd (insert_run row e s))"
  using insert_run_cases [of row e s] lives_inserted [of s row _ rid] by (auto simp: lives_same)

lemma lives_release: "lives rid s (snd (create_release_run eid now tag url s))"
  by (simp add: create_release_run_def lives_insert release_run_def split: prod.split)

lemma lives_trigger: "lives rid s (snd (insert_run (triggered_run k now body app suites) e s))"
  by (rule lives_insert) (simp add: triggered_run_def)

lemma lives_cancel: "lives rid s (cancel_write now k s)"
proof -
  have "lives rid s (s\<lparr>o_db := update_run k (\<lambda>r. r\<lparr>r_status := RCancelled\<rparr>) (o_db s)\<rparr>)"
    by (rule lives_updated [where k = k and f = "\<lambda>r. r\<lparr>r_status := RCancelled\<rparr>"]) (auto intro: moves.intros)
  moreover have "find_run (o_db (cancel_write now k s)) = find_run (update_run k (\<lambda>r. r\<lparr>r_status := RCancelled\<rparr>) (o_db s))"
    by (simp add: cancel_write_def Let_def find_run_def fun_eq_iff)
  ultimately show ?thesis by (simp add: lives_def status_of_def keeps_core_def)
qed

text \<open>A step on the automaton's two components.\<close>

lemma lives_step:
  assumes "orch_step y y'" and "rid \<noteq> []"
  shows "life (life_of rid y) (life_of rid y') \<and> keeps_core rid (sys_orch y) (sys_orch y')"
proof -
  have quiet: "life (life_of rid y) (life_of rid z) \<and> keeps_core rid (sys_orch y) (sys_orch z)"
    if "lives rid (sys_orch y) (sys_orch z)" and "owed rid z = owed rid y" for z
    using that by (simp add: lives_def life_of_def life.moved)
  show ?thesis
    using assms(1)
  proof cases
    case (by_event eid msg pc row_ok now pc' s)
    show ?thesis
    proof (cases "pc = EvEffect")
      case True
      with by_event(3) have "event_effect row_ok eid now msg (sys_orch y) = (pc', s)" by simp
      from event_effect_writes [OF this assms(2)] show ?thesis
        by (simp add: by_event(1,2) life_of_def owed_def True)
    next
      case False
      from event_step_owes [OF by_event(3) False assms(2)] event_step_quiet [OF by_event(3) False, of rid]
      show ?thesis by (simp add: by_event(1,2) life_of_def owed_def lives_def)
    qed
  next
    case (by_result msg pc le c w now pc' rep s)
    from quiet [of y'] lives_result [OF by_result(3), of rid] show ?thesis
      by (simp add: by_result(1) owed_def)
  next
    case (by_session k sid)
    have "lives rid (sys_orch y) (tag_run k sid (sys_orch y))"
      by (rule lives_updated [where k = k and f = "\<lambda>r. r\<lparr>r_metadata :=
            meta_merge (meta_merge (r_metadata r) ''ai_session'' (JBool True)) ''session_id'' (JStr sid)\<rparr>"])
         (simp_all add: tag_run_def moves.stays)
    with quiet [of y'] show ?thesis by (simp add: by_session owed_def)
  next
    case (by_manager k addr)
    have "lives rid (sys_orch y) ((sys_orch y)\<lparr>o_db := update_run k (\<lambda>r. r\<lparr>r_app_address := addr\<rparr>) (o_db (sys_orch y))\<rparr>)"
      by (rule lives_updated [where k = k and f = "\<lambda>r. r\<lparr>r_app_address := addr\<rparr>"]) (simp_all add: moves.stays)
    with quiet [of y'] show ?thesis by (simp add: by_manager owed_def)
  next
    case (by_others s)
    then have "find_run (o_db s) rid = find_run (o_db (sys_orch y)) rid" by (simp add: find_run_def)
    with quiet [of y'] lives_same [of s rid "sys_orch y"] show ?thesis by (simp add: by_others(1) owed_def)
  qed (use quiet [of y'] in \<open>simp_all add: lives_same lives_release lives_trigger lives_cancel owed_def owed_by_def\<close>)
qed

lemma keeps_core_trans: "keeps_core rid s t \<Longrightarrow> keeps_core rid t u \<Longrightarrow> keeps_core rid s u"
  by (fastforce simp: keeps_core_def)

lemma lives_steps:
  assumes "orch_step\<^sup>*\<^sup>* y y'" and "rid \<noteq> []"
  shows "life\<^sup>*\<^sup>* (life_of rid y) (life_of rid y') \<and> keeps_core rid (sys_orch y) (sys_orch y')"
  using assms(1)
proof (induction rule: rtranclp_induct)
  case base
  then show ?case by (simp add: keeps_core_def)
next
  case (step y' y'')
  from lives_step [OF step(2) assms(2)] step(3) show ?case
    by (auto intro: rtranclp.rtrancl_into_rtrancl keeps_core_trans)
qed

inductive_cases moves_from_cancelled: "moves (Some RCancelled) q"
inductive_cases life_from_cancelled: "life (Some RCancelled, None) x"

lemma cancelled_for_ever: "life\<^sup>*\<^sup>* (Some RCancelled, None) x \<Longrightarrow> x = (Some RCancelled, None)"
  by (induction rule: rtranclp_induct) (auto elim: life_from_cancelled moves_from_cancelled)

end
