(* ===== verification/Run_System.thy ===== *)
theory Run_System
  imports Run_Lifecycle Test_Commands_Spec Sandbox_Queue_Sys
begin

text \<open>
  The services together: a ready sandbox, the test runner that works off the commands, and the result
  consumer that closes the run; and the messages by which the services reach each other.
\<close>

section \<open>A dispatched command is one that the test runner accepts\<close>

definition command_fields :: "string \<Rightarrow> int \<Rightarrow> json \<Rightarrow> json \<Rightarrow> dict \<Rightarrow> int \<Rightarrow> json \<Rightarrow> def_row \<Rightarrow> dict" where
  "command_fields eid now run_id sandbox_id smsg major app d =
     (case test_command eid now run_id sandbox_id smsg major app d of JObj msg \<Rightarrow> msg | _ \<Rightarrow> [])"

lemma test_command_fields:
  "test_command eid now run_id sandbox_id smsg major app d
     = JObj (command_fields eid now run_id sandbox_id smsg major app d)"
  by (simp add: command_fields_def test_command_def)

lemma command_get:
  fixes eid now run_id sandbox_id smsg major app d
  defines "c \<equiv> command_fields eid now run_id sandbox_id smsg major app d"
  shows "get c ''run_id'' = run_id" "get c ''sandbox_id'' = sandbox_id" "get c ''definition_id'' = JStr (d_id d)"
    "get c ''definition_version'' = JInt (d_version d)" "get_or c ''node_major_version'' (JInt 1) = JInt major"
    "get c ''parameter_overrides'' = JNull" "get c ''definition_parsed_override'' = JNull"
    "get c ''result_id'' = JNull" "get c ''app_address'' = app"
    "get c ''inputbox_address'' = get smsg ''inputbox_address''" "get c ''docker_network'' = get smsg ''docker_network''"
    "get c ''anvil_port'' = get smsg ''anvil_port''" "get c ''node_port'' = get smsg ''node_port''"
    "get c ''cli_container_name'' = get smsg ''cli_container_name''"
    "res_map (msg_item c) command_keys
       = Inr [run_id, sandbox_id, JStr (d_id d), JInt (d_version d), JStr (d_slug d), get smsg ''anvil_port'',
              get smsg ''node_port'', get smsg ''graphql_port'', get smsg ''docker_network'']"
  by (simp_all add: c_def command_fields_def test_command_def get_def get_or_def forwarded_keys_def
        command_keys_def msg_item_def)

lemma command_accepted:
  fixes eid now rid sb smsg major app d
  defines "c \<equiv> command_fields eid now (JStr rid) (JStr sb) smsg major app d"
  shows "check_command c = Inr major"
    and "command_ids_of c = Inr \<lparr>ci_run = rid, ci_sandbox = sb, ci_def = d_id d, ci_version = d_version d\<rparr>"
    and "effective_def c cd = Inr cd" and "result_id_of uuid c = Inr (uuid 0)"
  by (simp_all add: c_def check_command_def command_ids_of_def effective_def_def result_id_of_def command_get
        py_int_def py_or_def)

section \<open>One command\<close>

text \<open>The definition ends whatever it is run on, and its outcome can be stored.\<close>

definition storable_outcome :: "test_outcome \<Rightarrow> bool" where
  "storable_outcome oc = ((case stored_results (oc_results oc) of Inl _ \<Rightarrow> False | Inr _ \<Rightarrow> True)
                          \<and> storable_error (oc_error oc))"

definition runs_well :: "(string \<times> executor) list \<Rightarrow> env \<Rightarrow> cached_def \<Rightarrow> bool" where
  "runs_well reg env d =
     (\<forall>ctx w. case run_test reg d ctx env w of
        None \<Rightarrow> False
      | Some (Ok oc, _) \<Rightarrow> storable_outcome oc
      | Some (Err e, _) \<Rightarrow> storable_error (Some (str_take 500 (exc_str e)))
      | Some (Cancelled, _) \<Rightarrow> True)"

lemma stored_empty: "stored_results [] = Inr (JArr [])"
  by code_simp

lemma storable_crash: "storable_outcome (crash_outcome e t) = storable_error (Some (str_take 500 (exc_str e)))"
  by (simp add: storable_outcome_def crash_outcome_def stored_empty)

lemma storable_other: "storable_error (Some (str_take 500 (exc_str OtherError)))"
  by code_simp

lemma runs_wellD:
  assumes "runs_well reg env d"
  obtains r w' where "run_test reg d ctx env w = Some (r, w')"
    "\<And>tb msg ids a t oc lines. outcome_and_lines tb msg ids a r t = (oc, lines)
       \<Longrightarrow> storable_outcome oc \<and> final_status_of (oc_status oc)"
proof -
  have c: "case run_test reg d ctx env w of
        None \<Rightarrow> False
      | Some (Ok oc, _) \<Rightarrow> storable_outcome oc
      | Some (Err e, _) \<Rightarrow> storable_error (Some (str_take 500 (exc_str e)))
      | Some (Cancelled, _) \<Rightarrow> True"
    using assms unfolding runs_well_def by blast
  then obtain r w' where r: "run_test reg d ctx env w = Some (r, w')" by (auto split: option.splits)
  have "storable_outcome oc \<and> final_status_of (oc_status oc)"
    if "outcome_and_lines tb msg ids a r t = (oc, lines)" for tb msg ids a t oc lines
    using c that outcome_final [OF r that]
    by (cases r) (auto simp: r outcome_and_lines_def storable_crash storable_other)
  with r that show ?thesis by blast
qed

lemma message_run:
  "\<exists>m. result_message eid cmd oc tid a b = JObj m \<and> get m ''run_id'' = get cmd ''run_id''"
  by (simp add: result_message_def) (simp add: get_def get_or_def)

text \<open>The steps of a dispatched command that nothing stops.\<close>

definition dispatched_ids :: "string \<Rightarrow> string \<Rightarrow> def_row \<Rightarrow> command_ids" where
  "dispatched_ids rid sb d = \<lparr>ci_run = rid, ci_sandbox = sb, ci_def = d_id d, ci_version = d_version d\<rparr>"

lemma check_step:
  fixes eid now rid sb smsg major app d
  defines "c \<equiv> command_fields eid now (JStr rid) (JStr sb) smsg major app d"
  assumes "\<not> is_run_cancelled (rn_db s) rid"
  shows "command_step reg tb probe uuid c env CmCheck s w = Some (CmInsert major, s, w)"
  using assms(2) by (simp add: c_def command_accepted key_of_def command_get)

lemma insert_step:
  fixes eid now rid sb smsg major app d
  defines "c \<equiv> command_fields eid now (JStr rid) (JStr sb) smsg major app d"
  assumes "d \<in> set (definitions (rn_db s))" and "cached (rn_cache s) (JStr (d_id d)) = Some cd"
    and "\<forall>t\<in>set (results (rn_db s)). t_id t \<noteq> uuid 0"
  shows "command_step reg tb probe uuid c env (CmInsert major) s w
    = Some (CmTest major cd (dispatched_ids rid sb d) (uuid 0) (w_clock w),
            s\<lparr>rn_db := (rn_db s)\<lparr>results := results (rn_db s)
                @ [new_result_row (dispatched_ids rid sb d) (uuid 0) TRunning (w_clock w) None]\<rparr>\<rparr>, w)"
proof -
  have "find_def (rn_db s) (d_id d) \<noteq> None" using assms(2) by (auto simp: find_def_def find_None_iff)
  then have "insert_result (new_result_row (dispatched_ids rid sb d) (uuid 0) TRunning (w_clock w) None) (rn_db s)
      = Inr ((rn_db s)\<lparr>results := results (rn_db s)
                @ [new_result_row (dispatched_ids rid sb d) (uuid 0) TRunning (w_clock w) None]\<rparr>)"
    using assms(4) by (simp add: insert_result_def new_result_row_def dispatched_ids_def)
  moreover have "prepare_command uuid c cd = Inr (cd, dispatched_ids rid sb d, uuid 0)"
    by (simp add: prepare_command_def c_def command_accepted dispatched_ids_def)
  ultimately show ?thesis using assms(3) by (simp add: c_def command_get)
qed

lemma test_step:
  assumes "runs_well reg env cd"
  obtains oc lines w' f where
    "command_step reg tb probe uuid c env (CmTest major cd ids tid a) s w
       = Some (CmAnnounce tid oc lines a (w_clock w'), s\<lparr>rn_db := update_result tid f (rn_db s)\<rparr>, w')"
    "\<And>t. t_id (f t) = t_id t" "\<And>t. t_run_id (f t) = t_run_id t" "\<And>t. final_status_of (t_status (f t))"
proof -
  obtain r w' where r: "run_test reg cd (context_of c major ids) env w = Some (r, w')"
    "\<And>tb msg ids a t oc lines. outcome_and_lines tb msg ids a r t = (oc, lines)
       \<Longrightarrow> storable_outcome oc \<and> final_status_of (oc_status oc)"
    using runs_wellD [OF assms] by blast
  obtain oc lines where o: "outcome_and_lines tb c ids a r (w_clock w') = (oc, lines)" by fastforce
  from r(2) [OF o] obtain ar where st: "stored_results (oc_results oc) = Inr ar" "storable_error (oc_error oc)"
    "final_status_of (oc_status oc)"
    by (auto simp: storable_outcome_def split: sum.splits)
  let ?f = "\<lambda>t. t\<lparr>t_status := oc_status oc, t_duration_ms := Some (oc_duration_ms oc), t_assertion_results := ar,
                  t_error_message := oc_error oc, t_completed_at := Some (w_clock w')\<rparr>"
  have "store_outcome tid oc (w_clock w') (rn_db s) = Inr (update_result tid ?f (rn_db s))"
    by (simp add: store_outcome_def st)
  then have "command_step reg tb probe uuid c env (CmTest major cd ids tid a) s w
       = Some (CmAnnounce tid oc lines a (w_clock w'), s\<lparr>rn_db := update_result tid ?f (rn_db s)\<rparr>, w')"
    by (simp add: r(1) o)
  from that [OF this] st(3) show ?thesis by simp
qed

lemma announce_step:
  obtains m s' where
    "command_step reg tb probe uuid c env (CmAnnounce tid oc lines a b) s w = Some (CmDone (Inr ()), s', w)"
    "rn_db s' = rn_db s" "rn_cache s' = rn_cache s" "rn_results s' = rn_results s @ [JObj m]"
    "get m ''run_id'' = get c ''run_id''"
proof -
  obtain m where "result_message (uuid 2) c oc tid a b = JObj m" "get m ''run_id'' = get c ''run_id''"
    using message_run by blast
  with that [of "announce uuid c tid oc lines a b s" m] show ?thesis
    by (simp add: announce_def publish_result_def publish_log_batch_def)
qed

section \<open>A sandbox request and the task that parses it\<close>

definition request_fields ::
  "string \<Rightarrow> int \<Rightarrow> string \<Rightarrow> string \<Rightarrow> string \<Rightarrow> int \<Rightarrow> string option \<Rightarrow> request_versions \<Rightarrow> request_app \<Rightarrow> dict" where
  "request_fields eid now rid tag img prio by v app =
     (case sandbox_request eid now rid tag img prio by v app of JObj msg \<Rightarrow> msg | _ \<Rightarrow> [])"

lemma sandbox_request_fields:
  "sandbox_request eid now rid tag img prio by v app = JObj (request_fields eid now rid tag img prio by v app)"
  by (simp add: request_fields_def sandbox_request_def)

lemma request_parsed:
  "parse_request (request_fields eid now rid tag img prio by v app) =
     (case q_node_major v of
        None \<Rightarrow> Inl TypeError
      | Some n \<Rightarrow> Inr \<lparr>rq_run_id = JStr rid, rq_release_tag = JStr tag, rq_image_tag = JStr img,
            rq_sdk_version = opt_json (q_sdk v), rq_cli_version = opt_json (q_cli v),
            rq_devnet_version = opt_json (q_devnet v), rq_contracts_version = opt_json (q_contracts v),
            rq_node_major = n, rq_app_id = opt_json (q_app_id app), rq_app_name = opt_json (q_app_name app),
            rq_app_url = opt_json (q_app_url app)\<rparr>)"
  by (cases "q_node_major v")
     (simp_all add: parse_request_def request_fields_def sandbox_request_def item_def get_def get_or_def opt_num_def
        py_int_def)

end
