(* ===== verification/Run_Delivery.thy ===== *)
theory Run_Delivery
  imports Run_System
begin

text \<open>
  From a ready sandbox to the verdict: the handler of the ready event, the test runner and the result
  consumer take turns, a transaction or a publication each, in any order, until none of them has work.

  In particular the first results can be counted while the handler still publishes commands, and all of them
  before it records how many it sent.
\<close>

section \<open>Three services\<close>

text \<open>What stays fixed: the ready event and its fresh ids, the collation, the executors and their world.\<close>

record setting =
  se_row_ok :: "log_fields \<Rightarrow> bool"
  se_eid :: "nat \<Rightarrow> string"
  se_msg :: dict
  se_le :: "string \<Rightarrow> string \<Rightarrow> bool"
  se_reg :: "(string \<times> executor) list"
  se_tb :: "exc \<Rightarrow> string list"
  se_env :: env

record platform =
  pf_orch :: orch        \<comment> \<open>the tables, and the queue of commands in \<open>o_test_cmds\<close>\<close>
  pf_event :: event_pc
  pf_runner :: runner    \<comment> \<open>the cache, and the queue of results in \<open>rn_results\<close>\<close>
  pf_command :: "((nat \<Rightarrow> string) \<times> dict \<times> command_pc) option"   \<comment> \<open>the command in hand\<close>
  pf_result :: "(dict \<times> result_pc) option"                   \<comment> \<open>the result in hand\<close>
  pf_world :: world

datatype actor = Events | Runner | Results

definition event_turn :: "setting \<Rightarrow> int \<Rightarrow> platform \<Rightarrow> platform" where
  "event_turn se now p =
     (let (pc, s) = event_step (se_row_ok se) (se_eid se) now (se_msg se) (pf_event p) (pf_orch p)
      in p\<lparr>pf_event := pc, pf_orch := s\<rparr>)"

text \<open>The test runner takes the first command, or goes on with the one in hand; it acknowledges it in any case.\<close>

definition in_hand_after :: "(nat \<Rightarrow> string) \<Rightarrow> dict \<Rightarrow> command_pc \<Rightarrow> ((nat \<Rightarrow> string) \<times> dict \<times> command_pc) option" where
  "in_hand_after u msg pc = (case pc of CmDone _ \<Rightarrow> None | _ \<Rightarrow> Some (u, msg, pc))"

definition runner_turn :: "setting \<Rightarrow> (nat \<Rightarrow> string) \<Rightarrow> platform \<Rightarrow> platform" where
  "runner_turn se uuid p =
     (case pf_command p of
        None \<Rightarrow>
          (case o_test_cmds (pf_orch p) of
             [] \<Rightarrow> p
           | c # cs \<Rightarrow>
               p\<lparr>pf_orch := (pf_orch p)\<lparr>o_test_cmds := cs\<rparr>,
                 pf_command := (case c of JObj msg \<Rightarrow> Some (uuid, msg, CmCheck) | _ \<Rightarrow> None)\<rparr>)
      | Some (u, msg, pc) \<Rightarrow>
          (case command_step (se_reg se) (se_tb se) True u msg (se_env se) pc
                  ((pf_runner p)\<lparr>rn_db := o_db (pf_orch p)\<rparr>) (pf_world p) of
             None \<Rightarrow> p
           | Some (pc', s', w') \<Rightarrow>
               p\<lparr>pf_orch := (pf_orch p)\<lparr>o_db := rn_db s'\<rparr>, pf_runner := s', pf_world := w',
                 pf_command := in_hand_after u msg pc'\<rparr>))"

text \<open>The result consumer, with the default thresholds.\<close>

definition results_turn :: "setting \<Rightarrow> int \<Rightarrow> platform \<Rightarrow> run_report option \<times> platform" where
  "results_turn se now p =
     (case pf_result p of
        None \<Rightarrow>
          (case rn_results (pf_runner p) of
             [] \<Rightarrow> (None, p)
           | m # ms \<Rightarrow>
               (None, p\<lparr>pf_runner := (pf_runner p)\<lparr>rn_results := ms\<rparr>,
                        pf_result := (case m of JObj msg \<Rightarrow> Some (msg, ReCount) | _ \<Rightarrow> None)\<rparr>))
      | Some (msg, pc) \<Rightarrow>
          (let (pc', rep, s) = result_step (se_le se) 100 80 now msg pc (pf_orch p)
           in (rep, p\<lparr>pf_orch := s, pf_result := (if pc' = ReDone then None else Some (msg, pc'))\<rparr>)))"

text \<open>One turn of the actor that is named if it has work, else of the first that has.\<close>

fun can_move :: "actor \<Rightarrow> platform \<Rightarrow> bool" where
  "can_move Events p = (case pf_event p of EvDone _ \<Rightarrow> False | _ \<Rightarrow> True)"
| "can_move Runner p = (pf_command p \<noteq> None \<or> o_test_cmds (pf_orch p) \<noteq> [])"
| "can_move Results p = (pf_result p \<noteq> None \<or> rn_results (pf_runner p) \<noteq> [])"

definition mover :: "actor \<Rightarrow> platform \<Rightarrow> actor" where
  "mover a p = (if can_move a p then a else if can_move Events p then Events
                else if can_move Runner p then Runner else Results)"

definition turn :: "setting \<Rightarrow> actor \<times> (nat \<Rightarrow> string) \<times> int \<Rightarrow> platform \<Rightarrow> run_report option \<times> platform" where
  "turn se x p =
     (let (a, uuid, now) = x
      in case mover a p of
           Events \<Rightarrow> (None, event_turn se now p)
         | Runner \<Rightarrow> (None, runner_turn se uuid p)
         | Results \<Rightarrow> results_turn se now p)"

fun deliver ::
  "setting \<Rightarrow> (actor \<times> (nat \<Rightarrow> string) \<times> int) list \<Rightarrow> platform \<Rightarrow> run_report list \<times> platform" where
  "deliver se [] p = ([], p)"
| "deliver se (x # xs) p =
     (let (rep, p1) = turn se x p; (reps, p2) = deliver se xs p1
      in ((case rep of None \<Rightarrow> [] | Some r \<Rightarrow> [r]) @ reps, p2))"

text \<open>The runner or the result consumer has something to do.\<close>

definition busy :: "platform \<Rightarrow> bool" where
  "busy p = (can_move Runner p \<or> can_move Results p)"

text \<open>The state in which the event arrives: the runner has just reloaded, the queues are empty.\<close>

definition platform_at :: "orch \<Rightarrow> (string \<times> cached_def) list \<Rightarrow> world \<Rightarrow> platform" where
  "platform_at s cache w =
     \<lparr>pf_orch = s, pf_event = EvCheck,
      pf_runner = \<lparr>rn_db = o_db s, rn_cache = cache, rn_results = [], rn_events = []\<rparr>,
      pf_command = None, pf_result = None, pf_world = w\<rparr>"

section \<open>The invariant of a run on its way\<close>

definition ready_command :: "setting \<Rightarrow> string \<Rightarrow> def_row list \<Rightarrow> (string \<times> cached_def) list \<Rightarrow> json \<Rightarrow> bool" where
  "ready_command se rid ds cache c =
     (\<exists>eid now sb smsg major app d cd. c = test_command eid now (JStr rid) (JStr sb) smsg major app d
        \<and> d \<in> set ds \<and> cached cache (JStr (d_id d)) = Some cd \<and> runs_well (se_reg se) (se_env se) cd)"

definition names_run :: "string \<Rightarrow> json \<Rightarrow> bool" where
  "names_run rid m = (\<exists>d. m = JObj d \<and> get d ''run_id'' = JStr rid)"

definition verdict_given :: "db \<Rightarrow> string \<Rightarrow> run_row \<Rightarrow> bool" where
  "verdict_given db rid r = (r_status r = final_status 100 80 (rate_of db rid))"

definition all_final :: "db \<Rightarrow> string \<Rightarrow> bool" where
  "all_final db rid = (\<forall>t\<in>set (run_results db rid). final_status_of (t_status t))"

text \<open>How many commands have been published.\<close>

definition published :: "nat \<Rightarrow> event_pc \<Rightarrow> nat" where
  "published n pc = (case pc of EvPublish sel i \<Rightarrow> i | EvRecord sel \<Rightarrow> n | EvReadyNotify \<Rightarrow> n | EvDone r \<Rightarrow> n | _ \<Rightarrow> 0)"

definition sel_ok :: "setting \<Rightarrow> nat \<Rightarrow> def_row list \<Rightarrow> (string \<times> cached_def) list \<Rightarrow> selection \<Rightarrow> bool" where
  "sel_ok se n ds cache sel =
     (length (sel_definitions sel) = n \<and> (sel_bootstrap sel \<longrightarrow> n = 0)
      \<and> (\<forall>d\<in>set (sel_definitions sel). d \<in> set ds
           \<and> (\<exists>cd. cached cache (JStr (d_id d)) = Some cd \<and> runs_well (se_reg se) (se_env se) cd)))"

text \<open>
  The handler: \<open>b\<close> is None until the number of tests is recorded, and says afterwards whether the others were
  still busy at that moment.
\<close>

definition event_ok ::
  "setting \<Rightarrow> string \<Rightarrow> nat \<Rightarrow> (string \<times> cached_def) list \<Rightarrow> db \<Rightarrow> bool option \<Rightarrow> event_pc \<Rightarrow> bool" where
  "event_ok se rid n cache db b pc =
     (case pc of
        EvPublish sel i \<Rightarrow> b = None \<and> sel_ok se n (definitions db) cache sel \<and> i \<le> n
      | EvRecord sel \<Rightarrow> b = None \<and> sel_ok se n (definitions db) cache sel
      | EvReadyNotify \<Rightarrow> b \<noteq> None
      | EvDone r \<Rightarrow> b \<noteq> None
      | EvFailedStore \<Rightarrow> False
      | _ \<Rightarrow> b = None \<and> (\<exists>sel. select_tests db (JStr rid) (se_msg se) = Inr sel \<and> sel_ok se n (definitions db) cache sel))"

text \<open>The command in hand, whose row is missing, running or final.\<close>

definition not_inserted :: "((nat \<Rightarrow> string) \<times> dict \<times> command_pc) option \<Rightarrow> nat" where
  "not_inserted cmd = (case cmd of Some (u, msg, CmCheck) \<Rightarrow> 1 | Some (u, msg, CmInsert major) \<Rightarrow> 1 | _ \<Rightarrow> 0)"

definition command_ok ::
  "setting \<Rightarrow> string \<Rightarrow> (string \<times> cached_def) list \<Rightarrow> db \<Rightarrow> ((nat \<Rightarrow> string) \<times> dict \<times> command_pc) option \<Rightarrow> bool" where
  "command_ok se rid cache db cmd =
     (case cmd of
        None \<Rightarrow> all_final db rid
      | Some (u, msg, pc) \<Rightarrow> ready_command se rid (definitions db) cache (JObj msg) \<and>
          (case pc of
             CmCheck \<Rightarrow> all_final db rid \<and> u 0 \<notin> t_id ` set (results db)
           | CmInsert major \<Rightarrow> all_final db rid \<and> u 0 \<notin> t_id ` set (results db) \<and> check_command msg = Inr major
           | CmTest major d ids tid a \<Rightarrow> runs_well (se_reg se) (se_env se) d
               \<and> (\<exists>t\<in>set (run_results db rid). t_id t = tid \<and> in_flight_status (t_status t))
               \<and> (\<forall>t\<in>set (run_results db rid). t_id t \<noteq> tid \<longrightarrow> final_status_of (t_status t))
           | CmAnnounce tid oc lines a c \<Rightarrow> all_final db rid
           | _ \<Rightarrow> False))"

definition result_ok :: "string \<Rightarrow> db \<Rightarrow> run_row \<Rightarrow> (dict \<times> result_pc) option \<Rightarrow> bool" where
  "result_ok rid db r res =
     (case res of
        None \<Rightarrow> True
      | Some (msg, pc) \<Rightarrow> get msg ''run_id'' = JStr rid \<and>
          (case pc of
             ReCount \<Rightarrow> True
           | ReStats \<Rightarrow> run_done db rid r
           | ReClose ts \<Rightarrow> run_done db rid r \<and> ts = run_results db rid
           | ReDone \<Rightarrow> False))"

definition status_ok :: "string \<Rightarrow> db \<Rightarrow> run_row \<Rightarrow> bool option \<Rightarrow> event_pc \<Rightarrow> bool \<Rightarrow> bool" where
  "status_ok rid db r b pc act =
     (if pc = EvCheck \<or> pc = EvEffect then r_status r \<noteq> RCancelled
      else if r_status r = RRunning then b = Some True \<longrightarrow> act
      else b = Some True \<and> verdict_given db rid r \<and> run_done db rid r)"

definition on_track :: "setting \<Rightarrow> string \<Rightarrow> nat \<Rightarrow> def_row list \<Rightarrow> bool option \<Rightarrow> platform \<Rightarrow> bool" where
  "on_track se rid n ds b p =
     (let db = o_db (pf_orch p); cmds = o_test_cmds (pf_orch p); cache = rn_cache (pf_runner p) in
      \<exists>r. find_run db rid = Some r \<and> definitions db = ds
        \<and> dispatched_count (r_metadata r) = (if b = None then 0 else int n)
        \<and> length (run_results db rid) + length cmds + not_inserted (pf_command p) = published n (pf_event p)
        \<and> event_ok se rid n cache db b (pf_event p)
        \<and> (\<forall>c\<in>set cmds. ready_command se rid ds cache c)
        \<and> command_ok se rid cache db (pf_command p)
        \<and> (\<forall>m\<in>set (rn_results (pf_runner p)). names_run rid m)
        \<and> result_ok rid db r (pf_result p)
        \<and> (busy p \<longrightarrow> 0 < published n (pf_event p) \<and> b \<noteq> Some False)
        \<and> status_ok rid db r b (pf_event p) (busy p))"

definition result_ids :: "platform \<Rightarrow> string set" where
  "result_ids p = t_id ` set (results (o_db (pf_orch p)))"

text \<open>The run has been counted and closed.\<close>

definition still_running :: "string \<Rightarrow> platform \<Rightarrow> bool" where
  "still_running rid p = (map_option r_status (find_run (o_db (pf_orch p)) rid) = Some RRunning)"

definition closed :: "string \<Rightarrow> bool option \<Rightarrow> platform \<Rightarrow> bool" where
  "closed rid b p = (b \<noteq> None \<and> \<not> still_running rid p)"

text \<open>The turns that are left at most: five per command and four per result, ten for each that is not published.\<close>

definition event_left :: "nat \<Rightarrow> event_pc \<Rightarrow> nat" where
  "event_left n pc =
     (case pc of
        EvCheck \<Rightarrow> 10 * n + 7 | EvEffect \<Rightarrow> 10 * n + 6 | EvFailedStore \<Rightarrow> 1 | EvReadyStore \<Rightarrow> 10 * n + 5
      | EvSelect \<Rightarrow> 10 * n + 4 | EvPublish sel i \<Rightarrow> 10 * (n - i) + 3 | EvRecord sel \<Rightarrow> 2 | EvReadyNotify \<Rightarrow> 1
      | EvDone r \<Rightarrow> 0)"

definition command_left :: "((nat \<Rightarrow> string) \<times> dict \<times> command_pc) option \<Rightarrow> nat" where
  "command_left cmd =
     (case cmd of
        None \<Rightarrow> 0
      | Some (u, msg, pc) \<Rightarrow>
          (case pc of CmCheck \<Rightarrow> 8 | CmInsert major \<Rightarrow> 7 | CmTest m d ids tid a \<Rightarrow> 6 | CmAnnounce tid oc ls a b \<Rightarrow> 5 | _ \<Rightarrow> 1))"

definition result_left :: "(dict \<times> result_pc) option \<Rightarrow> nat" where
  "result_left res =
     (case res of
        None \<Rightarrow> 0
      | Some (msg, pc) \<Rightarrow> (case pc of ReCount \<Rightarrow> 3 | ReStats \<Rightarrow> 2 | ReClose ts \<Rightarrow> 1 | ReDone \<Rightarrow> 0))"

definition work_left :: "nat \<Rightarrow> platform \<Rightarrow> nat" where
  "work_left n p = event_left n (pf_event p) + 9 * length (o_test_cmds (pf_orch p)) + command_left (pf_command p)
                   + 4 * length (rn_results (pf_runner p)) + result_left (pf_result p)"


definition used_ids :: "platform \<Rightarrow> string set" where
  "used_ids p = result_ids p \<union> (case pf_command p of None \<Rightarrow> {} | Some (u, msg, pc) \<Rightarrow> {u 0})"

section \<open>A turn of the test runner\<close>

lemma on_trackD:
  assumes "on_track se rid n ds b p"
  obtains r where "find_run (o_db (pf_orch p)) rid = Some r" "definitions (o_db (pf_orch p)) = ds"
    "dispatched_count (r_metadata r) = (if b = None then 0 else int n)"
    "length (run_results (o_db (pf_orch p)) rid) + length (o_test_cmds (pf_orch p)) + not_inserted (pf_command p)
       = published n (pf_event p)"
    "event_ok se rid n (rn_cache (pf_runner p)) (o_db (pf_orch p)) b (pf_event p)"
    "\<forall>c\<in>set (o_test_cmds (pf_orch p)). ready_command se rid ds (rn_cache (pf_runner p)) c"
    "command_ok se rid (rn_cache (pf_runner p)) (o_db (pf_orch p)) (pf_command p)"
    "\<forall>m\<in>set (rn_results (pf_runner p)). names_run rid m"
    "result_ok rid (o_db (pf_orch p)) r (pf_result p)"
    "busy p \<longrightarrow> 0 < published n (pf_event p) \<and> b \<noteq> Some False"
    "status_ok rid (o_db (pf_orch p)) r b (pf_event p) (busy p)"
  using assms unfolding on_track_def Let_def by blast

lemma on_trackI:
  assumes "find_run (o_db (pf_orch p)) rid = Some r" "definitions (o_db (pf_orch p)) = ds"
    "dispatched_count (r_metadata r) = (if b = None then 0 else int n)"
    "length (run_results (o_db (pf_orch p)) rid) + length (o_test_cmds (pf_orch p)) + not_inserted (pf_command p)
       = published n (pf_event p)"
    "event_ok se rid n (rn_cache (pf_runner p)) (o_db (pf_orch p)) b (pf_event p)"
    "\<forall>c\<in>set (o_test_cmds (pf_orch p)). ready_command se rid ds (rn_cache (pf_runner p)) c"
    "command_ok se rid (rn_cache (pf_runner p)) (o_db (pf_orch p)) (pf_command p)"
    "\<forall>m\<in>set (rn_results (pf_runner p)). names_run rid m"
    "result_ok rid (o_db (pf_orch p)) r (pf_result p)"
    "busy p \<longrightarrow> 0 < published n (pf_event p) \<and> b \<noteq> Some False"
    "status_ok rid (o_db (pf_orch p)) r b (pf_event p) (busy p)"
  shows "on_track se rid n ds b p"
  using assms unfolding on_track_def Let_def by blast

lemma early_quiet:
  assumes "on_track se rid n ds b p" and "published n (pf_event p) = 0"
  shows "\<not> busy p" "run_results (o_db (pf_orch p)) rid = []" "o_test_cmds (pf_orch p) = []"
    "pf_command p = None" "rn_results (pf_runner p) = []" "pf_result p = None"
proof -
  from on_trackD [OF assms(1)] obtain r where
    r: "length (run_results (o_db (pf_orch p)) rid) + length (o_test_cmds (pf_orch p)) + not_inserted (pf_command p)
       = published n (pf_event p)" "busy p \<longrightarrow> 0 < published n (pf_event p) \<and> b \<noteq> Some False" by metis
  show "\<not> busy p" using r(2) assms(2) by simp
  then show "o_test_cmds (pf_orch p) = []" "pf_command p = None" "rn_results (pf_runner p) = []" "pf_result p = None"
    unfolding busy_def can_move.simps by blast+
  show "run_results (o_db (pf_orch p)) rid = []" using r(1) assms(2) by simp
qed

text \<open>A run that is done has no command left that could touch its rows.\<close>

lemma done_no_more:
  assumes "run_done db rid r" and "dispatched_count (r_metadata r) = (if b = None then 0 else int n)"
    and "length (run_results db rid) + length cmds + not_inserted cmd = published n pc"
    and "event_ok se rid n cache db' b pc" and "command_ok se rid cache db cmd"
  shows "b \<noteq> None" "cmds = []" "not_inserted cmd = 0" "length (run_results db rid) = n" "0 < n" "all_final db rid"
proof -
  show b: "b \<noteq> None" using assms(1,2) by (auto simp: run_done_def split: if_splits)
  then have "published n pc = n" using assms(4) by (cases pc) (auto simp: event_ok_def published_def)
  moreover have "n \<le> length (run_results db rid)" using assms(1,2) b by (auto simp: run_done_def)
  ultimately show "length (run_results db rid) = n" "cmds = []" "not_inserted cmd = 0" using assms(3) by auto
  show "0 < n" using assms(1,2) b by (auto simp: run_done_def)
  show "all_final db rid"
    using assms(1) by (auto simp: run_done_def all_final_def in_flight_status_def final_status_of_def)
qed

lemma run_results_update:
  assumes "\<And>t. t_run_id (f t) = t_run_id t"
  shows "run_results (update_result tid f db) rid = map (\<lambda>t. if t_id t = tid then f t else t) (run_results db rid)"
proof -
  have "t_run_id (if t_id t = tid then f t else t) = t_run_id t" for t by (simp add: assms)
  then show ?thesis by (simp add: run_results_def update_result_def filter_map o_def)
qed

lemma select_tests_rows: "select_tests (db\<lparr>results := x\<rparr>) j m = select_tests db j m"
  by (simp add: select_tests_def query_definitions_def active_definitions_def catalog_major_def find_run_def Let_def
      cong: option.case_cong)

lemma event_ok_rows: "event_ok se rid n cache (db\<lparr>results := x\<rparr>) b pc = event_ok se rid n cache db b pc"
  by (cases pc) (simp_all add: event_ok_def select_tests_rows)

lemma result_frame:
  assumes "result_ok rid db r res" and "run_done db rid r \<Longrightarrow> run_done db' rid r'"
    and "run_done db rid r \<Longrightarrow> run_results db' rid = run_results db rid"
  shows "result_ok rid db' r' res"
proof (cases res)
  case (Some x)
  obtain m pc where "x = (m, pc)" by fastforce
  with assms Some show ?thesis by (cases pc) (simp_all add: result_ok_def)
qed (simp add: result_ok_def)

lemma verdict_frame:
  "verdict_given db rid (r :: run_row) \<Longrightarrow> run_results db' rid = run_results db rid \<Longrightarrow> verdict_given db' rid r"
  "run_done db rid r \<Longrightarrow> run_results db' rid = run_results db rid \<Longrightarrow> run_done db' rid r"
  by (simp_all add: verdict_given_def rate_of_def run_done_def)


lemma ready_fields:
  assumes "ready_command se rid ds cache c"
  obtains eid now sb smsg major app d cd where
    "c = JObj (command_fields eid now (JStr rid) (JStr sb) smsg major app d)" "d \<in> set ds"
    "cached cache (JStr (d_id d)) = Some cd" "runs_well (se_reg se) (se_env se) cd"
  using assms unfolding ready_command_def by (auto simp: test_command_fields)

text \<open>The first command is taken.\<close>

lemma runner_takes:
  assumes "on_track se rid n ds b p" and "pf_command p = None" and "o_test_cmds (pf_orch p) = c # cs"
    and "uuid 0 \<notin> used_ids p"
  obtains msg where
    "runner_turn se uuid p = p\<lparr>pf_orch := (pf_orch p)\<lparr>o_test_cmds := cs\<rparr>, pf_command := Some (uuid, msg, CmCheck)\<rparr>"
    "on_track se rid n ds b (runner_turn se uuid p)"
proof -
  from on_trackD [OF assms(1)] obtain r where
    r: "find_run (o_db (pf_orch p)) rid = Some r" "definitions (o_db (pf_orch p)) = ds"
    "dispatched_count (r_metadata r) = (if b = None then 0 else int n)"
    "length (run_results (o_db (pf_orch p)) rid) + length (o_test_cmds (pf_orch p)) + not_inserted (pf_command p)
       = published n (pf_event p)"
    "event_ok se rid n (rn_cache (pf_runner p)) (o_db (pf_orch p)) b (pf_event p)"
    "\<forall>c\<in>set (o_test_cmds (pf_orch p)). ready_command se rid ds (rn_cache (pf_runner p)) c"
    "command_ok se rid (rn_cache (pf_runner p)) (o_db (pf_orch p)) (pf_command p)"
    "\<forall>m\<in>set (rn_results (pf_runner p)). names_run rid m"
    "result_ok rid (o_db (pf_orch p)) r (pf_result p)"
    "busy p \<longrightarrow> 0 < published n (pf_event p) \<and> b \<noteq> Some False"
    "status_ok rid (o_db (pf_orch p)) r b (pf_event p) (busy p)" by metis
  have busy: "busy p" using assms(3) by (simp add: busy_def)
  have "ready_command se rid ds (rn_cache (pf_runner p)) c" using r(6) assms(3) by simp
  from ready_fields [OF this] obtain msg where c: "c = JObj msg" by metis
  let ?p = "p\<lparr>pf_orch := (pf_orch p)\<lparr>o_test_cmds := cs\<rparr>, pf_command := Some (uuid, msg, CmCheck)\<rparr>"
  have turn: "runner_turn se uuid p = ?p" by (simp add: runner_turn_def assms(2,3) c)
  have fresh: "uuid 0 \<notin> t_id ` set (results (o_db (pf_orch p)))" using assms(4) by (simp add: used_ids_def result_ids_def)
  have "on_track se rid n ds b ?p"
  proof (rule on_trackI [of _ _ r])
    show "command_ok se rid (rn_cache (pf_runner ?p)) (o_db (pf_orch ?p)) (pf_command ?p)"
      using r(6,7) fresh assms(2,3) c r(2) by (simp add: command_ok_def)
    show "length (run_results (o_db (pf_orch ?p)) rid) + length (o_test_cmds (pf_orch ?p)) + not_inserted (pf_command ?p)
       = published n (pf_event ?p)"
      using r(4) assms(2,3) by (simp add: not_inserted_def)
    show "status_ok rid (o_db (pf_orch ?p)) r b (pf_event ?p) (busy ?p)" using r(11) busy by (simp add: busy_def)
    show "busy ?p \<longrightarrow> 0 < published n (pf_event ?p) \<and> b \<noteq> Some False" using r(10) busy by simp
  qed (use r(1-3,5,6,8,9) assms(3) in simp_all)
  with turn that show ?thesis by metis
qed

text \<open>The command in hand goes one step on: what the step must do to the rows.\<close>

lemma runner_step_on_track:
  assumes tr: "on_track se rid n ds b p" and cmd: "pf_command p = Some (u, msg, pc)"
    and step: "command_step (se_reg se) (se_tb se) True u msg (se_env se) pc ((pf_runner p)\<lparr>rn_db := o_db (pf_orch p)\<rparr>)
        (pf_world p) = Some (pc', s', w')"
    and s': "rn_cache s' = rn_cache (pf_runner p)" "rn_db s' = (o_db (pf_orch p))\<lparr>results := rs\<rparr>"
      "rn_results s' = rn_results (pf_runner p) @ ms"
    and ms: "\<forall>m\<in>set ms. names_run rid m"
    and rows: "length (run_results (rn_db s') rid) + not_inserted (in_hand_after u msg pc')
        = length (run_results (o_db (pf_orch p)) rid) + not_inserted (pf_command p)"
    and hand: "command_ok se rid (rn_cache (pf_runner p)) (rn_db s') (in_hand_after u msg pc')"
    and dn: "not_inserted (pf_command p) = 0 \<Longrightarrow> all_final (o_db (pf_orch p)) rid \<Longrightarrow>
        run_results (rn_db s') rid = run_results (o_db (pf_orch p)) rid"
    and act: "in_hand_after u msg pc' \<noteq> None \<or> ms \<noteq> []"
    and less_left: "command_left (in_hand_after u msg pc') + 4 * length ms < command_left (pf_command p)"
    and ids: "t_id ` set rs \<subseteq> insert (u 0) (t_id ` set (results (o_db (pf_orch p))))"
  shows "on_track se rid n ds b (runner_turn se uuid p)
       \<and> work_left n (runner_turn se uuid p) < work_left n p
       \<and> used_ids (runner_turn se uuid p) \<subseteq> used_ids p
       \<and> pf_event (runner_turn se uuid p) = pf_event p
       \<and> still_running rid (runner_turn se uuid p) = still_running rid p"
proof -
  let ?db = "o_db (pf_orch p)" and ?cache = "rn_cache (pf_runner p)"
  from on_trackD [OF tr] obtain r where
    r: "find_run ?db rid = Some r" "definitions ?db = ds"
    "dispatched_count (r_metadata r) = (if b = None then 0 else int n)"
    "length (run_results ?db rid) + length (o_test_cmds (pf_orch p)) + not_inserted (pf_command p) = published n (pf_event p)"
    "event_ok se rid n ?cache ?db b (pf_event p)"
    "\<forall>c\<in>set (o_test_cmds (pf_orch p)). ready_command se rid ds ?cache c"
    "command_ok se rid ?cache ?db (pf_command p)"
    "\<forall>m\<in>set (rn_results (pf_runner p)). names_run rid m"
    "result_ok rid ?db r (pf_result p)"
    "busy p \<longrightarrow> 0 < published n (pf_event p) \<and> b \<noteq> Some False"
    "status_ok rid ?db r b (pf_event p) (busy p)" by metis
  let ?p = "p\<lparr>pf_orch := (pf_orch p)\<lparr>o_db := rn_db s'\<rparr>, pf_runner := s', pf_world := w',
              pf_command := in_hand_after u msg pc'\<rparr>"
  have turn: "runner_turn se uuid p = ?p" by (simp add: runner_turn_def cmd step)
  have busy: "busy p" "busy ?p" using cmd act s'(3) by (auto simp: busy_def)
  have same: "run_results (rn_db s') rid = run_results ?db rid" if "run_done ?db rid r"
    using done_no_more [OF that r(3,4,5,7)] dn by blast
  have dn': "run_done (rn_db s') rid r" if "run_done ?db rid r"
    using verdict_frame(2) [OF that same [OF that]] .
  have vd: "verdict_given (rn_db s') rid r" if "run_done ?db rid r" "verdict_given ?db rid r"
    using verdict_frame(1) [OF that(2) same [OF that(1)]] .
  have run: "find_run (rn_db s') rid = Some r" using r(1) by (simp add: s'(2) find_run_def)
  have "on_track se rid n ds b ?p"
  proof (rule on_trackI [of _ _ r])
    show "event_ok se rid n (rn_cache (pf_runner ?p)) (o_db (pf_orch ?p)) b (pf_event ?p)"
      using r(5) by (simp add: s' event_ok_rows)
    show "result_ok rid (o_db (pf_orch ?p)) r (pf_result ?p)"
      using result_frame [OF r(9) dn' same] by simp
    show "status_ok rid (o_db (pf_orch ?p)) r b (pf_event ?p) (busy ?p)"
      using r(11) busy dn' vd by (auto simp: status_ok_def split: if_splits)
    show "\<forall>m\<in>set (rn_results (pf_runner ?p)). names_run rid m" using r(8) ms by (auto simp: s')
  qed (use r(1-4,6,8,10) run rows hand busy s' in simp_all)
  moreover have "work_left n ?p < work_left n p" using less_left by (simp add: work_left_def s')
  moreover have "used_ids ?p \<subseteq> used_ids p"
    using ids by (auto simp: used_ids_def result_ids_def s' cmd in_hand_after_def split: command_pc.splits)
  ultimately show ?thesis by (simp add: turn still_running_def run r(1))
qed

text \<open>The four steps of a command.\<close>

lemma runner_goes_on:
  assumes "on_track se rid n ds b p" and "pf_command p = Some (u, msg, pc)"
  shows "on_track se rid n ds b (runner_turn se uuid p)
       \<and> work_left n (runner_turn se uuid p) < work_left n p
       \<and> used_ids (runner_turn se uuid p) \<subseteq> used_ids p
       \<and> pf_event (runner_turn se uuid p) = pf_event p
       \<and> still_running rid (runner_turn se uuid p) = still_running rid p"
proof -
  let ?db = "o_db (pf_orch p)" and ?cache = "rn_cache (pf_runner p)" and ?s = "(pf_runner p)\<lparr>rn_db := o_db (pf_orch p)\<rparr>"
  note go = runner_step_on_track [OF assms, of _ _ _ _ _ uuid]
  from on_trackD [OF assms(1)] obtain r where
    r: "find_run ?db rid = Some r" "definitions ?db = ds"
    "command_ok se rid ?cache ?db (pf_command p)"
    "busy p \<longrightarrow> 0 < published n (pf_event p) \<and> b \<noteq> Some False"
    "status_ok rid ?db r b (pf_event p) (busy p)" by metis
  have cmd: "ready_command se rid (definitions ?db) ?cache (JObj msg)"
    using r(3) by (simp add: assms(2) command_ok_def)
  obtain eid now sb smsg major app d cd where
    c: "msg = command_fields eid now (JStr rid) (JStr sb) smsg major app d" "d \<in> set ds"
    "cached ?cache (JStr (d_id d)) = Some cd" "runs_well (se_reg se) (se_env se) cd"
    using ready_fields [OF cmd] r(2) by (metis json.inject(5))
  have id: "get msg ''run_id'' = JStr rid" by (simp add: c(1) command_get)
  show ?thesis
  proof (cases pc)
    case CmCheck
    have "busy p" using assms(2) by (simp add: busy_def)
    with r(4) have "pf_event p \<noteq> EvCheck" "pf_event p \<noteq> EvEffect" by (auto simp: published_def)
    with r(5) have "r_status r \<noteq> RCancelled"
      by (auto simp: status_ok_def verdict_given_def final_status_def split: if_splits)
    with r(1) have "\<not> is_run_cancelled (rn_db ?s) rid" by (simp add: is_run_cancelled_def)
    from check_step [OF this] have "command_step (se_reg se) (se_tb se) True u msg (se_env se) pc ?s (pf_world p)
        = Some (CmInsert major, ?s, pf_world p)" by (simp add: c(1) CmCheck)
    from go [OF this, of "results ?db" "[]"] show ?thesis
      using r(3) c(1) by (simp add: assms(2) CmCheck in_hand_after_def not_inserted_def command_left_def command_ok_def
          command_accepted subset_insertI)
  next
    case (CmInsert m)
    have m: "m = major" and fresh: "\<forall>t\<in>set (results ?db). t_id t \<noteq> u 0" and fin: "all_final ?db rid"
      using r(3) by (auto simp: assms(2) CmInsert command_ok_def c(1) command_accepted image_iff)
    let ?row = "new_result_row (dispatched_ids rid sb d) (u 0) TRunning (w_clock (pf_world p)) None"
    let ?db' = "?db\<lparr>results := results ?db @ [?row]\<rparr>"
    have "command_step (se_reg se) (se_tb se) True u msg (se_env se) pc ?s (pf_world p)
        = Some (CmTest major cd (dispatched_ids rid sb d) (u 0) (w_clock (pf_world p)), ?s\<lparr>rn_db := ?db'\<rparr>, pf_world p)"
      using insert_step [of d ?s cd u] c(2,3) r(2) fresh by (simp add: c(1) CmInsert m)
    note step = go [OF this, of "results ?db @ [?row]" "[]"]
    have "run_results ?db' rid = run_results ?db rid @ [?row]"
      by (simp add: run_results_def new_result_row_def dispatched_ids_def)
    moreover have "t_id ?row = u 0" "t_status ?row = TRunning" by (simp_all add: new_result_row_def)
    ultimately show ?thesis
      using step cmd c(4) fin
      by (simp add: assms(2) CmInsert in_hand_after_def not_inserted_def command_left_def command_ok_def
          all_final_def in_flight_status_def image_Un)
  next
    case (CmTest m cd' ids tid a)
    have t: "runs_well (se_reg se) (se_env se) cd'"
      "\<exists>t\<in>set (run_results ?db rid). t_id t = tid \<and> in_flight_status (t_status t)"
      "\<forall>t\<in>set (run_results ?db rid). t_id t \<noteq> tid \<longrightarrow> final_status_of (t_status t)"
      using r(3) by (simp_all add: assms(2) CmTest command_ok_def)
    obtain oc lines w' f where
      f: "command_step (se_reg se) (se_tb se) True u msg (se_env se) (CmTest m cd' ids tid a) ?s (pf_world p)
       = Some (CmAnnounce tid oc lines a (w_clock w'), ?s\<lparr>rn_db := update_result tid f (rn_db ?s)\<rparr>, w')"
      "\<And>t. t_id (f t) = t_id t" "\<And>t. t_run_id (f t) = t_run_id t" "\<And>t. final_status_of (t_status (f t))"
      using test_step [OF t(1)] by metis
    let ?rs = "map (\<lambda>t. if t_id t = tid then f t else t) (results ?db)"
    have rows: "run_results (?db\<lparr>results := ?rs\<rparr>) rid = map (\<lambda>t. if t_id t = tid then f t else t) (run_results ?db rid)"
      using run_results_update [of f tid ?db rid] f(3) by (simp add: update_result_def)
    have "\<not> all_final ?db rid"
      using t(2) by (auto simp: all_final_def in_flight_status_def final_status_of_def)
    moreover have "all_final (?db\<lparr>results := ?rs\<rparr>) rid" using t(3) f(4) by (auto simp: all_final_def rows)
    moreover have "t_id ` set ?rs \<subseteq> insert (u 0) (t_id ` set (results ?db))" using f(2) by auto
    ultimately show ?thesis
      using go [OF f(1) [folded CmTest], of ?rs "[]"] cmd
      by (simp add: assms(2) CmTest in_hand_after_def not_inserted_def command_left_def command_ok_def update_result_def rows)
  next
    case (CmAnnounce tid oc lines a k)
    obtain m s' where
      m: "command_step (se_reg se) (se_tb se) True u msg (se_env se) (CmAnnounce tid oc lines a k) ?s (pf_world p)
          = Some (CmDone (Inr ()), s', pf_world p)"
      "rn_db s' = rn_db ?s" "rn_cache s' = rn_cache ?s" "rn_results s' = rn_results ?s @ [JObj m]"
      "get m ''run_id'' = get msg ''run_id''"
      by (rule announce_step)
    have fin: "all_final ?db rid" using r(3) by (simp add: assms(2) CmAnnounce command_ok_def)
    from go [OF m(1) [folded CmAnnounce], of "results ?db" "[JObj m]"] show ?thesis
      using fin m id by (simp add: assms(2) CmAnnounce in_hand_after_def not_inserted_def command_left_def command_ok_def
          names_run_def subset_insertI)
  qed (use r(3) in \<open>simp_all add: assms(2) command_ok_def\<close>)
qed

lemma runner_on_track:
  assumes "on_track se rid n ds b p" and "can_move Runner p" and "uuid 0 \<notin> used_ids p"
  shows "on_track se rid n ds b (runner_turn se uuid p)
       \<and> work_left n (runner_turn se uuid p) < work_left n p
       \<and> used_ids (runner_turn se uuid p) \<subseteq> insert (uuid 0) (used_ids p)
       \<and> pf_event (runner_turn se uuid p) = pf_event p
       \<and> still_running rid (runner_turn se uuid p) = still_running rid p"
proof (cases "pf_command p")
  case None
  then obtain c cs where cs: "o_test_cmds (pf_orch p) = c # cs" using assms(2) by (cases "o_test_cmds (pf_orch p)") auto
  obtain msg where m:
    "runner_turn se uuid p = p\<lparr>pf_orch := (pf_orch p)\<lparr>o_test_cmds := cs\<rparr>, pf_command := Some (uuid, msg, CmCheck)\<rparr>"
    "on_track se rid n ds b (runner_turn se uuid p)"
    by (rule runner_takes [where uuid = uuid, OF assms(1) None cs assms(3)])
  show ?thesis
    using m(2) None cs unfolding m(1)
    by (auto simp: work_left_def command_left_def used_ids_def result_ids_def still_running_def)
next
  case (Some x)
  then obtain u msg pc where "pf_command p = Some (u, msg, pc)" by (cases x) auto
  from runner_goes_on [OF assms(1) this, of uuid] show ?thesis by blast
qed


section \<open>A turn of the result consumer\<close>

lemma counted_is_done:
  assumes "find_run db rid = Some r"
  obtains k where "count_results db rid = Some k"
    "(cnt_dispatched k = 0 \<or> cnt_in_flight k > 0 \<or> cnt_finished k < cnt_dispatched k) \<longleftrightarrow> \<not> run_done db rid r"
proof -
  let ?ts = "run_results db rid"
  obtain k where k: "count_results db rid = Some k" using assms by (simp add: count_results_def)
  have "(cnt_dispatched k = 0 \<or> cnt_in_flight k > 0 \<or> cnt_finished k < cnt_dispatched k) \<longleftrightarrow> \<not> run_done db rid r"
  proof (cases "\<forall>t \<in> set ?ts. \<not> in_flight_status (t_status t)")
    case True
    then have "filter (\<lambda>t. \<not> in_flight_status (t_status t)) ?ts = ?ts"
      and "filter (\<lambda>t. in_flight_status (t_status t)) ?ts = []"
      by (simp_all add: filter_empty_conv filter_id_conv)
    then show ?thesis using k True assms by (auto simp: count_results_def run_done_def)
  next
    case False
    then show ?thesis using k assms by (auto simp: count_results_def run_done_def filter_empty_conv)
  qed
  with k that show ?thesis by blast
qed

text \<open>Once the number is recorded, a run that is not done has a command in hand or waiting.\<close>

lemma not_done_busy:
  assumes "\<not> run_done db rid r" and "dispatched_count (r_metadata r) = (if b = None then 0 else int n)" and "b \<noteq> None"
    and "length (run_results db rid) + length cmds + not_inserted cmd = published n pc"
    and "event_ok se rid n cache db' b pc" and "command_ok se rid cache db cmd" and "0 < published n pc"
  shows "cmd \<noteq> None \<or> cmds \<noteq> []"
proof (rule ccontr)
  assume "\<not> (cmd \<noteq> None \<or> cmds \<noteq> [])"
  then have none: "cmd = None" "cmds = []" by blast+
  have "published n pc = n" using assms(3,5) by (cases pc) (auto simp: event_ok_def published_def)
  moreover have "all_final db rid" using assms(6) by (simp add: none command_ok_def)
  ultimately have "run_done db rid r"
    using assms(2,3,4,7)
    by (auto simp: none not_inserted_def run_done_def all_final_def in_flight_status_def final_status_of_def)
  with assms(1) show False by simp
qed

lemma results_take:
  assumes "on_track se rid n ds b p" and "pf_result p = None" and "rn_results (pf_runner p) = m # ms"
  obtains msg where
    "results_turn se now p = (None, p\<lparr>pf_runner := (pf_runner p)\<lparr>rn_results := ms\<rparr>, pf_result := Some (msg, ReCount)\<rparr>)"
    "on_track se rid n ds b (snd (results_turn se now p))"
proof -
  let ?db = "o_db (pf_orch p)" and ?cache = "rn_cache (pf_runner p)"
  from on_trackD [OF assms(1)] obtain r where
    r: "find_run ?db rid = Some r" "definitions ?db = ds"
    "dispatched_count (r_metadata r) = (if b = None then 0 else int n)"
    "length (run_results ?db rid) + length (o_test_cmds (pf_orch p)) + not_inserted (pf_command p) = published n (pf_event p)"
    "event_ok se rid n ?cache ?db b (pf_event p)"
    "\<forall>c\<in>set (o_test_cmds (pf_orch p)). ready_command se rid ds ?cache c"
    "command_ok se rid ?cache ?db (pf_command p)"
    "\<forall>m\<in>set (rn_results (pf_runner p)). names_run rid m"
    "result_ok rid ?db r (pf_result p)"
    "busy p \<longrightarrow> 0 < published n (pf_event p) \<and> b \<noteq> Some False"
    "status_ok rid ?db r b (pf_event p) (busy p)" by metis
  obtain msg where m: "m = JObj msg" "get msg ''run_id'' = JStr rid"
    using r(8) assms(3) by (auto simp: names_run_def)
  let ?p = "p\<lparr>pf_runner := (pf_runner p)\<lparr>rn_results := ms\<rparr>, pf_result := Some (msg, ReCount)\<rparr>"
  have turn: "results_turn se now p = (None, ?p)" by (simp add: results_turn_def assms(2,3) m(1))
  have busy: "busy p" "busy ?p" using assms(3) by (simp_all add: busy_def)
  have "on_track se rid n ds b ?p"
  proof (rule on_trackI [of _ _ r])
    show "result_ok rid (o_db (pf_orch ?p)) r (pf_result ?p)" by (simp add: result_ok_def m(2))
    show "status_ok rid (o_db (pf_orch ?p)) r b (pf_event ?p) (busy ?p)" using r(11) busy by simp
  qed (use r(1-8,10) busy assms(3) in simp_all)
  with turn that show ?thesis by (metis snd_conv)
qed

lemma results_go_on:
  assumes "on_track se rid n ds b p" and "pf_result p = Some (msg, pc)" and "results_turn se now p = (rep, p')"
  shows "on_track se rid n ds b p' \<and> work_left n p' < work_left n p \<and> used_ids p' = used_ids p \<and> pf_event p' = pf_event p
       \<and> (rep = None \<longleftrightarrow> closed rid b p' = closed rid b p) \<and> (closed rid b p \<longrightarrow> closed rid b p')"
proof -
  let ?db = "o_db (pf_orch p)" and ?cache = "rn_cache (pf_runner p)"
  from on_trackD [OF assms(1)] obtain r where
    r: "find_run ?db rid = Some r" "definitions ?db = ds"
    "dispatched_count (r_metadata r) = (if b = None then 0 else int n)"
    "length (run_results ?db rid) + length (o_test_cmds (pf_orch p)) + not_inserted (pf_command p) = published n (pf_event p)"
    "event_ok se rid n ?cache ?db b (pf_event p)"
    "\<forall>c\<in>set (o_test_cmds (pf_orch p)). ready_command se rid ds ?cache c"
    "command_ok se rid ?cache ?db (pf_command p)"
    "\<forall>m\<in>set (rn_results (pf_runner p)). names_run rid m"
    "result_ok rid ?db r (pf_result p)"
    "busy p \<longrightarrow> 0 < published n (pf_event p) \<and> b \<noteq> Some False"
    "status_ok rid ?db r b (pf_event p) (busy p)" by metis
  have busy: "busy p" using assms(2) by (simp add: busy_def)
  then have pub: "0 < published n (pf_event p)" "b \<noteq> Some False" using r(10) by auto
  then have ev: "pf_event p \<noteq> EvCheck" "pf_event p \<noteq> EvEffect" by (auto simp: published_def)
  have id: "get msg ''run_id'' = JStr rid" "key_of (get msg ''run_id'') = rid"
    using r(9) by (simp_all add: assms(2) result_ok_def key_of_def)
  show ?thesis
  proof (cases pc)
    case ReCount
    obtain k where k: "count_results ?db rid = Some k"
      "(cnt_dispatched k = 0 \<or> cnt_in_flight k > 0 \<or> cnt_finished k < cnt_dispatched k) \<longleftrightarrow> \<not> run_done ?db rid r"
      by (rule counted_is_done [OF r(1)])
    define live where "live = publish_live (JObj [(''event_type'', JStr ''test.result''), (''run_id'', get msg ''run_id''),
                                   (''definition_slug'', get msg ''definition_slug''),
                                   (''status'', get msg ''status'')]) (pf_orch p)"
    have live: "o_db live = ?db" "o_test_cmds live = o_test_cmds (pf_orch p)" by (simp_all add: live_def publish_live_def)
    have turn: "rep = None" "p' = p\<lparr>pf_orch := live, pf_result := (if run_done ?db rid r then Some (msg, ReStats) else None)\<rparr>"
      using assms(3) k by (auto simp: results_turn_def assms(2) ReCount Let_def live_def [symmetric] live id(2))
    have act: "busy p'" if "b = Some True"
    proof (cases "run_done ?db rid r")
      case True
      then show ?thesis by (simp add: turn(2) busy_def)
    next
      case False
      from not_done_busy [OF this r(3) _ r(4,5,7) pub(1)] that show ?thesis by (auto simp: turn(2) busy_def live)
    qed
    have "on_track se rid n ds b p'"
    proof (rule on_trackI [of _ _ r])
      show "result_ok rid (o_db (pf_orch p')) r (pf_result p')" by (simp add: turn(2) live result_ok_def id)
      show "status_ok rid (o_db (pf_orch p')) r b (pf_event p') (busy p')"
        using r(11) ev act by (auto simp: turn(2) live status_ok_def)
      show "busy p' \<longrightarrow> 0 < published n (pf_event p') \<and> b \<noteq> Some False" using pub by (simp add: turn(2))
    qed (use r(1-8) in \<open>simp_all add: turn(2) live\<close>)
    then show ?thesis
      by (auto simp: turn work_left_def result_left_def assms(2) ReCount live used_ids_def result_ids_def closed_def still_running_def)
  next
    case ReStats
    have dn: "run_done ?db rid r" using r(9) by (simp add: assms(2) ReStats result_ok_def)
    have turn: "rep = None" "p' = p\<lparr>pf_result := Some (msg, ReClose (run_results ?db rid))\<rparr>"
      using assms(3) by (auto simp: results_turn_def assms(2) ReStats id(2))
    have busy': "busy p'" by (simp add: turn(2) busy_def)
    have "on_track se rid n ds b p'"
    proof (rule on_trackI [of _ _ r])
      show "result_ok rid (o_db (pf_orch p')) r (pf_result p')" using dn by (simp add: turn(2) result_ok_def id)
      show "status_ok rid (o_db (pf_orch p')) r b (pf_event p') (busy p')" using r(11) busy busy' by (simp add: turn(2))
      show "busy p' \<longrightarrow> 0 < published n (pf_event p') \<and> b \<noteq> Some False" using pub by (simp add: turn(2))
    qed (use r(1-8) in \<open>simp_all add: turn(2)\<close>)
    then show ?thesis
      by (auto simp: turn work_left_def result_left_def assms(2) ReStats used_ids_def result_ids_def closed_def still_running_def)
  next
    case (ReClose ts)
    have dn: "run_done ?db rid r" and ts: "ts = run_results ?db rid"
      using r(9) by (simp_all add: assms(2) ReClose result_ok_def)
    have b: "b = Some True" using done_no_more(1) [OF dn r(3,4,5,7)] pub(2) by auto
    have rate: "percentage (passed_in ts) (length ts) = rate_of ?db rid" by (simp add: ts rate_of_def)
    let ?fin = "final_status 100 80 (rate_of ?db rid)"
    show ?thesis
    proof (cases "r_status r = RRunning")
      case True
      let ?r = "r\<lparr>r_status := ?fin, r_pass_rate := Some (numeric2 (rate_of ?db rid)), r_completed_at := Some now\<rparr>"
      let ?db' = "update_run rid (\<lambda>_. ?r) ?db"
      have close: "close_run rid ?fin (rate_of ?db rid) now ?db = (Some ?r, ?db')"
        using r(1) True by (simp add: close_run_def Let_def)
      have some: "rep \<noteq> None" and turn: "p' = p\<lparr>pf_orch := (pf_orch p)\<lparr>o_db := ?db'\<rparr>, pf_result := None\<rparr>"
        using assms(3) by (auto simp: results_turn_def assms(2) ReClose Let_def id(2) rate close)
      have run: "find_run ?db' rid = Some ?r"
        using r(1) find_run_id [OF r(1)] by (simp add: find_run_def update_run_def find_map_const)
      have same: "run_results ?db' rid = run_results ?db rid" "results ?db' = results ?db" "definitions ?db' = definitions ?db"
        by (simp_all add: update_run_def run_results_def)
      have st: "r_status ?r \<noteq> RRunning" by (simp add: final_status_def)
      have "on_track se rid n ds b p'"
      proof (rule on_trackI [of _ _ ?r])
        show "event_ok se rid n (rn_cache (pf_runner p')) (o_db (pf_orch p')) b (pf_event p')"
          using r(5) b by (cases "pf_event p") (simp_all add: turn event_ok_def)
        show "command_ok se rid (rn_cache (pf_runner p')) (o_db (pf_orch p')) (pf_command p')"
          using r(7) by (simp add: turn command_ok_def all_final_def same cong: option.case_cong command_pc.case_cong)
        show "status_ok rid (o_db (pf_orch p')) ?r b (pf_event p') (busy p')"
          using st ev b dn by (simp add: turn status_ok_def verdict_given_def rate_of_def same run_done_def)
        show "busy p' \<longrightarrow> 0 < published n (pf_event p') \<and> b \<noteq> Some False" using pub by (simp add: turn)
        show "result_ok rid (o_db (pf_orch p')) ?r (pf_result p')" by (simp add: turn result_ok_def)
      qed (use r(1-8) run same in \<open>simp_all add: turn\<close>)
      moreover have "closed rid b p'" "\<not> closed rid b p"
        using True st run r(1) b by (simp_all add: closed_def still_running_def turn)
      ultimately show ?thesis
        using some by (auto simp: turn work_left_def result_left_def assms(2) ReClose used_ids_def result_ids_def same)
    next
      case False
      then have close: "close_run rid ?fin (rate_of ?db rid) now ?db = (None, ?db)"
        using r(1) by (simp add: close_run_def)
      have turn: "rep = None" "p' = p\<lparr>pf_result := None\<rparr>"
        using assms(3) by (auto simp: results_turn_def assms(2) ReClose Let_def id(2) rate close)
      have "on_track se rid n ds b p'"
      proof (rule on_trackI [of _ _ r])
        show "status_ok rid (o_db (pf_orch p')) r b (pf_event p') (busy p')"
          using r(11) False ev by (simp add: turn status_ok_def)
        show "busy p' \<longrightarrow> 0 < published n (pf_event p') \<and> b \<noteq> Some False" using pub by (simp add: turn)
      qed (use r(1-8) in \<open>simp_all add: turn result_ok_def\<close>)
      then show ?thesis
        by (auto simp: turn work_left_def result_left_def assms(2) ReClose used_ids_def result_ids_def closed_def still_running_def)
    qed
  qed (use r(9) in \<open>simp add: assms(2) result_ok_def\<close>)
qed

lemma results_on_track:
  assumes "on_track se rid n ds b p" and "can_move Results p" and "results_turn se now p = (rep, p')"
  shows "on_track se rid n ds b p' \<and> work_left n p' < work_left n p \<and> used_ids p' = used_ids p \<and> pf_event p' = pf_event p
       \<and> (rep = None \<longleftrightarrow> closed rid b p' = closed rid b p) \<and> (closed rid b p \<longrightarrow> closed rid b p')"
proof (cases "pf_result p")
  case None
  then obtain m ms where ms: "rn_results (pf_runner p) = m # ms" using assms(2) by (cases "rn_results (pf_runner p)") auto
  obtain msg where m:
    "results_turn se now p = (None, p\<lparr>pf_runner := (pf_runner p)\<lparr>rn_results := ms\<rparr>, pf_result := Some (msg, ReCount)\<rparr>)"
    "on_track se rid n ds b (snd (results_turn se now p))"
    by (rule results_take [OF assms(1) None ms])
  have "rep = None" "p' = p\<lparr>pf_runner := (pf_runner p)\<lparr>rn_results := ms\<rparr>, pf_result := Some (msg, ReCount)\<rparr>"
    using m(1) assms(3) by simp_all
  with m(2) assms(3) show ?thesis
    by (auto simp: work_left_def result_left_def ms None used_ids_def result_ids_def closed_def still_running_def)
next
  case (Some x)
  then obtain msg pc where "pf_result p = Some (msg, pc)" by (cases x) auto
  from results_go_on [OF assms(1) this assms(3)] show ?thesis .
qed


section \<open>A turn of the handler of the ready event\<close>

lemma select_frame:
  assumes "find_run db rid = Some r" and "find_run db' rid = Some r'"
    and "r_suite_ids r' = r_suite_ids r" "r_release_tag r' = r_release_tag r" "r_metadata r' = r_metadata r"
      "r_app_address r' = r_app_address r"
    and "definitions db' = definitions db" "release_catalog db' = release_catalog db"
  shows "select_tests db' (JStr rid) m = select_tests db (JStr rid) m"
  using assms
  by (simp add: select_tests_def key_of_def query_definitions_def active_definitions_def catalog_major_def Let_def)

lemma event_commands:
  assumes "sel_ok se n ds cache sel" and "i < n"
  shows "ready_command se rid ds cache
    (test_command e now (JStr rid) (JStr sb) msg (sel_major sel) (sel_app_address sel) (sel_definitions sel ! i))"
proof -
  have "sel_definitions sel ! i \<in> set (sel_definitions sel)" using assms by (simp add: sel_ok_def)
  with assms(1) show ?thesis unfolding sel_ok_def ready_command_def by blast
qed

text \<open>What \<open>b\<close> is after a turn of the handler.\<close>

definition after_event :: "bool option \<Rightarrow> platform \<Rightarrow> bool option" where
  "after_event b p = (case pf_event p of EvRecord sel \<Rightarrow> Some (busy p) | _ \<Rightarrow> b)"

text \<open>A turn that is not the commit of the number, by what it does to the state.\<close>

lemma event_quiet_turn:
  assumes "on_track se rid n ds b p" and "event_step (se_row_ok se) (se_eid se) now (se_msg se) (pf_event p) (pf_orch p) = (pc, s)"
    and "\<nexists>sel. pf_event p = EvRecord sel" and "results (o_db s) = results (o_db (pf_orch p))"
    and "definitions (o_db s) = definitions (o_db (pf_orch p))"
    and "\<And>r. find_run (o_db (pf_orch p)) rid = Some r \<Longrightarrow> \<exists>r'. find_run (o_db s) rid = Some r' \<and> r_metadata r' = r_metadata r
           \<and> (r_status r' = r_status r \<and> pf_event p \<noteq> EvEffect \<or> r_status r' = RRunning \<and> pf_event p = EvEffect)"
    and "o_test_cmds s = o_test_cmds (pf_orch p) @ cs" and "\<forall>c\<in>set cs. ready_command se rid ds (rn_cache (pf_runner p)) c"
    and "published n pc = published n (pf_event p) + length cs"
    and "event_ok se rid n (rn_cache (pf_runner p)) (o_db s) b pc"
    and "event_left n pc + 9 * length cs < event_left n (pf_event p)"
    and "pc = EvEffect \<longleftrightarrow> pf_event p = EvCheck" and "pc \<noteq> EvCheck"
    and "cs = [] \<or> b = None"
  shows "on_track se rid n ds b (event_turn se now p) \<and> work_left n (event_turn se now p) < work_left n p
       \<and> used_ids (event_turn se now p) = used_ids p \<and> (b \<noteq> None \<longrightarrow> closed rid b (event_turn se now p) = closed rid b p)"
proof -
  let ?db = "o_db (pf_orch p)" and ?p = "p\<lparr>pf_event := pc, pf_orch := s\<rparr>"
  have turn: "event_turn se now p = ?p" by (simp add: event_turn_def assms(2))
  from on_trackD [OF assms(1)] obtain r where
    r: "find_run ?db rid = Some r" "definitions ?db = ds"
    "dispatched_count (r_metadata r) = (if b = None then 0 else int n)"
    "length (run_results ?db rid) + length (o_test_cmds (pf_orch p)) + not_inserted (pf_command p) = published n (pf_event p)"
    "event_ok se rid n (rn_cache (pf_runner p)) ?db b (pf_event p)"
    "\<forall>c\<in>set (o_test_cmds (pf_orch p)). ready_command se rid ds (rn_cache (pf_runner p)) c"
    "command_ok se rid (rn_cache (pf_runner p)) ?db (pf_command p)"
    "\<forall>m\<in>set (rn_results (pf_runner p)). names_run rid m"
    "result_ok rid ?db r (pf_result p)"
    "busy p \<longrightarrow> 0 < published n (pf_event p) \<and> b \<noteq> Some False"
    "status_ok rid ?db r b (pf_event p) (busy p)" by metis
  obtain r' where r': "find_run (o_db s) rid = Some r'" "r_metadata r' = r_metadata r"
    "r_status r' = r_status r \<and> pf_event p \<noteq> EvEffect \<or> r_status r' = RRunning \<and> pf_event p = EvEffect"
    using assms(6) [OF r(1)] by blast
  have rows: "run_results (o_db s) rid = run_results ?db rid" by (simp add: run_results_def assms(4))
  have dn: "run_done (o_db s) rid r' \<longleftrightarrow> run_done ?db rid r" by (simp add: run_done_def r'(2) rows)
  have busy: "busy ?p \<longleftrightarrow> busy p \<or> cs \<noteq> []" by (auto simp: busy_def assms(7))
  have eff: "pf_event p = EvEffect \<Longrightarrow> b = None" using r(5) by (auto simp: event_ok_def)
  have "on_track se rid n ds b ?p"
  proof (rule on_trackI [of _ _ r'])
    show "command_ok se rid (rn_cache (pf_runner ?p)) (o_db (pf_orch ?p)) (pf_command ?p)"
      using r(7) by (simp add: command_ok_def all_final_def rows assms(4,5) cong: option.case_cong command_pc.case_cong)
    show "result_ok rid (o_db (pf_orch ?p)) r' (pf_result ?p)"
      using result_frame [OF r(9), of "o_db s" r'] dn rows by simp
    show "busy ?p \<longrightarrow> 0 < published n (pf_event ?p) \<and> b \<noteq> Some False"
      using r(10) assms(9,14) busy by auto
    show "status_ok rid (o_db (pf_orch ?p)) r' b (pf_event ?p) (busy ?p)"
      using r(11) r'(3) dn busy assms(12,13) rows eff
      by (auto simp: status_ok_def verdict_given_def rate_of_def split: if_splits)
  qed (use r(1-8) r' rows assms in auto)
  moreover have "work_left n ?p < work_left n p" using assms(11) by (simp add: work_left_def assms(7))
  moreover have "used_ids ?p = used_ids p" by (simp add: used_ids_def result_ids_def assms(4))
  moreover have "closed rid b ?p = closed rid b p" if "b \<noteq> None"
  proof -
    have "pf_event p \<noteq> EvEffect" using r(5) that by (auto simp: event_ok_def)
    then show ?thesis using r'(1,3) r(1) by (simp add: closed_def still_running_def)
  qed
  ultimately show ?thesis by (simp add: turn)
qed


lemma record_turn:
  assumes "on_track se rid n ds b p" and "pf_event p = EvRecord sel" and "get (se_msg se) ''run_id'' = JStr rid"
  shows "on_track se rid n ds (Some (busy p)) (event_turn se now p) \<and> work_left n (event_turn se now p) < work_left n p
       \<and> used_ids (event_turn se now p) = used_ids p \<and> \<not> closed rid (Some (busy p)) (event_turn se now p)
       \<and> pf_event (event_turn se now p) = EvReadyNotify \<and> b = None"
proof -
  let ?db = "o_db (pf_orch p)"
  from on_trackD [OF assms(1)] obtain r where
    r: "find_run ?db rid = Some r" "definitions ?db = ds"
    "dispatched_count (r_metadata r) = (if b = None then 0 else int n)"
    "length (run_results ?db rid) + length (o_test_cmds (pf_orch p)) + not_inserted (pf_command p) = published n (pf_event p)"
    "event_ok se rid n (rn_cache (pf_runner p)) ?db b (pf_event p)"
    "\<forall>c\<in>set (o_test_cmds (pf_orch p)). ready_command se rid ds (rn_cache (pf_runner p)) c"
    "command_ok se rid (rn_cache (pf_runner p)) ?db (pf_command p)"
    "\<forall>m\<in>set (rn_results (pf_runner p)). names_run rid m"
    "result_ok rid ?db r (pf_result p)"
    "busy p \<longrightarrow> 0 < published n (pf_event p) \<and> b \<noteq> Some False"
    "status_ok rid ?db r b (pf_event p) (busy p)" by metis
  have b: "b = None" and n: "length (sel_definitions sel) = n" using r(5) by (simp_all add: assms(2) event_ok_def sel_ok_def)
  let ?r = "r\<lparr>r_metadata := meta_merge (r_metadata r) ''dispatched_count'' (JInt (int n))\<rparr>"
  let ?s = "record_dispatched (JStr rid) sel (pf_orch p)"
  let ?p = "p\<lparr>pf_event := EvReadyNotify, pf_orch := ?s\<rparr>"
  have turn: "event_turn se now p = ?p" by (simp add: event_turn_def assms(2,3))
  have run: "find_run (o_db ?s) rid = Some ?r"
    using find_run_mark(3) [of "pf_orch p" "JStr rid" r sel] r(1) n by (simp add: key_of_def)
  have frame: "results (o_db ?s) = results ?db" "definitions (o_db ?s) = definitions ?db" "o_test_cmds ?s = o_test_cmds (pf_orch p)"
    by (simp_all add: record_dispatched_def set_dispatched_def)
  have rows: "run_results (o_db ?s) rid = run_results ?db rid" by (simp add: run_results_def frame)
  have ran: "r_status r = RRunning" using r(11) by (simp add: status_ok_def assms(2) b split: if_splits)
  have "\<not> run_done ?db rid r" using r(3) b by (simp add: run_done_def)
  then have res: "result_ok rid (o_db ?s) ?r (pf_result p)"
    using r(9) by (auto simp: result_ok_def split: option.splits result_pc.splits)
  have busy: "busy ?p = busy p" by (simp add: busy_def frame)
  have "on_track se rid n ds (Some (busy p)) ?p"
  proof (rule on_trackI [of _ _ ?r])
    show "command_ok se rid (rn_cache (pf_runner ?p)) (o_db (pf_orch ?p)) (pf_command ?p)"
      using r(7) by (simp add: command_ok_def all_final_def rows frame cong: option.case_cong command_pc.case_cong)
    show "status_ok rid (o_db (pf_orch ?p)) ?r (Some (busy p)) (pf_event ?p) (busy ?p)"
      using ran busy by (simp add: status_ok_def)
    show "busy ?p \<longrightarrow> 0 < published n (pf_event ?p) \<and> Some (busy p) \<noteq> Some False"
      using r(10) busy by (simp add: assms(2) published_def)
    show "dispatched_count (r_metadata ?r) = (if Some (busy p) = None then 0 else int n)" by simp
  qed (use r(1-8) run rows frame res in \<open>simp_all add: assms(2) published_def event_ok_def\<close>)
  moreover have "work_left n ?p < work_left n p" by (simp add: work_left_def frame assms(2) event_left_def)
  moreover have "used_ids ?p = used_ids p" by (simp add: used_ids_def result_ids_def frame)
  moreover have "\<not> closed rid (Some (busy p)) ?p" using run ran by (simp add: closed_def still_running_def)
  ultimately show ?thesis by (simp add: turn b)
qed

lemma event_on_track:
  assumes tr: "on_track se rid n ds b p" and mv: "can_move Events p" and "rid \<noteq> []"
    and msg: "get (se_msg se) ''run_id'' = JStr rid" "get (se_msg se) ''event_type'' = JStr ''ready''"
      "get (se_msg se) ''sandbox_id'' = JStr sb"
  shows "on_track se rid n ds (after_event b p) (event_turn se now p) \<and> work_left n (event_turn se now p) < work_left n p
       \<and> used_ids (event_turn se now p) = used_ids p
       \<and> closed rid (after_event b p) (event_turn se now p) = closed rid b p
       \<and> ((\<exists>sel. pf_event p = EvRecord sel) \<longrightarrow> b = None \<and> pf_event (event_turn se now p) = EvReadyNotify)"
proof (cases "\<exists>sel. pf_event p = EvRecord sel")
  case True
  then obtain sel where sel: "pf_event p = EvRecord sel" by blast
  from record_turn [OF tr sel msg(1), of now] show ?thesis
    by (auto simp: after_event_def sel closed_def)
next
  case nrec: False
  let ?db = "o_db (pf_orch p)" and ?cache = "rn_cache (pf_runner p)"
  from on_trackD [OF tr] obtain r where
    r: "find_run ?db rid = Some r" "definitions ?db = ds"
    "event_ok se rid n ?cache ?db b (pf_event p)"
    "status_ok rid ?db r b (pf_event p) (busy p)" by metis
  have key: "key_of (JStr rid) = rid" by (simp add: key_of_def)
  have aft: "after_event b p = b" using nrec by (cases "pf_event p") (auto simp: after_event_def)
  note go = event_quiet_turn [OF tr _ nrec, where now = now and cs = "[]"]
  have quiet: ?thesis if "on_track se rid n ds b (event_turn se now p) \<and> work_left n (event_turn se now p) < work_left n p
       \<and> used_ids (event_turn se now p) = used_ids p \<and> (b \<noteq> None \<longrightarrow> closed rid b (event_turn se now p) = closed rid b p)"
    using that nrec unfolding aft by (cases b) (auto simp: closed_def)
  show ?thesis
  proof (cases "pf_event p")
    case EvCheck
    have nc: "\<not> is_run_cancelled ?db rid" using r(1,4) by (simp add: EvCheck status_ok_def is_run_cancelled_def)
    show ?thesis
      by (rule quiet, rule go [where pc = EvEffect and s = "pf_orch p"])
         (use r nc in \<open>simp_all add: EvCheck msg key event_ok_def published_def event_left_def\<close>)
  next
    case EvEffect
    let ?s = "mark_running now (JStr rid) (pf_orch p)"
    have run: "find_run (o_db ?s) rid = Some (r\<lparr>r_status := RRunning, r_started_at := Some now\<rparr>)"
      using find_run_mark(1) [of "pf_orch p" "JStr rid" r now] r(1) by (simp add: key)
    have sel: "select_tests (o_db ?s) (JStr rid) m = select_tests ?db (JStr rid) m" for m
      by (rule select_frame [OF r(1) run]) simp_all
    have res: "results (o_db ?s) = results ?db" by (simp add: mark_running_def)
    show ?thesis
      by (rule quiet, rule go [where pc = EvReadyStore and s = ?s])
         (use r run sel res in \<open>simp_all add: EvEffect msg event_effect_def event_ok_def published_def event_left_def\<close>)
  next
    case EvReadyStore
    let ?s = "store_run_event now (JStr rid) ''sandbox.ready'' (se_msg se) (pf_orch p)"
    have run: "find_run (o_db ?s) rid = Some r" using r(1) by (simp add: find_run_event)
    have sel: "select_tests (o_db ?s) (JStr rid) m = select_tests ?db (JStr rid) m" for m
      by (rule select_frame [OF r(1) run]) simp_all
    have res: "results (o_db ?s) = results ?db" by (simp add: store_run_event_def)
    show ?thesis
      by (rule quiet, rule go [where pc = EvSelect and s = ?s])
         (use r run sel res in \<open>simp_all add: EvReadyStore msg event_ok_def published_def event_left_def\<close>)
  next
    case EvSelect
    obtain sel where sel: "select_tests ?db (JStr rid) (se_msg se) = Inr sel" "sel_ok se n ds ?cache sel" "b = None"
      using r(2,3) by (auto simp: EvSelect event_ok_def)
    have n: "sel_bootstrap sel \<Longrightarrow> n = 0" using sel(2) by (simp add: sel_ok_def)
    show ?thesis
      by (rule quiet, rule go [where pc = "if sel_bootstrap sel then EvRecord sel else EvPublish sel 0" and s = "pf_orch p"])
         (use r(1,2) sel n in \<open>auto simp: EvSelect msg event_ok_def published_def event_left_def\<close>)
  next
    case (EvPublish sel i)
    have sel: "sel_ok se n ds ?cache sel" "length (sel_definitions sel) = n" "b = None" "i \<le> n"
      using r(2,3) by (simp_all add: EvPublish event_ok_def sel_ok_def)
    show ?thesis
    proof (cases "i < n")
      case True
      let ?c = "test_command (se_eid se (Suc i)) now (JStr rid) (JStr sb) (se_msg se) (sel_major sel) (sel_app_address sel)
                  (sel_definitions sel ! i)"
      have c: "ready_command se rid ds ?cache ?c" by (rule event_commands [OF sel(1) True])
      show ?thesis
        by (rule quiet, rule event_quiet_turn [OF tr _ nrec, where now = now and cs = "[?c]"
              and pc = "EvPublish sel (Suc i)" and s = "publish_one (se_eid se) now (JStr rid) (JStr sb) (se_msg se) sel i (pf_orch p)"])
           (use r(1,2) sel True c in \<open>simp_all add: EvPublish msg publish_one_def event_ok_def published_def event_left_def\<close>)
    next
      case False
      with sel(4) have i: "i = n" by simp
      show ?thesis
        by (rule quiet, rule go [where pc = "EvRecord sel" and s = "pf_orch p"])
           (use r(1,2) sel i in \<open>simp_all add: EvPublish msg event_ok_def published_def event_left_def\<close>)
    qed
  next
    case EvReadyNotify
    let ?s = "publish_notification (se_eid se 0) now ''sandbox.ready'' (JStr ''Sandbox ready'') (JStr rid)
                [(''sandbox_id'', JStr sb)] (pf_orch p)"
    show ?thesis
      by (rule quiet, rule go [where pc = "EvDone (Inr ())" and s = ?s])
         (use r in \<open>simp_all add: EvReadyNotify msg db_publish event_ok_def published_def event_left_def\<close>)
  qed (use mv nrec r(3) in \<open>simp_all add: event_ok_def\<close>)
qed


section \<open>Any schedule\<close>

definition idle :: "platform \<Rightarrow> bool" where
  "idle p = (\<not> can_move Events p \<and> \<not> busy p)"

text \<open>The event that is handled, and the fresh ids of a schedule.\<close>

definition ready_event :: "setting \<Rightarrow> string \<Rightarrow> bool" where
  "ready_event se rid = (rid \<noteq> [] \<and> get (se_msg se) ''run_id'' = JStr rid \<and> get (se_msg se) ''event_type'' = JStr ''ready''
                         \<and> (\<exists>sb. get (se_msg se) ''sandbox_id'' = JStr sb))"

definition turn_id :: "actor \<times> (nat \<Rightarrow> string) \<times> int \<Rightarrow> string" where
  "turn_id x = fst (snd x) 0"

text \<open>The turn in which the number of tests is recorded, and the state before it.\<close>

definition records_count :: "setting \<Rightarrow> actor \<times> (nat \<Rightarrow> string) \<times> int \<Rightarrow> platform \<Rightarrow> bool" where
  "records_count se x p = ((\<exists>sel. pf_event p = EvRecord sel) \<and> pf_event (snd (turn se x p)) = EvReadyNotify)"

lemma idle_moves: "idle p \<Longrightarrow> \<not> can_move a p"
  by (cases a) (simp_all add: idle_def busy_def)

lemma idle_turn:
  assumes "idle p"
  shows "turn se x p = (None, p)"
proof -
  have "mover a p = Results" for a using idle_moves [OF assms] by (simp add: mover_def)
  moreover have "results_turn se now p = (None, p)" for now
  proof -
    have "\<not> can_move Results p" by (rule idle_moves [OF assms])
    then have "pf_result p = None" "rn_results (pf_runner p) = []" unfolding can_move.simps by blast+
    then show ?thesis by (simp add: results_turn_def)
  qed
  ultimately show ?thesis by (simp add: turn_def split: prod.split)
qed

lemma turn_on_track:
  assumes "on_track se rid n ds b p" and "ready_event se rid" and "turn_id x \<notin> used_ids p" and "\<not> idle p"
    and "turn se x p = (rep, p')"
  obtains b' where "on_track se rid n ds b' p'" "work_left n p' < work_left n p" "used_ids p' \<subseteq> insert (turn_id x) (used_ids p)"
    "rep = None \<longleftrightarrow> closed rid b' p' = closed rid b p" "closed rid b p \<longrightarrow> closed rid b' p'"
    "b' = b \<or> b = None \<and> b' = Some (busy p) \<and> records_count se x p"
proof -
  obtain a uuid now where x: "x = (a, uuid, now)" by (cases x) auto
  have mv: "can_move (mover a p) p" using assms(4) by (auto simp: mover_def idle_def busy_def)
  have fresh: "uuid 0 \<notin> used_ids p" using assms(3) by (simp add: x turn_id_def)
  show ?thesis
  proof (cases "mover a p")
    case Events
    then have t: "rep = None" "p' = event_turn se now p" using assms(5) by (auto simp: turn_def x)
    obtain sb where m: "rid \<noteq> []" "get (se_msg se) ''run_id'' = JStr rid" "get (se_msg se) ''event_type'' = JStr ''ready''"
      "get (se_msg se) ''sandbox_id'' = JStr sb"
      using assms(2) by (auto simp: ready_event_def)
    note e = event_on_track [OF assms(1) mv [unfolded Events] m, of now]
    have "after_event b p = b \<or> b = None \<and> after_event b p = Some (busy p) \<and> records_count se x p"
      using e assms(5) t by (cases "pf_event p") (auto simp: after_event_def records_count_def)
    with e show ?thesis by (intro that [of "after_event b p"]) (auto simp: t)
  next
    case Runner
    then have t: "rep = None" "p' = runner_turn se uuid p" using assms(5) by (auto simp: turn_def x)
    from runner_on_track [where uuid = uuid, OF assms(1) mv [unfolded Runner] fresh] show ?thesis
      by (intro that [of b]) (auto simp: t x turn_id_def closed_def)
  next
    case Results
    then have t: "results_turn se now p = (rep, p')" using assms(5) by (simp add: turn_def x)
    from results_on_track [OF assms(1) mv [unfolded Results] t] show ?thesis by (intro that [of b]) auto
  qed
qed

lemma deliver_on_track:
  assumes "on_track se rid n ds b p" and "ready_event se rid"
    and "distinct (map turn_id xs)" and "\<forall>x\<in>set xs. turn_id x \<notin> used_ids p" and "deliver se xs p = (reps, p')"
  shows "\<exists>b'. on_track se rid n ds b' p' \<and> (work_left n p \<le> length xs \<longrightarrow> idle p')
       \<and> length reps = (if closed rid b' p' \<and> \<not> closed rid b p then 1 else 0)
       \<and> (closed rid b p \<longrightarrow> closed rid b' p')
       \<and> (b' = b \<or> b = None \<and> (\<exists>ys x zs reps1 p1. xs = ys @ x # zs \<and> deliver se ys p = (reps1, p1)
                            \<and> records_count se x p1 \<and> b' = Some (busy p1)))"
  using assms
proof (induction xs arbitrary: b p reps)
  case Nil
  then have "idle p'" if "work_left n p = 0"
  proof -
    have e: "event_left n (pf_event p) = 0" "o_test_cmds (pf_orch p) = []" "command_left (pf_command p) = 0"
      "rn_results (pf_runner p) = []" "result_left (pf_result p) = 0"
      using that by (simp_all add: work_left_def)
    have "\<not> can_move Events p" using e(1) by (cases "pf_event p") (simp_all add: event_left_def)
    moreover have "pf_command p = None"
      using e(3) by (auto simp: command_left_def split: option.splits command_pc.splits)
    moreover have "pf_result p = None"
    proof (rule ccontr)
      assume "pf_result p \<noteq> None"
      then obtain m pc where pc: "pf_result p = Some (m, pc)" by auto
      moreover have "pc = ReDone" using e(5) pc by (cases pc) (simp_all add: result_left_def)
      moreover obtain r where "result_ok rid (o_db (pf_orch p)) r (pf_result p)"
        using on_trackD [OF Nil.prems(1)] by metis
      ultimately show False by (simp add: result_ok_def)
    qed
    ultimately show ?thesis using e(2,4) Nil.prems(5) by (simp add: idle_def busy_def)
  qed
  with Nil show ?case by (intro exI [of _ b]) auto
next
  case (Cons x xs)
  show ?case
  proof (cases "idle p")
    case True
    then have "turn se y p = (None, p)" for y by (rule idle_turn)
    then have "deliver se ys p = ([], p)" for ys by (induction ys) simp_all
    from this [of "x # xs"] Cons.prems(5) have "reps = []" "p' = p" by simp_all
    with True Cons.prems(1) show ?thesis by (intro exI [of _ b]) simp
  next
    case False
    obtain rep p1 where t: "turn se x p = (rep, p1)" by fastforce
    obtain reps1 where d: "deliver se xs p1 = (reps1, p')" and out: "reps = (case rep of None \<Rightarrow> [] | Some q \<Rightarrow> [q]) @ reps1"
      using Cons.prems(5) t by (auto split: prod.splits)
    have "turn_id x \<notin> used_ids p" using Cons.prems(4) by simp
    from turn_on_track [OF Cons.prems(1,2) this False t] obtain b1 where
      s: "on_track se rid n ds b1 p1" "work_left n p1 < work_left n p" "used_ids p1 \<subseteq> insert (turn_id x) (used_ids p)"
        "rep = None \<longleftrightarrow> closed rid b1 p1 = closed rid b p" "closed rid b p \<longrightarrow> closed rid b1 p1"
        "b1 = b \<or> b = None \<and> b1 = Some (busy p) \<and> records_count se x p" by metis
    have fresh: "\<forall>y\<in>set xs. turn_id y \<notin> used_ids p1"
      using Cons.prems(3,4) s(3) by (fastforce simp: image_iff)
    have dist: "distinct (map turn_id xs)" using Cons.prems(3) by simp
    from Cons.IH [OF s(1) Cons.prems(2) dist fresh d] obtain b' where
      i: "on_track se rid n ds b' p'" "work_left n p1 \<le> length xs \<longrightarrow> idle p'"
        "length reps1 = (if closed rid b' p' \<and> \<not> closed rid b1 p1 then 1 else 0)" "closed rid b1 p1 \<longrightarrow> closed rid b' p'"
        "b' = b1 \<or> b1 = None \<and> (\<exists>ys y zs reps2 p2. xs = ys @ y # zs \<and> deliver se ys p1 = (reps2, p2)
                            \<and> records_count se y p2 \<and> b' = Some (busy p2))" by (elim exE conjE) (rule that)
    have len: "length reps = (if closed rid b' p' \<and> \<not> closed rid b p then 1 else 0)"
      using s(4,5) i(3,4) out by (cases rep) auto
    have "b' = b \<or> b = None \<and> (\<exists>ys y zs reps2 p2. x # xs = ys @ y # zs \<and> deliver se ys p = (reps2, p2)
                            \<and> records_count se y p2 \<and> b' = Some (busy p2))"
      using i(5)
    proof
      assume b': "b' = b1"
      show ?thesis
      proof (cases "b1 = b")
        case False
        with s(6) have "b = None \<and> b1 = Some (busy p) \<and> records_count se x p" by simp
        with b' show ?thesis
          by (intro disjI2 conjI exI [of _ "[]"] exI [of _ x] exI [of _ xs] exI [of _ "[]"] exI [of _ p]) auto
      qed (use b' in simp)
    next
      assume later: "b1 = None \<and> (\<exists>ys y zs reps2 p2. xs = ys @ y # zs \<and> deliver se ys p1 = (reps2, p2)
                            \<and> records_count se y p2 \<and> b' = Some (busy p2))"
      then obtain ys y zs reps2 p2 where l: "xs = ys @ y # zs" "deliver se ys p1 = (reps2, p2)" "records_count se y p2"
        "b' = Some (busy p2)" by blast
      obtain reps3 where "deliver se (x # ys) p = (reps3, p2)" using t l(2) by simp
      moreover have "x # xs = (x # ys) @ y # zs" using l(1) by simp
      moreover have "b = None" using later s(6) by auto
      ultimately show ?thesis using l(3,4) by blast
    qed
    moreover have "work_left n p \<le> length (x # xs) \<longrightarrow> idle p'" using s(2) i(2) by auto
    ultimately show ?thesis using i(1,4) s(5) len by blast
  qed
qed


section \<open>The start and the end\<close>

lemma cached_active:
  assumes "d \<in> set (definitions db)" and "d_active d"
  obtains d' where "d' \<in> set (definitions db)" "d_active d'"
    "cached (reload_defs True db cache) (JStr (d_id d)) = Some (snd (cache_entry d'))"
proof -
  let ?es = "rev (map cache_entry (filter d_active (definitions db)))"
  have "fst (cache_entry d) \<in> fst ` set ?es" using assms by auto
  then obtain e where "map_of ?es (d_id d) = Some e"
    by (cases "map_of ?es (d_id d)") (auto simp: map_of_eq_None_iff cache_entry_def)
  moreover from map_of_SomeD [OF this] obtain d' where "d' \<in> set (definitions db)" "d_active d'" "e = snd (cache_entry d')"
    by auto (metis snd_conv)
  ultimately show ?thesis using that by (simp add: cached_def reload_defs_def)
qed

lemma ready_on_track:
  fixes w :: world and cache :: "(string \<times> cached_def) list"
  assumes "find_run (o_db s) rid = Some r" and "r_status r \<noteq> RCancelled" and "dispatched_count (r_metadata r) = 0"
    and "o_test_cmds s = []" and "run_results (o_db s) rid = []"
    and "select_tests (o_db s) (JStr rid) (se_msg se) = Inr sel"
    and "\<forall>d\<in>set (definitions (o_db s)). d_active d \<longrightarrow> runs_well (se_reg se) (se_env se) (snd (cache_entry d))"
  defines "p \<equiv> platform_at s (reload_defs True (o_db s) cache) w"
    and "n \<equiv> length (filter (wanted_test (o_db s) r) (definitions (o_db s)))"
  shows "on_track se rid n (definitions (o_db s)) None p" and "used_ids p = t_id ` set (results (o_db s))"
    and "work_left n p = 10 * n + 7"
proof -
  let ?cache = "reload_defs True (o_db s) cache"
  have key: "find_run (o_db s) (key_of (JStr rid)) = Some r" using assms(1) by (simp add: key_of_def)
  note w = select_is_wanted [OF key assms(6)]
  have "sel_bootstrap sel \<Longrightarrow> n = 0" using w(2) by (auto simp: n_def wanted_test_def Let_def filter_empty_conv)
  moreover have "\<exists>cd. cached ?cache (JStr (d_id d)) = Some cd \<and> runs_well (se_reg se) (se_env se) cd"
    if "d \<in> set (sel_definitions sel)" for d
  proof -
    from that have "d \<in> set (definitions (o_db s))" "d_active d" by (auto simp: w(1) wanted_test_def Let_def)
    from cached_active [OF this, of cache] assms(7) show ?thesis by metis
  qed
  ultimately have "sel_ok se n (definitions (o_db s)) ?cache sel" by (auto simp: sel_ok_def w(1) n_def)
  then show "on_track se rid n (definitions (o_db s)) None p"
    using assms(1-6)
    by (intro on_trackI [of _ _ r])
       (simp_all add: p_def platform_at_def published_def not_inserted_def event_ok_def command_ok_def all_final_def
         result_ok_def status_ok_def busy_def)
  show "used_ids p = t_id ` set (results (o_db s))" by (simp add: p_def platform_at_def used_ids_def result_ids_def)
  show "work_left n p = 10 * n + 7"
    using assms(4) by (simp add: p_def platform_at_def work_left_def event_left_def command_left_def result_left_def)
qed

text \<open>The thresholds, without fractions.\<close>

lemma final_status_counts:
  assumes "0 < length ts"
  shows "final_status 100 80 (percentage (passed_in ts) (length ts))
       = (if passed_in ts = length ts then RCompleted else if 4 * length ts \<le> 5 * passed_in ts then RWarning else RFailed)"
  using percentage_ge [OF assms, of 100 "passed_in ts"] percentage_ge [OF assms, of 80 "passed_in ts"] passed_in_le [of ts]
  by (auto simp: final_status_def)

lemma idle_end:
  assumes "on_track se rid n ds b p" and "idle p" and "b = None \<or> b = Some k"
  obtains r where "b = Some k" "find_run (o_db (pf_orch p)) rid = Some r" "length (run_results (o_db (pf_orch p)) rid) = n"
    "all_final (o_db (pf_orch p)) rid" "k \<longrightarrow> 0 < n \<and> verdict_given (o_db (pf_orch p)) rid r" "\<not> k \<longrightarrow> r_status r = RRunning"
proof -
  let ?db = "o_db (pf_orch p)"
  obtain e where ev: "pf_event p = EvDone e" using assms(2) by (cases "pf_event p") (simp_all add: idle_def)
  have q: "o_test_cmds (pf_orch p) = []" "pf_command p = None"
    using assms(2) unfolding idle_def busy_def can_move.simps by blast+
  from on_trackD [OF assms(1)] obtain r where
    r: "find_run ?db rid = Some r" "definitions ?db = ds"
    "dispatched_count (r_metadata r) = (if b = None then 0 else int n)"
    "length (run_results ?db rid) + length (o_test_cmds (pf_orch p)) + not_inserted (pf_command p) = published n (pf_event p)"
    "event_ok se rid n (rn_cache (pf_runner p)) ?db b (pf_event p)"
    "command_ok se rid (rn_cache (pf_runner p)) ?db (pf_command p)"
    "status_ok rid ?db r b (pf_event p) (busy p)" by metis
  have b: "b = Some k" using r(5) assms(3) by (auto simp: ev event_ok_def)
  have len: "length (run_results ?db rid) = n" using r(4) by (simp add: q ev published_def not_inserted_def)
  have fin: "all_final ?db rid" using r(6) by (simp add: q command_ok_def)
  have "k \<longrightarrow> 0 < n \<and> verdict_given ?db rid r"
    using r(3,7) assms(2) b by (auto simp: status_ok_def ev idle_def run_done_def split: if_splits)
  moreover have "\<not> k \<longrightarrow> r_status r = RRunning"
    using r(7) b by (auto simp: status_ok_def ev split: if_splits)
  ultimately show ?thesis using that b r(1) len fin by blast
qed

text \<open>A test without assertions, for concrete states.\<close>

lemma empty_test_runs_well:
  assumes "cd_parsed d = JObj [(''assertions'', JArr [])]"
  shows "runs_well reg env d"
  using assms stored_empty
  by (simp add: runs_well_def run_test_def assertions_of_def get_or_def outcome_of_def storable_outcome_def storable_error_def)

end
