(* ===== verification/Agent_Verdicts_Spec.thy ===== *)
theory Agent_Verdicts_Spec
  imports Agent_Verdicts
begin

text \<open>
  What the audit rows and the verdicts of the AI agent guarantee: the invariant of the tables under every
  order of calls, verdicts, plans and endings of sessions; what the validation gate checks and what it does
  not; the table of verdicts of a manual session is complete at its end.
\<close>

section \<open>Steps\<close>

text \<open>
  The operations of the agents of all sessions, each one transaction.  UUIDs that the database generates
  are new.  The statements on sessions change neither calls nor verdicts.
\<close>

inductive agent_step :: "ai_db \<Rightarrow> ai_db \<Rightarrow> bool" where
  call: "iid \<notin> iv_id ` set (invocations db) \<Longrightarrow>
     agent_step db (record_invocation now iid sid tool inp out st ms slug db)"
| verdict: "vid \<notin> vd_id ` set (verdicts db) \<Longrightarrow>
     record_test_verdict now vid pv sid sbx a db = Inr (j, db') \<Longrightarrow> agent_step db db'"
| plan: "record_test_plan now pid sid p db = Inr (j, db') \<Longrightarrow> agent_step db db'"
| missing: "inj vids \<Longrightarrow> range vids \<inter> vd_id ` set (verdicts db) = {} \<Longrightarrow>
     record_missing now vids sid sbx manual selected db = (db', n) \<Longrightarrow> agent_step db db'"
| session: "agent_step db (db\<lparr>ai_sessions := ss\<rparr>)"

definition sound_tables :: "ai_db \<Rightarrow> bool" where
  "sound_tables db \<longleftrightarrow>
     distinct (map iv_id (invocations db)) \<and> distinct (map vd_id (verdicts db)) \<and>
     distinct (map (\<lambda>v. (vd_session v, vd_slug v)) (verdicts db)) \<and>
     (\<forall>v\<in>set (verdicts db). vd_verdict v \<in> set valid_verdicts) \<and>
     (\<forall>r\<in>set (invocations db). \<forall>vid. iv_verdict r = Some vid \<longrightarrow> iv_tool r \<notin> set bookkeeping_tools \<and>
        (\<exists>v\<in>set (verdicts db). vd_id v = vid \<and> vd_session v = iv_session r \<and> iv_slug r = Some (vd_slug v))) \<and>
     (\<forall>v\<in>set (verdicts db). vd_verdict v \<in> {''passed'', ''failed''} \<longrightarrow>
        (\<exists>r\<in>set (invocations db). iv_verdict r = Some (vd_id v)))"

definition claims_kept :: "ai_db \<Rightarrow> ai_db \<Rightarrow> bool" where
  "claims_kept db db' \<longleftrightarrow>
     (\<forall>r\<in>set (invocations db). \<exists>r'\<in>set (invocations db'). iv_id r' = iv_id r \<and> iv_session r' = iv_session r \<and>
        iv_tool r' = iv_tool r \<and> (iv_verdict r \<noteq> None \<longrightarrow> r' = r))"

lemma claims_kept_refl [simp]: "claims_kept db db"
  by (auto simp: claims_kept_def)

lemma claims_kept_trans: "claims_kept a b \<Longrightarrow> claims_kept b c \<Longrightarrow> claims_kept a c"
  unfolding claims_kept_def by metis

lemma claims_kept_eq: "invocations db' = invocations db \<Longrightarrow> claims_kept db db'"
  by (auto simp: claims_kept_def)

section \<open>Storing a verdict\<close>

lemma res_map_length: "res_map f xs = Inr ys \<Longrightarrow> length ys = length xs"
  by (induction xs arbitrary: ys) (auto simp: res_inv)

lemma claim_or_none_cases:
  obtains "claim_or_none db sid = no_claim"
  | trail where "claim_trail db sid = Inr (claim_or_none db sid)"
      "length (cm_trail (claim_or_none db sid)) = length (take trail_cap (unclaimed db sid))"
      "cm_ids (claim_or_none db sid) = map iv_id (take trail_cap (unclaimed db sid))"
proof (cases "claim_trail db sid")
  case (Inl e)
  then show ?thesis using that(1) by (simp add: claim_or_none_def)
next
  case (Inr c)
  then have "length (cm_trail c) = length (take trail_cap (unclaimed db sid))"
    "cm_ids c = map iv_id (take trail_cap (unclaimed db sid))"
    by (auto simp: claim_trail_def Let_def res_inv take_map min_def dest!: res_map_length)
  with Inr show ?thesis using that(2) by (simp add: claim_or_none_def)
qed

lemma claim_ids_unclaimed:
  "i \<in> set (cm_ids (claim_or_none db sid)) \<Longrightarrow> \<exists>r\<in>set (unclaimed db sid). iv_id r = i"
  by (rule claim_or_none_cases [of db sid]) (auto simp: no_claim_def dest: in_set_takeD)

lemma claim_ids_empty: "cm_ids (claim_or_none db sid) = [] \<longleftrightarrow> cm_trail (claim_or_none db sid) = []"
proof (rule claim_or_none_cases [of db sid])
  assume "length (cm_trail (claim_or_none db sid)) = length (take trail_cap (unclaimed db sid))"
    "cm_ids (claim_or_none db sid) = map iv_id (take trail_cap (unclaimed db sid))"
  then show ?thesis by (metis length_0_conv length_map)
qed (simp add: no_claim_def)

text \<open>The row that a recorded verdict inserts, as far as the invariant needs it.\<close>

lemma verdict_row_of_fields:
  assumes "verdict_row_of now vid pv sid sbx a slug original reasoning c db = Inr v"
  shows "vd_id v = vid" "vd_session v = sid" "vd_slug v = slug" "vd_verdict v = gate original (cm_trail c)"
    "vd_steps v = Some (length (cm_trail c))" "vd_sandbox v = sbx"
  using assms by (auto simp: verdict_row_of_def Let_def res_inv)

lemma record_test_verdict_Inr:
  assumes "record_test_verdict now vid pv sid sbx a db = Inr (j, db')"
  obtains (refused) "db' = db" "get (as_dict j) ''success'' = JBool False"
  | (stored) v original where "db' = snd (store_verdict v (claim_or_none db sid) db)"
      "j = fst (store_verdict v (claim_or_none db sid) db)"
      "va_verdict a = JStr original" "original \<in> set valid_verdicts"
      "vd_id v = vid" "vd_session v = sid" "va_slug a = JStr (vd_slug v)" "vd_sandbox v = sbx"
      "vd_verdict v = gate original (cm_trail (claim_or_none db sid))"
      "vd_steps v = Some (length (cm_trail (claim_or_none db sid)))"
proof -
  from assms obtain err where chk: "check_verdict sid a = Inr err"
    by (auto simp: record_test_verdict_def res_inv)
  show ?thesis
  proof (cases err)
    case (Some msg)
    with assms chk have "db' = db" "j = tool_failure msg" by (simp_all add: record_test_verdict_def)
    then show ?thesis by (intro refused) (simp_all add: tool_failure_def as_dict_def get_def get_or_def)
  next
    case None
    with assms chk obtain slug original reasoning v where a: "va_slug a = JStr slug" "va_verdict a = JStr original"
      and v: "verdict_row_of now vid pv sid sbx a slug original reasoning (claim_or_none db sid) db = Inr v"
      and st: "store_verdict v (claim_or_none db sid) db = (j, db')"
      by (auto simp: record_test_verdict_def res_inv Let_def split: if_splits)
    from chk None a(2) have "original \<in> set valid_verdicts"
      by (auto simp: check_verdict_def res_inv split: if_splits)
    with a v st show ?thesis
      by (intro stored [of v original]) (simp_all add: verdict_row_of_fields)
  qed
qed

lemma find_verdict_Some:
  "find_verdict db sid slug = Some v \<Longrightarrow> v \<in> set (verdicts db) \<and> vd_session v = sid \<and> vd_slug v = slug"
  unfolding find_verdict_def by (auto dest: find_pred)

lemma find_verdict_None:
  "find_verdict db sid slug = None \<longleftrightarrow> (\<forall>v\<in>set (verdicts db). \<not> (vd_session v = sid \<and> vd_slug v = slug))"
  by (auto simp: find_verdict_def find_None_iff)

abbreviation vd_key :: "verdict_row \<Rightarrow> string \<times> string" where
  "vd_key v \<equiv> (vd_session v, vd_slug v)"

text \<open>The upsert replaces the row of its key, under the old id, or appends a row.\<close>

definition stored_as :: "verdict_row \<Rightarrow> string \<Rightarrow> verdict_row \<Rightarrow> bool" where
  "stored_as v k w \<longleftrightarrow> (\<exists>sbx. w = v\<lparr>vd_id := k, vd_sandbox := sbx\<rparr>)"

lemma stored_as_fields:
  assumes "stored_as v k w"
  shows "vd_id w = k" "vd_session w = vd_session v" "vd_slug w = vd_slug v" "vd_verdict w = vd_verdict v"
    "vd_steps w = vd_steps v"
  using assms by (auto simp: stored_as_def)

lemma stored_as_self: "stored_as v (vd_id v) v"
  unfolding stored_as_def by (rule exI [of _ "vd_sandbox v"]) simp

lemma stored_asI: "stored_as v k (v\<lparr>vd_id := k, vd_sandbox := sbx\<rparr>)"
  unfolding stored_as_def by (rule exI) (rule refl)

definition replace_key :: "verdict_row \<Rightarrow> verdict_row \<Rightarrow> verdict_row" where
  "replace_key v w = (if vd_key w = vd_key v then v\<lparr>vd_id := vd_id w, vd_sandbox := vd_sandbox w\<rparr> else w)"

lemma replace_key_fields [simp]:
  "vd_id (replace_key v w) = vd_id w" "vd_session (replace_key v w) = vd_session w"
  "vd_slug (replace_key v w) = vd_slug w"
  by (auto simp: replace_key_def)

lemma upsert_new:
  assumes "upsert_verdict v db = (db', k)" and "find_verdict db (vd_session v) (vd_slug v) = None"
  shows "verdicts db' = verdicts db @ [v]" "k = vd_id v"
  using assms by (auto simp: upsert_verdict_def)

lemma upsert_old:
  assumes "upsert_verdict v db = (db', k)" and "find_verdict db (vd_session v) (vd_slug v) = Some old"
  shows "verdicts db' = map (replace_key v) (verdicts db)" "k = vd_id old"
    "old \<in> set (verdicts db)" "vd_key old = vd_key v"
  using assms find_verdict_Some [OF assms(2)] by (auto simp: upsert_verdict_def replace_key_def)

lemma upsert_rest:
  assumes "upsert_verdict v db = (db', k)"
  shows "invocations db' = invocations db" "ai_sessions db' = ai_sessions db"
  using assms by (auto simp: upsert_verdict_def split: option.splits)

lemma upsert_rows:
  assumes up: "upsert_verdict v db = (db', k)" and keys: "distinct (map vd_key (verdicts db))"
  shows "\<exists>w\<in>set (verdicts db'). stored_as v k w"
    and "w \<in> set (verdicts db') \<Longrightarrow> stored_as v k w \<or> w \<in> set (verdicts db) \<and> vd_key w \<noteq> vd_key v"
    and "w \<in> set (verdicts db) \<Longrightarrow> \<exists>w'\<in>set (verdicts db'). vd_id w' = vd_id w \<and> vd_key w' = vd_key w"
proof -
  show "\<exists>w\<in>set (verdicts db'). stored_as v k w"
  proof (cases "find_verdict db (vd_session v) (vd_slug v)")
    case None
    with upsert_new [OF up] stored_as_self show ?thesis by auto
  next
    case (Some old)
    note o = upsert_old [OF up Some]
    then have "replace_key v old \<in> set (verdicts db')" "stored_as v k (replace_key v old)"
      by (auto simp: replace_key_def stored_asI)
    then show ?thesis by blast
  qed
  show "stored_as v k w \<or> w \<in> set (verdicts db) \<and> vd_key w \<noteq> vd_key v" if w: "w \<in> set (verdicts db')"
  proof (cases "find_verdict db (vd_session v) (vd_slug v)")
    case None
    with w upsert_new [OF up None] stored_as_self show ?thesis by (auto simp: find_verdict_None)
  next
    case (Some old)
    note o = upsert_old [OF up Some]
    from w o(1) obtain u where u: "u \<in> set (verdicts db)" "w = replace_key v u" by auto
    show ?thesis
    proof (cases "vd_key u = vd_key v")
      case True
      with o(4) have "vd_key u = vd_key old" by simp
      with keys u(1) o(3) have old: "u = old" unfolding distinct_map by (blast dest: inj_onD)
      from True have "replace_key v u = v\<lparr>vd_id := vd_id u, vd_sandbox := vd_sandbox u\<rparr>"
        unfolding replace_key_def by (rule if_P)
      then show ?thesis unfolding u(2) old o(2) by (simp only: stored_asI simp_thms)
    next
      case False
      then have "replace_key v u = u" unfolding replace_key_def by (rule if_not_P)
      with u False show ?thesis by simp
    qed
  qed
  show "\<exists>w'\<in>set (verdicts db'). vd_id w' = vd_id w \<and> vd_key w' = vd_key w" if w: "w \<in> set (verdicts db)"
  proof (cases "find_verdict db (vd_session v) (vd_slug v)")
    case None
    with w upsert_new [OF up None] show ?thesis by auto
  next
    case (Some old)
    from w upsert_old(1) [OF up Some] have "replace_key v w \<in> set (verdicts db')" by simp
    then show ?thesis by (rule rev_bexI) simp
  qed
qed

lemma upsert_distinct:
  assumes up: "upsert_verdict v db = (db', k)" and "distinct (map vd_key (verdicts db))"
    and "distinct (map vd_id (verdicts db))" and "vd_id v \<notin> vd_id ` set (verdicts db)"
  shows "distinct (map vd_key (verdicts db'))" "distinct (map vd_id (verdicts db'))"
proof -
  have "distinct (map vd_key (verdicts db')) \<and> distinct (map vd_id (verdicts db'))"
  proof (cases "find_verdict db (vd_session v) (vd_slug v)")
    case None
    then have "vd_key v \<notin> vd_key ` set (verdicts db)" by (force simp: find_verdict_None)
    with upsert_new [OF up None] assms show ?thesis by simp
  next
    case (Some old)
    have "map vd_key (map (replace_key v) ws) = map vd_key ws" "map vd_id (map (replace_key v) ws) = map vd_id ws" for ws
      by (simp_all add: o_def)
    with upsert_old(1) [OF up Some] assms show ?thesis by (simp only:)
  qed
  then show "distinct (map vd_key (verdicts db'))" "distinct (map vd_id (verdicts db'))" by simp_all
qed

lemma claim_row_fields [simp]:
  "iv_id (claim_row k slug ids r) = iv_id r" "iv_session (claim_row k slug ids r) = iv_session r"
  "iv_tool (claim_row k slug ids r) = iv_tool r"
  by (auto simp: claim_row_def)

lemma claim_row_new:
  assumes "iv_id r \<in> set ids" "iv_verdict r = None"
  shows "iv_verdict (claim_row k slug ids r) = Some k" "iv_slug (claim_row k slug ids r) = Some slug"
  using assms by (simp_all add: claim_row_def)

lemma claim_row_old: "\<not> (iv_id r \<in> set ids \<and> iv_verdict r = None) \<Longrightarrow> claim_row k slug ids r = r"
  by (auto simp: claim_row_def)

lemma link_claim_kept: "claims_kept db (link_claim k slug ids db)"
proof (unfold claims_kept_def, rule ballI)
  fix r assume "r \<in> set (invocations db)"
  then have "claim_row k slug ids r \<in> set (invocations (link_claim k slug ids db))" by (simp add: link_claim_def)
  then show "\<exists>r'\<in>set (invocations (link_claim k slug ids db)). iv_id r' = iv_id r \<and> iv_session r' = iv_session r \<and>
      iv_tool r' = iv_tool r \<and> (iv_verdict r \<noteq> None \<longrightarrow> r' = r)"
    by (rule rev_bexI) (simp add: claim_row_old)
qed

text \<open>The claim that a stored verdict makes, on sound tables.\<close>

lemma store_verdict_sound:
  assumes snd_db: "sound_tables db" and st: "db' = snd (store_verdict v (claim_or_none db sid) db)"
    and sid: "vd_session v = sid" and fresh: "vd_id v \<notin> vd_id ` set (verdicts db)"
    and ver: "vd_verdict v = gate original (cm_trail (claim_or_none db sid))" and orig: "original \<in> set valid_verdicts"
  shows "sound_tables db'"
proof -
  let ?c = "claim_or_none db sid"
  obtain db1 k where up: "upsert_verdict v db = (db1, k)" by fastforce
  have keys: "distinct (map vd_key (verdicts db))" and ids: "distinct (map vd_id (verdicts db))"
    and iids: "distinct (map iv_id (invocations db))"
    using snd_db by (auto simp: sound_tables_def)
  note rows = upsert_rows [OF up keys]
  have inv: "invocations db' = map (claim_row k (vd_slug v) (cm_ids ?c)) (invocations db)"
    and vds: "verdicts db' = verdicts db1"
    using up upsert_rest [OF up] by (auto simp: st store_verdict_def link_claim_def)
  obtain w0 where w0: "w0 \<in> set (verdicts db1)" "stored_as v k w0" using rows(1) by blast
  have iid: "map iv_id (invocations db') = map iv_id (invocations db)" unfolding inv by simp
  have ver_ok: "vd_verdict v \<in> set valid_verdicts"
    using orig unfolding ver by (auto simp: gate_def valid_verdicts_def)
  have own: "iv_session r = sid \<and> iv_tool r \<notin> set bookkeeping_tools"
    if "r \<in> set (invocations db)" "iv_id r \<in> set (cm_ids ?c)" for r
  proof -
    from claim_ids_unclaimed [OF that(2)] obtain r0 where r0: "r0 \<in> set (unclaimed db sid)" "iv_id r0 = iv_id r"
      by blast
    then have "r0 \<in> set (invocations db)" by (simp add: unclaimed_def)
    with that(1) r0(2) iids have "r0 = r" by (metis distinct_map inj_on_def)
    with r0(1) show ?thesis by (simp add: unclaimed_def)
  qed
  have claimed: "iv_tool r' \<notin> set bookkeeping_tools \<and>
      (\<exists>w\<in>set (verdicts db'). vd_id w = vid \<and> vd_session w = iv_session r' \<and> iv_slug r' = Some (vd_slug w))"
    if "r' \<in> set (invocations db')" "iv_verdict r' = Some vid" for r' vid
  proof -
    from that(1) obtain r where r: "r \<in> set (invocations db)" and r': "r' = claim_row k (vd_slug v) (cm_ids ?c) r"
      unfolding inv by auto
    show ?thesis
    proof (cases "iv_id r \<in> set (cm_ids ?c) \<and> iv_verdict r = None")
      case True
      then have "iv_verdict r' = Some k" "iv_slug r' = Some (vd_slug v)" by (simp_all add: r' claim_row_new)
      moreover have "iv_session r' = sid \<and> iv_tool r' \<notin> set bookkeeping_tools" using own [OF r] True r' by simp
      ultimately show ?thesis
        using that(2) w0(1) sid stored_as_fields [OF w0(2)] vds by (metis option.inject)
    next
      case False
      then have eq: "r' = r" using r' by (simp add: claim_row_old)
      with that(2) r snd_db have old: "iv_tool r \<notin> set bookkeeping_tools"
        "\<exists>w\<in>set (verdicts db). vd_id w = vid \<and> vd_session w = iv_session r \<and> iv_slug r = Some (vd_slug w)"
        by (simp_all add: sound_tables_def)
      then obtain w where w: "w \<in> set (verdicts db)" "vd_id w = vid" "vd_session w = iv_session r"
        "iv_slug r = Some (vd_slug w)" by blast
      from rows(3) [OF w(1)] obtain w' where "w' \<in> set (verdicts db1)" "vd_id w' = vd_id w" "vd_key w' = vd_key w"
        by blast
      with w old(1) show ?thesis unfolding eq vds by (intro conjI bexI [of _ w']) simp_all
    qed
  qed
  have backed: "\<exists>r'\<in>set (invocations db'). iv_verdict r' = Some (vd_id w)"
    if w: "w \<in> set (verdicts db')" "vd_verdict w \<in> {''passed'', ''failed''}" for w
  proof (cases "stored_as v k w")
    case True
    then have "vd_verdict v \<in> {''passed'', ''failed''}" and wk: "vd_id w = k"
      using w(2) stored_as_fields [OF True] by auto
    then have "cm_ids ?c \<noteq> []" by (auto simp: ver gate_def claim_ids_empty split: if_splits)
    then have i: "hd (cm_ids ?c) \<in> set (cm_ids ?c)" by simp
    from claim_ids_unclaimed [OF this] obtain r where r: "r \<in> set (unclaimed db sid)" "iv_id r = hd (cm_ids ?c)"
      by blast
    then have "r \<in> set (invocations db)" "iv_verdict r = None" by (auto simp: unclaimed_def)
    then have "claim_row k (vd_slug v) (cm_ids ?c) r \<in> set (invocations db')"
      "iv_verdict (claim_row k (vd_slug v) (cm_ids ?c) r) = Some k"
      unfolding inv using r(2) i by (simp_all add: claim_row_new)
    then show ?thesis using wk by blast
  next
    case False
    with rows(2) w have "w \<in> set (verdicts db)" by (auto simp: vds)
    with snd_db w(2) obtain r where r: "r \<in> set (invocations db)" "iv_verdict r = Some (vd_id w)"
      by (auto simp: sound_tables_def)
    then have "claim_row k (vd_slug v) (cm_ids ?c) r = r" by (simp add: claim_row_old)
    with r(1) have "r \<in> set (invocations db')" unfolding inv by (metis image_eqI set_map)
    with r(2) show ?thesis by blast
  qed
  have valid: "vd_verdict w \<in> set valid_verdicts" if "w \<in> set (verdicts db')" for w
    using rows(2) [of w] that ver_ok snd_db by (auto simp: vds sound_tables_def dest: stored_as_fields(4))
  show ?thesis
    unfolding sound_tables_def
    using iid iids upsert_distinct [OF up keys ids fresh] vds claimed backed valid by auto
qed

section \<open>Every operation keeps the tables sound\<close>

lemma update_session_tables [simp]:
  "invocations (update_session sid f db) = invocations db" "verdicts (update_session sid f db) = verdicts db"
  by (simp_all add: update_session_def)

lemma sound_tables_cong:
  "invocations db' = invocations db \<Longrightarrow> verdicts db' = verdicts db \<Longrightarrow> sound_tables db' = sound_tables db"
  by (simp add: sound_tables_def)

lemma invocation_row_fields:
  "invocation_row now iid sid tool inp out st ms slug = Inr r \<Longrightarrow>
     iv_id r = iid \<and> iv_session r = sid \<and> iv_tool r = tool \<and> iv_verdict r = None"
  by (auto simp: invocation_row_def res_inv)

lemma record_invocation_cases:
  obtains (lost) "record_invocation now iid sid tool inp out st ms slug db = db"
  | (kept) r s f where "record_invocation now iid sid tool inp out st ms slug db
                      = update_session s f (db\<lparr>invocations := invocations db @ [r]\<rparr>)"
      "iv_id r = iid" "iv_verdict r = None"
proof (cases sid)
  case None
  then show ?thesis using lost by (simp add: record_invocation_def)
next
  case (Some s)
  show ?thesis
  proof (cases "invocation_row now iid s tool inp out st ms slug")
    case (Inl e)
    with Some show ?thesis using lost by (simp add: record_invocation_def)
  next
    case (Inr r)
    note row = invocation_row_fields [OF Inr]
    show ?thesis
    proof (cases "s = [] \<or> find_session db s = None")
      case True
      with Some Inr show ?thesis using lost by (simp add: record_invocation_def)
    next
      case False
      with Some Inr row show ?thesis by (intro kept) (auto simp: record_invocation_def)
    qed
  qed
qed

lemma record_invocation_sound:
  assumes "sound_tables db" "iid \<notin> iv_id ` set (invocations db)"
  shows "sound_tables (record_invocation now iid sid tool inp out st ms slug db)"
    "claims_kept db (record_invocation now iid sid tool inp out st ms slug db)"
proof -
  have "sound_tables (record_invocation now iid sid tool inp out st ms slug db) \<and>
      claims_kept db (record_invocation now iid sid tool inp out st ms slug db)"
  proof (cases rule: record_invocation_cases [of now iid sid tool inp out st ms slug db])
    case lost
    with assms show ?thesis by simp
  next
    case (kept r s f)
    have "sound_tables (db\<lparr>invocations := invocations db @ [r]\<rparr>)"
      using assms kept(2,3) by (auto simp: sound_tables_def)
    moreover have "sound_tables (update_session s f d) = sound_tables d" for d
      by (rule sound_tables_cong) simp_all
    ultimately show ?thesis unfolding kept(1) by (auto simp: claims_kept_def)
  qed
  then show "sound_tables (record_invocation now iid sid tool inp out st ms slug db)"
    "claims_kept db (record_invocation now iid sid tool inp out st ms slug db)" by simp_all
qed

lemma record_test_verdict_sound:
  assumes "sound_tables db" "vid \<notin> vd_id ` set (verdicts db)"
    and rec: "record_test_verdict now vid pv sid sbx a db = Inr (j, db')"
  shows "sound_tables db'" "claims_kept db db'"
proof -
  have "sound_tables db' \<and> claims_kept db db'"
  proof (rule record_test_verdict_Inr [OF rec])
    assume "db' = db"
    with assms(1) show ?thesis by simp
  next
    fix v original
    assume st: "db' = snd (store_verdict v (claim_or_none db sid) db)" and "vd_id v = vid" "vd_session v = sid"
      "original \<in> set valid_verdicts" "vd_verdict v = gate original (cm_trail (claim_or_none db sid))"
    with assms have "sound_tables db'" by (intro store_verdict_sound [OF assms(1) st]) auto
    moreover obtain db1 k where up: "upsert_verdict v db = (db1, k)" by fastforce
    have "claims_kept db db1" by (rule claims_kept_eq) (rule upsert_rest(1) [OF up])
    then have "claims_kept db db'"
      unfolding st store_verdict_def using up by (simp add: claims_kept_trans [OF _ link_claim_kept])
    ultimately show ?thesis by simp
  qed
  then show "sound_tables db'" "claims_kept db db'" by simp_all
qed

lemma record_test_plan_tables:
  assumes "record_test_plan now pid sid p db = Inr (j, db')"
  shows "invocations db' = invocations db" "verdicts db' = verdicts db"
  using assms
  by (auto simp: record_test_plan_def upsert_plan_def res_inv Let_def split: if_splits sum.splits option.splits)

lemma insert_blocked_sound:
  assumes "sound_tables db" "vd_id v \<notin> vd_id ` set (verdicts db)" "vd_verdict v = ''blocked''"
  shows "sound_tables (insert_blocked v db)"
proof (cases "find_verdict db (vd_session v) (vd_slug v)")
  case None
  then have "vd_key v \<notin> vd_key ` set (verdicts db)" by (force simp: find_verdict_None)
  with assms None show ?thesis by (auto simp: insert_blocked_def sound_tables_def valid_verdicts_def)
next
  case (Some w)
  with assms(1) show ?thesis by (simp add: insert_blocked_def)
qed

lemma insert_blocked_rows:
  "invocations (insert_blocked v db) = invocations db"
  "set (verdicts db) \<subseteq> set (verdicts (insert_blocked v db))"
  "set (verdicts (insert_blocked v db)) \<subseteq> insert v (set (verdicts db))"
  "find_verdict (insert_blocked v db) (vd_session v) (vd_slug v) \<noteq> None"
  by (auto simp: insert_blocked_def find_verdict_def find_append)

definition block_all :: "int \<Rightarrow> (nat \<Rightarrow> string) \<Rightarrow> string \<Rightarrow> string option \<Rightarrow> (nat \<times> string) list \<Rightarrow> ai_db \<Rightarrow> ai_db" where
  "block_all now vids sid sbx xs db =
     foldl (\<lambda>d (i, slug). insert_blocked (blocked_row now (vids i) sid sbx slug) d) db xs"

lemma block_all_Cons:
  "block_all now vids sid sbx ((i, slug) # xs) db =
     block_all now vids sid sbx xs (insert_blocked (blocked_row now (vids i) sid sbx slug) db)"
  by (simp add: block_all_def)

lemma find_verdict_mono:
  assumes "set (verdicts db) \<subseteq> set (verdicts db')" and "find_verdict db sid slug \<noteq> None"
  shows "find_verdict db' sid slug \<noteq> None"
  using assms unfolding find_verdict_None by blast

lemma disjoint_insert_step: "a \<notin> A \<Longrightarrow> V \<subseteq> insert a W \<Longrightarrow> insert a A \<inter> W = {} \<Longrightarrow> A \<inter> V = {}"
  by blast

lemma block_all_sound:
  assumes "inj vids" and "sound_tables db" and "distinct (map fst xs)"
    and "vids ` fst ` set xs \<inter> vd_id ` set (verdicts db) = {}" and "d = block_all now vids sid sbx xs db"
  shows "sound_tables d \<and> invocations d = invocations db \<and> set (verdicts db) \<subseteq> set (verdicts d) \<and>
    (\<forall>slug\<in>snd ` set xs. find_verdict d sid slug \<noteq> None) \<and>
    (\<forall>w\<in>set (verdicts d). w \<in> set (verdicts db) \<or> (\<exists>i. \<exists>slug\<in>snd ` set xs. w = blocked_row now (vids i) sid sbx slug))"
  using assms(2-)
proof (induction xs arbitrary: db)
  case Nil
  then show ?case by (simp add: block_all_def)
next
  case (Cons x xs)
  obtain i slug where x: "x = (i, slug)" by fastforce
  define v where "v = blocked_row now (vids i) sid sbx slug"
  define db1 where "db1 = insert_blocked v db"
  have v: "vd_id v = vids i" "vd_session v = sid" "vd_slug v = slug" "vd_verdict v = ''blocked''"
    by (simp_all add: v_def blocked_row_def)
  note rows = insert_blocked_rows [where v = v and db = db, folded db1_def]
  have ok: "sound_tables db1"
    using Cons.prems unfolding db1_def by (intro insert_blocked_sound) (auto simp: v x)
  have new: "vids i \<notin> vids ` fst ` set xs" using Cons.prems(2) assms(1) x by (auto dest: injD)
  have sub: "vd_id ` set (verdicts db1) \<subseteq> insert (vids i) (vd_id ` set (verdicts db))"
    using image_mono [OF rows(3), of vd_id] by (simp add: v(1))
  have "vids ` fst ` set xs \<inter> vd_id ` set (verdicts db1) = {}"
    by (rule disjoint_insert_step [OF new sub]) (use Cons.prems(3) in \<open>simp add: x\<close>)
  moreover have "d = block_all now vids sid sbx xs db1"
    using Cons.prems(4) by (simp add: x block_all_Cons db1_def v_def)
  ultimately have IH: "sound_tables d" "invocations d = invocations db1" "set (verdicts db1) \<subseteq> set (verdicts d)"
    "\<forall>slug\<in>snd ` set xs. find_verdict d sid slug \<noteq> None"
    "\<forall>w\<in>set (verdicts d). w \<in> set (verdicts db1) \<or> (\<exists>i. \<exists>slug\<in>snd ` set xs. w = blocked_row now (vids i) sid sbx slug)"
    using Cons.IH [OF ok] Cons.prems(2) by simp_all
  have "find_verdict d sid slug \<noteq> None"
    using find_verdict_mono [OF IH(3)] rows(4) v(2,3) by metis
  then have A: "\<forall>slug\<in>snd ` set (x # xs). find_verdict d sid slug \<noteq> None" using IH(4) by (simp add: x)
  have B: "w \<in> set (verdicts db) \<or> (\<exists>i. \<exists>slug\<in>snd ` set (x # xs). w = blocked_row now (vids i) sid sbx slug)"
    if "w \<in> set (verdicts d)" for w
  proof -
    from IH(5) that consider "w \<in> set (verdicts db1)"
      | "\<exists>i. \<exists>slug\<in>snd ` set xs. w = blocked_row now (vids i) sid sbx slug" by blast
    then show ?thesis
    proof cases
      case 1
      then consider "w \<in> set (verdicts db)" | "w = v" using rows(3) by blast
      then show ?thesis
      proof cases
        case 2
        then have "w = blocked_row now (vids i) sid sbx slug" by (simp only: v_def)
        moreover have "slug \<in> snd ` set (x # xs)" by (simp add: x)
        ultimately show ?thesis by blast
      qed blast
    qed fastforce
  qed
  have C: "set (verdicts db) \<subseteq> set (verdicts d)" using IH(3) rows(2) by blast
  have D: "invocations d = invocations db" using IH(2) rows(1) by simp
  show ?case by (intro conjI ballI IH(1) C D B) (use A in blast)
qed

lemma record_missing_sound:
  assumes "sound_tables db" "inj vids" "range vids \<inter> vd_id ` set (verdicts db) = {}"
    and rec: "record_missing now vids sid sbx manual selected db = (db', n)"
  shows "sound_tables db'" "claims_kept db db'"
proof -
  have "sound_tables db' \<and> invocations db' = invocations db"
  proof (cases "db' = db")
    case False
    with rec have eq: "db' = block_all now vids sid sbx (enumerate 0 (missing_tests db sid selected)) db"
      by (auto simp: record_missing_def block_all_def Let_def split: if_splits)
    have new: "vids ` fst ` set (enumerate 0 (missing_tests db sid selected)) \<inter> vd_id ` set (verdicts db) = {}"
      using assms(3) by blast
    have "distinct (map fst (enumerate 0 (missing_tests db sid selected)))"
      by (simp only: enumerate_eq_zip map_fst_zip length_upt) simp
    from block_all_sound [OF assms(2,1) this new eq] show ?thesis by simp
  qed (use assms(1) in simp)
  then show "sound_tables db'" "claims_kept db db'" by (simp_all add: claims_kept_eq)
qed

theorem agent_step_sound:
  assumes "agent_step db db'" "sound_tables db"
  shows "sound_tables db' \<and> claims_kept db db'"
  using assms
proof (induction rule: agent_step.induct)
  case (call iid db now sid tool inp out st ms slug)
  then show ?case by (simp add: record_invocation_sound)
next
  case (verdict vid db now pv sid sbx a j db')
  from record_test_verdict_sound [OF verdict(3,1,2)] show ?case by simp
next
  case (plan now pid sid p db j db')
  note same = record_test_plan_tables [OF plan(1)]
  from sound_tables_cong [OF same] claims_kept_eq [OF same(1)] plan(2) show ?case by simp
next
  case (missing vids db now sid sbx manual selected db' n)
  from record_missing_sound [OF missing(4,1,2,3)] show ?case by simp
next
  case (session db ss)
  then show ?case using sound_tables_cong [of "db\<lparr>ai_sessions := ss\<rparr>" db] by (simp add: claims_kept_eq)
qed

lemma agent_steps_sound:
  assumes "agent_step\<^sup>*\<^sup>* db db'" "sound_tables db"
  shows "sound_tables db' \<and> claims_kept db db'"
  using assms
proof (induction rule: rtranclp_induct)
  case (step y z)
  with agent_step_sound have "sound_tables z" "claims_kept y z" by blast+
  with step claims_kept_trans show ?case by blast
qed simp

section \<open>Properties\<close>

text \<open>
  C4: in every state that the agents reach from empty tables, by any interleaving of the tool calls,
  plans, verdicts and endings of all sessions, a test whose verdict is passed or failed has a tool call
  behind it: an audited call of the same session, not a bookkeeping one, that is claimed by this verdict
  and tagged with this test.
\<close>

theorem pass_backed_by_claimed_call:
  assumes "agent_step\<^sup>*\<^sup>* db0 db" and "invocations db0 = []" and "verdicts db0 = []"
    and "v \<in> set (verdicts db)" and "vd_verdict v \<in> {''passed'', ''failed''}"
  shows "\<exists>r\<in>set (invocations db). iv_session r = vd_session v \<and> iv_verdict r = Some (vd_id v) \<and>
           iv_slug r = Some (vd_slug v) \<and> iv_tool r \<notin> set bookkeeping_tools"
proof -
  have "sound_tables db0" using assms(2,3) by (simp add: sound_tables_def)
  with agent_steps_sound assms(1) have sound: "sound_tables db" by blast
  then obtain r where r: "r \<in> set (invocations db)" "iv_verdict r = Some (vd_id v)"
    using assms(4,5) by (auto simp: sound_tables_def)
  with sound obtain w where w: "w \<in> set (verdicts db)" "vd_id w = vd_id v" "vd_session w = iv_session r"
    "iv_slug r = Some (vd_slug w)" "iv_tool r \<notin> set bookkeeping_tools"
    unfolding sound_tables_def by metis
  from sound have "distinct (map vd_id (verdicts db))" by (simp add: sound_tables_def)
  with w(1,2) assms(4) have "w = v" unfolding distinct_map by (blast dest: inj_onD)
  with r w show ?thesis by (intro bexI [of _ r]) simp_all
qed

lemma unclaimed_linked:
  assumes iids: "distinct (map iv_id (invocations db))"
    and inv: "invocations db' = map (claim_row k slug (map iv_id (take n (unclaimed db sid)))) (invocations db)"
  shows "unclaimed db' sid = drop n (unclaimed db sid)"
proof -
  let ?f = "claim_row k slug (map iv_id (take n (unclaimed db sid)))"
  let ?P = "\<lambda>r. iv_session r = sid \<and> iv_verdict r = None \<and> iv_tool r \<notin> set bookkeeping_tools"
  let ?T = "take n (filter ?P (invocations db))"
  have f: "?P (?f r) \<longleftrightarrow> ?P r \<and> iv_id r \<notin> set (map iv_id ?T)" for r
    by (auto simp: claim_row_def unclaimed_def)
  have same: "?f r = r" if "?P (?f r)" for r
    using that by (auto simp: claim_row_def unclaimed_def)
  have "filter ?P (map ?f (invocations db)) = filter (\<lambda>r. ?P (?f r)) (invocations db)"
    using same by (induction "invocations db") (auto simp: filter_map o_def intro: map_idI)
  also have "\<dots> = filter (\<lambda>r. iv_id r \<notin> set (map iv_id ?T)) (filter ?P (invocations db))"
    unfolding f by (simp add: conj_commute)
  also have "\<dots> = drop n (filter ?P (invocations db))"
  proof -
    let ?L = "filter ?P (invocations db)"
    have d: "distinct (map iv_id ?L)" using iids by (rule distinct_map_filter)
    have "filter (\<lambda>r. iv_id r \<notin> set (map iv_id (take n xs))) xs = drop n xs" if "distinct (map iv_id xs)" for xs
    proof -
      from that have disj: "iv_id r \<notin> set (map iv_id (take n xs))" if "r \<in> set (drop n xs)" for r
        using that by (metis (no_types, lifting) append_take_drop_id distinct_append disjoint_iff image_eqI list.set_map map_append)
      have "filter (\<lambda>r. iv_id r \<notin> set (map iv_id (take n xs))) (take n xs @ drop n xs) = drop n xs"
        using disj by (simp only: filter_append) (simp add: filter_id_conv filter_empty_conv)
      then show ?thesis by simp
    qed
    from this [OF d] show ?thesis .
  qed
  finally show ?thesis by (simp add: unclaimed_def inv)
qed

lemma verdict_and_claim:
  assumes "sound_tables db" and "vid \<notin> vd_id ` set (verdicts db)"
    and rec: "record_test_verdict now vid pv sid sbx a db = Inr (j, db')" and ok: "get (as_dict j) ''success'' = JBool True"
    and args: "va_verdict a = JStr original" "va_slug a = JStr slug" and claim: "claim_trail db sid = Inr c"
  shows "(\<exists>v. find_verdict db' sid slug = Some v \<and>
           vd_verdict v = (if original \<in> {''passed'', ''failed''} \<and> unclaimed db sid = [] then ''inconclusive'' else original) \<and>
           vd_steps v = Some (length (take trail_cap (unclaimed db sid)))) \<and>
         unclaimed db' sid = drop trail_cap (unclaimed db sid)"
proof -
  have c: "claim_or_none db sid = c" using claim by (simp add: claim_or_none_def)
  have len: "length (cm_trail c) = length (take trail_cap (unclaimed db sid))"
    and ids: "cm_ids c = map iv_id (take trail_cap (unclaimed db sid))"
    using claim by (auto simp: claim_trail_def Let_def res_inv take_map min_def dest!: res_map_length)
  have empty: "cm_trail c = [] \<longleftrightarrow> unclaimed db sid = []"
    using len by (cases "unclaimed db sid") (auto simp: trail_cap_def)
  show ?thesis
  proof (rule record_test_verdict_Inr [OF rec])
    assume "get (as_dict j) ''success'' = JBool False"
    with ok show ?thesis by simp
  next
    fix v orig
    assume st: "db' = snd (store_verdict v (claim_or_none db sid) db)" and v: "vd_session v = sid"
      "va_slug a = JStr (vd_slug v)" "va_verdict a = JStr orig"
      "vd_verdict v = gate orig (cm_trail (claim_or_none db sid))"
      "vd_steps v = Some (length (cm_trail (claim_or_none db sid)))"
    obtain db1 k where up: "upsert_verdict v db = (db1, k)" by fastforce
    have keys: "distinct (map vd_key (verdicts db))" and iids: "distinct (map iv_id (invocations db))"
      using assms(1) by (simp_all add: sound_tables_def)
    have inv: "invocations db' = map (claim_row k (vd_slug v) (map iv_id (take trail_cap (unclaimed db sid)))) (invocations db)"
      and vds: "verdicts db' = verdicts db1"
      using up upsert_rest [OF up] by (auto simp: st store_verdict_def link_claim_def c ids)
    from upsert_rows(1) [OF up keys] obtain w where w: "w \<in> set (verdicts db1)" "stored_as v k w" by blast
    note sf = stored_as_fields [OF w(2)]
    have "find_verdict db' sid slug \<noteq> None"
      using w(1) sf(2,3) v(1,2) args(2) unfolding find_verdict_None vds by auto
    then obtain u where u: "find_verdict db' sid slug = Some u" by blast
    then have "u \<in> set (verdicts db1)" "vd_key u = vd_key v"
      using v(1,2) args(2) by (auto dest: find_verdict_Some simp: vds)
    with upsert_rows(2) [OF up keys] have "stored_as v k u" by blast
    from stored_as_fields [OF this] have "vd_verdict u = vd_verdict v" "vd_steps u = vd_steps v" by simp_all
    moreover have "orig = original" using v(3) args(1) by simp
    ultimately show ?thesis
      using u v(4,5) len empty unclaimed_linked [OF iids inv] by (auto simp: gate_def c)
  qed
qed

text \<open>
  C12: what a recorded verdict stores and claims.  The stored verdict is the given one, except that passed
  and failed become inconclusive when the session has no unclaimed call at all; which test an unclaimed call
  was made for, and whether it succeeded, plays no role.  The calls up to the cap are claimed, so that the
  next verdict of the session sees the rest only.
\<close>

theorem recorded_verdict:
  assumes "sound_tables db" and "vid \<notin> vd_id ` set (verdicts db)"
    and rec: "record_test_verdict now vid pv sid sbx a db = Inr (j, db')" and ok: "get (as_dict j) ''success'' = JBool True"
    and args: "va_verdict a = JStr original" "va_slug a = JStr slug" and claim: "claim_trail db sid = Inr c"
  shows "(\<exists>v. find_verdict db' sid slug = Some v \<and>
           vd_verdict v = (if original \<in> {''passed'', ''failed''} \<and> unclaimed db sid = [] then ''inconclusive'' else original) \<and>
           vd_steps v = Some (length (take trail_cap (unclaimed db sid)))) \<and>
         unclaimed db' sid = drop trail_cap (unclaimed db sid)"
  using assms by (rule verdict_and_claim)

text \<open>
  Recording a verdict again, with no call in between, loses it: the calls stay claimed by the first
  verdict, so the second one finds no trail, and the stored verdict becomes inconclusive whatever it was.
\<close>

theorem recording_again_downgrades:
  assumes "sound_tables db" and "vid1 \<notin> vd_id ` set (verdicts db)" and "vid2 \<notin> vd_id ` set (verdicts db1)"
    and rec1: "record_test_verdict now1 vid1 pv sid sbx a db = Inr (j1, db1)" "get (as_dict j1) ''success'' = JBool True"
    and rec2: "record_test_verdict now2 vid2 pv sid sbx a db1 = Inr (j2, db2)" "get (as_dict j2) ''success'' = JBool True"
    and args: "va_verdict a = JStr original" "va_slug a = JStr slug" "original \<in> {''passed'', ''failed''}"
    and few: "length (unclaimed db sid) \<le> trail_cap" and digested: "claim_trail db sid = Inr c"
  shows "\<exists>v. find_verdict db2 sid slug = Some v \<and> vd_verdict v = ''inconclusive'' \<and> vd_steps v = Some 0"
proof -
  have none: "unclaimed db1 sid = []"
    using verdict_and_claim [OF assms(1,2) rec1 args(1,2) digested] few by simp
  have sound: "sound_tables db1" by (rule record_test_verdict_sound [OF assms(1,2) rec1(1)])
  have "claim_trail db1 sid = Inr no_claim"
    using none by (simp add: claim_trail_def no_claim_def trail_cap_def)
  from verdict_and_claim [OF sound assms(3) rec2 args(1,2) this] show ?thesis using none args(3) by auto
qed


section \<open>The cited evidence\<close>

lemma json_dumps_Nil [simp]: "json_dumps (JArr []) = ''[]''" by simp

lemma in_lang_times: "in_lang (times n r) w \<Longrightarrow> (\<And>u. in_lang r u \<Longrightarrow> k \<le> length u) \<Longrightarrow> n * k \<le> length w"
proof (induction n arbitrary: w)
  case (Suc n)
  from Suc.prems(1) obtain u v where w: "w = u @ v" "in_lang r u" "in_lang (times n r) v"
    by (auto elim: in_lang_SeqE)
  from Suc.IH [OF w(3) Suc.prems(2)] Suc.prems(2) [OF w(2)] w(1) show ?case by simp
qed simp

lemma in_lang_Cls: "in_lang (Cls p) u \<Longrightarrow> length u = 1"
  by (auto elim: in_lang_ClsE)

lemma cited_long: "w \<in> set (cited r e ob) \<Longrightarrow> 4 \<le> length w"
proof -
  assume "w \<in> set (cited r e ob)"
  then consider "in_lang hex_literal w" | "in_lang long_number w"
    by (auto simp: cited_def Let_def dest: find_all_lang)
  then show ?thesis
  proof cases
    case 1
    then obtain u v x where "w = u @ v @ x" "in_lang (times 8 hex_class) v"
      by (auto simp: hex_literal_def elim!: in_lang_SeqE)
    moreover have "8 * 1 \<le> length v"
      using in_lang_times [OF calculation(2), of 1] by (simp add: hex_class_def in_lang_Cls)
    ultimately show ?thesis by simp
  next
    case 2
    then obtain u v x where "w = u @ v @ x" "in_lang (times 4 Digit) v"
      by (auto simp: long_number_def elim!: in_lang_SeqE)
    moreover have "4 * 1 \<le> length v"
      using in_lang_times [OF calculation(2), of 1] by (simp add: Digit_def in_lang_Cls)
    ultimately show ?thesis by simp
  qed
qed

text \<open>
  Evidence that counts as validated cites a literal, a hexadecimal word or a number of four or more
  digits, that the digest of the trail contains; a verdict without a trail is never validated.
\<close>

theorem validated_evidence_is_in_trail:
  assumes "evidence_validated reasoning evidence observations trail"
  shows "trail \<noteq> [] \<and> (\<exists>c\<in>set (cited reasoning evidence observations).
           (in_lang hex_literal c \<or> in_lang long_number c) \<and> contains c (json_dumps (JArr (map JObj trail))))"
proof -
  from assms obtain c where c: "c \<in> set (cited reasoning evidence observations)"
    "contains c (json_dumps (JArr (map JObj trail)))" by (auto simp: evidence_validated_def)
  moreover have "in_lang hex_literal c \<or> in_lang long_number c"
    using c(1) by (auto simp: cited_def Let_def dest: find_all_lang)
  moreover have "trail \<noteq> []"
  proof
    assume "trail = []"
    with c(2) have "contains c ''[]''" by simp
    then obtain pre post where "''[]'' = pre @ c @ post" unfolding contains_iff by blast
    then have "length c \<le> 2" by (metis le_add1 le_add2 length_append length_Cons list.size(3) numeral_2_eq_2 order_trans)
    with cited_long [OF c(1)] show False by simp
  qed
  ultimately show ?thesis by blast
qed

section \<open>Witnesses\<close>

definition no_core :: db where
  "no_core = \<lparr>runs = [], run_events = [], run_logs = [], log_seq = 0, definitions = [], results = [], sandboxes = [],
     applications = [], sessions = [], release_catalog = [], cli_catalog = [], devnet_catalog = []\<rparr>"

definition one_session :: ai_db where
  "one_session = \<lparr>ai_sessions = [\<lparr>sn_id = ''s'', sn_run = None, sn_sandbox = None, sn_mode = ''autonomous'',
       sn_status = AActive, sn_goal = None, sn_history = JArr [], sn_findings = JArr [], sn_created_by = JNull,
       sn_created_at = 0, sn_closed_at = None, sn_tokens = None, sn_tool_calls = None, sn_model = None,
       sn_exec_mode = ''ai_manual'', sn_selected = None\<rparr>],
     invocations = [], verdicts = [], plans = [], ai_defs = [], core = no_core\<rparr>"

definition mined_row :: inv_row where
  "mined_row = \<lparr>iv_id = ''i1'', iv_session = ''s'', iv_tool = ''advance_time'', iv_input = JObj [(''blocks'', JInt 5)],
     iv_output = JObj [(''success'', JBool True)], iv_status = ''ok'', iv_duration = 7, iv_slug = None,
     iv_verdict = None, iv_at = 0\<rparr>"

definition mined :: ai_db where
  "mined = record_invocation 0 ''i1'' (Some ''s'') ''advance_time'' (JObj [(''blocks'', JInt 5)])
             (JObj [(''success'', JBool True)]) ''ok'' 7 JNull one_session"

definition claim_t1 :: verdict_args where
  "claim_t1 = \<lparr>va_slug = JStr ''t1'', va_verdict = JStr ''passed'', va_reasoning = JStr ''mined'', va_inputs = JNull,
     va_evidence = JNull, va_duration = JNull, va_confidence = Conf 1, va_observations = JNull\<rparr>"

definition no_pv :: provenance where
  "no_pv = \<lparr>pv_model = JNull, pv_params = JNull, pv_release = None, pv_image = None, pv_contracts = JNull\<rparr>"

lemma nat_str_nul [simp]: "CHR 0x00 \<notin> set (nat_str n)"
proof (induction n rule: nat_str.induct)
  case (1 n)
  have "digit_char d \<noteq> CHR 0x00" if "d < 10" for d
  proof
    assume "digit_char d = CHR 0x00"
    then have "(of_char (digit_char d) :: nat) = 0" by simp
    with that show False by (simp add: digit_char_def)
  qed
  then have "digit_char (n mod 10) \<noteq> CHR 0x00" by simp
  moreover have "n < 10 \<Longrightarrow> digit_char n \<noteq> CHR 0x00" using \<open>\<And>d. d < 10 \<Longrightarrow> digit_char d \<noteq> CHR 0x00\<close> .
  ultimately show ?case using 1 by (subst nat_str.simps) auto
qed

lemma pad_nul [simp]: "CHR 0x00 \<notin> set (pad n i)"
  by (simp add: pad_def zfill_def int_str_def)

lemma isoformat_nul [simp]: "CHR 0x00 \<notin> set (isoformat t)"
proof -
  obtain y m d where "civil_date (t div 86400000) = (y, m, d)" by (cases "civil_date (t div 86400000)")
  then show ?thesis by (simp add: isoformat_def Let_def)
qed

lemma mined_sizes:
  "length (json_dumps (JObj [(''blocks'', JInt 5)])) \<le> 50000"
  "length (json_dumps (JObj [(''success'', JBool True)])) \<le> 200000"
  using length_dump_str [of "''blocks''"] length_dump_str [of "''success''"]
  by (simp_all add: int_str_def nat_str.simps)

lemma mined_eq: "invocations mined = [mined_row]" "verdicts mined = []" "ai_defs mined = []"
    "find_session mined ''s'' \<noteq> None"
  using mined_sizes
  by (simp_all add: mined_def one_session_def mined_row_def record_invocation_def invocation_row_def jsonb_cut_def
      jsonb_param_def find_session_def update_session_def)

lemma mined_trail: "digest_step mined_row = Inr
    [(''tool'', JStr ''advance_time''), (''status'', JStr ''ok''), (''target'', JStr ''anvil''),
     (''input'', JObj [(''blocks'', JInt 5)]), (''output'', JObj [(''ok'', JBool True)]),
     (''invocation_id'', JStr ''i1''), (''duration_ms'', JInt 7), (''at'', JStr (isoformat 0))]"
  by (simp add: digest_step_def mined_row_def digest_of_def as_dict_def get_def get_or_def Let_def)

lemma mined_claim: "claim_trail mined ''s'' = Inr
    \<lparr>cm_trail = [[(''tool'', JStr ''advance_time''), (''status'', JStr ''ok''), (''target'', JStr ''anvil''),
       (''input'', JObj [(''blocks'', JInt 5)]), (''output'', JObj [(''ok'', JBool True)]),
       (''invocation_id'', JStr ''i1''), (''duration_ms'', JInt 7), (''at'', JStr (isoformat 0))]],
     cm_ids = [''i1''], cm_truncated = False, cm_mutating = 1\<rparr>"
proof -
  have "unclaimed mined ''s'' = [mined_row]"
    by (simp add: unclaimed_def mined_eq) (simp add: mined_row_def bookkeeping_tools_def)
  moreover have "iv_id mined_row = ''i1''" "is_mutating (iv_tool mined_row) (as_dict (iv_input mined_row))"
    by (simp_all add: mined_row_def is_mutating_def mutating_tools_def)
  ultimately show ?thesis by (simp add: claim_trail_def mined_trail trail_cap_def)
qed

lemma check_t1: "check_verdict ''s'' claim_t1 = Inr None"
  by (simp add: check_verdict_def claim_t1_def valid_verdicts_def blank_def strip_def is_space_def ord_def)


lemma verdict_t1:
  assumes "ai_defs db = []" "find_session db ''s'' \<noteq> None" "claim_trail db ''s'' = Inr c"
    and nul: "\<not> json_nul (JArr (map JObj (cm_trail c)))"
  shows "\<exists>j db1. record_test_verdict now vid no_pv ''s'' None claim_t1 db = Inr (j, db1) \<and>
      get (as_dict j) ''success'' = JBool True \<and> ai_sessions db1 = ai_sessions db \<and> ai_defs db1 = ai_defs db"
proof -
  have "merged_evidence claim_t1 (cm_trail c) = Inr (if cm_trail c = [] then JNull
          else JObj [(''execution_trail'', JArr (map JObj (cm_trail c)))])"
    by (simp add: merged_evidence_def claim_t1_def)
  moreover have "jsonb_param (if cm_trail c = [] then JNull else JObj [(''execution_trail'', JArr (map JObj (cm_trail c)))])
      = Inr (jsonb (if cm_trail c = [] then JNull else JObj [(''execution_trail'', JArr (map JObj (cm_trail c)))]))"
    using nul by (simp add: jsonb_param_def)
  ultimately obtain v where v: "verdict_row_of now vid no_pv ''s'' None claim_t1 ''t1'' ''passed'' ''mined'' c db = Inr v"
    by (simp add: verdict_row_of_def Let_def claim_t1_def snapshot_of_def find_ai_def_def assms(1))
       (simp add: jsonb_param_def)
  obtain db1 k where up: "upsert_verdict v db = (db1, k)" by fastforce
  have "record_test_verdict now vid no_pv ''s'' None claim_t1 db = Inr (store_verdict v c db)"
    using v assms(2,3) check_t1 by (simp add: record_test_verdict_def claim_or_none_def) (simp add: claim_t1_def)
  moreover have "ai_defs db1 = ai_defs db" using up by (auto simp: upsert_verdict_def split: option.splits)
  ultimately show ?thesis
    using up upsert_rest [OF up]
    by (auto simp: store_verdict_def verdict_reply_def link_claim_def as_dict_def get_def get_or_def)
qed

lemma session_kept: "ai_sessions db1 = ai_sessions db \<Longrightarrow> find_session db1 sid = find_session db sid"
  by (simp add: find_session_def)

lemma mined_sound: "sound_tables mined"
  by (simp add: sound_tables_def mined_eq) (simp add: mined_row_def)

lemma mined_nul: "\<not> json_nul (JArr (map JObj (cm_trail
    \<lparr>cm_trail = [[(''tool'', JStr ''advance_time''), (''status'', JStr ''ok''), (''target'', JStr ''anvil''),
       (''input'', JObj [(''blocks'', JInt 5)]), (''output'', JObj [(''ok'', JBool True)]),
       (''invocation_id'', JStr ''i1''), (''duration_ms'', JInt 7), (''at'', JStr (isoformat 0))]],
     cm_ids = [''i1''], cm_truncated = False, cm_mutating = 1\<rparr>)))"
  by simp

text \<open>The verdict on the one call; the same verdict recorded once more.\<close>

lemma first_verdict:
  obtains j db1 where "record_test_verdict 1 ''v1'' no_pv ''s'' None claim_t1 mined = Inr (j, db1)"
    "get (as_dict j) ''success'' = JBool True" "ai_sessions db1 = ai_sessions mined" "ai_defs db1 = []"
  using verdict_t1 [OF mined_eq(3,4) mined_claim mined_nul] mined_eq(3) by metis

theorem recorded_verdict_witness:
  "\<exists>j db1 v. record_test_verdict 1 ''v1'' no_pv ''s'' None claim_t1 mined = Inr (j, db1) \<and>
     find_verdict db1 ''s'' ''t1'' = Some v \<and> vd_verdict v = ''passed'' \<and> unclaimed db1 ''s'' = []"
proof -
  obtain j db1 where r: "record_test_verdict 1 ''v1'' no_pv ''s'' None claim_t1 mined = Inr (j, db1)"
    "get (as_dict j) ''success'' = JBool True" by (rule first_verdict)
  have u: "unclaimed mined ''s'' = [mined_row]"
    by (simp add: unclaimed_def mined_eq) (simp add: mined_row_def bookkeeping_tools_def)
  have "''v1'' \<notin> vd_id ` set (verdicts mined)" "va_verdict claim_t1 = JStr ''passed''" "va_slug claim_t1 = JStr ''t1''"
    by (simp_all add: mined_eq claim_t1_def)
  from recorded_verdict [OF mined_sound this(1) r this(2,3) mined_claim] r(1) u show ?thesis
    by (auto simp: trail_cap_def)
qed

theorem recording_again_downgrades_witness:
  "\<exists>j1 db1 j2 db2 v. record_test_verdict 1 ''v1'' no_pv ''s'' None claim_t1 mined = Inr (j1, db1) \<and>
     record_test_verdict 2 ''v2'' no_pv ''s'' None claim_t1 db1 = Inr (j2, db2) \<and>
     find_verdict db2 ''s'' ''t1'' = Some v \<and> vd_verdict v = ''inconclusive''"
proof -
  obtain j1 db1 where r1: "record_test_verdict 1 ''v1'' no_pv ''s'' None claim_t1 mined = Inr (j1, db1)"
    "get (as_dict j1) ''success'' = JBool True" and same: "ai_sessions db1 = ai_sessions mined" "ai_defs db1 = []"
    by (rule first_verdict)
  have args: "va_verdict claim_t1 = JStr ''passed''" "va_slug claim_t1 = JStr ''t1''" by (simp_all add: claim_t1_def)
  have new1: "''v1'' \<notin> vd_id ` set (verdicts mined)" by (simp add: mined_eq)
  have u: "unclaimed mined ''s'' = [mined_row]"
    by (simp add: unclaimed_def mined_eq) (simp add: mined_row_def bookkeeping_tools_def)
  have ids: "vd_id ` set (verdicts db1) \<subseteq> {''v1''}"
  proof (rule record_test_verdict_Inr [OF r1(1)])
    fix v assume "db1 = snd (store_verdict v (claim_or_none mined ''s'') mined)" "vd_id v = ''v1''"
    then show ?thesis
      by (auto simp: store_verdict_def upsert_verdict_def find_verdict_def mined_eq link_claim_def)
  qed (simp add: mined_eq)
  then have new2: "''v2'' \<notin> vd_id ` set (verdicts db1)" by auto
  have "claim_trail db1 ''s'' = Inr no_claim"
  proof -
    have "unclaimed db1 ''s'' = []"
      using verdict_and_claim [OF mined_sound new1 r1 args mined_claim] by (simp add: u trail_cap_def)
    then show ?thesis by (simp add: claim_trail_def no_claim_def trail_cap_def)
  qed
  then obtain j2 db2 where r2: "record_test_verdict 2 ''v2'' no_pv ''s'' None claim_t1 db1 = Inr (j2, db2)"
    "get (as_dict j2) ''success'' = JBool True"
    using verdict_t1 [OF same(2) _ _, of no_claim 2 "''v2''"] session_kept [OF same(1)] mined_eq(4)
    by (auto simp: no_claim_def)
  have "length (unclaimed mined ''s'') \<le> trail_cap" by (simp add: u trail_cap_def)
  from recording_again_downgrades [OF mined_sound new1 new2 r1 r2 args _ this mined_claim] r1 r2
  show ?thesis by auto
qed

theorem pass_backed_by_claimed_call_witness:
  "\<exists>j db1 v r. record_test_verdict 1 ''v1'' no_pv ''s'' None claim_t1 mined = Inr (j, db1) \<and>
     v \<in> set (verdicts db1) \<and> vd_verdict v = ''passed'' \<and> r \<in> set (invocations db1) \<and> iv_slug r = Some (vd_slug v)"
proof -
  obtain j db1 where r: "record_test_verdict 1 ''v1'' no_pv ''s'' None claim_t1 mined = Inr (j, db1)"
    "get (as_dict j) ''success'' = JBool True" by (rule first_verdict)
  have u: "unclaimed mined ''s'' = [mined_row]"
    by (simp add: unclaimed_def mined_eq) (simp add: mined_row_def bookkeeping_tools_def)
  have new: "''v1'' \<notin> vd_id ` set (verdicts mined)" by (simp add: mined_eq)
  have args: "va_verdict claim_t1 = JStr ''passed''" "va_slug claim_t1 = JStr ''t1''" by (simp_all add: claim_t1_def)
  from verdict_and_claim [OF mined_sound new r args mined_claim] obtain v
    where v: "find_verdict db1 ''s'' ''t1'' = Some v" "vd_verdict v = ''passed''" by (auto simp: u)
  have "agent_step one_session mined" unfolding mined_def
    by (rule agent_step.call) (simp add: one_session_def)
  moreover have "agent_step mined db1" by (rule agent_step.verdict [OF new r(1)])
  ultimately have steps: "agent_step\<^sup>*\<^sup>* one_session db1" by (meson rtranclp.simps)
  have "v \<in> set (verdicts db1)" using v(1) by (auto dest: find_verdict_Some)
  moreover from pass_backed_by_claimed_call [OF steps _ _ this] v(2) obtain q
    where "q \<in> set (invocations db1)" "iv_slug q = Some (vd_slug v)" by (auto simp: one_session_def)
  ultimately show ?thesis using r(1) v(2) by blast
qed


text \<open>The year of the timestamps in the trail counts as evidence.\<close>

definition dated_trail :: "dict list" where
  "dated_trail = [[(''at'', JStr ''2026-06-13'')]]"

lemma cites_year: "''2026'' \<in> set (cited ''ok in 2026'' JNull JNull)"
  by (simp add: cited_def py_or_def find_all.simps hex_literal_def long_number_def hex_class_def Chr_def Digit_def
      matches.simps(5) is_digit_def is_word_def hex_val_def ord_def st_rest_def numeral_nat)

lemma year_in_trail: "contains ''2026'' (json_dumps (JArr (map JObj dated_trail)))"
  by (simp add: dated_trail_def dump_str_def utf8_head_def ord_def escape_code_def dquote_def char_of_def bit_0)

theorem validated_evidence_is_in_trail_witness:
  "evidence_validated ''ok in 2026'' JNull JNull dated_trail \<and>
   (\<exists>c\<in>set (cited ''ok in 2026'' JNull JNull). contains c (json_dumps (JArr (map JObj dated_trail))))"
proof -
  have "evidence_validated ''ok in 2026'' JNull JNull dated_trail"
    unfolding evidence_validated_def using cites_year year_in_trail by blast
  with validated_evidence_is_in_trail [OF this] show ?thesis by blast
qed

end
