(* ===== verification/Agent_Tools_Spec.thy ===== *)
theory Agent_Tools_Spec
  imports Agent_Tools Run_System Test_Results_Spec Agent_Verdicts_Spec
begin

text \<open>
  The agent's tools against the services they work with: the overrides that the agent applies are those of
  the test runner, a triggered test is a command that the runner accepts, and its result counts for the
  run of the sandbox.
\<close>

section \<open>Two implementations of the overrides\<close>

lemma agent_override_agrees: "agent_override asserts kv = Inr new \<Longrightarrow> apply_override asserts kv = new"
proof (cases kv)
  case (Pair k v)
  assume a: "agent_override asserts kv = Inr new"
  have one: "length (filter (owns k) asserts) = 1" if "filter (owns k) asserts \<noteq> []" "\<not> 1 < length (filter (owns k) asserts)"
    using that by (cases "filter (owns k) asserts") auto
  with a Pair show ?thesis
    by (auto simp: agent_override_def apply_override_def Let_def simp del: length_filter_conv_card
          split: option.splits if_splits prod.splits)
qed

lemma agent_overrides_agree: "agent_overrides asserts ov = Inr new \<Longrightarrow> foldl apply_override asserts ov = new"
  by (induction asserts ov rule: agent_overrides.induct) (auto simp: res_inv dest: agent_override_agrees)

lemma agent_override_dicts:
  "agent_override asserts kv = Inr new \<Longrightarrow> asserts \<noteq> [] \<and> length new = length asserts"
  by (cases kv) (auto simp: agent_override_def Let_def split: option.splits if_splits prod.splits)

lemma agent_overrides_length: "agent_overrides asserts ov = Inr new \<Longrightarrow> length new = length asserts"
  by (induction asserts ov rule: agent_overrides.induct) (auto simp: res_inv dest!: agent_override_dicts)

text \<open>What a successful \<open>_apply_overrides\<close> returns.\<close>

lemma apply_overrides_Inr:
  assumes "apply_overrides parsed overrides = Inr p" and "truthy overrides"
  obtains ov d xs new where "overrides = JObj ov" "ov \<noteq> []" "parsed = JObj d" "get d ''assertions'' = JArr xs" "xs \<noteq> []"
    "agent_overrides xs ov = Inr new" "p = JObj (set_key d ''assertions'' (JArr new))"
proof -
  from assms obtain ov found where ov: "overrides = JObj ov" "jget_or parsed ''assertions'' JNull = Inr found"
    and rest: "(case py_or found (JArr []) of
        JArr xs \<Rightarrow> res_bind (agent_overrides xs ov) (\<lambda>new.
          Inr (case parsed of JObj d \<Rightarrow> JObj (set_key d ''assertions'' (JArr new)) | _ \<Rightarrow> parsed))
      | _ \<Rightarrow> (case ov of [] \<Rightarrow> Inr parsed | kv # _ \<Rightarrow> Inl (odd_override (py_or found (JArr [])) kv))) = Inr p"
    by (auto simp: apply_overrides_def res_inv Let_def)
  have ne: "ov \<noteq> []" using assms(2) ov(1) by simp
  from ov(2) obtain d where d: "parsed = JObj d" "found = get d ''assertions''"
    by (cases parsed) (auto simp: get_def)
  from rest ne obtain xs new where xs: "py_or found (JArr []) = JArr xs" "agent_overrides xs ov = Inr new"
    "p = JObj (set_key d ''assertions'' (JArr new))"
    by (auto simp: d(1) res_inv split: json.splits list.splits)
  have "xs \<noteq> []"
    using xs(2) ne by (cases ov) (auto simp: res_inv dest!: agent_override_dicts)
  with xs(1) have "get d ''assertions'' = JArr xs" by (auto simp: py_or_def d(2) split: if_splits)
  from that [OF ov(1) ne d(1) this \<open>xs \<noteq> []\<close> xs(2,3)] show ?thesis .
qed

text \<open>
  C13: the agent and the test runner each implement parameter overrides.  Where the agent accepts a set of
  overrides, applying them on the runner's side gives the same definition; the runner skips the ones
  that the agent refuses.
\<close>

theorem overrides_agree:
  assumes "apply_overrides parsed (JObj ov) = Inr p"
    and "ov \<noteq> []"
  shows "overridden ov parsed = Inr p"
proof -
  from assms obtain d xs new where p: "parsed = JObj d" "get d ''assertions'' = JArr xs" "xs \<noteq> []"
    "agent_overrides xs ov = Inr new" "p = JObj (set_key d ''assertions'' (JArr new))"
    by (auto elim: apply_overrides_Inr)
  have "d \<noteq> []" using p(2) by (auto simp: get_def get_or_def)
  moreover have "get_or d ''assertions'' (JArr []) = JArr xs"
    using p(2) by (auto simp: get_def get_or_def split: option.splits)
  ultimately show ?thesis
    using p(1,3,5) agent_overrides_agree [OF p(4)] by (simp add: overridden_def py_or_def override_assertions_def)
qed

section \<open>A triggered test is a command that the runner accepts\<close>

lemma read_test_definition_ok:
  assumes "read_test_definition slug db = Inr info0" and "truthy (get (as_dict info0) ''success'')"
  obtains d where "slug = JStr (d_slug d)" "find_ai_def db (d_slug d) = Some d" "d_ai_allowed d"
    "get (as_dict info0) ''id'' = JStr (d_id d)" "get (as_dict info0) ''version'' = JInt (d_version d)"
    "get (as_dict info0) ''slug'' = JStr (d_slug d)" "get (as_dict info0) ''definition_parsed'' = d_parsed d"
proof -
  from assms(1) obtain p where p: "text_param slug = Inr p" by (auto simp: read_test_definition_def res_inv)
  show ?thesis
  proof (cases "case p of None \<Rightarrow> None | Some s \<Rightarrow> find_ai_def db s")
    case None
    with assms p show ?thesis
      by (auto simp: read_test_definition_def tool_failure_def as_dict_def get_def get_or_def)
  next
    case (Some d)
    then obtain s where s: "p = Some s" "find_ai_def db s = Some d" by (cases p) auto
    then have "d_slug d = s" by (auto simp: find_ai_def_def dest: find_pred)
    moreover have "slug = JStr s" using p s(1) by (cases slug) (auto split: if_splits)
    ultimately show ?thesis
      using assms p s by (cases "d_ai_allowed d")
        (auto simp: read_test_definition_def as_dict_def get_def get_or_def intro: that)
  qed
qed

lemma build_command_ok:
  assumes "build_command tid sid ov info r meta0 = Inr (Inr (cmd, info'))"
  obtains p meta major where "apply_overrides (get info ''definition_parsed'') ov = Inr p" "info' = info"
    "cmd = ai_command tid sid (get info ''slug'') ov r meta major info p"
proof (cases "apply_overrides (get info ''definition_parsed'') ov")
  case (Inl e)
  with assms show ?thesis by (auto simp: build_command_def split: if_splits)
next
  case (Inr p)
  with assms that show ?thesis by (auto simp: build_command_def res_inv)
qed

lemma prepare_test_ok:
  assumes "prepare_test tid sid sbx slug ov db = Inr (Inr (cmd, info))"
  obtains d r meta major p where "slug = JStr (d_slug d)" "find_ai_def db (d_slug d) = Some d" "d_ai_allowed d"
    "sbx = Some (s_id r)" "find_sandbox (core db) (s_id r) = Some r"
    "apply_overrides (d_parsed d) (py_or ov (JObj [])) = Inr p"
    "get info ''id'' = JStr (d_id d)" "get info ''version'' = JInt (d_version d)" "get info ''slug'' = JStr (d_slug d)"
    "cmd = ai_command tid sid (JStr (d_slug d)) (py_or ov (JObj [])) r meta major info p"
proof -
  from assms obtain info0 where i0: "read_test_definition slug db = Inr info0" "truthy (get (as_dict info0) ''success'')"
    by (auto simp: prepare_test_def res_inv split: if_splits)
  obtain d where d: "slug = JStr (d_slug d)" "find_ai_def db (d_slug d) = Some d" "d_ai_allowed d"
    "get (as_dict info0) ''id'' = JStr (d_id d)" "get (as_dict info0) ''version'' = JInt (d_version d)"
    "get (as_dict info0) ''slug'' = JStr (d_slug d)" "get (as_dict info0) ''definition_parsed'' = d_parsed d"
    using read_test_definition_ok [OF i0] by blast
  from assms i0 obtain found where found: "load_sandbox sbx db = Inr found" by (auto simp: prepare_test_def res_inv)
  show ?thesis
  proof (cases found)
    case None
    with assms i0 found show ?thesis by (simp add: prepare_test_def)
  next
    case (Some rm)
    obtain r meta0 where rm: "rm = (r, meta0)" by fastforce
    from found Some rm obtain s where s: "sbx = Some s" "find_sandbox (core db) s = Some r"
      by (auto simp: load_sandbox_def res_inv split: option.splits)
    then have sid: "s_id r = s" by (auto dest: sandbox_table.look_key)
    have "build_command tid sid (py_or ov (JObj [])) (as_dict info0) r meta0 = Inr (Inr (cmd, info))"
      using assms i0 found Some rm by (simp add: prepare_test_def)
    then obtain p meta major where "apply_overrides (d_parsed d) (py_or ov (JObj [])) = Inr p" "info = as_dict info0"
      "cmd = ai_command tid sid (JStr (d_slug d)) (py_or ov (JObj [])) r meta major (as_dict info0) p"
      by (rule build_command_ok) (simp_all add: d)
    with d s sid show ?thesis by (intro that [of d r p meta major]) simp_all
  qed
qed

lemma ai_command_get:
  fixes tid sid slug ov r meta major info p
  defines "c \<equiv> ai_command tid sid slug ov r meta major info p"
  shows "get c ''run_id'' = JStr (if s_run_id r = [] then sid else s_run_id r)" "get c ''sandbox_id'' = JStr (s_id r)"
    "get c ''definition_id'' = get info ''id''" "get c ''definition_version'' = get info ''version''"
    "get_or c ''node_major_version'' (JInt 1) = JInt major" "get c ''parameter_overrides'' = ov"
    "get c ''definition_parsed_override'' = p" "get c ''result_id'' = JStr tid" "get c ''session_id'' = JStr sid"
    "\<exists>vs. res_map (msg_item c) command_keys = Inr vs"
  by (simp_all add: c_def ai_command_def box_address_keys_def get_def get_or_def command_keys_def msg_item_def)

text \<open>
  C19: the command that \<open>trigger_test\<close> publishes has the fields and types that the test runner demands.  It
  names the run of the sandbox, is only built for a definition that is open to the agent, is stored under
  the result id that the agent polls, and makes the runner use the overridden definition.
\<close>

theorem ai_command_accepted:
  assumes "prepare_test tid sid sbx slug ov db = Inr (Inr (cmd, info))" and "tid \<noteq> []"
  shows "\<exists>d r major p. slug = JStr (d_slug d) \<and> find_ai_def db (d_slug d) = Some d \<and> d_ai_allowed d \<and>
           sbx = Some (s_id r) \<and> find_sandbox (core db) (s_id r) = Some r \<and>
           apply_overrides (d_parsed d) (py_or ov (JObj [])) = Inr p \<and>
           check_command cmd = Inr major \<and> result_id_of uuid cmd = Inr tid \<and>
           command_ids_of cmd = Inr \<lparr>ci_run = (if s_run_id r = [] then sid else s_run_id r), ci_sandbox = s_id r,
                                      ci_def = d_id d, ci_version = d_version d\<rparr> \<and>
           (truthy p \<longrightarrow> effective_def cmd cd = Inr (cd\<lparr>cd_parsed := p\<rparr>))"
proof -
  from assms(1) obtain d r meta major p where c: "slug = JStr (d_slug d)" "find_ai_def db (d_slug d) = Some d"
    "d_ai_allowed d" "sbx = Some (s_id r)" "find_sandbox (core db) (s_id r) = Some r"
    "apply_overrides (d_parsed d) (py_or ov (JObj [])) = Inr p"
    "get info ''id'' = JStr (d_id d)" "get info ''version'' = JInt (d_version d)"
    and cmd: "cmd = ai_command tid sid (JStr (d_slug d)) (py_or ov (JObj [])) r meta major info p"
    by (rule prepare_test_ok)
  have dict: "\<exists>o'. py_or ov (JObj []) = JObj o'"
  proof (cases "truthy (py_or ov (JObj []))")
    case True
    with c(6) show ?thesis by (auto elim!: apply_overrides_Inr)
  next
    case False
    then show ?thesis by (cases "truthy ov") (simp_all add: py_or_def)
  qed
  have "check_command cmd = Inr major"
  proof -
    obtain vs where "res_map (msg_item cmd) command_keys = Inr vs" unfolding cmd using ai_command_get(10) by blast
    then show ?thesis by (simp add: check_command_def) (simp add: cmd ai_command_get)
  qed
  moreover have "command_ids_of cmd = Inr \<lparr>ci_run = (if s_run_id r = [] then sid else s_run_id r), ci_sandbox = s_id r,
      ci_def = d_id d, ci_version = d_version d\<rparr>"
    by (simp add: command_ids_of_def cmd ai_command_get c(7,8))
  moreover have "result_id_of uuid cmd = Inr tid"
    using assms(2) by (simp add: result_id_of_def cmd ai_command_get py_or_def)
  moreover have "truthy p \<longrightarrow> effective_def cmd cd = Inr (cd\<lparr>cd_parsed := p\<rparr>)"
    using dict by (auto simp: effective_def_def cmd ai_command_get Let_def py_or_def)
  ultimately show ?thesis using c by blast
qed

section \<open>The result of a triggered test\<close>

text \<open>
  C32: the result of a test that the agent triggers counts for the run of the sandbox.  When all but one of
  the dispatched tests of a running run have ended and the last one has no row yet, the row of the agent's
  test stands in for it: the next result message closes the run with a verdict.
\<close>

theorem agent_result_closes_run_early:
  assumes prep: "prepare_test tid sid sbx slug ov db = Inr (Inr (cmd, info))" and "tid \<noteq> []"
    and ids: "command_ids_of cmd = Inr ids" and rid: "ci_run ids = rid"
    and run: "find_run (o_db s) rid = Some r" "r_status r = RRunning" "dispatched_count (r_metadata r) = int (length ts + 1)"
    and rows: "run_results (o_db s) rid = ts @ [(new_result_row ids tid TPassed t0 (Some t1))]"
    and ended: "\<forall>t\<in>set ts. \<not> in_flight_status (t_status t)" and msg: "get msg ''run_id'' = JStr rid"
  shows "(\<exists>b. find_sandbox (core db) (ci_sandbox ids) = Some b \<and> (s_run_id b \<noteq> [] \<longrightarrow> rid = s_run_id b)) \<and>
         (\<exists>rep r'. fst (handle_test_result le 100 80 now msg s) = Some rep \<and>
           find_run (o_db (snd (handle_test_result le 100 80 now msg s))) rid = Some r' \<and> r_status r' \<noteq> RRunning)"
proof -
  from prep obtain d b meta major p where "slug = JStr (d_slug d)" "find_ai_def db (d_slug d) = Some d"
    "d_ai_allowed d" and c: "sbx = Some (s_id b)" "find_sandbox (core db) (s_id b) = Some b"
    and "apply_overrides (d_parsed d) (py_or ov (JObj [])) = Inr p"
    and i: "get info ''id'' = JStr (d_id d)" "get info ''version'' = JInt (d_version d)"
    and "get info ''slug'' = JStr (d_slug d)"
    and cmd: "cmd = ai_command tid sid (JStr (d_slug d)) (py_or ov (JObj [])) b meta major info p"
    by (rule prepare_test_ok)
  have "ids = \<lparr>ci_run = (if s_run_id b = [] then sid else s_run_id b), ci_sandbox = s_id b, ci_def = d_id d,
      ci_version = d_version d\<rparr>"
    using ids by (simp add: command_ids_of_def cmd ai_command_get i)
  then have box: "find_sandbox (core db) (ci_sandbox ids) = Some b" "s_run_id b \<noteq> [] \<longrightarrow> rid = s_run_id b"
    using c rid by auto
  have ready: "run_done (o_db s) rid r"
    using run(3) rows ended by (auto simp: run_done_def new_result_row_def in_flight_status_def)
  let ?r = "r\<lparr>r_status := final_status 100 80 (rate_of (o_db s) rid),
      r_pass_rate := Some (numeric2 (rate_of (o_db s) rid)), r_completed_at := Some now\<rparr>"
  from handle_cases [OF msg run(1), of le 100 80 now] ready run(2)
  obtain rep where rep: "fst (handle_test_result le 100 80 now msg s) = Some rep"
    and db': "o_db (snd (handle_test_result le 100 80 now msg s)) = update_run rid (\<lambda>_. ?r) (o_db s)"
    by auto
  have "r_id r = rid" using run(1) by (rule find_run_id)
  then have "find_run (o_db (snd (handle_test_result le 100 80 now msg s))) rid = Some ?r"
    unfolding db' using run(1) by (simp add: find_run_def update_run_def find_map_const)
  moreover have "r_status ?r \<noteq> RRunning" by (simp add: final_status_def)
  ultimately show ?thesis using rep box by blast
qed

section \<open>Witnesses\<close>

definition limit_test :: ai_def_row where
  "limit_test = \<lparr>d_id = ''d9'', d_slug = ''limit'', d_name = ''limit'', d_version = 3, d_tags = Some [], d_category = None,
     d_phase = None, d_active = True, d_min_node_major = 2, d_timeout_seconds = 60,
     d_parsed = JObj [(''assertions'', JArr [JObj [(''type'', JStr ''json_rpc''), (''limit'', JInt 1)]])],
     d_component = JNull, d_priority = ''low'', d_ai_allowed = True\<rparr>"

definition limit_parsed :: json where
  "limit_parsed = JObj [(''assertions'', JArr [JObj [(''type'', JStr ''json_rpc''), (''limit'', JInt 9)]])]"

definition agent_tables :: ai_db where
  "agent_tables = \<lparr>ai_sessions = [], invocations = [], verdicts = [], plans = [], ai_defs = [limit_test],
     core = no_core\<lparr>sandboxes := [new_sandbox_row ''sb'' ''r'']\<rparr>\<rparr>"

definition limit_9 :: json where "limit_9 = JObj [(''limit'', JInt 9)]"

lemma limit_overrides: "apply_overrides (d_parsed limit_test) limit_9 = Inr limit_parsed"
  by (simp add: apply_overrides_def limit_9_def limit_parsed_def limit_test_def get_or_def py_or_def agent_override_def
      scoped_key_def startswith_def owns_def has_key_def set_assertion_def)

theorem overrides_agree_witness:
  "overridden [(''limit'', JInt 9)] (d_parsed limit_test) = Inr limit_parsed"
  by (rule overrides_agree [OF limit_overrides [unfolded limit_9_def]]) simp

lemma limit_prepared: "\<exists>cmd info. prepare_test ''t9'' ''s'' (Some ''sb'') (JStr ''limit'') limit_9 agent_tables = Inr (Inr (cmd, info))"
proof -
  have r: "read_test_definition (JStr ''limit'') agent_tables = Inr (JObj [(''success'', JBool True),
      (''id'', JStr ''d9''), (''slug'', JStr ''limit''), (''name'', JStr ''limit''), (''version'', JInt 3),
      (''tags'', JArr []), (''component'', JNull), (''priority'', JStr ''low''), (''timeout_seconds'', JInt 60),
      (''is_active'', JBool True), (''definition_parsed'', d_parsed limit_test)])"
    by (simp add: read_test_definition_def agent_tables_def find_ai_def_def) (simp add: limit_test_def)
  have l: "load_sandbox (Some ''sb'') agent_tables = Inr (Some (new_sandbox_row ''sb'' ''r'', JObj []))"
    by (simp add: load_sandbox_def agent_tables_def find_sandbox_def new_sandbox_row_def load_meta_def py_or_def)
  have "py_or limit_9 (JObj []) = limit_9" by (simp add: py_or_def limit_9_def)
  then show ?thesis
    using limit_overrides
    by (simp add: prepare_test_def r l build_command_def as_dict_def get_def get_or_def py_or_def)
qed

theorem ai_command_accepted_witness:
  "\<exists>cmd info major. prepare_test ''t9'' ''s'' (Some ''sb'') (JStr ''limit'') limit_9 agent_tables = Inr (Inr (cmd, info)) \<and>
     check_command cmd = Inr major \<and> result_id_of (\<lambda>_. []) cmd = Inr ''t9'' \<and>
     effective_def cmd nul_def = Inr (nul_def\<lparr>cd_parsed := limit_parsed\<rparr>)"
proof -
  obtain cmd info where p: "prepare_test ''t9'' ''s'' (Some ''sb'') (JStr ''limit'') limit_9 agent_tables = Inr (Inr (cmd, info))"
    using limit_prepared by blast
  from ai_command_accepted [OF p list.distinct(2), of "\<lambda>_. []" nul_def] obtain d r major q where
    d: "JStr ''limit'' = JStr (d_slug d)" "find_ai_def agent_tables (d_slug d) = Some d"
    and "d_ai_allowed d" "Some ''sb'' = Some (s_id r)" "find_sandbox (core agent_tables) (s_id r) = Some r"
    and a: "apply_overrides (d_parsed d) (py_or limit_9 (JObj [])) = Inr q" "check_command cmd = Inr major"
    "result_id_of (\<lambda>_. []) cmd = Inr ''t9''"
    and "command_ids_of cmd = Inr \<lparr>ci_run = (if s_run_id r = [] then ''s'' else s_run_id r), ci_sandbox = s_id r,
       ci_def = d_id d, ci_version = d_version d\<rparr>"
    and e: "truthy q \<longrightarrow> effective_def cmd nul_def = Inr (nul_def\<lparr>cd_parsed := q\<rparr>)"
    by (elim exE conjE) (rule that, assumption+)
  have "d_slug d = ''limit''" using d(1) by (simp only: json.inject)
  moreover have "find_ai_def agent_tables ''limit'' = Some limit_test"
    by (simp add: find_ai_def_def agent_tables_def limit_test_def)
  ultimately have "d = limit_test" using d(2) by (simp only: option.inject)
  moreover have "py_or limit_9 (JObj []) = limit_9" by (simp add: py_or_def limit_9_def)
  ultimately have "q = limit_parsed" using a(1) limit_overrides by simp
  moreover have "truthy limit_parsed" by (simp add: limit_parsed_def)
  ultimately show ?thesis using p a(2,3) e by blast
qed

definition waiting_orch :: "result_row \<Rightarrow> orch" where
  "waiting_orch t = sample_orch\<lparr>o_db := (o_db sample_orch)
     \<lparr>runs := [sample_row], results := [sample_result ''t1'' ''d1'' TPassed, t]\<rparr>\<rparr>"

theorem agent_result_closes_run_early_witness:
  "\<exists>cmd info ids rep. prepare_test ''t9'' ''s'' (Some ''sb'') (JStr ''limit'') limit_9 agent_tables = Inr (Inr (cmd, info)) \<and>
     command_ids_of cmd = Inr ids \<and>
     fst (handle_test_result (\<lambda>_ _. True) 100 80 9 sample_result_msg
            (waiting_orch (new_result_row ids ''t9'' TPassed 4 (Some 5)))) = Some rep"
proof -
  obtain cmd info where p: "prepare_test ''t9'' ''s'' (Some ''sb'') (JStr ''limit'') limit_9 agent_tables = Inr (Inr (cmd, info))"
    using limit_prepared by blast
  from p obtain d b meta major q where "JStr ''limit'' = JStr (d_slug d)" "find_ai_def agent_tables (d_slug d) = Some d"
    "d_ai_allowed d" and b: "Some ''sb'' = Some (s_id b)" "find_sandbox (core agent_tables) (s_id b) = Some b"
    and "apply_overrides (d_parsed d) (py_or limit_9 (JObj [])) = Inr q"
    and i: "get info ''id'' = JStr (d_id d)" "get info ''version'' = JInt (d_version d)"
    and "get info ''slug'' = JStr (d_slug d)"
    and c: "cmd = ai_command ''t9'' ''s'' (JStr (d_slug d)) (py_or limit_9 (JObj [])) b meta major info q"
    by (rule prepare_test_ok)
  have "find_sandbox (core agent_tables) ''sb'' = Some (new_sandbox_row ''sb'' ''r'')"
    by (simp add: agent_tables_def find_sandbox_def new_sandbox_row_def)
  moreover have "s_id b = ''sb''" using b(1) by simp
  ultimately have "b = new_sandbox_row ''sb'' ''r''" using b(2) by simp
  then have "s_run_id b = ''r''" by (simp add: new_sandbox_row_def)
  then obtain ids where ids: "command_ids_of cmd = Inr ids" "ci_run ids = ''r''"
    by (simp add: command_ids_of_def c ai_command_get i)
  let ?s = "waiting_orch (new_result_row ids ''t9'' TPassed 4 (Some 5))"
  have "find_run (o_db ?s) ''r'' = Some sample_row"
    by (simp add: waiting_orch_def find_run_def sample_row_def sample_run_def)
  moreover have "run_results (o_db ?s) ''r'' = [sample_result ''t1'' ''d1'' TPassed] @ [new_result_row ids ''t9'' TPassed 4 (Some 5)]"
    by (simp add: waiting_orch_def run_results_def sample_result_def new_result_row_def ids(2))
  moreover have "\<forall>t\<in>set [sample_result ''t1'' ''d1'' TPassed]. \<not> in_flight_status (t_status t)"
    by (simp add: sample_result_def in_flight_status_def)
  ultimately have "\<exists>rep. fst (handle_test_result (\<lambda>_ _. True) 100 80 9 sample_result_msg ?s) = Some rep"
    using agent_result_closes_run_early [OF p _ ids(1) ids(2), of ?s sample_row "[sample_result ''t1'' ''d1'' TPassed]"
        4 5 sample_result_msg] sample_facts(1,3,4) by auto
  then show ?thesis using p ids(1) by blast
qed

end
