(* ===== verification/Agent_Loop_Spec.thy ===== *)
theory Agent_Loop_Spec
  imports Agent_Loop Agent_Verdicts_Spec
begin

text \<open>
  What the conversation guarantees: it ends within its budget of tool calls, every tool call is answered
  in the next message whatever is compressed, the text of a tool result is bounded, at most one cache marker
  is set, and the tables stay sound.
\<close>

section \<open>Frames: what the parts of a turn leave alone\<close>

lemma emit_fields [simp]:
  "lp_messages (emit t k l) = lp_messages l" "lp_calls (emit t k l) = lp_calls l" "lp_state (emit t k l) = lp_state l"
  "lp_mode (emit t k l) = lp_mode l" "lp_max_calls (emit t k l) = lp_max_calls l"
  "lp_max_duration (emit t k l) = lp_max_duration l" "lp_executor (emit t k l) = lp_executor l"
  "lp_start (emit t k l) = lp_start l" "lp_clock (emit t k l) = lp_clock l"
  by (simp_all add: emit_def)

text \<open>The budget of a session never changes.\<close>

definition same_budget :: "agent_loop \<Rightarrow> agent_loop \<Rightarrow> bool" where
  "same_budget l l' \<longleftrightarrow> lp_mode l' = lp_mode l \<and> lp_max_calls l' = lp_max_calls l \<and>
     lp_max_duration l' = lp_max_duration l \<and> lp_executor l' = lp_executor l"

lemma same_budget_limits: "same_budget l l' \<Longrightarrow> limits_of l' = limits_of l"
  by (simp add: same_budget_def limits_of_def)

lemma same_budget_refl [simp]: "same_budget l l" by (simp add: same_budget_def)

lemma same_budget_trans: "same_budget a b \<Longrightarrow> same_budget b c \<Longrightarrow> same_budget a c"
  by (simp add: same_budget_def)

lemma before_attempt_fields [simp]:
  "lp_messages (before_attempt k d l) = lp_messages l" "lp_calls (before_attempt k d l) = lp_calls l"
  "lp_state (before_attempt k d l) = lp_state l" "same_budget l (before_attempt k d l)"
  by (simp_all add: before_attempt_def same_budget_def)

lemma emit_texts_fields:
  "lp_messages (foldl (\<lambda>l t. emit ''text_delta'' [(''text'', JStr t)] l) l ts) = lp_messages l \<and>
   lp_calls (foldl (\<lambda>l t. emit ''text_delta'' [(''text'', JStr t)] l) l ts) = lp_calls l \<and>
   lp_state (foldl (\<lambda>l t. emit ''text_delta'' [(''text'', JStr t)] l) l ts) = lp_state l \<and>
   same_budget l (foldl (\<lambda>l t. emit ''text_delta'' [(''text'', JStr t)] l) l ts)"
  by (induction ts arbitrary: l) (auto simp: same_budget_def)

lemma after_attempt_fields [simp]:
  "lp_messages (after_attempt d a l) = lp_messages l" "lp_calls (after_attempt d a l) = lp_calls l"
  "lp_state (after_attempt d a l) = lp_state l" "same_budget l (after_attempt d a l)"
  using emit_texts_fields [of "l\<lparr>lp_clock := lp_clock l + d + at_time a, lp_requests := lp_requests l + 1\<rparr>" "at_texts a"]
  by (simp_all add: after_attempt_def same_budget_def)

lemma request_turn_frame:
  assumes "request_turn env k ds stop l = (r, l')"
  shows "lp_messages l' = lp_messages l \<and> lp_calls l' = lp_calls l \<and> lp_state l' = lp_state l \<and> same_budget l l'"
  using assms
proof (induction ds arbitrary: k stop l)
  case (Cons d ds)
  define l1 where "l1 = before_attempt k d l"
  define a where "a = me_stream env (lp_requests l1) (lp_messages l1)"
  define l2 where "l2 = after_attempt d a l1"
  have "same_budget l l1" "same_budget l1 l2" unfolding l2_def l1_def by simp_all
  from same_budget_trans [OF this] have l2: "lp_messages l2 = lp_messages l" "lp_calls l2 = lp_calls l" "lp_state l2 = lp_state l" "same_budget l l2"
    by (simp_all add: l2_def l1_def)
  have step: "request_turn env k (d # ds) stop l = (case at_end a of
      Final r \<Rightarrow> (Inr (stop_after stop (at_stops a), r), l2)
    | Transient \<Rightarrow> request_turn env (Suc k) ds (stop_after stop (at_stops a)) l2
    | Fatal e \<Rightarrow> (Inl e, l2))"
    unfolding request_turn.simps Let_def l1_def a_def l2_def by (rule refl)
  show ?case
  proof (cases "at_end a")
    case Transient
    with Cons.prems step have "request_turn env (Suc k) ds (stop_after stop (at_stops a)) l2 = (r, l')" by simp
    from Cons.IH [OF this] l2 same_budget_trans show ?thesis by auto
  qed (use Cons.prems step l2 in auto)
qed simp

lemma count_usage_fields [simp]:
  "lp_messages (count_usage r l) = lp_messages l" "lp_calls (count_usage r l) = lp_calls l"
  "lp_state (count_usage r l) = lp_state l" "same_budget l (count_usage r l)"
  by (simp_all add: count_usage_def same_budget_def Let_def)

lemma run_tool_frame:
  assumes "run_tool env cap (cid, name, inp) l = (b, l')"
  shows "lp_messages l' = lp_messages l \<and> lp_calls l' = lp_calls l + 1 \<and> same_budget l l' \<and>
         lp_state l' = snd (execute (me_tools env) (lp_calls l + 1) (lp_executor l) name inp (lp_state l)) \<and>
         (\<exists>t. b = (ToolResult cid t, False))"
proof -
  obtain result st where e: "execute (me_tools env) (lp_calls l + 1) (lp_executor l) name inp (lp_state l) = (result, st)"
    by fastforce
  with assms show ?thesis by (auto simp: run_tool_def Let_def same_budget_def)
qed

lemma run_tools_frame:
  assumes "run_tools env cap cs l = (bs, l')"
  shows "lp_messages l' = lp_messages l \<and> lp_calls l' = lp_calls l + length cs \<and> same_budget l l' \<and>
         map (\<lambda>(b, _). result_id b) bs = map fst cs \<and> (\<forall>(b, _)\<in>set bs. \<exists>i t. b = ToolResult i t)"
  using assms
proof (induction cs arbitrary: l bs)
  case (Cons c cs)
  obtain cid name inp where c: "c = (cid, name, inp)" by (cases c)
  obtain b l1 where 1: "run_tool env cap c l = (b, l1)" by fastforce
  obtain bs1 l2 where 2: "run_tools env cap cs l1 = (bs1, l2)" by fastforce
  from Cons.prems 1 2 have r: "l' = l2" "bs = b # bs1" by auto
  have "lp_messages l1 = lp_messages l" "lp_calls l1 = lp_calls l + 1" "same_budget l l1"
    "\<exists>t. b = (ToolResult cid t, False)"
    using run_tool_frame [OF 1 [unfolded c]] by simp_all
  with Cons.IH [OF 2 [folded r(1)]] show ?case
    by (auto simp: r c intro: same_budget_trans)
qed simp

section \<open>Every call is answered in the next message\<close>

fun uses_in :: "(block \<times> bool) list \<Rightarrow> string list" where
  "uses_in [] = []"
| "uses_in ((ToolUse i n d, _) # bs) = i # uses_in bs"
| "uses_in (_ # bs) = uses_in bs"

fun results_in :: "(block \<times> bool) list \<Rightarrow> string list" where
  "results_in [] = []"
| "results_in ((ToolResult i t, _) # bs) = i # results_in bs"
| "results_in (_ # bs) = results_in bs"

definition uses_of :: "message \<Rightarrow> string list" where
  "uses_of m = (case m_content m of Plain _ \<Rightarrow> [] | Blocks bs \<Rightarrow> uses_in bs)"

definition results_of :: "message \<Rightarrow> string list" where
  "results_of m = (case m_content m of Plain _ \<Rightarrow> [] | Blocks bs \<Rightarrow> results_in bs)"

text \<open>\<open>paired p ms\<close>: the results of each message are those of the calls in the one before, \<open>p\<close> at the start.\<close>

fun paired :: "string list \<Rightarrow> message list \<Rightarrow> bool" where
  "paired p [] = (p = [])"
| "paired p (m # ms) = (results_of m = p \<and> paired (uses_of m) ms)"

lemma uses_in_fst: "map fst bs = map fst cs \<Longrightarrow> uses_in bs = uses_in cs \<and> results_in bs = results_in cs"
proof (induction bs arbitrary: cs)
  case (Cons b bs)
  then obtain c cs' where c: "cs = c # cs'" "fst b = fst c" "map fst bs = map fst cs'" by (cases cs) auto
  obtain x f g where x: "b = (x, f)" "c = (x, g)" using c(2) by (metis prod.collapse)
  from Cons.IH [OF c(3)] show ?case by (cases x) (auto simp: c(1) x)
qed simp

definition ids_of :: "message \<Rightarrow> string list \<times> string list" where
  "ids_of m = (uses_of m, results_of m)"

lemma ids_of_blocks:
  "m_content m = Blocks bs \<Longrightarrow> m_content n = Blocks cs \<Longrightarrow> map fst bs = map fst cs \<Longrightarrow> ids_of m = ids_of n"
  using uses_in_fst [of bs cs] by (simp add: ids_of_def uses_of_def results_of_def)

lemma unmark_ids [simp]: "ids_of (unmark m) = ids_of m"
proof (cases "m_content m")
  case (Blocks bs)
  have eq: "map fst (map (\<lambda>(b, _). (b, False)) bs) = map fst bs" by (induction bs) auto
  show ?thesis by (rule ids_of_blocks [OF _ Blocks eq]) (simp add: unmark_def Blocks)
qed (simp add: unmark_def)

lemma mark_last_ids: "map ids_of (mark_last ms) = map ids_of ms"
proof (induction ms rule: mark_last.induct)
  case (2 m ms)
  show ?case
  proof (cases "m_content m")
    case (Plain t)
    with 2 show ?thesis by simp
  next
    case (Blocks bs)
    show ?thesis
    proof (cases "bs = []")
      case True
      with Blocks 2 show ?thesis by simp
    next
      case False
      let ?cs = "butlast bs @ [(fst (List.last bs), True)]"
      have "map fst ?cs = map fst (butlast bs @ [List.last bs])" by simp
      also have "\<dots> = map fst bs" by (simp only: append_butlast_last_id [OF False])
      finally have "ids_of (m\<lparr>m_content := Blocks ?cs\<rparr>) = ids_of m" by (rule ids_of_blocks [OF _ Blocks, rotated]) simp
      with Blocks False show ?thesis by simp
    qed
  qed
qed simp

lemma cache_breakpoint_ids: "map ids_of (cache_breakpoint ms) = map ids_of ms"
  by (simp add: cache_breakpoint_def rev_map [symmetric] mark_last_ids o_def)

text \<open>The shape of the conversation: a beginning without calls, then turns of calls and their results.\<close>

definition conversation :: "message list \<Rightarrow> bool" where
  "conversation ms = (\<exists>front turns. map ids_of ms = front @ concat (map (\<lambda>u. [(u, []), ([], u)]) turns) \<and>
     length front \<le> 2 \<and> set front \<subseteq> {([], [])})"

lemma paired_ids:
  "paired p ms \<longleftrightarrow> paired_of p (map ids_of ms)" if "paired_of = (\<lambda>p xs. map snd xs @ [[]] = p # map fst xs)"
  unfolding that by (induction ms arbitrary: p) (auto simp: ids_of_def)

lemma conversation_paired:
  assumes "conversation ms"
  shows "paired [] ms"
proof -
  from assms obtain front turns where ms: "map ids_of ms = front @ concat (map (\<lambda>u. [(u, []), ([], u)]) turns)"
    and f: "set front \<subseteq> {([], [])}" unfolding conversation_def by blast
  have t: "map snd (concat (map (\<lambda>u. [(u, []), ([], u)]) ts)) @ [[]] = [] # map fst (concat (map (\<lambda>u. [(u, []), ([], u)]) ts))"
    for ts :: "string list list"
    by (induction ts) auto
  have "map snd (front @ xs) @ [[]] = [] # map fst (front @ xs)" if "map snd xs @ [[]] = [] # map fst xs" for xs
    using f that by (induction front) auto
  from this [OF t] show ?thesis by (simp add: paired_ids [OF refl] ms)
qed

lemma conversation_add:
  assumes "conversation ms" "ids_of a = (u, [])" "ids_of b = ([], u)"
  shows "conversation (ms @ [a, b])"
proof -
  from assms(1) obtain front turns where "map ids_of ms = front @ concat (map (\<lambda>u. [(u, []), ([], u)]) turns)"
    "length front \<le> 2" "set front \<subseteq> {([], [])}" unfolding conversation_def by blast
  with assms(2,3) show ?thesis
    unfolding conversation_def by (intro exI [of _ front] exI [of _ "turns @ [u]"]) simp
qed

lemma conversation_cong: "conversation ms \<Longrightarrow> map ids_of ns = map ids_of ms \<Longrightarrow> conversation ns"
  by (simp add: conversation_def)

lemma conversation_compressed:
  assumes "conversation ms" "6 < length ms"
  shows "conversation (summary_note s @ drop (length ms - 4) ms)"
proof -
  from assms(1) obtain front turns where ms: "map ids_of ms = front @ concat (map (\<lambda>u. [(u, []), ([], u)]) turns)"
    and f: "length front \<le> 2" unfolding conversation_def by blast
  have len: "length (concat (map (\<lambda>u. [(u, []), ([], u)]) ts)) = 2 * length ts" for ts :: "string list list"
    by (induction ts) auto
  have "length ms = length front + 2 * length turns" using arg_cong [OF ms, of length] len by simp
  with assms(2) f have k: "2 \<le> length turns" by simp
  define j where "j = length turns - 2"
  obtain t1 t2 where last: "drop j turns = [t1, t2]"
  proof -
    have "length (drop j turns) = Suc (Suc 0)" using k by (simp add: j_def)
    then obtain t1 t2 where "drop j turns = [t1, t2]" unfolding length_Suc_conv by auto
    then show ?thesis by (rule that)
  qed
  then have split: "turns = take j turns @ [t1, t2]" using append_take_drop_id [of j turns] by simp
  have "concat (map (\<lambda>u. [(u, []), ([], u)]) turns)
      = concat (map (\<lambda>u. [(u, []), ([], u)]) (take j turns)) @ concat (map (\<lambda>u. [(u, []), ([], u)]) [t1, t2])"
    by (subst split) (simp only: map_append concat_append)
  with ms have eq: "map ids_of ms = (front @ concat (map (\<lambda>u. [(u, []), ([], u)]) (take j turns)))
      @ concat (map (\<lambda>u. [(u, []), ([], u)]) [t1, t2])"
    by (simp only: append.assoc)
  have cut: "length (front @ concat (map (\<lambda>u. [(u, []), ([], u)]) (take j turns))) = length ms - 4"
    using \<open>length ms = _\<close> k len [of "take j turns"] by (simp add: j_def)
  have "drop (length xs) (xs @ ys) = ys" for xs ys :: "(string list \<times> string list) list" by simp
  from this [of "front @ concat (map (\<lambda>u. [(u, []), ([], u)]) (take j turns))"]
  have "drop (length ms - 4) (map ids_of ms) = concat (map (\<lambda>u. [(u, []), ([], u)]) [t1, t2])"
    unfolding cut eq .
  moreover have "map ids_of (summary_note s) = [([], []), ([], [])]"
    by (simp add: summary_note_def ids_of_def user_text_def uses_of_def results_of_def)
  ultimately show ?thesis
    unfolding conversation_def
    by (intro exI [of _ "[([], []), ([], [])]"] exI [of _ "[t1, t2]"]) (simp add: drop_map)
qed

section \<open>One turn and one pass\<close>

lemma kept_blocks_ids: "uses_in (kept_blocks bs) = map fst (calls_of bs) \<and> results_in (kept_blocks bs) = []"
  by (induction bs) (auto simp: kept_blocks_def calls_of_def map_filter_simps split: block.splits)

lemma result_blocks_ids:
  "map (\<lambda>(b, _). result_id b) bs = is \<Longrightarrow> \<forall>(b, _)\<in>set bs. \<exists>i t. b = ToolResult i t \<Longrightarrow>
     uses_in bs = [] \<and> results_in bs = is"
  by (induction bs arbitrary: "is") auto

lemma request_turn_reply:
  assumes "request_turn env k ds stop l = (Inr (stop', r), l')"
  shows "\<exists>n ms s. at_end (me_stream env n ms) = Final r \<and> stop' = stop_after s (at_stops (me_stream env n ms))"
  using assms
proof (induction ds arbitrary: k stop l)
  case (Cons d ds)
  then show ?case by (auto simp: Let_def split: attempt_end.splits)
qed simp

lemma stream_turn_frame:
  assumes "stream_turn env cap l = (res, l')"
  shows "lp_messages l' = cache_breakpoint (lp_messages l) \<and> same_budget l l'"
    and "res = Inr (stop, new) \<Longrightarrow> \<exists>r a n ms s. at_end (me_stream env n ms) = Final r \<and>
       stop = stop_after s (at_stops (me_stream env n ms)) \<and> lp_calls l' = lp_calls l + length (calls_of (rp_content r)) \<and>
       ids_of a = (map fst (calls_of (rp_content r)), []) \<and>
       (if calls_of (rp_content r) = [] then new = [a]
        else \<exists>b. new = [a, b] \<and> ids_of b = ([], map fst (calls_of (rp_content r))))"
    and "res = Inl e \<Longrightarrow> lp_calls l' = lp_calls l"
proof -
  let ?l0 = "l\<lparr>lp_messages := cache_breakpoint (lp_messages l)\<rparr>"
  obtain q l1 where q: "request_turn env 0 (0 # retry_delays) ''end_turn'' ?l0 = (q, l1)" by fastforce
  note fr = request_turn_frame [OF q]
  have l1: "lp_messages l1 = cache_breakpoint (lp_messages l)" "lp_calls l1 = lp_calls l" "same_budget l l1"
    using fr by (auto simp: same_budget_def)
  have "lp_messages l' = cache_breakpoint (lp_messages l) \<and> same_budget l l' \<and>
    (res = Inr (stop, new) \<longrightarrow> (\<exists>r a n ms s. at_end (me_stream env n ms) = Final r \<and>
       stop = stop_after s (at_stops (me_stream env n ms)) \<and> lp_calls l' = lp_calls l + length (calls_of (rp_content r)) \<and>
       ids_of a = (map fst (calls_of (rp_content r)), []) \<and>
       (if calls_of (rp_content r) = [] then new = [a]
        else \<exists>b. new = [a, b] \<and> ids_of b = ([], map fst (calls_of (rp_content r)))))) \<and>
    (res = Inl e \<longrightarrow> lp_calls l' = lp_calls l)"
  proof (cases q)
    case (Inl e)
    then have "l' = l1" "\<exists>e. res = Inl e" using assms q by (auto simp: stream_turn_def)
    with l1 show ?thesis by auto
  next
    case (Inr sr)
    obtain st r where sr: "sr = (st, r)" by fastforce
    let ?a = "\<lparr>m_role = Assistant, m_content = Blocks (kept_blocks (rp_content r))\<rparr>"
    have a: "ids_of ?a = (map fst (calls_of (rp_content r)), [])"
      by (simp add: ids_of_def uses_of_def results_of_def kept_blocks_ids)
    have stop: "\<exists>n ms s. at_end (me_stream env n ms) = Final r \<and> st = stop_after s (at_stops (me_stream env n ms))"
      using q unfolding Inr sr by (rule request_turn_reply)
    show ?thesis
    proof (cases "calls_of (rp_content r) = []")
      case True
      then have r: "res = Inr (st, [?a])" "l' = count_usage r l1"
        using assms q Inr sr by (auto simp: stream_turn_def Let_def)
      have "same_budget l1 l'" by (simp add: r(2))
      with l1 have b: "same_budget l l'" by (blast intro: same_budget_trans)
      from stop obtain n ms s where n: "at_end (me_stream env n ms) = Final r" "st = stop_after s (at_stops (me_stream env n ms))"
        by blast
      show ?thesis
      proof (intro conjI impI)
        assume "res = Inr (stop, new)"
        then show "\<exists>r a n ms s. at_end (me_stream env n ms) = Final r \<and>
           stop = stop_after s (at_stops (me_stream env n ms)) \<and> lp_calls l' = lp_calls l + length (calls_of (rp_content r)) \<and>
           ids_of a = (map fst (calls_of (rp_content r)), []) \<and>
           (if calls_of (rp_content r) = [] then new = [a]
            else \<exists>b. new = [a, b] \<and> ids_of b = ([], map fst (calls_of (rp_content r))))"
          using n a r True l1 by (intro exI [of _ r] exI [of _ ?a] exI [of _ n] exI [of _ ms] exI [of _ s]) simp
      qed (use r l1 b in auto)
    next
      case False
      obtain bs l3 where t: "run_tools env cap (calls_of (rp_content r)) (count_usage r l1) = (bs, l3)" by fastforce
      let ?b = "\<lparr>m_role = User, m_content = Blocks bs\<rparr>"
      from False have r: "res = Inr (st, [?a, ?b])" "l' = l3"
        using assms q Inr sr t by (auto simp: stream_turn_def Let_def)
      note tf = run_tools_frame [OF t]
      then have bids: "ids_of ?b = ([], map fst (calls_of (rp_content r)))"
        using result_blocks_ids [of bs] by (simp add: ids_of_def uses_of_def results_of_def)
      have "same_budget l1 (count_usage r l1)" "same_budget (count_usage r l1) l'" using tf r(2) by simp_all
      with l1(3) have b: "same_budget l l'" by (blast intro: same_budget_trans)
      from stop obtain n ms s where n: "at_end (me_stream env n ms) = Final r" "st = stop_after s (at_stops (me_stream env n ms))"
        by blast
      show ?thesis
      proof (intro conjI impI)
        assume "res = Inr (stop, new)"
        then show "\<exists>r a n ms s. at_end (me_stream env n ms) = Final r \<and>
           stop = stop_after s (at_stops (me_stream env n ms)) \<and> lp_calls l' = lp_calls l + length (calls_of (rp_content r)) \<and>
           ids_of a = (map fst (calls_of (rp_content r)), []) \<and>
           (if calls_of (rp_content r) = [] then new = [a]
            else \<exists>b. new = [a, b] \<and> ids_of b = ([], map fst (calls_of (rp_content r))))"
          using n a r bids False l1 tf by (intro exI [of _ r] exI [of _ ?a] exI [of _ n] exI [of _ ms] exI [of _ s]) (auto intro!: exI [of _ ?b])
      qed (use r l1 b tf in auto)
    qed
  qed
  then show "lp_messages l' = cache_breakpoint (lp_messages l) \<and> same_budget l l'"
    "res = Inr (stop, new) \<Longrightarrow> \<exists>r a n ms s. at_end (me_stream env n ms) = Final r \<and>
       stop = stop_after s (at_stops (me_stream env n ms)) \<and> lp_calls l' = lp_calls l + length (calls_of (rp_content r)) \<and>
       ids_of a = (map fst (calls_of (rp_content r)), []) \<and>
       (if calls_of (rp_content r) = [] then new = [a]
        else \<exists>b. new = [a, b] \<and> ids_of b = ([], map fst (calls_of (rp_content r))))"
    "res = Inl e \<Longrightarrow> lp_calls l' = lp_calls l" by auto
qed


lemma conversation_answer: "conversation ms \<Longrightarrow> ids_of a = ([], []) \<Longrightarrow> paired [] (ms @ [a])"
  using conversation_paired [of ms] by (simp add: paired_ids [OF refl])

text \<open>What the API documents: a stop for tools comes with a call, and an answer has a bounded number of them.\<close>

definition answers_bounded :: "nat \<Rightarrow> model_env \<Rightarrow> bool" where
  "answers_bounded m env \<longleftrightarrow>
     (\<forall>n ms r s. at_end (me_stream env n ms) = Final r \<longrightarrow> length (calls_of (rp_content r)) \<le> m \<and>
        (stop_after s (at_stops (me_stream env n ms)) = ''tool_use'' \<longrightarrow> calls_of (rp_content r) \<noteq> []))"

lemma stream_turn_conversation:
  assumes c: "conversation (lp_messages l)" and api: "answers_bounded m env"
    and t: "stream_turn env cap l = (Inr (stop, new), l')"
  shows "paired [] (lp_messages l' @ new)"
    and "stop = ''tool_use'' \<Longrightarrow> conversation (lp_messages l' @ new) \<and> lp_calls l < lp_calls l'"
    and "lp_calls l \<le> lp_calls l' \<and> lp_calls l' \<le> lp_calls l + m"
proof -
  have c': "conversation (lp_messages l')"
    using stream_turn_frame(1) [OF t] by (auto intro: conversation_cong [OF c cache_breakpoint_ids])
  from stream_turn_frame(2) [OF t refl] obtain r a n ms s where r: "at_end (me_stream env n ms) = Final r"
      "stop = stop_after s (at_stops (me_stream env n ms))" "lp_calls l' = lp_calls l + length (calls_of (rp_content r))"
      "ids_of a = (map fst (calls_of (rp_content r)), [])"
      "if calls_of (rp_content r) = [] then new = [a]
       else \<exists>b. new = [a, b] \<and> ids_of b = ([], map fst (calls_of (rp_content r)))" by blast
  from api r(1) have m: "length (calls_of (rp_content r)) \<le> m" "stop = ''tool_use'' \<longrightarrow> calls_of (rp_content r) \<noteq> []"
    unfolding answers_bounded_def r(2) by blast+
  have conv: "conversation (lp_messages l' @ new)" if "calls_of (rp_content r) \<noteq> []"
  proof -
    from r(5) that obtain b where "new = [a, b]" "ids_of b = ([], map fst (calls_of (rp_content r)))" by auto
    with conversation_add [OF c' r(4)] show ?thesis by simp
  qed
  show "paired [] (lp_messages l' @ new)"
  proof (cases "calls_of (rp_content r) = []")
    case True
    with r(4,5) conversation_answer [OF c', of a] show ?thesis by simp
  next
    case False
    then show ?thesis by (rule conversation_paired [OF conv])
  qed
  show "conversation (lp_messages l' @ new) \<and> lp_calls l < lp_calls l'" if "stop = ''tool_use''"
    using conv m(2) that r(3) by simp
  show "lp_calls l \<le> lp_calls l' \<and> lp_calls l' \<le> lp_calls l + m" using r(3) m(1) by simp
qed

lemma compress_context_frame:
  assumes "compress_context env l = (res, l')"
  shows "lp_calls l' = lp_calls l \<and> same_budget l l' \<and> lp_state l' = lp_state l \<and>
         (conversation (lp_messages l) \<longrightarrow> conversation (lp_messages l'))"
proof (cases "length (lp_messages l) \<le> 6")
  case True
  with assms show ?thesis by (simp add: compress_context_def)
next
  case False
  then have "conversation (lp_messages l) \<Longrightarrow> conversation (summary_note s @ drop (length (lp_messages l) - 4) (lp_messages l))"
    for s by (intro conversation_compressed) simp_all
  with assms False show ?thesis
    by (auto simp: compress_context_def Let_def same_budget_def split: prod.splits sum.splits)
qed

lemma loop_pass_frame:
  assumes "loop_pass env cap l = (res, l')" "conversation (lp_messages l)" "answers_bounded m env"
  shows "paired [] (lp_messages l') \<and> same_budget l l'"
    and "res = Inr Continue \<Longrightarrow> conversation (lp_messages l') \<and> lp_calls l < lp_calls l' \<and> lp_calls l < fst (limits_of l)"
    and "lp_calls l \<le> lp_calls l' \<and>
         (lp_calls l' = lp_calls l \<or> lp_calls l < fst (limits_of l) \<and> lp_calls l' \<le> lp_calls l + m)"
proof -
  have "paired [] (lp_messages l') \<and> same_budget l l' \<and>
    (res = Inr Continue \<longrightarrow> conversation (lp_messages l') \<and> lp_calls l < lp_calls l' \<and> lp_calls l < fst (limits_of l)) \<and>
    lp_calls l \<le> lp_calls l' \<and>
    (lp_calls l' = lp_calls l \<or> lp_calls l < fst (limits_of l) \<and> lp_calls l' \<le> lp_calls l + m)"
  proof (cases "over_limit l")
    case (Some reason)
    with assms show ?thesis by (auto simp: loop_pass_def same_budget_def conversation_paired)
  next
    case None
    then have lim: "lp_calls l < fst (limits_of l)"
      by (simp add: over_limit_def split: prod.splits if_splits)
    obtain q l1 where q: "(if near_window l then compress_context env l else (Inr (), l)) = (q, l1)" by fastforce
    then have l1: "lp_calls l1 = lp_calls l \<and> same_budget l l1 \<and> conversation (lp_messages l1)"
      using compress_context_frame [of env l q l1] assms(2) by (auto split: if_splits)
    show ?thesis
    proof (cases q)
      case (Inl e)
      with assms(1) None q l1 show ?thesis by (auto simp: loop_pass_def conversation_paired)
    next
      case (Inr u)
      obtain t l2 where t: "stream_turn env cap l1 = (t, l2)" by fastforce
      note fr = stream_turn_frame [OF t]
      have b: "same_budget l l2" using l1 fr(1) by (blast intro: same_budget_trans)
      show ?thesis
      proof (cases t)
        case (Inl e)
        have "paired [] (lp_messages l2)"
          using fr(1) l1 by (auto intro!: conversation_paired intro: conversation_cong [OF _ cache_breakpoint_ids])
        with assms(1) None q Inr t Inl l1 b fr(3) [OF Inl] show ?thesis by (auto simp: loop_pass_def)
      next
        fix sn assume "t = Inr sn"
        then obtain stop new where sn: "t = Inr (stop, new)" by (cases sn) auto
        note tc = stream_turn_conversation [OF _ assms(3) t [unfolded sn]]
        have bud: "same_budget l (l2\<lparr>lp_messages := ms\<rparr>)" "same_budget l (emit x k (l2\<lparr>lp_messages := ms\<rparr>))" for ms x k
          using b by (simp_all add: same_budget_def)
        have res: "(res, l') = (let l3 = l2\<lparr>lp_messages := lp_messages l2 @ new\<rparr> in
             if stop = ''end_turn'' then (Inr Stop, emit ''session_complete'' [] l3)
             else if stop \<noteq> ''tool_use'' then (Inr Stop, l3) else (Inr Continue, l3))"
          using assms(1) None q Inr t sn by (simp add: loop_pass_def)
        show ?thesis using res tc l1 bud lim by (auto simp: Let_def split: if_splits)
      qed
    qed
  qed
  then show "paired [] (lp_messages l') \<and> same_budget l l'"
    "res = Inr Continue \<Longrightarrow> conversation (lp_messages l') \<and> lp_calls l < lp_calls l' \<and> lp_calls l < fst (limits_of l)"
    "lp_calls l \<le> lp_calls l' \<and>
     (lp_calls l' = lp_calls l \<or> lp_calls l < fst (limits_of l) \<and> lp_calls l' \<le> lp_calls l + m)" by simp_all
qed

section \<open>The whole session\<close>

lemma run_passes_returns:
  assumes "conversation (lp_messages l)" "answers_bounded m env" "fst (limits_of l) - lp_calls l < fuel"
  shows "\<exists>r l'. run_passes env cap fuel l = Some (r, l') \<and> paired [] (lp_messages l') \<and>
           lp_calls l' \<le> max (lp_calls l) (fst (limits_of l) - 1 + m)"
  using assms
proof (induction fuel arbitrary: l)
  case (Suc k)
  obtain res l1 where p: "loop_pass env cap l = (res, l1)" by fastforce
  note fr = loop_pass_frame [OF p Suc.prems(1,2)]
  have calls: "lp_calls l1 \<le> max (lp_calls l) (fst (limits_of l) - 1 + m)" using fr(3) by auto
  show ?case
  proof (cases "res = Inr Continue")
    case True
    note c = fr(2) [OF True]
    have lim: "limits_of l1 = limits_of l" using fr(1) by (simp add: same_budget_limits)
    from Suc.prems(3) c have "fst (limits_of l1) - lp_calls l1 < k" unfolding lim by arith
    with Suc.IH [OF _ Suc.prems(2) this] c obtain r l' where "run_passes env cap k l1 = Some (r, l')"
      "paired [] (lp_messages l')" "lp_calls l' \<le> max (lp_calls l1) (fst (limits_of l) - 1 + m)"
      unfolding lim by auto
    with p True calls show ?thesis by (intro exI [of _ r] exI [of _ l']) auto
  next
    case False
    then obtain e where e: "res = Inl e \<or> res = Inr Stop" by (cases res) (auto intro: pass.exhaust)
    show ?thesis
    proof (cases res)
      case (Inl e)
      with p fr(1) calls show ?thesis by simp
    next
      case (Inr q)
      with False have "q = Stop" by (cases q) simp_all
      with p Inr fr(1) calls show ?thesis by simp
    qed
  qed
qed simp

lemma begin_loop_fields [simp]:
  "lp_messages (begin_loop msg l) = [user_text msg]" "lp_calls (begin_loop msg l) = lp_calls l"
  "limits_of (begin_loop msg l) = limits_of l" "lp_state (begin_loop msg l) = lp_state l"
  "lp_executor (begin_loop msg l) = lp_executor l"
  by (simp_all add: begin_loop_def limits_of_def)

lemma conversation_start: "conversation [user_text msg]"
  unfolding conversation_def
  by (intro exI [of _ "[([], [])]"] exI [of _ "[]"]) (simp add: ids_of_def user_text_def uses_of_def results_of_def)


section \<open>The tables under a session\<close>

lemma link_claim_ids: "iv_id ` set (invocations (link_claim k slug ids db)) = iv_id ` set (invocations db)"
  by (simp add: link_claim_def image_image)

lemma upsert_verdict_ids:
  assumes "upsert_verdict v db = (db', k)"
  shows "vd_id ` set (verdicts db') \<subseteq> insert (vd_id v) (vd_id ` set (verdicts db))"
proof (cases "find_verdict db (vd_session v) (vd_slug v)")
  case None
  with upsert_new [OF assms] show ?thesis by auto
next
  case (Some old)
  then show ?thesis unfolding upsert_old(1) [OF assms Some] by (auto simp: image_image)
qed

lemma record_test_verdict_ids:
  assumes "record_test_verdict now vid pv sid sbx a db = Inr (j, db')"
  shows "iv_id ` set (invocations db') = iv_id ` set (invocations db) \<and>
         vd_id ` set (verdicts db') \<subseteq> insert vid (vd_id ` set (verdicts db))"
proof (rule record_test_verdict_Inr [OF assms])
  fix v assume st: "db' = snd (store_verdict v (claim_or_none db sid) db)" and v: "vd_id v = vid"
  obtain db1 k where up: "upsert_verdict v db = (db1, k)" by fastforce
  have "db' = link_claim k (vd_slug v) (cm_ids (claim_or_none db sid)) db1"
    unfolding st store_verdict_def using up by simp
  then show ?thesis
    using link_claim_ids [of k _ _ db1] upsert_rest(1) [OF up] upsert_verdict_ids [OF up] v
    by (simp add: link_claim_def image_image)
qed auto

text \<open>The ids that the database gives to the calls and verdicts of the process are new.\<close>

definition fresh_ids :: "tool_env \<Rightarrow> ai_db \<Rightarrow> bool" where
  "fresh_ids env db \<longleftrightarrow> inj (te_row env) \<and> inj (te_id env) \<and>
     range (te_row env) \<inter> iv_id ` set (invocations db) = {} \<and> range (te_id env) \<inter> vd_id ` set (verdicts db) = {}"

text \<open>What the first \<open>n\<close> calls leave.\<close>

definition worked :: "tool_env \<Rightarrow> ai_db \<Rightarrow> nat \<Rightarrow> ai_db \<Rightarrow> bool" where
  "worked env db0 n db \<longleftrightarrow> agent_step\<^sup>*\<^sup>* db0 db \<and>
     iv_id ` set (invocations db) \<subseteq> iv_id ` set (invocations db0) \<union> te_row env ` {..n} \<and>
     vd_id ` set (verdicts db) \<subseteq> vd_id ` set (verdicts db0) \<union> te_id env ` {..n}"

lemma record_invocation_ids:
  "iv_id ` set (invocations (record_invocation now iid sid tool inp out st ms slug db)) \<subseteq>
     insert iid (iv_id ` set (invocations db))"
  "verdicts (record_invocation now iid sid tool inp out st ms slug db) = verdicts db"
proof -
  have "iv_id ` set (invocations (record_invocation now iid sid tool inp out st ms slug db)) \<subseteq>
     insert iid (iv_id ` set (invocations db)) \<and>
     verdicts (record_invocation now iid sid tool inp out st ms slug db) = verdicts db"
    by (rule record_invocation_cases [of now iid sid tool inp out st ms slug db]) auto
  then show "iv_id ` set (invocations (record_invocation now iid sid tool inp out st ms slug db)) \<subseteq>
     insert iid (iv_id ` set (invocations db))"
    "verdicts (record_invocation now iid sid tool inp out st ms slug db) = verdicts db" by simp_all
qed

lemma next_id_new:
  assumes "A \<subseteq> A0 \<union> f ` {..n}" "inj f" "range f \<inter> A0 = {}"
  shows "f (Suc n) \<notin> A"
proof
  assume "f (Suc n) \<in> A"
  with assms(1) consider "f (Suc n) \<in> A0" | m where "m \<le> n" "f (Suc n) = f m" by auto
  then show False
  proof cases
    case 1
    with assms(3) show False by blast
  next
    case 2
    from injD [OF assms(2) this(2)] this(1) show False by simp
  qed
qed

lemma dispatch_db:
  assumes "dispatch env n ex tool inp st = (r, st')"
  shows "ag_db st' = ag_db st \<or>
     (\<exists>now pv sid sbx a j. record_test_verdict now (te_id env n) pv sid sbx a (ag_db st) = Inr (j, ag_db st')) \<or>
     (\<exists>now pid sid p j. record_test_plan now pid sid p (ag_db st) = Inr (j, ag_db st'))"
proof -
  have w: "ag_db (snd (with_db q s)) = ag_db s \<or> (\<exists>j. q = Inr (j, ag_db (snd (with_db q s))))" for q s
    by (auto simp: with_db_def split: sum.splits)
  have cases: "P (if b then x else y)" if "P x" "P y" for P :: "json res \<times> agent_state \<Rightarrow> bool" and b x y
    using that by simp
  have "ag_db (snd (dispatch env n ex tool inp st)) = ag_db st \<or>
     (\<exists>now pv sid sbx a j. record_test_verdict now (te_id env n) pv sid sbx a (ag_db st)
         = Inr (j, ag_db (snd (dispatch env n ex tool inp st)))) \<or>
     (\<exists>now pid sid p j. record_test_plan now pid sid p (ag_db st)
         = Inr (j, ag_db (snd (dispatch env n ex tool inp st))))" (is "?P (dispatch env n ex tool inp st)")
    unfolding dispatch_def
  proof (intro cases [where P = ?P])
    show "?P (with_db (record_test_verdict (te_now env n) (te_id env n) (ex_provenance ex) (session_key ex)
            (ex_sandbox ex) (verdict_args_of inp) (ag_db st)) st)"
      using w [of "record_test_verdict (te_now env n) (te_id env n) (ex_provenance ex) (session_key ex)
            (ex_sandbox ex) (verdict_args_of inp) (ag_db st)" st] by blast
    show "?P (with_db (record_test_plan (te_now env n) (te_id env n) (session_key ex) (plan_args_of inp) (ag_db st)) st)"
      using w [of "record_test_plan (te_now env n) (te_id env n) (session_key ex) (plan_args_of inp) (ag_db st)" st]
      by blast
  qed (auto simp: Let_def split: prod.splits sum.splits)
  with assms show ?thesis by simp
qed

lemma execute_worked:
  assumes w: "worked env db0 n (ag_db st)" and f: "fresh_ids env db0"
    and e: "execute env (Suc n) ex tool inp st = (result, st')"
  shows "worked env db0 (Suc n) (ag_db st')"
proof -
  obtain r st1 where d: "dispatch env (Suc n) ex tool inp (st\<lparr>ag_slug := track_slug tool inp (ag_slug st)\<rparr>) = (r, st1)"
    by fastforce
  obtain res status where o: "call_outcome r = (res, status)" by fastforce
  from e d o obtain now tl i ou ms sl where st': "ag_db st' =
      record_invocation now (te_row env (Suc n)) (ex_session ex) tl i ou status ms sl (ag_db st1)"
    by (auto simp: execute_def Let_def)
  have sub: "te_id env ` {..n} \<subseteq> te_id env ` {..Suc n}" "te_row env ` {..n} \<subseteq> te_row env ` {..Suc n}" by auto
  have newv: "te_id env (Suc n) \<notin> vd_id ` set (verdicts (ag_db st))"
    using w f unfolding worked_def fresh_ids_def by (intro next_id_new [where ?A0.0 = "vd_id ` set (verdicts db0)"]) simp_all
  have mid: "agent_step\<^sup>*\<^sup>* (ag_db st) (ag_db st1) \<and>
      iv_id ` set (invocations (ag_db st1)) = iv_id ` set (invocations (ag_db st)) \<and>
      vd_id ` set (verdicts (ag_db st1)) \<subseteq> insert (te_id env (Suc n)) (vd_id ` set (verdicts (ag_db st)))"
    using dispatch_db [OF d]
  proof (elim disjE exE)
    assume "ag_db st1 = ag_db (st\<lparr>ag_slug := track_slug tool inp (ag_slug st)\<rparr>)"
    then show ?thesis by auto
  next
    fix now pv sid sbx a j
    assume "record_test_verdict now (te_id env (Suc n)) pv sid sbx a
        (ag_db (st\<lparr>ag_slug := track_slug tool inp (ag_slug st)\<rparr>)) = Inr (j, ag_db st1)"
    then have v: "record_test_verdict now (te_id env (Suc n)) pv sid sbx a (ag_db st) = Inr (j, ag_db st1)" by simp
    from agent_step.verdict [OF newv v] record_test_verdict_ids [OF v] show ?thesis by blast
  next
    fix now pid sid p j
    assume "record_test_plan now pid sid p (ag_db (st\<lparr>ag_slug := track_slug tool inp (ag_slug st)\<rparr>)) = Inr (j, ag_db st1)"
    then have v: "record_test_plan now pid sid p (ag_db st) = Inr (j, ag_db st1)" by simp
    from agent_step.plan [OF v] record_test_plan_tables [OF v] show ?thesis by auto
  qed
  have newr: "te_row env (Suc n) \<notin> iv_id ` set (invocations (ag_db st1))"
    using w f mid unfolding worked_def fresh_ids_def
    by (intro next_id_new [where ?A0.0 = "iv_id ` set (invocations db0)"]) simp_all
  note call = agent_step.call [OF newr, of now "ex_session ex" tl i ou status ms sl]
  note ids = record_invocation_ids [of now "te_row env (Suc n)" "ex_session ex" tl i ou status ms sl "ag_db st1", folded st']
  have "agent_step\<^sup>*\<^sup>* db0 (ag_db st)" using w by (simp add: worked_def)
  also have "agent_step\<^sup>*\<^sup>* (ag_db st) (ag_db st1)" using mid by simp
  also have "agent_step (ag_db st1) (ag_db st')" using call unfolding st' .
  finally have steps: "agent_step\<^sup>*\<^sup>* db0 (ag_db st')" .
  have grow: "C \<subseteq> A0 \<union> f ` {..Suc n}" if "C \<subseteq> insert (f (Suc n)) B" "B \<subseteq> A0 \<union> f ` {..n}"
    for A0 B C and f :: "nat \<Rightarrow> string"
    using that by (auto simp: atMost_Suc)
  show ?thesis
    unfolding worked_def
  proof (intro conjI steps)
    show "iv_id ` set (invocations (ag_db st')) \<subseteq> iv_id ` set (invocations db0) \<union> te_row env ` {..Suc n}"
      by (rule grow [where f = "te_row env", OF ids(1)]) (use mid w in \<open>simp add: worked_def\<close>)
    show "vd_id ` set (verdicts (ag_db st')) \<subseteq> vd_id ` set (verdicts db0) \<union> te_id env ` {..Suc n}"
      unfolding ids(2) by (rule grow [where f = "te_id env", OF conjunct2 [OF conjunct2 [OF mid]]]) (use w in \<open>simp add: worked_def\<close>)
  qed
qed


text \<open>
  What a client of the loop relies on: a property of the number of calls and the agent's state that every
  execution of a tool keeps.
\<close>

locale loop_invariant =
  fixes env :: model_env and I :: "nat \<Rightarrow> agent_state \<Rightarrow> bool"
  assumes execute_keeps:
    "I n st \<Longrightarrow> execute (me_tools env) (Suc n) ex tool inp st = (result, st') \<Longrightarrow> I (Suc n) st'"
begin

lemma run_tools_keeps:
  assumes "run_tools env cap cs l = (bs, l')" "I (lp_calls l) (lp_state l)"
  shows "I (lp_calls l') (lp_state l')"
  using assms
proof (induction cs arbitrary: l bs)
  case (Cons c cs)
  obtain cid name inp where c: "c = (cid, name, inp)" by (cases c)
  obtain b l1 where 1: "run_tool env cap c l = (b, l1)" by fastforce
  obtain bs1 l2 where 2: "run_tools env cap cs l1 = (bs1, l2)" by fastforce
  note fr = run_tool_frame [OF 1 [unfolded c]]
  obtain res st where e: "execute (me_tools env) (Suc (lp_calls l)) (lp_executor l) name inp (lp_state l) = (res, st)"
    by fastforce
  with execute_keeps [OF Cons.prems(2) e] fr have "I (lp_calls l1) (lp_state l1)" by simp
  moreover have "l2 = l'" using Cons.prems(1) 1 2 by simp
  ultimately show ?case using Cons.IH 2 by blast
qed simp

lemma stream_turn_keeps:
  assumes t: "stream_turn env cap l = (res, l')" and w: "I (lp_calls l) (lp_state l)"
  shows "I (lp_calls l') (lp_state l')"
proof -
  obtain q l1 where q: "request_turn env 0 (0 # retry_delays) ''end_turn''
      (l\<lparr>lp_messages := cache_breakpoint (lp_messages l)\<rparr>) = (q, l1)" by fastforce
  from request_turn_frame [OF q] w have l1: "I (lp_calls l1) (lp_state l1)" by simp
  show ?thesis
  proof (cases q)
    case (Inl e)
    with t q l1 show ?thesis by (simp add: stream_turn_def)
  next
    case (Inr sr)
    obtain st r where sr: "sr = (st, r)" by fastforce
    have l2: "I (lp_calls (count_usage r l1)) (lp_state (count_usage r l1))" using l1 by simp
    obtain bs l3 where rt: "run_tools env cap (calls_of (rp_content r)) (count_usage r l1) = (bs, l3)" by fastforce
    from run_tools_keeps [OF rt l2] have "I (lp_calls l3) (lp_state l3)" .
    with t q Inr sr rt l2 show ?thesis by (auto simp: stream_turn_def Let_def split: if_splits)
  qed
qed

lemma send_user_message_keeps:
  assumes "send_user_message env cap msg l = (r, l')" and "I (lp_calls l) (lp_state l)"
  shows "I (lp_calls l') (lp_state l')"
proof -
  obtain t l1 where t: "stream_turn env cap (l\<lparr>lp_messages := lp_messages l @ [user_text msg]\<rparr>) = (t, l1)" by fastforce
  from stream_turn_keeps [OF t] assms(2) have "I (lp_calls l1) (lp_state l1)" by simp
  with assms(1) t show ?thesis by (auto simp: send_user_message_def split: sum.splits)
qed

lemma loop_pass_keeps:
  assumes p: "loop_pass env cap l = (res, l')" and w: "I (lp_calls l) (lp_state l)"
  shows "I (lp_calls l') (lp_state l')"
proof (cases "over_limit l")
  case (Some reason)
  with p w show ?thesis by (auto simp: loop_pass_def)
next
  case None
  obtain q l1 where q: "(if near_window l then compress_context env l else (Inr (), l)) = (q, l1)" by fastforce
  then have l1: "I (lp_calls l1) (lp_state l1)"
    using compress_context_frame [of env l q l1] w by (auto split: if_splits)
  obtain t l2 where t: "stream_turn env cap l1 = (t, l2)" by fastforce
  note l2 = stream_turn_keeps [OF t l1]
  show ?thesis
    using p None q t l1 l2 by (auto simp: loop_pass_def Let_def split: sum.splits prod.splits if_splits)
qed

lemma run_passes_keeps:
  "run_passes env cap fuel l = Some (r, l') \<Longrightarrow> I (lp_calls l) (lp_state l) \<Longrightarrow> I (lp_calls l') (lp_state l')"
proof (induction fuel arbitrary: l)
  case (Suc n)
  obtain res l1 where p: "loop_pass env cap l = (res, l1)" by fastforce
  from loop_pass_keeps [OF p Suc.prems(2)] have l1: "I (lp_calls l1) (lp_state l1)" .
  from Suc.prems(1) p have "(r, l') = (r, l1) \<or> run_passes env cap n l1 = Some (r, l')"
    by (auto split: sum.splits pass.splits)
  with Suc.IH [OF _ l1] l1 show ?case by auto
qed simp

lemma run_loop_keeps:
  assumes "run_loop env cap fuel msg l = Some (r, l')" and "I (lp_calls l) (lp_state l)"
  shows "I (lp_calls l') (lp_state l')"
proof -
  from assms(1) obtain q where "run_passes env cap fuel (begin_loop msg l) = Some (q, l')"
    by (auto simp: run_loop_def split: option.splits sum.splits)
  from run_passes_keeps [OF this] assms(2) show ?thesis by simp
qed

end

text \<open>The calls of a process with fresh ids leave the tables reachable by agent steps.\<close>

interpretation loop_tables: loop_invariant env "\<lambda>n st. fresh_ids (me_tools env) db0 \<longrightarrow> worked (me_tools env) db0 n (ag_db st)"
  for env db0
  by unfold_locales (auto intro: execute_worked)

section \<open>Properties\<close>

text \<open>
  C3: an autonomous session ends.  When the API answers a stop for tools with at least one call and
  never with more than \<open>m\<close>, as many passes as the budget of tool calls allows suffice, the number of calls
  exceeds the budget by less than one answer, and in the conversation that is left, compressed or not, the
  next message after every tool call holds its result and there is no other result.
\<close>

theorem agent_session_ends:
  assumes "answers_bounded m env" and "fst (limits_of l) - lp_calls l < fuel"
  shows "\<exists>r l'. run_loop env cap fuel msg l = Some (r, l') \<and> paired [] (lp_messages l') \<and>
           lp_calls l' \<le> max (lp_calls l) (fst (limits_of l) - 1 + m)"
proof -
  from run_passes_returns [of "begin_loop msg l" m env fuel cap] assms conversation_start
  obtain r l' where r: "run_passes env cap fuel (begin_loop msg l) = Some (r, l')" "paired [] (lp_messages l')"
    "lp_calls l' \<le> max (lp_calls l) (fst (limits_of l) - 1 + m)" by auto
  then show ?thesis by (cases r) (simp_all add: run_loop_def)
qed

text \<open>
  C11: the agent loop refines the abstract relation of the tables: whatever the model calls, whatever the
  sandbox's tools answer and however the session ends, the audit rows and verdicts it leaves are reached by
  agent steps, so they stay sound and no claimed call changes.
\<close>

theorem session_refines_agent_steps:
  assumes "run_loop env cap fuel msg l = Some (r, l')" and "fresh_ids (me_tools env) (ag_db (lp_state l))"
  shows "agent_step\<^sup>*\<^sup>* (ag_db (lp_state l)) (ag_db (lp_state l')) \<and>
         (sound_tables (ag_db (lp_state l)) \<longrightarrow>
            sound_tables (ag_db (lp_state l')) \<and> claims_kept (ag_db (lp_state l)) (ag_db (lp_state l')))"
proof -
  have "worked (me_tools env) (ag_db (lp_state l)) (lp_calls l) (ag_db (lp_state l))" by (auto simp: worked_def)
  with loop_tables.run_loop_keeps [OF assms(1)] assms(2)
  have "agent_step\<^sup>*\<^sup>* (ag_db (lp_state l)) (ag_db (lp_state l'))" by (auto simp: worked_def)
  with agent_steps_sound show ?thesis by blast
qed


text \<open>
  C21: the text of a tool result never exceeds the limit, for every limit of at least 1000 bytes and every
  result whose serialisation has fewer than \<open>10 ^ 20\<close> bytes; a serialisation within the limit is passed on
  whole, and of a longer one the first seven and the last two tenths of the limit remain.
\<close>

lemma nat_str_length: "n < 10 ^ k \<Longrightarrow> 0 < k \<Longrightarrow> length (nat_str n) \<le> k"
proof (induction n arbitrary: k rule: nat_str.induct)
  case (1 n)
  show ?case
  proof (cases "n < 10")
    case True
    with 1 show ?thesis by (simp add: nat_str.simps)
  next
    case False
    with 1(2,3) obtain j where k: "k = Suc j" "0 < j" by (cases k; cases "k - 1") auto
    with 1(2) have "n div 10 < 10 ^ j" by (simp add: less_mult_imp_div_less mult.commute)
    with 1(1) [OF False this k(2)] False k show ?thesis by (subst nat_str.simps) simp
  qed
qed

theorem tool_text_is_bounded:
  assumes "1000 \<le> cap" and "length (json_dumps (shape_value result)) < 10 ^ 20"
  defines "s \<equiv> json_dumps (shape_value result)"
  shows "length (bounded_content cap result) \<le> cap \<and>
         (if length s \<le> cap then bounded_content cap result = s
          else take (cap * 7 div 10) (bounded_content cap result) = take (cap * 7 div 10) s \<and>
               drop (length (bounded_content cap result) - cap * 2 div 10) (bounded_content cap result)
                 = drop (length s - cap * 2 div 10) s)"
proof (cases "length s \<le> cap")
  case True
  then show ?thesis by (simp add: bounded_content_def s_def)
next
  case False
  define head tl where "head = cap * 7 div 10" and "tl = cap * 2 div 10"
  define d where "d = int_str (int (length s) - int head - int tl)"
  have "head + tl \<le> cap" unfolding head_def tl_def by linarith
  with False have pos: "head + tl < length s" by simp
  then have "d = nat_str (length s - head - tl)" by (simp add: d_def int_str_def nat_diff_distrib)
  with assms(2) have d: "length d \<le> 20" using nat_str_length [of "length s - head - tl" 20] unfolding s_def by simp
  define mid where "mid = '' '' @ u_ellipsis @ ''[TRUNCATED '' @ d @ '' chars '' @ u_emdash
      @ '' full output is in the tool audit panel]'' @ u_ellipsis @ '' ''"
  have m: "length mid \<le> 89" using d by (simp add: mid_def u_ellipsis_def u_emdash_def)
  have "tl \<noteq> 0" using assms(1) by (simp add: tl_def)
  then have b: "bounded_content cap result = take head s @ mid @ drop (length s - tl) s"
    using False by (simp add: bounded_content_def Let_def s_def [symmetric] head_def [symmetric] tl_def [symmetric]
        d_def [symmetric] mid_def)
  have len: "length (take head s) = head" "length (drop (length s - tl) s) = tl" using pos by simp_all
  have "head + tl + 89 \<le> cap" using assms(1) unfolding head_def tl_def by linarith
  with m len have "length (bounded_content cap result) \<le> cap" by (simp add: b)
  moreover have "take head (bounded_content cap result) = take head s" using len by (simp add: b)
  moreover have "drop (length (bounded_content cap result) - tl) (bounded_content cap result) = drop (length s - tl) s"
    using len by (simp add: b)
  ultimately show ?thesis using False by (simp add: head_def tl_def)
qed

lemma stream_turn_calls:
  assumes "at_end (me_stream env (lp_requests l) (cache_breakpoint (lp_messages l))) = Final r"
    and "calls_of (rp_content r) \<noteq> []"
  shows "\<exists>stop a b l'. stream_turn env cap l = (Inr (stop, [a, b]), l') \<and>
           lp_calls l' = lp_calls l + length (calls_of (rp_content r)) \<and> results_of b = map fst (calls_of (rp_content r))"
proof -
  let ?l0 = "l\<lparr>lp_messages := cache_breakpoint (lp_messages l)\<rparr>"
  let ?a = "me_stream env (lp_requests l) (cache_breakpoint (lp_messages l))"
  have q: "request_turn env 0 (0 # retry_delays) ''end_turn'' ?l0
      = (Inr (stop_after ''end_turn'' (at_stops ?a), r), after_attempt 0 ?a ?l0)"
    using assms(1) by (simp add: before_attempt_def Let_def)
  obtain bs l3 where t: "run_tools env cap (calls_of (rp_content r)) (count_usage r (after_attempt 0 ?a ?l0)) = (bs, l3)"
    by fastforce
  note tf = run_tools_frame [OF t]
  have "stream_turn env cap l = (Inr (stop_after ''end_turn'' (at_stops ?a),
      [\<lparr>m_role = Assistant, m_content = Blocks (kept_blocks (rp_content r))\<rparr>, \<lparr>m_role = User, m_content = Blocks bs\<rparr>]), l3)"
    unfolding stream_turn_def q using t assms(2) by (simp add: Let_def)
  moreover have "results_in bs = map fst (calls_of (rp_content r))" using tf result_blocks_ids [of bs] by blast
  ultimately show ?thesis using tf by (simp add: results_of_def)
qed

text \<open>
  C33: the budget of tool calls and time binds only the autonomous loop: a turn of a collaborative or
  interactive session that is over its limit still runs every call that the model asks for, and it ends
  with their results as the last message, which the model is not asked about before the next text of the
  user.
\<close>

theorem user_turn_ignores_budget:
  assumes "over_limit l = Some reason"
    and "at_end (me_stream env (lp_requests l) (cache_breakpoint (lp_messages l @ [user_text msg]))) = Final r"
    and "calls_of (rp_content r) \<noteq> []"
  shows "\<exists>stop l'. send_user_message env cap msg l = (Inr stop, l') \<and>
           lp_calls l' = lp_calls l + length (calls_of (rp_content r)) \<and>
           lp_messages l' \<noteq> [] \<and> results_of (List.last (lp_messages l')) = map fst (calls_of (rp_content r))"
proof -
  from stream_turn_calls [of env "l\<lparr>lp_messages := lp_messages l @ [user_text msg]\<rparr>" r cap] assms(2,3)
  obtain stop a b l' where "stream_turn env cap (l\<lparr>lp_messages := lp_messages l @ [user_text msg]\<rparr>) = (Inr (stop, [a, b]), l')"
    "lp_calls l' = lp_calls l + length (calls_of (rp_content r))" "results_of b = map fst (calls_of (rp_content r))"
    by auto
  then show ?thesis by (simp add: send_user_message_def)
qed

section \<open>Witnesses\<close>

text \<open>A model that asks for a tool in every answer, and a process with fresh ids.\<close>

definition idle_tools :: tool_env where
  "idle_tools = \<lparr>te_id = (\<lambda>n. replicate n CHR ''v''), te_row = (\<lambda>n. replicate n CHR ''r''), te_now = (\<lambda>n. int n),
     te_ms = (\<lambda>_. 1), te_tool = (\<lambda>_ _ _. Inr (JObj [])), te_fetch = (\<lambda>_ _. Inr []), te_broker = (\<lambda>_. None),
     te_delay = (\<lambda>_ _. 0), te_view = (\<lambda>_ _. None)\<rparr>"

definition eager_reply :: api_reply where
  "eager_reply = \<lparr>rp_content = [TextBlock ''once more'', ToolUse ''u1'' ''get_node_state'' []], rp_input = 10, rp_output = 5,
     rp_cache_read = None, rp_cache_write = None\<rparr>"

definition eager_model :: model_env where
  "eager_model = \<lparr>me_stream = (\<lambda>_ _. \<lparr>at_texts = [], at_stops = [Some ''tool_use''], at_end = Final eager_reply, at_time = 1\<rparr>),
     me_summary = (\<lambda>_ _. (Inr ''summary'', 1)), me_tool_time = (\<lambda>_. 1), me_tools = idle_tools\<rparr>"

definition new_loop :: "string \<Rightarrow> nat \<Rightarrow> agent_loop" where
  "new_loop mode calls = \<lparr>lp_mode = mode, lp_max_calls = None, lp_max_duration = None,
     lp_executor = \<lparr>ex_session = Some ''s'', ex_sandbox = None, ex_provenance = no_pv\<rparr>, lp_messages = [], lp_summaries = [],
     lp_calls = calls, lp_total = 0, lp_cache_read = 0, lp_context = 0, lp_start = 0, lp_clock = 0, lp_requests = 0,
     lp_events = [], lp_state = \<lparr>ag_db = one_session, ag_findings = [], ag_commands = [], ag_slug = JNull\<rparr>\<rparr>"

lemma eager_calls: "calls_of (rp_content eager_reply) = [(''u1'', ''get_node_state'', [])]"
  by (simp add: eager_reply_def calls_of_def map_filter_simps)

lemma eager_bounded: "answers_bounded 1 eager_model"
  by (auto simp: answers_bounded_def eager_model_def eager_calls)

lemma new_limits: "limits_of (new_loop ''autonomous'' n) = (50, 600)" "limits_of (new_loop ''interactive'' n) = (200, 3600)"
  by (simp_all add: limits_of_def new_loop_def LIMITS_def)

lemma new_fresh: "fresh_ids (me_tools eager_model) (ag_db (lp_state (new_loop m n)))"
proof -
  have "inj (\<lambda>i. replicate i c)" for c :: char by (rule injI) (metis length_replicate)
  then show ?thesis by (simp add: fresh_ids_def eager_model_def idle_tools_def new_loop_def one_session_def)
qed

theorem agent_session_ends_witness:
  "\<exists>r l'. run_loop eager_model 5000 51 ''go'' (new_loop ''autonomous'' 0) = Some (r, l') \<and> lp_calls l' \<le> 50 \<and>
     paired [] (lp_messages l')"
  using agent_session_ends [OF eager_bounded, of "new_loop ''autonomous'' 0" 51 5000 "''go''"]
  by (simp add: new_limits(1)) (auto simp: new_loop_def)

theorem session_refines_agent_steps_witness:
  "\<exists>r l'. run_loop eager_model 5000 51 ''go'' (new_loop ''autonomous'' 0) = Some (r, l') \<and>
     agent_step\<^sup>*\<^sup>* one_session (ag_db (lp_state l')) \<and> sound_tables (ag_db (lp_state l'))"
proof -
  have "fst (limits_of (begin_loop ''go'' (new_loop ''autonomous'' 0))) - lp_calls (begin_loop ''go'' (new_loop ''autonomous'' 0)) < 51"
    by (simp add: new_limits(1))
  from run_passes_returns [OF _ eager_bounded this, of 5000] conversation_start
  obtain q l' where "run_passes eager_model 5000 51 (begin_loop ''go'' (new_loop ''autonomous'' 0)) = Some (q, l')" by auto
  then have r: "\<exists>r. run_loop eager_model 5000 51 ''go'' (new_loop ''autonomous'' 0) = Some (r, l')"
    by (cases q) (simp_all add: run_loop_def)
  then obtain r where r: "run_loop eager_model 5000 51 ''go'' (new_loop ''autonomous'' 0) = Some (r, l')" by blast
  have "ag_db (lp_state (new_loop m n)) = one_session" for m n by (simp add: new_loop_def)
  moreover have "sound_tables one_session" by (simp add: sound_tables_def one_session_def)
  ultimately show ?thesis using r session_refines_agent_steps [OF r new_fresh] by auto
qed

theorem tool_text_is_bounded_witness:
  "length (bounded_content 5000 (JObj [(''ok'', JBool True)])) \<le> 5000 \<and>
   bounded_content 5000 (JObj [(''ok'', JBool True)]) = json_dumps (JObj [(''ok'', JBool True)])"
proof -
  have "json_dumps (JObj [(''ok'', JBool True)]) = ''{'' @ [dquote] @ ''ok'' @ [dquote] @ '': true}''"
    by (simp add: dump_str_def utf8_head_def ord_def escape_code_def dquote_def char_of_def bit_0)
  with tool_text_is_bounded [of 5000 "JObj [(''ok'', JBool True)]"] show ?thesis by simp
qed

theorem user_turn_ignores_budget_witness:
  "\<exists>stop l'. send_user_message eager_model 5000 ''hi'' (new_loop ''interactive'' 300) = (Inr stop, l') \<and> lp_calls l' = 301"
proof -
  have "over_limit (new_loop ''interactive'' 300) = Some (''Tool call limit reached ('' @ nat_str 200 @ '')'')"
    by (simp add: over_limit_def new_limits(2)) (simp add: new_loop_def)
  from user_turn_ignores_budget [OF this, of eager_model "''hi''" eager_reply 5000] eager_calls
  show ?thesis by (auto simp: eager_model_def) (auto simp: new_loop_def)
qed

end
