(* ===== verification/Agent_Session_Spec.thy ===== *)
theory Agent_Session_Spec
  imports Agent_Session Agent_Loop_Spec
begin

text \<open>
  How an AI session ends: an autonomous one always, within the budget, with a final status that nothing
  others write in between can change; an agent starts on a ready sandbox only; the failures that leave a
  session active for ever.
\<close>

section \<open>The status of a session row\<close>

definition session_status :: "ai_db \<Rightarrow> string \<Rightarrow> ai_status option" where
  "session_status db sid = map_option sn_status (find_session db sid)"

definition statuses :: "ai_db \<Rightarrow> (string \<times> ai_status) list" where
  "statuses db = map (\<lambda>s. (sn_id s, sn_status s)) (ai_sessions db)"

lemma session_status_statuses: "session_status db sid = map_of (statuses db) sid"
proof -
  have "map_option sn_status (find (\<lambda>s. sn_id s = sid) ss) = map_of (map (\<lambda>s. (sn_id s, sn_status s)) ss) sid" for ss
    by (induction ss) auto
  then show ?thesis by (simp add: session_status_def statuses_def find_session_def)
qed

lemma is_aborted_session_status: "is_aborted db sid \<longleftrightarrow> session_status db sid = Some AAborted"
  by (auto simp: is_aborted_def session_status_def split: option.splits)

lemma statuses_record_invocation:
  "statuses (record_invocation now iid sid tool inp out st ms slug db) = statuses db"
  by (auto simp: record_invocation_def statuses_def update_session_def split: option.splits sum.splits)

lemma statuses_record_test_verdict:
  assumes "record_test_verdict now vid pv sid sbx a db = Inr (j, db')"
  shows "statuses db' = statuses db"
proof (rule record_test_verdict_Inr [OF assms])
  fix v assume st: "db' = snd (store_verdict v (claim_or_none db sid) db)"
  obtain db1 k where up: "upsert_verdict v db = (db1, k)" by fastforce
  have "db' = link_claim k (vd_slug v) (cm_ids (claim_or_none db sid)) db1"
    unfolding st store_verdict_def using up by simp
  then show ?thesis using upsert_rest(2) [OF up] by (simp add: statuses_def link_claim_def)
qed simp

lemma statuses_record_test_plan:
  assumes "record_test_plan now pid sid p db = Inr (j, db')"
  shows "statuses db' = statuses db"
  using assms
  by (auto simp: record_test_plan_def upsert_plan_def statuses_def res_inv Let_def split: if_splits sum.splits option.splits)

lemma execute_statuses:
  assumes "execute env n ex tool inp st = (result, st')"
  shows "statuses (ag_db st') = statuses (ag_db st)"
proof -
  obtain r st1 where d: "dispatch env n ex tool inp (st\<lparr>ag_slug := track_slug tool inp (ag_slug st)\<rparr>) = (r, st1)"
    by fastforce
  from dispatch_db [OF d] have "statuses (ag_db st1) = statuses (ag_db st)"
    using statuses_record_test_verdict statuses_record_test_plan by (elim disjE exE) force+
  with assms d show ?thesis by (auto simp: execute_def Let_def statuses_record_invocation split: prod.splits)
qed

text \<open>No tool of the agent writes the status of a session.\<close>

interpretation loop_statuses: loop_invariant env "\<lambda>n st. statuses (ag_db st) = ss" for env ss
  by unfold_locales (use execute_statuses in blast)

section \<open>Frames of the session's steps\<close>

lemma session_event_fields [simp]:
  "sm_id (session_event t k m) = sm_id m" "sm_sandbox (session_event t k m) = sm_sandbox m"
  "sm_state (session_event t k m) = sm_state m" "sm_stmt (session_event t k m) = sm_stmt m"
  "sm_exec (session_event t k m) = sm_exec m" "sm_selected (session_event t k m) = sm_selected m"
  "tables (session_event t k m) = tables m" "sm_run (session_event t k m) = sm_run m"
  "sm_mode (session_event t k m) = sm_mode m"
  by (simp_all add: session_event_def tables_def)

lemma session_events_fields [simp]:
  "sm_id (foldl (\<lambda>m x. session_event (f x) (g x) m) m xs) = sm_id m"
  "sm_sandbox (foldl (\<lambda>m x. session_event (f x) (g x) m) m xs) = sm_sandbox m"
  "sm_state (foldl (\<lambda>m x. session_event (f x) (g x) m) m xs) = sm_state m"
  "sm_stmt (foldl (\<lambda>m x. session_event (f x) (g x) m) m xs) = sm_stmt m"
  "sm_mode (foldl (\<lambda>m x. session_event (f x) (g x) m) m xs) = sm_mode m"
  "sm_run (foldl (\<lambda>m x. session_event (f x) (g x) m) m xs) = sm_run m"
  by (induction xs arbitrary: m) simp_all

lemma log_events_fields [simp]:
  "sm_id (foldl (\<lambda>m (src, msg). session_event t (h src msg) m) m xs) = sm_id m"
  "sm_state (foldl (\<lambda>m (src, msg). session_event t (h src msg) m) m xs) = sm_state m"
  "sm_stmt (foldl (\<lambda>m (src, msg). session_event t (h src msg) m) m xs) = sm_stmt m"
  "sm_mode (foldl (\<lambda>m (src, msg). session_event t (h src msg) m) m xs) = sm_mode m"
  "sm_run (foldl (\<lambda>m (src, msg). session_event t (h src msg) m) m xs) = sm_run m"
  by (induction xs arbitrary: m) auto

lemma others_fields [simp]:
  "sm_id (others env m) = sm_id m" "sm_sandbox (others env m) = sm_sandbox m" "sm_run (others env m) = sm_run m"
  "sm_stmt (others env m) = Suc (sm_stmt m)" "sm_mode (others env m) = sm_mode m"
  "sm_exec (others env m) = sm_exec m" "sm_selected (others env m) = sm_selected m"
  "sm_state (others env m) = sv_others env (sm_stmt m) (sm_state m)"
  by (simp_all add: others_def)

lemma set_tables_fields [simp]:
  "sm_id (set_tables db m) = sm_id m" "sm_sandbox (set_tables db m) = sm_sandbox m" "tables (set_tables db m) = db"
  "sm_stmt (set_tables db m) = sm_stmt m" "sm_mode (set_tables db m) = sm_mode m" "sm_run (set_tables db m) = sm_run m"
  by (simp_all add: set_tables_def tables_def)

lemma saved_row_fields [simp]:
  "sn_id (saved_row status now fnd tr calls toks m s) = sn_id s"
  "sn_status (saved_row status now fnd tr calls toks m s) = status"
  by (simp_all add: saved_row_def)

lemma save_session_status:
  assumes "save_session env status counts tr m = (r, m')"
  shows "sm_id m' = sm_id m" "sm_mode m' = sm_mode m"
    and "r = Inr () \<Longrightarrow> session_status (tables m') (sm_id m) = Some status"
    and "r \<noteq> Inr () \<Longrightarrow> r = Inl DataError \<and> tables m' = ag_db (sv_others env (sm_stmt m) (sm_state m))"
proof -
  obtain calls toks where c: "counts = (calls, toks)" by (cases counts)
  let ?ref = "save_refused (JArr (ag_findings (sm_state m))) tr calls toks m"
  let ?db = "tables (others env m)"
  have "sm_id m' = sm_id m \<and> sm_mode m' = sm_mode m \<and> (if ?ref then r = Inl DataError \<and> m' = others env m
        else r = Inr () \<and> session_status (tables m') (sm_id m) = Some status)"
  proof (cases ?ref)
    case True
    with assms show ?thesis by (auto simp: save_session_def c Let_def)
  next
    case False
    let ?f = "saved_row status (sv_now env (sm_stmt m)) (JArr (ag_findings (sm_state m))) tr calls toks m"
    have kept: "find_session (update_session (sm_id m) ?f ?db) (sm_id m) = map_option ?f (find_session ?db (sm_id m))"
      by (simp add: session_table.look_upd)
    show ?thesis
    proof (cases "find_session ?db (sm_id m)")
      case None
      then have "find_session (?db\<lparr>ai_sessions := ai_sessions ?db @ [q]\<rparr>) (sm_id m) = Some q" if "sn_id q = sm_id m" for q
        using that by (simp add: find_session_def find_append)
      from this [of "new_session_row status (sv_now env (sm_stmt m)) (JArr (ag_findings (sm_state m))) tr calls toks m"]
      show ?thesis using assms False None
        by (auto simp: save_session_def c Let_def session_status_def new_session_row_def)
    next
      case (Some s)
      with assms False kept show ?thesis by (auto simp: save_session_def c Let_def session_status_def)
    qed
  qed
  then show "sm_id m' = sm_id m" "sm_mode m' = sm_mode m" "r = Inr () \<Longrightarrow> session_status (tables m') (sm_id m) = Some status"
    "r \<noteq> Inr () \<Longrightarrow> r = Inl DataError \<and> tables m' = ag_db (sv_others env (sm_stmt m) (sm_state m))"
    by (auto simp: tables_def split: if_splits)
qed


section \<open>The bootstrap\<close>

lemma boot_ready_frame:
  "sm_id (snd (boot_ready env t b m)) = sm_id m \<and> sm_mode (snd (boot_ready env t b m)) = sm_mode m \<and>
   sm_run (snd (boot_ready env t b m)) = sm_run m \<and> sm_stmt (snd (boot_ready env t b m)) = Suc (sm_stmt m) \<and>
   sm_sandbox (snd (boot_ready env t b m)) = Some (s_id b) \<and> fst (boot_ready env t b m) \<noteq> BootAborted"
proof (cases "loaded_meta (s_metadata b)")
qed (simp_all add: boot_ready_def Let_def)

text \<open>What a poll reads.\<close>

definition poll_tables :: "session_env \<Rightarrow> session \<Rightarrow> ai_db" where
  "poll_tables env m = ag_db (sv_others env (sm_stmt m) (sm_state m))"

lemma boot_poll_frame:
  assumes "boot_poll env rid k t seen m = ((res, status), m')"
  shows "sm_id m' = sm_id m \<and> sm_mode m' = sm_mode m \<and> sm_stmt m' \<le> sm_stmt m + 2"
    and "res = None \<Longrightarrow> sm_stmt m' = Suc (sm_stmt m)"
    and "res = Some BootReady \<Longrightarrow> \<exists>b. newest_box (core (poll_tables env m)) rid = Some b \<and> s_status b = SReady \<and>
           sm_sandbox m' = Some (s_id b)"
    and "res = Some BootAborted \<Longrightarrow> tables m' = poll_tables env m \<and> is_aborted (tables m') (sm_id m)"
    and "\<not> is_aborted (poll_tables env m) (sm_id m) \<Longrightarrow> res \<noteq> Some BootAborted"
proof -
  have t: "tables (others env m) = poll_tables env m" by (simp add: tables_def poll_tables_def)
  have "sm_id m' = sm_id m \<and> sm_mode m' = sm_mode m \<and> sm_stmt m' \<le> sm_stmt m + 2 \<and> (res = None \<longrightarrow> sm_stmt m' = Suc (sm_stmt m)) \<and>
    (res = Some BootReady \<longrightarrow> (\<exists>b. newest_box (core (poll_tables env m)) rid = Some b \<and> s_status b = SReady \<and>
       sm_sandbox m' = Some (s_id b))) \<and>
    (res = Some BootAborted \<longrightarrow> tables m' = poll_tables env m \<and> is_aborted (tables m') (sm_id m)) \<and>
    (\<not> is_aborted (poll_tables env m) (sm_id m) \<longrightarrow> res \<noteq> Some BootAborted)"
  proof (cases "is_aborted (poll_tables env m) (sm_id m)")
    case True
    with assms show ?thesis by (auto simp: boot_poll_def Let_def t)
  next
    case False
    define m3 where "m3 = (let m2 = foldl (\<lambda>m (src, msg). session_event ''bootstrap_log''
            [(''source'', JStr src), (''message'', JStr (str_take 300 msg))] m) (others env m) (sv_logs env k)
      in if map_option s_status (newest_box (core (poll_tables env m)) rid) = seen then m2
         else session_event ''bootstrap_progress'' (boot_progress (newest_box (core (poll_tables env m)) rid) t) m2)"
    have m3: "sm_id m3 = sm_id m" "sm_mode m3 = sm_mode m" "sm_stmt m3 = Suc (sm_stmt m)"
      by (simp_all add: m3_def Let_def)
    have step: "boot_poll env rid k t seen m = (case newest_box (core (poll_tables env m)) rid of
        None \<Rightarrow> ((None, map_option s_status (newest_box (core (poll_tables env m)) rid)), m3)
      | Some b \<Rightarrow>
          if s_status b = SReady then (let (r, m4) = boot_ready env t b m3 in
             ((Some r, map_option s_status (newest_box (core (poll_tables env m)) rid)), m4))
          else if s_status b = SFailed
          then ((Some (BootFailed (RuntimeError (''Sandbox provisioning failed: '' @
                   str_take 400 (text_or (s_failure_reason b) ''unknown'')))),
                 map_option s_status (newest_box (core (poll_tables env m)) rid)), m3)
          else ((None, map_option s_status (newest_box (core (poll_tables env m)) rid)), m3))"
      using False unfolding boot_poll_def Let_def t m3_def by simp
    show ?thesis
    proof (cases "newest_box (core (poll_tables env m)) rid")
      case None
      with step assms m3 False show ?thesis by auto
    next
      case (Some b)
      obtain r m4 where r: "boot_ready env t b m3 = (r, m4)" by fastforce
      with boot_ready_frame [of env t b m3] m3
      have m4: "sm_id m4 = sm_id m" "sm_mode m4 = sm_mode m" "sm_stmt m4 = Suc (Suc (sm_stmt m))" "sm_sandbox m4 = Some (s_id b)"
        "r \<noteq> BootAborted" by simp_all
      show ?thesis using step assms Some m3 r m4 False by (auto split: if_splits)
    qed
  qed
  then show "sm_id m' = sm_id m \<and> sm_mode m' = sm_mode m \<and> sm_stmt m' \<le> sm_stmt m + 2"
    "res = None \<Longrightarrow> sm_stmt m' = Suc (sm_stmt m)"
    "res = Some BootReady \<Longrightarrow> \<exists>b. newest_box (core (poll_tables env m)) rid = Some b \<and> s_status b = SReady \<and>
           sm_sandbox m' = Some (s_id b)"
    "res = Some BootAborted \<Longrightarrow> tables m' = poll_tables env m \<and> is_aborted (tables m') (sm_id m)"
    "\<not> is_aborted (poll_tables env m) (sm_id m) \<Longrightarrow> res \<noteq> Some BootAborted" by simp_all
qed

text \<open>The whole wait: how it ends, and that it makes a statement per five seconds at most.\<close>

lemma shrink: "t < (b::nat) \<Longrightarrow> (b - (t + p + 5) + 4) div 5 + 1 \<le> (b - t + 4) div 5"
proof (cases "t + p + 5 \<le> b")
  case True
  have "(b - (t + p + 5) + 4) div 5 + 1 = (b - (t + p + 5) + 4 + 5) div 5" by simp
  also have "\<dots> \<le> (b - t + 4) div 5" by (rule div_le_mono) (use True in simp)
  finally show ?thesis .
next
  case False
  assume "t < b"
  then have "5 div 5 \<le> (b - t + 4) div 5" by (intro div_le_mono) simp
  with False show ?thesis by simp
qed

lemma boot_loop_frame:
  assumes "boot_loop env rid k t seen m = (res, m')"
  shows "sm_id m' = sm_id m \<and> sm_mode m' = sm_mode m \<and> sm_stmt m' \<le> sm_stmt m + (boot_timeout - t + 4) div 5 + 1 \<and>
    (res = BootReady \<longrightarrow> (\<exists>q b. newest_box (core (poll_tables env q)) rid = Some b \<and> s_status b = SReady \<and>
       sm_stmt m \<le> sm_stmt q \<and> sm_id q = sm_id m \<and> sm_sandbox m' = Some (s_id b))) \<and>
    (res = BootAborted \<longrightarrow> is_aborted (tables m') (sm_id m))"
  using assms
proof (induction env rid k t seen m rule: boot_loop.induct)
  case (1 env rid k t seen m)
  show ?case
  proof (cases "t < boot_timeout")
    case False
    with "1.prems" show ?thesis by (auto simp: boot_loop.simps [of env rid k t])
  next
    case True
    obtain r status m1 where p: "boot_poll env rid k (t + sv_poll env k) seen m = ((r, status), m1)" by (metis prod.exhaust)
    note fr = boot_poll_frame [OF p]
    show ?thesis
    proof (cases r)
      case None
      have "boot_loop env rid (Suc k) (t + sv_poll env k + 5) status m1 = (res, m')"
        using "1.prems" True p None by (simp add: boot_loop.simps [of env rid k t])
      from "1.IH" [OF True p [symmetric] refl None this]
      have ih: "sm_id m' = sm_id m1" "sm_mode m' = sm_mode m1"
        "sm_stmt m' \<le> sm_stmt m1 + (boot_timeout - (t + sv_poll env k + 5) + 4) div 5 + 1"
        "res = BootReady \<longrightarrow> (\<exists>q b. newest_box (core (poll_tables env q)) rid = Some b \<and> s_status b = SReady \<and>
           sm_stmt m1 \<le> sm_stmt q \<and> sm_id q = sm_id m1 \<and> sm_sandbox m' = Some (s_id b))"
        "res = BootAborted \<longrightarrow> is_aborted (tables m') (sm_id m1)" by simp_all
      have m1: "sm_id m1 = sm_id m" "sm_mode m1 = sm_mode m" "sm_stmt m1 = Suc (sm_stmt m)"
        using fr(1) fr(2) [OF None] by simp_all
      have "(boot_timeout - (t + sv_poll env k + 5) + 4) div 5 + 1 \<le> (boot_timeout - t + 4) div 5"
        using True shrink by blast
      with ih m1 show ?thesis by (auto 4 3 dest: Suc_leD)
    next
      case (Some x)
      have "res = x" "m' = m1" using "1.prems" True p Some by (simp_all add: boot_loop.simps [of env rid k t])
      moreover have "1 \<le> (boot_timeout - t + 4) div 5" using True by simp
      ultimately show ?thesis using fr(1) fr(3) fr(4) Some by auto
    qed
  qed
qed


section \<open>The beginning of a session\<close>

lemma booted_frame:
  assumes "booted env m = (r, m')"
  shows "sm_id m' = sm_id m \<and> sm_mode m' = sm_mode m"
    and "r = Inl e \<Longrightarrow> session_status (tables m') (sm_id m) = Some AFailed \<or> e = DataError \<or>
           e = CancelledError \<and> is_aborted (tables m') (sm_id m)"
    and "r = Inr () \<Longrightarrow> sm_bootstrap m \<Longrightarrow> no_sandbox m \<Longrightarrow> \<exists>rid q b. sm_run m = Some rid \<and>
           newest_box (core (poll_tables env q)) rid = Some b \<and> s_status b = SReady \<and> sm_id q = sm_id m \<and>
           sm_sandbox m' = Some (s_id b)"
proof -
  have "sm_id m' = sm_id m \<and> sm_mode m' = sm_mode m \<and>
    (\<forall>e. r = Inl e \<longrightarrow> session_status (tables m') (sm_id m) = Some AFailed \<or> e = DataError \<or>
       e = CancelledError \<and> is_aborted (tables m') (sm_id m)) \<and>
    (r = Inr () \<longrightarrow> sm_bootstrap m \<longrightarrow> no_sandbox m \<longrightarrow> (\<exists>rid q b. sm_run m = Some rid \<and>
       newest_box (core (poll_tables env q)) rid = Some b \<and> s_status b = SReady \<and> sm_id q = sm_id m \<and>
       sm_sandbox m' = Some (s_id b)))"
  proof (cases "sm_bootstrap m \<and> no_sandbox m")
    case False
    with assms show ?thesis by (auto simp: booted_def)
  next
    case True
    obtain b m1 where b: "bootstrap env m = (b, m1)" by fastforce
    have m1: "sm_id m1 = sm_id m \<and> sm_mode m1 = sm_mode m \<and>
      (b = BootReady \<longrightarrow> (\<exists>rid q x. sm_run m = Some rid \<and> newest_box (core (poll_tables env q)) rid = Some x \<and>
         s_status x = SReady \<and> sm_id q = sm_id m \<and> sm_sandbox m1 = Some (s_id x))) \<and>
      (b = BootAborted \<longrightarrow> is_aborted (tables m1) (sm_id m))"
    proof (cases "sm_run m = None \<or> sm_run m = Some []")
      case True
      with b show ?thesis by (auto simp: bootstrap_def)
    next
      case False
      then obtain rid where rid: "sm_run m = Some rid" "rid \<noteq> []" by auto
      define m0 where "m0 = session_event ''bootstrap_started''
                    [(''run_id'', JStr rid), (''release_tag'', JStr (sm_release m)),
                     (''message'', JStr (''Provisioning sandbox environment (contracts, tokens, node, app)'' @ u_ellipsis))] m"
      have "boot_loop env rid 0 0 None m0 = (b, m1)" using b rid by (simp add: bootstrap_def m0_def)
      from boot_loop_frame [OF this] rid show ?thesis by (auto simp: m0_def)
    qed
    show ?thesis
    proof (cases b)
      case BootReady
      with assms True b m1 show ?thesis by (auto simp: booted_def)
    next
      case BootAborted
      with assms True b m1 show ?thesis by (auto simp: booted_def)
    next
      case (BootFailed e)
      obtain q m2 where q: "save_session env AFailed (0, 0) None m1 = (q, m2)" by fastforce
      note sv = save_session_status [OF q]
      show ?thesis
      proof (cases q)
        case (Inl e')
        with assms True b BootFailed q sv m1 show ?thesis by (auto simp: booted_def)
      next
        case (Inr u)
        with assms True b BootFailed q sv m1 show ?thesis by (auto simp: booted_def)
      qed
    qed
  qed
  then show "sm_id m' = sm_id m \<and> sm_mode m' = sm_mode m"
    "r = Inl e \<Longrightarrow> session_status (tables m') (sm_id m) = Some AFailed \<or> e = DataError \<or>
       e = CancelledError \<and> is_aborted (tables m') (sm_id m)"
    "r = Inr () \<Longrightarrow> sm_bootstrap m \<Longrightarrow> no_sandbox m \<Longrightarrow> \<exists>rid q b. sm_run m = Some rid \<and>
       newest_box (core (poll_tables env q)) rid = Some b \<and> s_status b = SReady \<and> sm_id q = sm_id m \<and>
       sm_sandbox m' = Some (s_id b)" by auto
qed

lemma load_fields [simp]:
  "sm_id (load_ports env m) = sm_id m" "sm_sandbox (load_ports env m) = sm_sandbox m" "sm_mode (load_ports env m) = sm_mode m"
  "sm_id (snd (load_model env m)) = sm_id m" "sm_sandbox (snd (load_model env m)) = sm_sandbox m"
  "sm_mode (snd (load_model env m)) = sm_mode m"
  "sm_id (snd (load_provenance env x m)) = sm_id m" "sm_sandbox (snd (load_provenance env x m)) = sm_sandbox m"
  "sm_mode (snd (load_provenance env x m)) = sm_mode m"
  by (auto simp: load_ports_def load_model_def load_provenance_def Let_def split: option.splits)

lemma session_loop_fields [simp]:
  "lp_calls (session_loop sbx calls secs prov m) = 0" "lp_mode (session_loop sbx calls secs prov m) = sm_mode m"
  "ag_db (lp_state (session_loop sbx calls secs prov m)) = tables m"
  "ex_sandbox (lp_executor (session_loop sbx calls secs prov m)) = sbx"
  by (simp_all add: session_loop_def tables_def)

lemma save_session_sandbox:
  "save_session env status counts tr m = (r, m') \<Longrightarrow> sm_sandbox m' = sm_sandbox m"
  by (auto simp: save_session_def Let_def split: prod.splits if_splits)

lemma prepare_cases:
  assumes "prepare env bud m = (r, m')"
  obtains (failed) e where "r = Inl e" "session_status (tables m') (sm_id m) = Some AFailed \<or> e = DataError \<or>
      e = CancelledError \<and> is_aborted (tables m') (sm_id m)"
  | (ready) l m1 prov where "r = Inr l" "sm_id m' = sm_id m" "sm_mode m' = sm_mode m"
      "session_status (tables m') (sm_id m) = Some AActive"
      "booted env (m\<lparr>sm_state := (sm_state m)\<lparr>ag_findings := []\<rparr>\<rparr>) = (Inr (), m1)" "sm_sandbox m' = sm_sandbox m1"
      "l = session_loop (sm_sandbox m') (if bud then manual_max_calls m' else None)
             (if bud then manual_max_duration m' else None) prov m'"
proof -
  obtain q m1 where b: "booted env (m\<lparr>sm_state := (sm_state m)\<lparr>ag_findings := []\<rparr>\<rparr>) = (q, m1)" by fastforce
  note bf = booted_frame [OF b]
  show ?thesis
  proof (cases q)
    case (Inl e)
    with assms b have "r = Inl e" "m' = m1" by (simp_all add: prepare_def)
    with bf(2) [OF Inl] show ?thesis by (intro failed) auto
  next
    case (Inr u)
    obtain model m3 where m3: "load_model env (load_ports env m1) = (model, m3)" by fastforce
    obtain prov m4 where m4: "load_provenance env (sv_snapshot env model) m3 = (prov, m4)" by fastforce
    obtain s m5 where m5: "save_session env AActive (0, 0) None m4 = (s, m5)" by fastforce
    have ids: "sm_id m4 = sm_id m" "sm_mode m4 = sm_mode m" "sm_sandbox m4 = sm_sandbox m1"
      using load_fields(4,5,6) [of env "load_ports env m1"] load_fields(7,8,9) [of env "sv_snapshot env model" m3] m3 m4 bf(1)
      by simp_all
    note sv = save_session_status [OF m5]
    have step: "prepare env bud m = (case s of Inl e \<Rightarrow> (Inl e, m5)
        | Inr _ \<Rightarrow> (Inr (session_loop (sm_sandbox m5) (if bud then manual_max_calls m5 else None)
                        (if bud then manual_max_duration m5 else None) prov m5), m5))"
      using b Inr m3 m4 m5 by (simp add: prepare_def)
    show ?thesis
    proof (cases s)
      case (Inl e)
      with assms step sv(4) show ?thesis by (intro failed) auto
    next
      case (Inr v)
      with assms step have "m' = m5" by simp
      with assms step Inr sv ids save_session_sandbox [OF m5] b \<open>q = Inr u\<close> show ?thesis
        by (intro ready [of _ m1 prov]) auto
    qed
  qed
qed

lemma manual_limits:
  "sm_mode m = ''autonomous'' \<Longrightarrow>
     fst (limits_of (session_loop sbx (manual_max_calls m) (manual_max_duration m) prov m)) \<le> 200"
  by (simp add: limits_of_def session_loop_def LIMITS_def manual_max_calls_def)


section \<open>Properties\<close>

lemma relay_fields [simp]:
  "sm_id (relay evs m) = sm_id m" "sm_state (relay evs m) = sm_state m" "sm_mode (relay evs m) = sm_mode m"
  by (simp_all add: relay_def tables_def)

lemma block_missing_fields [simp]:
  "sm_id (block_missing env m) = sm_id m"
  by (auto simp: block_missing_def Let_def split: prod.splits)

lemma block_missing_tables:
  "\<exists>now. tables (block_missing env m) = fst (record_missing now (sv_vid env) (sm_id m) (sm_sandbox m)
     (sm_exec m = ''ai_manual'') (sm_selected m) (tables (if manual m then others env m else m)))"
proof -
  have ev: "tables (foldl (\<lambda>m slug. session_event t (g slug) m) q xs) = tables q" for t g q and xs :: "string list"
    by (simp add: tables_def)
  obtain db' n where d: "record_missing (sv_now env (sm_stmt m)) (sv_vid env) (sm_id m) (sm_sandbox m)
      (sm_exec m = ''ai_manual'') (sm_selected m) (tables (if manual m then others env m else m)) = (db', n)" by fastforce
  then have "tables (block_missing env m) = db'" unfolding block_missing_def Let_def d by (simp only: prod.case ev set_tables_fields)
  with d show ?thesis by (intro exI [of _ "sv_now env (sm_stmt m)"]) simp
qed

lemma after_loop_fields [simp]:
  "sm_id (after_loop l m) = sm_id m" "sm_state (after_loop l m) = lp_state l"
    "tables (after_loop l m) = ag_db (lp_state l)"
  by (simp_all add: after_loop_def tables_def)

lemma end_autonomous_status:
  assumes "end_autonomous env r l m = (q, m')"
  shows "q = Inl DataError \<or>
         q = r \<and> session_status (tables m') (sm_id m) = Some (case r of Inl _ \<Rightarrow> AFailed | Inr _ \<Rightarrow> ACompleted)"
proof -
  obtain s m2 where sv: "save_session env (case r of Inl _ \<Rightarrow> AFailed | Inr _ \<Rightarrow> ACompleted) (loop_counts l)
      (Some (transcript_of l)) (block_missing env (after_loop l m)) = (s, m2)" by fastforce
  note st = save_session_status [OF sv]
  show ?thesis
  proof (cases s)
    case (Inl e)
    with assms sv st(4) show ?thesis by (simp add: end_autonomous_def)
  next
    case (Inr u)
    with assms sv st(3) show ?thesis by (cases r) (auto simp: end_autonomous_def)
  qed
qed

text \<open>
  C35: an autonomous session always ends: whatever the other services do to the tables between its
  statements, whatever the tools and the API answer, and although the wait for a sandbox may fail.  At the
  end its row says completed when the conversation ended and failed otherwise, except when the final
  statement itself is refused, or when the wait found the session aborted.
\<close>

theorem autonomous_session_final:
  assumes "sm_mode m = ''autonomous''" and "answers_bounded k (sv_model env)" and "200 < fuel"
  shows "\<exists>r m'. run_autonomous env cap fuel m = Some (r, m') \<and>
     (case r of
        Inr _ \<Rightarrow> session_status (tables m') (sm_id m) = Some ACompleted
      | Inl e \<Rightarrow> session_status (tables m') (sm_id m) = Some AFailed \<or> e = DataError \<or>
                 e = CancelledError \<and> is_aborted (tables m') (sm_id m))"
proof -
  obtain q m1 where p: "prepare env True m = (q, m1)" by fastforce
  show ?thesis
  proof (rule prepare_cases [OF p])
    fix e assume "q = Inl e" "session_status (tables m1) (sm_id m) = Some AFailed \<or> e = DataError \<or>
      e = CancelledError \<and> is_aborted (tables m1) (sm_id m)"
    with p show ?thesis by (simp add: run_autonomous_def)
  next
    fix l m0 prov
    assume l: "q = Inr l" "l = session_loop (sm_sandbox m1) (if True then manual_max_calls m1 else None)
             (if True then manual_max_duration m1 else None) prov m1"
      and m1: "sm_id m1 = sm_id m" "sm_mode m1 = sm_mode m"
    have "fst (limits_of l) \<le> 200" using l(2) m1(2) assms(1) by (simp add: manual_limits)
    with assms(3) have "fst (limits_of (begin_loop (sv_text env m1) l)) - lp_calls (begin_loop (sv_text env m1) l) < fuel"
      by simp
    from run_passes_returns [OF _ assms(2) this, of cap] conversation_start
    obtain x l' where "run_passes (sv_model env) cap fuel (begin_loop (sv_text env m1) l) = Some (x, l')" by auto
    then obtain r where r: "run_loop (sv_model env) cap fuel (sv_text env m1) l = Some (r, l')"
      by (cases x) (simp_all add: run_loop_def)
    obtain r' m' where e: "end_autonomous env r l' m1 = (r', m')" by fastforce
    have "run_autonomous env cap fuel m = Some (r', m')" using p l(1) r e by (simp add: run_autonomous_def)
    moreover have "case r' of
        Inr _ \<Rightarrow> session_status (tables m') (sm_id m) = Some ACompleted
      | Inl e \<Rightarrow> session_status (tables m') (sm_id m) = Some AFailed \<or> e = DataError \<or>
                 e = CancelledError \<and> is_aborted (tables m') (sm_id m)"
      using end_autonomous_status [OF e] m1(1) by (cases r; cases r') auto
    ultimately show ?thesis by blast
  qed
qed


text \<open>
  C37: a collaborative session whose first turn fails, as with an API error after the retries, ends with the
  exception alone: its row stays active for ever, unlike that of an autonomous session.
\<close>

theorem collaborative_crash_stays_active:
  assumes "prepare env False m = (Inr l, m1)" and "send_user_message (sv_model env) cap (kickoff m1) l = (Inl e, l1)"
  shows "\<exists>m'. run_collaborative env cap us m = (Inl e, m') \<and> session_status (tables m') (sm_id m) = Some AActive"
proof -
  have run: "run_collaborative env cap us m = (Inl e, after_loop l1 m1)"
    using assms by (simp add: run_collaborative_def end_chat_def)
  have "session_status (ag_db (lp_state l1)) (sm_id m) = Some AActive"
  proof (rule prepare_cases [OF assms(1)])
    fix l' prov
    assume st: "session_status (tables m1) (sm_id m) = Some AActive"
      and l: "Inr l = Inr l'" "l' = session_loop (sm_sandbox m1) (if False then manual_max_calls m1 else None)
             (if False then manual_max_duration m1 else None) prov m1"
    from loop_statuses.send_user_message_keeps [OF assms(2) refl]
    have "statuses (ag_db (lp_state l1)) = statuses (ag_db (lp_state l))" .
    moreover have "ag_db (lp_state l) = tables m1" using l by simp
    ultimately show ?thesis using st by (simp add: session_status_statuses)
  qed simp
  with run show ?thesis by simp
qed

text \<open>
  C38: a NUL character anywhere in the conversation, for example in an input that the model gave to a tool,
  makes the final statement of an autonomous session refuse its transcript: the session raises, and when no
  other service writes its row it stays active for ever, whether the conversation had ended well or not.
\<close>

theorem nul_in_transcript_stays_active:
  assumes "prepare env True m = (Inr l, m1)" and "run_loop (sv_model env) cap fuel (sv_text env m1) l = Some (r, l')"
    and "json_nul (transcript_of l')" and quiet: "\<forall>n st. sv_others env n st = st"
  shows "\<exists>m'. run_autonomous env cap fuel m = Some (Inl DataError, m') \<and>
           session_status (tables m') (sm_id m) = Some AActive"
proof -
  let ?m2 = "block_missing env (after_loop l' m1)"
  obtain c t where c: "loop_counts l' = (c, t)" by (cases "loop_counts l'")
  have "save_refused fnd (Some (transcript_of l')) c t ?m2" for fnd
    using assms(3) by (simp add: save_refused_def)
  then have sv: "save_session env st (loop_counts l') (Some (transcript_of l')) ?m2 = (Inl DataError, others env ?m2)" for st
    by (simp add: save_session_def c Let_def)
  have run: "run_autonomous env cap fuel m = Some (Inl DataError, others env ?m2)"
    using assms(1,2) sv by (simp add: run_autonomous_def end_autonomous_def)
  have miss: "statuses (fst (record_missing now vid sid sbx mn sel db)) = statuses db" for now vid sid sbx mn sel db
  proof -
    have "ai_sessions (foldl (\<lambda>d (i, slug). insert_blocked (blocked_row now (vid i) sid sbx slug) d) db xs) = ai_sessions db" for xs
      by (induction xs arbitrary: db) (auto simp: insert_blocked_def)
    then show ?thesis by (simp add: record_missing_def statuses_def Let_def)
  qed
  have o: "sm_state (others env m) = sm_state m" "tables (others env m) = tables m" for m
    using quiet by (simp_all add: others_def tables_def)
  have "statuses (tables ?m2) = statuses (tables (after_loop l' m1))"
  proof -
    have "tables (if manual (after_loop l' m1) then others env (after_loop l' m1) else after_loop l' m1)
        = tables (after_loop l' m1)" using o(2) by simp
    with block_missing_tables [of env "after_loop l' m1"] miss show ?thesis by metis
  qed
  moreover have "statuses (tables (after_loop l' m1)) = statuses (tables m1)"
    and "session_status (tables m1) (sm_id m) = Some AActive"
  proof -
    show "statuses (tables (after_loop l' m1)) = statuses (tables m1)"
    proof (rule prepare_cases [OF assms(1)])
      fix l0 prov
      assume "Inr l = Inr l0" "l0 = session_loop (sm_sandbox m1) (if True then manual_max_calls m1 else None)
             (if True then manual_max_duration m1 else None) prov m1"
      then have "ag_db (lp_state l) = tables m1" by simp
      with loop_statuses.run_loop_keeps [OF assms(2) refl] show ?thesis by simp
    qed simp
    show "session_status (tables m1) (sm_id m) = Some AActive"
      by (rule prepare_cases [OF assms(1)]) simp_all
  qed
  ultimately have "session_status (tables (others env ?m2)) (sm_id m) = Some AActive"
    by (simp add: o(2) session_status_statuses)
  with run show ?thesis by blast
qed

section \<open>Witnesses\<close>

text \<open>A quiet platform.\<close>

definition quiet_env :: "model_env \<Rightarrow> session_env" where
  "quiet_env api = \<lparr>sv_others = (\<lambda>_ st. st), sv_now = (\<lambda>n. int n), sv_vid = (\<lambda>n. replicate n CHR ''w''), sv_poll = (\<lambda>_. 0),
     sv_logs = (\<lambda>_. []), sv_snapshot = (\<lambda>s. s), sv_params = JNull, sv_text = (\<lambda>_. ''go''), sv_model = api\<rparr>"

definition asked :: "string \<Rightarrow> bool \<Rightarrow> session_msg" where
  "asked mode boot = \<lparr>sq_id = Some ''s'', sq_run = Some ''r'', sq_sandbox = None, sq_mode = mode, sq_goal = Some ''check'',
     sq_exec = None, sq_selected = None, sq_bootstrap = boot, sq_base = None, sq_release = None\<rparr>"

definition box_b1 :: sandbox_row where
  "box_b1 = \<lparr>s_id = ''b1'', s_run_id = ''r'', s_status = SReady, s_docker_network = JNull, s_container_ids = JNull,
     s_anvil_port = JInt 9545, s_node_port = JNull, s_graphql_port = JNull, s_snapshot_volume = JNull,
     s_metadata = JObj [(''app_address'', JStr ''0x1'')], s_failure_reason = None, s_provisioned_at = Some 3,
     s_ready_at = Some 4, s_closed_at = None\<rparr>"

definition idle_state :: agent_state where
  "idle_state = \<lparr>ag_db = one_session\<lparr>core := no_core\<lparr>sandboxes := [box_b1]\<rparr>\<rparr>, ag_findings = [], ag_commands = [], ag_slug = JNull\<rparr>"

text \<open>An API that is down, and one whose answer holds a NUL character.\<close>

definition broken_model :: model_env where
  "broken_model = eager_model\<lparr>me_stream := (\<lambda>_ _. \<lparr>at_texts = [], at_stops = [], at_end = Transient, at_time = 1\<rparr>)\<rparr>"

definition nul_reply :: api_reply where
  "nul_reply = \<lparr>rp_content = [TextBlock [CHR 0x00]], rp_input = 1, rp_output = 1, rp_cache_read = None, rp_cache_write = None\<rparr>"

definition nul_model :: model_env where
  "nul_model = eager_model\<lparr>me_stream := (\<lambda>_ _. \<lparr>at_texts = [], at_stops = [Some ''end_turn''], at_end = Final nul_reply, at_time = 1\<rparr>)\<rparr>"

definition sample_session :: "string \<Rightarrow> bool \<Rightarrow> session" where
  "sample_session mode boot = session_of ''u'' (asked mode boot) idle_state"

text \<open>Another service aborts the session before every statement.\<close>

definition abort_env :: session_env where
  "abort_env = (quiet_env eager_model)\<lparr>sv_others := (\<lambda>_ st. st\<lparr>ag_db :=
     update_session ''s'' (\<lambda>s. s\<lparr>sn_status := AAborted\<rparr>) (ag_db st)\<rparr>)\<rparr>"

theorem autonomous_session_final_witness:
  "\<exists>r m'. run_autonomous abort_env 5000 201 (sample_session ''autonomous'' False) = Some (r, m') \<and>
     (case r of
        Inr _ \<Rightarrow> session_status (tables m') ''s'' = Some ACompleted
      | Inl e \<Rightarrow> session_status (tables m') ''s'' = Some AFailed \<or> e = DataError \<or>
                 e = CancelledError \<and> is_aborted (tables m') ''s'')"
proof -
  have m: "sm_mode (sample_session ''autonomous'' False) = ''autonomous''" and i: "sm_id (sample_session ''autonomous'' False) = ''s''"
    by (simp_all add: sample_session_def session_of_def asked_def text_or_def)
  have api: "answers_bounded 1 (sv_model abort_env)" using eager_bounded by (simp add: abort_env_def quiet_env_def)
  have fuel: "200 < (201::nat)" by simp
  show ?thesis using autonomous_session_final [OF m api fuel, of 5000] unfolding i .
qed



lemma chat_crashes:
  "case prepare (quiet_env broken_model) False (sample_session ''collaborative'' False) of
     (Inr l, m1) \<Rightarrow> fst (send_user_message broken_model 5000 (kickoff m1) l) = Inl TransientError
   | _ \<Rightarrow> False"
  by code_simp

theorem collaborative_crash_stays_active_witness:
  "\<exists>m'. run_collaborative (quiet_env broken_model) 5000 [] (sample_session ''collaborative'' False) = (Inl TransientError, m') \<and>
     session_status (tables m') ''s'' = Some AActive"
proof -
  obtain l m1 where p: "prepare (quiet_env broken_model) False (sample_session ''collaborative'' False) = (Inr l, m1)"
    and c: "fst (send_user_message broken_model 5000 (kickoff m1) l) = Inl TransientError"
    using chat_crashes by (auto split: prod.splits sum.splits)
  obtain l1 where "send_user_message broken_model 5000 (kickoff m1) l = (Inl TransientError, l1)"
    using c by (cases "send_user_message broken_model 5000 (kickoff m1) l") auto
  then have "send_user_message (sv_model (quiet_env broken_model)) 5000 (kickoff m1) l = (Inl TransientError, l1)"
    by (simp add: quiet_env_def)
  from collaborative_crash_stays_active [OF p this, of "[]"] show ?thesis
    by (simp add: sample_session_def session_of_def asked_def text_or_def)
qed

definition nul_talk :: "message list" where
  "nul_talk = [\<lparr>m_role = User, m_content = Plain ''go''\<rparr>,
     \<lparr>m_role = Assistant, m_content = Blocks [(TextBlock [CHR 0x00], False)]\<rparr>]"

lemma nul_spoken:
  "case prepare (quiet_env nul_model) True (sample_session ''autonomous'' False) of
     (Inr l, m1) \<Rightarrow> (case run_loop nul_model 5000 2 ''go'' l of
        Some (r, l') \<Rightarrow> lp_messages l' = nul_talk | None \<Rightarrow> False)
   | _ \<Rightarrow> False"
  by code_simp

lemma nul_talk_short: "length (json_dumps (JArr (map message_json nul_talk))) < 200"
  by (simp add: nul_talk_def message_json_def dump_str_def utf8_head_def ord_def escape_code_def u_escape_def hex4_def
      dquote_def char_of_def bit_0 hex_digits.simps zfill_def)

lemma nul_talk_kept: "lp_messages l = nul_talk \<Longrightarrow> json_nul (transcript_of l)"
  using nul_talk_short
  by (simp add: transcript_of_def transcript_def Let_def) (simp add: nul_talk_def message_json_def)

theorem nul_in_transcript_stays_active_witness:
  "\<exists>m'. run_autonomous (quiet_env nul_model) 5000 2 (sample_session ''autonomous'' False) = Some (Inl DataError, m') \<and>
     session_status (tables m') ''s'' = Some AActive"
proof -
  obtain l m1 where p: "prepare (quiet_env nul_model) True (sample_session ''autonomous'' False) = (Inr l, m1)"
    and c: "case run_loop nul_model 5000 2 ''go'' l of Some (r, l') \<Rightarrow> lp_messages l' = nul_talk | None \<Rightarrow> False"
    using nul_spoken by (cases "prepare (quiet_env nul_model) True (sample_session ''autonomous'' False)")
      (auto split: sum.splits)
  obtain r l' where r: "run_loop nul_model 5000 2 ''go'' l = Some (r, l')" "lp_messages l' = nul_talk"
    using c by (auto split: option.splits)
  then have "run_loop (sv_model (quiet_env nul_model)) 5000 2 (sv_text (quiet_env nul_model) m1) l = Some (r, l')"
    "\<forall>n st. sv_others (quiet_env nul_model) n st = st" by (simp_all add: quiet_env_def)
  from nul_in_transcript_stays_active [OF p this(1) nul_talk_kept [OF r(2)] this(2)] show ?thesis
    by (simp add: sample_session_def session_of_def asked_def text_or_def)
qed

end
