(* ===== verification/Sessions_Api_Spec.thy ===== *)
theory Sessions_Api_Spec
  imports Sessions_Api Agent_Session_Spec Run_Lifecycle
begin

text \<open>
  What a created session brings with it: a plan that the agent may run, and for a bootstrap a provisioning
  run of its own, which the orchestrator never turns into a sweep of tests.
\<close>

section \<open>The plan of a manual session\<close>

lemma api_refuse [simp]: "refuse t \<noteq> Inr x"
  by (simp add: refuse_def)

lemma check_slugs_Inr:
  assumes "check_slugs db xs = Inr ys"
  shows "ys = xs \<and> (\<forall>s\<in>set xs. \<exists>d. find_ai_def db s = Some d \<and> d_ai_allowed d)"
proof -
  from assms have u: "filter (\<lambda>s. find_ai_def db s = None) xs = []"
    and d: "filter (\<lambda>s. case find_ai_def db s of None \<Rightarrow> False | Some d \<Rightarrow> \<not> d_ai_allowed d) xs = []"
    and y: "ys = xs" by (auto simp: check_slugs_def Let_def split: if_splits)
  have "\<exists>d. find_ai_def db s = Some d \<and> d_ai_allowed d" if "s \<in> set xs" for s
    using u d that by (auto simp: filter_empty_conv split: option.splits)
  with y show ?thesis by blast
qed

lemma manual_checked:
  assumes "check_session db body = Inr sel" and "sb_exec body = ''ai_manual''"
  shows "\<not> no_target body \<and> sel \<noteq> [] \<and> (\<forall>s\<in>set sel. \<exists>d. find_ai_def db s = Some d \<and> d_ai_allowed d) \<and>
    select_phases db (stripped (sb_phases body)) (stripped (sb_selected body)) = Inr sel"
proof -
  from assms obtain chosen where nt: "\<not> no_target body"
    and c: "select_phases db (stripped (sb_phases body)) (stripped (sb_selected body)) = Inr chosen" "chosen \<noteq> []"
    "check_slugs db chosen = Inr sel"
    by (auto simp: check_session_def Let_def res_inv split: if_splits)
  from check_slugs_Inr [OF c(3)] c nt show ?thesis by auto
qed

lemma insert_by_set [simp]: "set (insert_by lt x ys) = insert x (set ys)"
  by (induction ys) auto

lemma phase_tests_set: "set (phase_tests db ps) =
  {d \<in> set (ai_defs db). (\<exists>p. d_phase d = Some p \<and> p \<in> set ps) \<and> d_active d \<and> d_ai_allowed d}"
proof -
  have "set (foldr (insert_by before_def) ds []) = set ds" for ds by (induction ds) auto
  then show ?thesis unfolding phase_tests_def sort_by_def by (auto split: option.splits)
qed

section \<open>The run of a bootstrap\<close>

lemma bootstrap_run_Inr:
  assumes "bootstrap_run up eid sid now body s = (Inr run, s1)" and "wants_bootstrap body"
  shows "run = Some (eid 0) \<and> find_run (o_db s) (eid 0) = None \<and> o_test_cmds s1 = o_test_cmds s \<and>
    (\<exists>r. find_run (o_db s1) (eid 0) = Some r \<and> r_status r = RQueued \<and> truthy (meta_get (r_metadata r) ''ai_session'') \<and>
       meta_get (r_metadata r) ''session_id'' = JStr sid)"
proof (rule trigger_run_cases [of up eid now bootstrap_body s])
  fix e assume "trigger_run up eid now bootstrap_body s = (Inl e, s)"
  with assms show ?thesis by (simp add: bootstrap_run_def)
next
  fix app suites t
  let ?run = "triggered_run (eid 0) now bootstrap_body app suites"
  assume free: "find_run (o_db s) (eid 0) = None"
    and db: "o_db t = (o_db s)\<lparr>runs := runs (o_db s) @ [?run],
                run_events := run_events (o_db s) @ [triggered_event (eid 0) now bootstrap_body app]\<rparr>"
    and tr: "trigger_run up eid now bootstrap_body s = (if up then Inr ?run else Inl (Crash (Exc KOtherError ''AMQPConnectionError'')), t)"
  have id: "r_id ?run = eid 0" by (simp add: triggered_run_def)
  from assms tr have up: up and run: "run = Some (eid 0)" and s1: "s1 = tag_run (eid 0) sid t"
    by (auto simp: bootstrap_run_def id split: if_splits)
  have cmds: "o_test_cmds t = o_test_cmds s"
  proof -
    have "o_test_cmds (snd (trigger_run up eid now bootstrap_body s)) = o_test_cmds s"
      by (auto simp: trigger_run_def insert_run_def publish_sandbox_request_def Let_def split: sum.splits)
    with tr show ?thesis by simp
  qed
  have "find_run (o_db t) (eid 0) = Some ?run"
    using free by (simp add: db find_run_def find_append id)
  then have "find_run (o_db s1) (eid 0) = Some (?run\<lparr>r_metadata :=
      meta_merge (meta_merge (r_metadata ?run) ''ai_session'' (JBool True)) ''session_id'' (JStr sid)\<rparr>)"
    by (simp add: s1 tag_run_def run_table.look_upd)
  moreover have "meta_get (meta_merge m ''session_id'' v) ''session_id'' = v" for m v
    by (auto simp: meta_merge_def meta_get_def get_set_key get_def get_or_def split: json.splits)
  moreover have "meta_get (meta_merge m ''ai_session'' v) ''ai_session'' = v" for m v
    by (auto simp: meta_merge_def meta_get_def get_set_key get_def get_or_def split: json.splits)
  moreover have "r_status ?run = RQueued" by (simp add: triggered_run_def)
  ultimately show ?thesis using run free cmds s1 by (auto simp: tag_run_def)
qed

lemma dispatch_of_session_run:
  assumes "find_run (o_db s) (key_of rid) = Some r" and "truthy (meta_get (r_metadata r) ''ai_session'')"
  shows "o_test_cmds (snd (dispatch_tests eid now rid sb msg s)) = o_test_cmds s"
  using assms by (simp add: dispatch_tests_def select_tests_def Let_def record_dispatched_def)

lemma ready_of_session_run:
  assumes "find_run (o_db s) (key_of (get msg ''run_id'')) = Some r" and "truthy (meta_get (r_metadata r) ''ai_session'')"
  shows "o_test_cmds (snd (handle_ready eid now msg s)) = o_test_cmds s"
proof -
  let ?id = "get msg ''run_id''"
  let ?s2 = "store_run_event now ?id ''sandbox.ready'' msg (mark_running now ?id s)"
  have f: "find_run (o_db ?s2) (key_of ?id) = Some (r\<lparr>r_status := RRunning, r_started_at := Some now\<rparr>)"
    using assms(1) by (simp add: orch_status)
  have e: "o_test_cmds ?s2 = o_test_cmds s" by (simp add: store_run_event_def mark_running_def)
  obtain q s3 where d: "dispatch_tests eid now ?id (get msg ''sandbox_id'') msg ?s2 = (q, s3)" by fastforce
  have "o_test_cmds s3 = o_test_cmds s"
    using dispatch_of_session_run [OF f, of eid now "get msg ''sandbox_id''" msg] assms(2) d e by simp
  with d show ?thesis
    by (cases q) (simp_all add: handle_ready_def Let_def publish_notification_def publish_live_def)
qed

section \<open>Properties\<close>

text \<open>
  C39: a session that is created with a bootstrap has a run of its own, tagged with the session, a row with
  status starting and one request for the agent that names both; and when the sandbox of that run becomes
  ready, the orchestrator dispatches no test to it, so that the agent has it for itself.
\<close>

theorem bootstrap_session_has_own_run:
  assumes "create_session encrypt up_run up_ai eid now body y = (Inr q, y')" and "wants_bootstrap body"
    and "get msg ''run_id'' = JStr (eid 1)" and "get msg ''event_type'' = JStr ''ready''"
  shows "find_run (o_db (sy_orch y)) (eid 1) = None \<and>
     (\<exists>r. find_run (o_db (sy_orch y')) (eid 1) = Some r \<and> r_status r = RQueued \<and>
          meta_get (r_metadata r) ''session_id'' = JStr (eid 0)) \<and>
     (\<exists>s. s \<in> set (ai_sessions (sy_ai y')) \<and> sn_id s = eid 0 \<and> sn_status s = AStarting \<and> sn_run s = uuid_of (eid 1)) \<and>
     sy_requests y' = sy_requests y @ [NewSession q] \<and> sq_id q = Some (eid 0) \<and> sq_run q = Some (eid 1) \<and> sq_bootstrap q \<and>
     o_test_cmds (snd (handle_sandbox_event row_ok eid' now' msg (sy_orch y'))) = o_test_cmds (sy_orch y)"
proof -
  let ?eid = "\<lambda>i. eid (i + 1)"
  from assms(1) obtain selected run s1 row where b: "bootstrap_run up_run ?eid (eid 0) now body (sy_orch y) = (Inr run, s1)"
    and row: "created_row (eid 0) now run selected body = Inr row" and q: "q = session_request (eid 0) run selected body"
    and y': "y' = y\<lparr>sy_ai := (sy_ai y)\<lparr>ai_sessions := ai_sessions (sy_ai y) @ [row]\<rparr>, sy_requests := sy_requests y @ [NewSession q],
                  sy_orch := publish_live (created_event (eid 3) (eid 0) now body) s1\<rparr>"
    by (auto simp: create_session_def Let_def split: sum.splits prod.splits if_splits)
  from bootstrap_run_Inr [OF b assms(2)] obtain r where r: "run = Some (eid 1)" "find_run (o_db (sy_orch y)) (eid 1) = None"
    "o_test_cmds s1 = o_test_cmds (sy_orch y)" "find_run (o_db s1) (eid 1) = Some r" "r_status r = RQueued"
    "truthy (meta_get (r_metadata r) ''ai_session'')" "meta_get (r_metadata r) ''session_id'' = JStr (eid 0)" by auto
  let ?s = "publish_live (created_event (eid 3) (eid 0) now body) s1"
  have s: "find_run (o_db ?s) (key_of (get msg ''run_id'')) = Some r" "o_test_cmds ?s = o_test_cmds (sy_orch y)"
    using r assms(3) by (simp_all add: publish_live_def key_of_def)
  have ev: "handle_sandbox_event row_ok eid' now' msg ?s = handle_ready eid' now' msg ?s"
    using s(1) r(5) assms(3,4) by (simp add: handle_sandbox_event_def Let_def is_run_cancelled_def)
  have "row \<in> set (ai_sessions (sy_ai y'))" "sn_id row = eid 0" "sn_status row = AStarting" "sn_run row = uuid_of (eid 1)"
    using row y' assms(2) r(1) by (auto simp: created_row_def uuid_param_def res_inv split: if_splits option.splits)
  moreover have "o_test_cmds (snd (handle_sandbox_event row_ok eid' now' msg (sy_orch y'))) = o_test_cmds (sy_orch y)"
    using ready_of_session_run [OF s(1) r(6)] ev s(2) y' by simp
  ultimately show ?thesis
    using y' q r assms(2) by (auto simp: session_request_def publish_live_def)
qed

text \<open>
  C40: a request for manual execution that passes the checks has a target and a plan that the agent may run:
  at least one test, each of them known and whitelisted; and a selection by phases alone is every active,
  whitelisted test of these phases, at most two, each of which has one.
\<close>

theorem manual_plan_is_runnable:
  assumes "check_session db body = Inr plan" and "sb_exec body = ''ai_manual''"
  shows "\<not> no_target body \<and> plan \<noteq> [] \<and> (\<forall>s\<in>set plan. \<exists>d. find_ai_def db s = Some d \<and> d_ai_allowed d) \<and>
     (stripped (sb_selected body) = [] \<longrightarrow>
        length (stripped (sb_phases body)) \<le> 2 \<and>
        set plan = {d_slug d |d. d \<in> set (ai_defs db) \<and> (\<exists>p. d_phase d = Some p \<and> p \<in> set (stripped (sb_phases body))) \<and>
                                 d_active d \<and> d_ai_allowed d} \<and>
        (\<forall>p\<in>set (stripped (sb_phases body)). \<exists>d\<in>set (ai_defs db). d_phase d = Some p \<and> d_slug d \<in> set plan))"
proof -
  let ?ps = "stripped (sb_phases body)" and ?sel = "stripped (sb_selected body)"
  note m = manual_checked [OF assms]
  have "length ?ps \<le> 2 \<and> set plan = d_slug ` set (phase_tests db ?ps) \<and>
      (\<forall>p\<in>set ?ps. Some p \<in> set (map d_phase (phase_tests db ?ps)))" if "?sel = []"
    using m that by (auto simp: select_phases_def manual_max_phases_def filter_empty_conv Let_def split: if_splits)
  then have "?sel = [] \<longrightarrow> length ?ps \<le> 2 \<and> set plan = d_slug ` set (phase_tests db ?ps) \<and>
      (\<forall>p\<in>set ?ps. \<exists>d\<in>set (phase_tests db ?ps). d_phase d = Some p)" by fastforce
  then show ?thesis using m unfolding phase_tests_set by (auto 0 3)
qed


section \<open>Witnesses\<close>

definition boot_body :: session_body where
  "boot_body = \<lparr>sb_mode = ''autonomous'', sb_run = None, sb_sandbox = None, sb_goal = Some ''check vouchers'', sb_exec = ''runner'',
     sb_selected = None, sb_phases = None, sb_bootstrap = True, sb_key = None, sb_model = ''claude-opus-4-6''\<rparr>"

definition fresh_sessions :: session_sys where
  "fresh_sessions = \<lparr>sy_orch = \<lparr>o_db = no_core, o_notify = [], o_live = [], o_test_cmds = [], o_sandbox_reqs = []\<rparr>,
     sy_ai = one_session\<lparr>ai_sessions := []\<rparr>, sy_requests = []\<rparr>"

lemma boot_created:
  "case create_session (\<lambda>_. Inr ()) True True uuid_str 7 boot_body fresh_sessions of (Inr q, y') \<Rightarrow> True | _ \<Rightarrow> False"
  by code_simp

theorem bootstrap_session_has_own_run_witness:
  "\<exists>q y'. create_session (\<lambda>_. Inr ()) True True uuid_str 7 boot_body fresh_sessions = (Inr q, y') \<and> sy_requests y' = [NewSession q] \<and>
     o_test_cmds (snd (handle_sandbox_event (\<lambda>_. True) uuid_str 9
        [(''event_type'', JStr ''ready''), (''run_id'', JStr (uuid_str 1))] (sy_orch y'))) = []"
proof -
  obtain q y' where c: "create_session (\<lambda>_. Inr ()) True True uuid_str 7 boot_body fresh_sessions = (Inr q, y')"
    using boot_created by (auto split: prod.splits sum.splits)
  have "wants_bootstrap boot_body" by (simp add: wants_bootstrap_def boot_body_def given_def)
  moreover have "get [(''event_type'', JStr ''ready''), (''run_id'', JStr (uuid_str 1))] ''run_id'' = JStr (uuid_str 1)"
    "get [(''event_type'', JStr ''ready''), (''run_id'', JStr (uuid_str 1))] ''event_type'' = JStr ''ready''"
    by (simp_all add: get_def get_or_def)
  ultimately show ?thesis using bootstrap_session_has_own_run [OF c] c by (fastforce simp: fresh_sessions_def)
qed

definition phase_def :: "string \<Rightarrow> string \<Rightarrow> bool \<Rightarrow> ai_def_row" where
  "phase_def slug ph ok = \<lparr>d_id = slug, d_slug = slug, d_name = slug, d_version = 1, d_tags = Some [], d_category = None,
     d_phase = Some ph, d_active = True, d_min_node_major = 2, d_timeout_seconds = 60, d_parsed = JObj [],
     d_component = JNull, d_priority = ''low'', d_ai_allowed = ok\<rparr>"

definition phase_tables :: ai_db where
  "phase_tables = one_session\<lparr>ai_defs := [phase_def ''b'' ''Inputs'' True, phase_def ''x'' ''Inputs'' False, phase_def ''a'' ''Inputs'' True]\<rparr>"

definition phase_body :: session_body where
  "phase_body = boot_body\<lparr>sb_exec := ''ai_manual'', sb_phases := Some ['' Inputs ''], sb_goal := None\<rparr>"

lemma phase_checked: "check_session phase_tables phase_body = Inr [''a'', ''b'']"
  by code_simp

theorem manual_plan_is_runnable_witness:
  "check_session phase_tables phase_body = Inr [''a'', ''b''] \<and> \<not> no_target phase_body \<and>
   (\<exists>d. find_ai_def phase_tables ''b'' = Some d \<and> d_ai_allowed d)"
proof -
  have "sb_exec phase_body = ''ai_manual''" by (simp add: phase_body_def)
  from manual_plan_is_runnable [OF phase_checked this] phase_checked show ?thesis by (metis list.set_intros)
qed

end
