(* ===== verification/Spec2Isabelle.thy ===== *)
theory Spec2Isabelle
  imports Sdk_Resolver Sandbox_Pool Log_Buffer Sandbox_Events_Spec Test_Results_Spec Releases_Consumer Sandbox_Queue_Sys
    Exec_Spec Test_Commands_Spec Runs_Api_Spec Run_Lifecycle Run_System Run_Delivery
    Agent_Verdicts_Spec Agent_Tools_Spec Agent_Loop_Spec Agent_Session_Spec Sessions_Api_Spec
begin

text \<open>
  A verification development for the Cartesi release validation platform: Python services that watch
  the releases of the Cartesi rollups node, provision a sandbox per run, run a catalogue of tests in it
  and give the run a verdict.  The services share a PostgreSQL database and talk over RabbitMQ queues.

  \<^bold>\<open>The program and the theories.\<close>
  Paths are relative to \<open>src/services\<close> unless they start with \<open>shared\<close>.

  \<^item> Foundation.  \<open>Rvp_Prelude\<close>: JSON values, dicts, exceptions as an error sum.  \<open>Rvp_Strings\<close>: the string
    methods of Python on UTF-8 text.  \<open>Rvp_Regex\<close>: a backtracking matcher for the regular expressions used.
    \<open>Rvp_Json\<close>: \<open>json.dumps\<close>, \<open>json.loads\<close>, indexing and membership.  \<open>Rvp_Uuid\<close>: hexadecimal numerals and
    \<open>uuid.UUID\<close>.  \<open>Rvp_Db\<close>: the tables (\<open>orchestrator/models\<close>, the SQL of the handlers) as lists of rows, and
    the locale \<open>keyed_table\<close> of a table that is read and updated by key, interpreted for runs, sandboxes and
    results.  \<open>Rvp_World\<close>: effects (HTTP, processes, logs, sleep) answered by an environment, with a clock,
    cancellation at a deadline, and the loops of polling code.
  \<^item> Version resolver, \<open>Sdk_Resolver\<close> (\<open>shared/sdk_resolver.py\<close>): parsing of CLI release notes, the scan of
    the releases page, its caches, the image tag.
  \<^item> Sandbox manager.  \<open>Sandbox_Pool\<close> (\<open>pool.py\<close>), \<open>Log_Buffer\<close> (\<open>log_buffer.py\<close>) with the threads that share
    it, \<open>Sandbox_Queue\<close> (\<open>consumers/sandbox_queue.py\<close>): one task per sandbox as a program counter and a step
    per await, every awaited call able to fail; \<open>Sandbox_Queue_Sys\<close>: the interleaving of the consumer loop,
    the tasks, cancellations and the garbage collection.
  \<^item> Orchestrator.  \<open>Sandbox_Events\<close>, \<open>Test_Results\<close>, \<open>Releases_Consumer\<close> (the three modules of
    \<open>orchestrator/consumers\<close> with \<open>publishers\<close>), \<open>Runs_Api\<close> (\<open>api/routes/runs.py\<close>); their properties are in
    \<open>Sandbox_Events_Spec\<close>, \<open>Test_Results_Spec\<close>, \<open>Releases_Consumer\<close>, \<open>Runs_Api_Spec\<close>.
  \<^item> Test runner.  \<open>Exec_Base\<close>, \<open>Exec_Http\<close>, \<open>Exec_Docker\<close>, \<open>Exec_Rpc\<close> (\<open>test-runner/executors\<close>),
    \<open>Test_Executor\<close> (\<open>executor.py\<close>, \<open>loader.py\<close>, \<open>interpreter.py\<close>), \<open>Test_Commands\<close>
    (\<open>consumers/test_commands.py\<close>); properties in \<open>Exec_Spec\<close>, \<open>Test_Runner_Spec\<close> (the locales \<open>test_registry\<close>
    and \<open>timely_registry\<close> of what \<open>run_test\<close> needs from the executors, interpreted on the code's registry) and
    \<open>Test_Commands_Spec\<close>.
  \<^item> AI agent.  \<open>Agent_Db\<close>: the tables of the schema \<open>ai\<close>, audited calls and when an input is JSON that PostgreSQL
    takes.  \<open>Agent_Verdicts\<close> (\<open>ai-agent/tools/audit.py\<close>, \<open>tools/verdicts.py\<close>): audit, claimed trail, gate, verdicts
    and plans.  \<open>Agent_Tools\<close> (\<open>tools/test_trigger.py\<close>, \<open>reporting.py\<close>, \<open>db_query.py\<close>), \<open>Agent_Executor\<close>
    (\<open>tool_executor.py\<close>), \<open>Agent_Loop\<close> (\<open>agent_loop.py\<close>): the conversation with the model, whose API and whose tools
    on the sandbox are an environment.  \<open>Agent_Session\<close> (\<open>session_manager.py\<close>,
    \<open>consumers/session_requests.py\<close>): a session from its request to its last statement, with what the other
    services do to the tables between two statements as an argument.  \<open>Sessions_Api\<close>
    (\<open>orchestrator/api/routes/sessions.py\<close>).  Properties in \<open>Agent_Verdicts_Spec\<close>, \<open>Agent_Tools_Spec\<close>,
    \<open>Agent_Loop_Spec\<close> (the locale \<open>loop_invariant\<close> of what a tool call keeps, interpreted for the tables and for the
    statuses of the sessions), \<open>Agent_Session_Spec\<close> and \<open>Sessions_Api_Spec\<close>.
  \<^item> The system.  \<open>Run_Lifecycle\<close>: consumers and API as one step relation, which refines the life-cycle
    automaton of a run.  \<open>Run_System\<close>: the messages between services.  \<open>Run_Delivery\<close>: the test runner and the
    result consumer working off the two queues between them.  The properties that span components are below.

  \<^bold>\<open>How the model reads.\<close>  A handler is a function of its message and the state; where it can raise, its
  result is a sum with the exception, and the state it leaves is returned in either case.  Awaits at which
  other code can run are separate steps where the interleaving matters.  Strings are UTF-8 bytes and slices
  count characters.  JSON numbers are integers; rates and durations that the code computes are rationals or
  integer milliseconds.  Fresh UUIDs, the wall clock, the answers of the world, the collation of the database and
  the broker's availability are arguments.  Database calls succeed except where a theory says otherwise.

  \<^bold>\<open>Bounds and fuel.\<close>  A sandbox task ends within 5790 steps: its wait loop makes at most 1440 polls of
  four awaits, and the other program counters are visited once (\<open>task_always_ends\<close>).  \<open>json_loads\<close> uses fuel
  \<open>2 * length + 2\<close>, enough because every recursive call consumes a character or closes a value.  Polling
  executors are loops over \<open>option\<close>, with the value None for divergence; \<open>run_test_always_ends\<close> shows that it
  does not occur.  \<open>follow_pages\<close> needs one page more than there are lines, \<open>deliver\<close> two turns per command.
  \<open>run_loop\<close> has one unit of fuel per turn; 201 are enough for every autonomous session, whose budget is at most 200
  tool calls (\<open>agent_session_ends\<close>).  The wait of a bootstrap ends by its own clock after 900 seconds.

  \<^bold>\<open>What the lemmas show.\<close>  The invariants of the shared state (slots, log rows, cache of versions, result rows),
  termination of every loop that waits for the world, the functional behaviour of the handlers on every
  branch, equivalence of SQL and Python computations of the same value, round trips of encodings, and errors
  that the code does have, as theorems about it (named in the findings of the manifest).

  \<^bold>\<open>Not modelled.\<close>  The provisioner of the sandbox manager (Docker, Foundry and compose calls, no decisions on shared
  state), start-up and connection code (\<open>main.py\<close>, the opening of channels, \<open>websocket.py\<close>), the dashboard,
  the ORM and message schema declarations beyond the columns used, scripts and infrastructure files.
  Of the AI agent: the texts for the model (prompts, project knowledge, work plan), the tools that act on the
  sandbox (\<open>tools/blockchain.py\<close>, \<open>node.py\<close>, \<open>chaos.py\<close> and others are the parameter of \<open>Agent_Executor\<close>), the
  decryption of keys, \<open>run_chaos\<close>, which no request can start.  Of the orchestrator: the routes that only read
  and serialise rows.  The watcher of GitHub and the notifier are clients of the modelled queues.
\<close>

section \<open>The life of a run\<close>

text \<open>
  C2: the orchestrator refines the life-cycle automaton of a run.  However the transactions of its
  consumers and of its API interleave, the status of every run moves along the automaton \<open>life\<close>, and what
  the run was created with never changes; in particular a run never disappears.  A cancelled run stays
  cancelled if no event is in hand that found it not cancelled before; such an event still writes its status,
  which is the second component of the automaton.
\<close>

theorem orchestrator_refines_life:
  assumes "orch_step\<^sup>*\<^sup>* y y'" and "rid \<noteq> []"
  shows "life\<^sup>*\<^sup>* (status_of rid (sys_orch y), owed rid y) (status_of rid (sys_orch y'), owed rid y')
       \<and> keeps_core rid (sys_orch y) (sys_orch y')
       \<and> (status_of rid (sys_orch y) = Some RCancelled \<and> owed rid y = None
            \<longrightarrow> status_of rid (sys_orch y') = Some RCancelled \<and> owed rid y' = None)"
  using lives_steps [OF assms] cancelled_for_ever by (auto simp: life_of_def)

text \<open>
  The run \<open>r1\<close> is cancelled after the ready event in hand found it not cancelled: the cancellation is written,
  and the event overwrites it.
\<close>

definition checked_sys :: orch_sys where
  "checked_sys = \<lparr>sys_orch = sample_orch, sys_event = Some (\<lambda>i. ''e'', sample_msg ''ready'' ''r1'' JNull, EvEffect),
                  sys_result = None, sys_cancelling = {''r1''}\<rparr>"

definition cancelled_sys :: orch_sys where
  "cancelled_sys = checked_sys\<lparr>sys_orch := cancel_write 2 ''r1'' sample_orch, sys_cancelling := {}\<rparr>"

definition revived_sys :: orch_sys where
  "revived_sys = cancelled_sys\<lparr>sys_orch := mark_running 3 (JStr ''r1'') (cancel_write 2 ''r1'' sample_orch),
     sys_event := Some (\<lambda>i. ''e'', sample_msg ''ready'' ''r1'' JNull, EvReadyStore)\<rparr>"

theorem orchestrator_refines_life_witness:
  "status_of ''r1'' (sys_orch cancelled_sys) = Some RCancelled
   \<and> orch_step checked_sys cancelled_sys \<and> orch_step cancelled_sys revived_sys
   \<and> life\<^sup>*\<^sup>* (Some RProvisioning, Some RRunning) (Some RRunning, None)
   \<and> keeps_core ''r1'' (sys_orch checked_sys) (sys_orch revived_sys)"
proof -
  have s1: "orch_step checked_sys cancelled_sys"
    using by_cancel [of "''r1''" checked_sys 2] by (simp add: cancelled_sys_def checked_sys_def)
  have "event_step (\<lambda>_. True) (\<lambda>i. ''e'') 3 (sample_msg ''ready'' ''r1'' JNull) EvEffect (sys_orch cancelled_sys)
      = (EvReadyStore, mark_running 3 (JStr ''r1'') (cancel_write 2 ''r1'' sample_orch))"
    by (simp add: event_effect_def sample_msg_def get_def get_or_def cancelled_sys_def checked_sys_def)
  from by_event [OF _ this] have s2: "orch_step cancelled_sys revived_sys"
    by (simp add: revived_sys_def cancelled_sys_def checked_sys_def)
  from s1 s2 have "orch_step\<^sup>*\<^sup>* checked_sys revived_sys" by auto
  from orchestrator_refines_life [OF this, of "''r1''"]
  have "life\<^sup>*\<^sup>* (status_of ''r1'' (sys_orch checked_sys), owed ''r1'' checked_sys)
                (status_of ''r1'' (sys_orch revived_sys), owed ''r1'' revived_sys)
      \<and> keeps_core ''r1'' (sys_orch checked_sys) (sys_orch revived_sys)" by simp
  moreover have "status_of ''r1'' (sys_orch checked_sys) = Some RProvisioning"
    "status_of ''r1'' (sys_orch cancelled_sys) = Some RCancelled"
    "status_of ''r1'' (sys_orch revived_sys) = Some RRunning" by code_simp+
  moreover have "owed ''r1'' checked_sys = Some RRunning" "owed ''r1'' revived_sys = None"
    by (simp_all add: owed_def owed_by_def checked_sys_def revived_sys_def sample_msg_def get_def get_or_def)
  ultimately show ?thesis using s1 s2 by simp
qed

section \<open>From a ready sandbox to the verdict\<close>














section \<open>Messages that the next service accepts\<close>

text \<open>
  C17: the command that the orchestrator sends for a definition is one that the test runner accepts: its
  mandatory fields are there and typed, it asks for no override and no given result id, and the context of
  the test has the major version, the application and the contracts of the ready sandbox.
\<close>

theorem dispatched_command_is_accepted:
  "\<exists>msg ids. test_command eid now (JStr rid) (JStr sb) smsg major app d = JObj msg
     \<and> check_command msg = Inr major \<and> command_ids_of msg = Inr ids
     \<and> ids = \<lparr>ci_run = rid, ci_sandbox = sb, ci_def = d_id d, ci_version = d_version d\<rparr>
     \<and> effective_def msg cd = Inr cd \<and> result_id_of uuid msg = Inr (uuid 0)
     \<and> cx_node_major (context_of msg major ids) = major \<and> cx_app_address (context_of msg major ids) = app
     \<and> cx_docker_network (context_of msg major ids) = get smsg ''docker_network''
     \<and> cx_cli_container (context_of msg major ids) = get smsg ''cli_container_name''
     \<and> cx_anvil_port (context_of msg major ids) = get smsg ''anvil_port''
     \<and> cx_inputbox (context_of msg major ids)
           = (if truthy (get smsg ''inputbox_address'') then get smsg ''inputbox_address''
              else JStr (if major \<ge> 2 then V2_DEVNET_INPUTBOX else V1_DEVNET_INPUTBOX))"
  by (simp add: test_command_fields command_accepted context_of_def init_context_def command_get)

text \<open>
  C26: a run that is triggered for a release whose catalog row has no major version never starts.  The
  request is published with the major version null, the task of the sandbox manager that parses it raises
  before it does anything, and the run stays queued.
\<close>

theorem untyped_major_run_never_starts:
  assumes "lookup_catalog (o_db s) (tr_release_tag body) = Some ci" and "ci_node_major ci = None"
    and "tr_node_major body = None" and "trigger_run True eid now body s = (Inr run, s')"
  shows "\<exists>req. o_sandbox_reqs s' = o_sandbox_reqs s @ [(tr_priority body, JObj req)]
       \<and> find_run (o_db s') (r_id run) = Some run \<and> r_status run = RQueued
       \<and> (\<forall>m grace rep st sid g. task_step m grace rep st (new_task sid req) g = (goto (Done Raised) (new_task sid req), g))"
proof -
  have major: "q_node_major (request_versions_of (o_db s) body) = None"
    using assms(1-3) by (simp add: request_versions_of_def Let_def split: prod.split)
  show ?thesis
  proof (rule trigger_run_cases [of True eid now body s])
    fix app suites s1
    let ?run = "triggered_run (eid 0) now body app suites"
    assume new: "find_run (o_db s) (eid 0) = None"
      and db: "o_db s1 = (o_db s)\<lparr>runs := runs (o_db s) @ [?run],
                          run_events := run_events (o_db s) @ [triggered_event (eid 0) now body app]\<rparr>"
      and run: "trigger_run True eid now body s
         = (if True then Inr ?run else Inl (Crash (Exc KOtherError ''AMQPConnectionError'')), s1)"
      and req: "o_sandbox_reqs s1 = o_sandbox_reqs s @ (if True then [trigger_request eid now body (o_db s) app] else [])"
    have r: "run = ?run" "s' = s1" using run assms(4) by simp_all
    let ?req = "request_fields (eid 1) now (eid 0) (tr_release_tag body) (tr_image_tag body) (tr_priority body)
                  (tr_user body) (request_versions_of (o_db s) body) app"
    have "parse_request ?req = Inl TypeError" by (simp add: request_parsed major)
    then have "task_step m grace rep st (new_task sid ?req) g = (goto (Done Raised) (new_task sid ?req), g)"
      for m grace rep st sid g
      by (simp add: task_step_def start_step_def new_task_def)
    moreover have "o_sandbox_reqs s' = o_sandbox_reqs s @ [(tr_priority body, JObj ?req)]"
      by (simp add: r req trigger_request_def sandbox_request_fields)
    moreover have "find_run (o_db s') (r_id run) = Some run" "r_status run = RQueued"
      using new by (simp_all add: r db find_run_def find_append triggered_run_def)
    ultimately show ?thesis by blast
  qed (use assms(4) in simp)
qed

definition untyped_orch :: orch where
  "untyped_orch = sample_orch\<lparr>o_db := (o_db sample_orch)
     \<lparr>release_catalog := [\<lparr>rc_tag = ''v2.1.0'', rc_cli_tag = None, rc_node_major = None\<rparr>]\<rparr>\<rparr>"

definition plain_body :: trigger_body where
  "plain_body = \<lparr>tr_release_tag = ''v2.1.0'', tr_image_tag = ''img'', tr_suite_ids = None, tr_run_tags = None,
     tr_category_filter = None, tr_priority = 5, tr_triggered_by = ''user'', tr_user = None, tr_app_id = None,
     tr_sdk = None, tr_cli = None, tr_node_major = None\<rparr>"

definition untyped_trigger :: "run_row api \<times> orch" where
  "untyped_trigger = trigger_run True (\<lambda>i. CHR ''n'' # nat_str i) 3 plain_body untyped_orch"

definition untyped_run :: run_row where
  "untyped_run = triggered_run ''n0'' 3 plain_body no_app []"

theorem untyped_major_run_never_starts_witness:
  "\<exists>req. o_sandbox_reqs (snd untyped_trigger) = [(5, JObj req)]
     \<and> (\<forall>m grace rep st sid g. task_step m grace rep st (new_task sid req) g = (goto (Done Raised) (new_task sid req), g))"
proof -
  have "lookup_catalog (o_db untyped_orch) (tr_release_tag plain_body)
      = Some \<lparr>ci_node_major = None, ci_image_tag = ''cartesi/rollups-node:2.1.0'', ci_versions = (None, None, None, None)\<rparr>"
    by code_simp
  moreover have "tr_node_major plain_body = None" "tr_priority plain_body = 5" "o_sandbox_reqs untyped_orch = []"
    by code_simp+
  moreover have "trigger_run True (\<lambda>i. CHR ''n'' # nat_str i) 3 plain_body untyped_orch
      = (Inr untyped_run, snd untyped_trigger)" by code_simp
  ultimately show ?thesis using untyped_major_run_never_starts [of untyped_orch plain_body] by fastforce
qed

end
